(* ===== verification/Errors.thy ===== *)
theory Errors
  imports Main
begin

text \<open>
  The error codes of the program. \<open>zkp2p_error\<close> is the enumeration \<^verbatim>\<open>Zkp2pError\<close> of
  \<^verbatim>\<open>src/programs/zkp2p_solana/src/error.rs\<close>, constructor by constructor. An instruction can
  also be rejected by the account validation that Anchor generates from the \<^verbatim>\<open>#[account(...)]\<close>
  attributes before the handler runs, by the SPL token program inside a cross-program call, or by the
  Solana runtime when a cross-program call names a signer that neither signed the transaction nor is
  derived from the given seeds; \<open>anchor_error\<close> names the validation failures that the attributes of
  this program can raise.
\<close>

datatype (plugins only: code) zkp2p_error =
    ZeroAddress
  | ZeroValue
  | Unauthorized
  | Paused
  | AlreadyInState
  | ArithmeticOverflow
  | ArrayLengthMismatch
  | InvalidRange
  | AmountBelowMinimum
  | AmountAboveMaximum
  | InsufficientBalance
  | FeeExceedsMaximum
  | DepositNotFound
  | DepositNotAcceptingIntents
  | IntentNotFound
  | IntentAlreadyExists
  | PaymentMethodNotSupported
  | CurrencyNotSupported
  | RateBelowMinimum
  | InvalidOracleQuote
  | InvalidSpread
  | AccountHasActiveIntent
  | MaximumIntentsExceeded
  | SignatureExpired
  | InvalidSignature
  | DataHashMismatch
  | IntentSnapshotMismatch
  | NullifierAlreadyExists
  | IntentAlreadyBound
  | InvalidPaymentBinding
  | InsufficientFreeStake
  | LockNotFound
  | LockAlreadyExists
  | InvalidMaturity
  | LockAlreadyMatured
  | ClaimsExceedLock
  | InvalidClaim
  | UnauthorizedStakeOwner
  | ControllerNotReady
  | DisputeProtectionDisabled
  | AdmissionsPaused
  | DisputeIntentNotPending
  | DisputeIntentNotSettled
  | NotReleaseEligible
  | IntentTokenMismatch
  | TakerNotWhitelisted
  | GroupNotFound
  | DepositAlreadyBootstrapped
  | TooManyGroups
  | InvalidTokenBalanceDelta
  | InvalidDeploymentDomain

datatype anchor_error =
    AccountNotInitialized
  | AccountInUse
  | ConstraintAddress
  | ConstraintSeeds
  | ConstraintHasOne
  | ConstraintTokenMint
  | ConstraintTokenOwner
  | ConstraintTokenTokenProgram
  | InvalidProgramId

datatype error =
    Zkp2p zkp2p_error
  | Anchor anchor_error
  | TokenProgram
  | PrivilegeEscalation

end
