(* ===== verification/Prelude.thy ===== *)
theory Prelude
  imports Errors "HOL-Library.Word"
begin

text \<open>
  Shared vocabulary of the development: the machine integers of the program as words, the result
  type of every fallible operation with the combinators that render Rust's \<^verbatim>\<open>?\<close>,
  \<^verbatim>\<open>ok_or\<close> and \<^verbatim>\<open>require!\<close>, checked arithmetic, little- and big-endian byte encodings,
  list operations of \<^verbatim>\<open>Vec\<close>, and sums over account stores. The facts are gathered in the
  collections \<open>result_simps\<close> (inverting a successful or failed run), \<open>checked_simps\<close> (from
  checked machine arithmetic to \<open>nat\<close> and \<open>int\<close>) and \<open>store_simps\<close> (sums over stores).
\<close>

named_theorems result_simps "inversion of successful and failed results"
named_theorems checked_simps "checked machine arithmetic as arithmetic on nat and int"
named_theorems store_simps "sums over account stores after an update"

type_synonym u8 = "8 word"
type_synonym u16 = "16 word"
type_synonym u32 = "32 word"
type_synonym u64 = "64 word"
type_synonym u128 = "128 word"
type_synonym i16 = "16 word"
type_synonym i64 = "64 word"
type_synonym pubkey = "256 word"
type_synonym bytes32 = "256 word"
type_synonym eth_address = "160 word"
type_synonym 'a result = "error + 'a"

subsection \<open>Results\<close>

text \<open>\<open>and_then r f\<close> is \<^verbatim>\<open>let x = r?; f(x)\<close>: the first error ends the computation.\<close>

fun and_then :: "'a result \<Rightarrow> ('a \<Rightarrow> 'b result) \<Rightarrow> 'b result" where
  "and_then (Inl e) f = Inl e"
| "and_then (Inr x) f = f x"

text \<open>\<open>require c e k\<close> is \<^verbatim>\<open>require!(c, Zkp2pError::e); k\<close>; \<open>constraint\<close> is the same for a
  condition that Anchor checks.\<close>

definition require :: "bool \<Rightarrow> zkp2p_error \<Rightarrow> 'a result \<Rightarrow> 'a result" where
  "require c e k = (if c then k else Inl (Zkp2p e))"

definition constraint :: "bool \<Rightarrow> anchor_error \<Rightarrow> 'a result \<Rightarrow> 'a result" where
  "constraint c e k = (if c then k else Inl (Anchor e))"

definition ok_or :: "'a option \<Rightarrow> zkp2p_error \<Rightarrow> 'a result" where
  "ok_or x e = (case x of None \<Rightarrow> Inl (Zkp2p e) | Some y \<Rightarrow> Inr y)"

text \<open>Only the head of a computation is simplified before it is decided.\<close>

lemma and_then_weak_cong [cong]: "r = r' \<Longrightarrow> and_then r f = and_then r' f"
  by simp

lemma require_weak_cong [cong]: "c = c' \<Longrightarrow> require c e k = require c' e k"
  by simp

lemma constraint_weak_cong [cong]: "c = c' \<Longrightarrow> constraint c e k = constraint c' e k"
  by simp

lemma require_simps [simp]:
  "require True e k = k"
  "require False e k = Inl (Zkp2p e)"
  by (simp_all add: require_def)

lemma constraint_simps [simp]:
  "constraint True e k = k"
  "constraint False e k = Inl (Anchor e)"
  by (simp_all add: constraint_def)

lemma ok_or_simps [simp]:
  "ok_or (Some x) e = Inr x"
  "ok_or None e = Inl (Zkp2p e)"
  by (simp_all add: ok_or_def)

lemma and_then_Inr [result_simps]:
  "and_then r f = Inr y \<longleftrightarrow> (\<exists>x. r = Inr x \<and> f x = Inr y)"
  by (cases r) auto

lemma and_then_Inl [result_simps]:
  "and_then r f = Inl e \<longleftrightarrow> r = Inl e \<or> (\<exists>x. r = Inr x \<and> f x = Inl e)"
  by (cases r) auto

lemma require_Inr [result_simps]: "require c e k = Inr y \<longleftrightarrow> c \<and> k = Inr y"
  by (simp add: require_def)

lemma require_Inl [result_simps]:
  "require c e k = Inl x \<longleftrightarrow> (\<not> c \<and> x = Zkp2p e) \<or> (c \<and> k = Inl x)"
  by (auto simp: require_def)

lemma constraint_Inr [result_simps]: "constraint c e k = Inr y \<longleftrightarrow> c \<and> k = Inr y"
  by (simp add: constraint_def)

lemma constraint_Inl [result_simps]:
  "constraint c e k = Inl x \<longleftrightarrow> (\<not> c \<and> x = Anchor e) \<or> (c \<and> k = Inl x)"
  by (auto simp: constraint_def)

lemma ok_or_Inr [result_simps]: "ok_or x e = Inr y \<longleftrightarrow> x = Some y"
  by (cases x) simp_all

lemma ok_or_Inl [result_simps]: "ok_or x e = Inl z \<longleftrightarrow> x = None \<and> z = Zkp2p e"
  by (cases x) auto

subsection \<open>Checked arithmetic\<close>

text \<open>Rust's \<^verbatim>\<open>checked_*\<close> operations: \<open>None\<close> on overflow, underflow and division by zero.\<close>

definition checked_add :: "'a::len word \<Rightarrow> 'a word \<Rightarrow> 'a word option" where
  "checked_add a b = (if unat a + unat b < 2 ^ LENGTH('a) then Some (a + b) else None)"

definition checked_sub :: "'a::len word \<Rightarrow> 'a word \<Rightarrow> 'a word option" where
  "checked_sub a b = (if b \<le> a then Some (a - b) else None)"

definition checked_mul :: "'a::len word \<Rightarrow> 'a word \<Rightarrow> 'a word option" where
  "checked_mul a b = (if unat a * unat b < 2 ^ LENGTH('a) then Some (a * b) else None)"

definition checked_div :: "'a::len word \<Rightarrow> 'a word \<Rightarrow> 'a word option" where
  "checked_div a b = (if b = 0 then None else Some (a div b))"

text \<open>\<^verbatim>\<open>i64::checked_add\<close>, \<^verbatim>\<open>i64::checked_sub\<close>: the operands and the result are read as two's
  complement.\<close>

definition checked_sadd :: "'a::len word \<Rightarrow> 'a word \<Rightarrow> 'a word option" where
  "checked_sadd a b =
     (if - (2 ^ (LENGTH('a) - 1)) \<le> sint a + sint b \<and> sint a + sint b < 2 ^ (LENGTH('a) - 1)
      then Some (a + b) else None)"

definition checked_ssub :: "'a::len word \<Rightarrow> 'a word \<Rightarrow> 'a word option" where
  "checked_ssub a b =
     (if - (2 ^ (LENGTH('a) - 1)) \<le> sint a - sint b \<and> sint a - sint b < 2 ^ (LENGTH('a) - 1)
      then Some (a - b) else None)"

lemma unat_bound [simp]: "unat (w :: 'a::len word) < 2 ^ LENGTH('a)"
  by (rule unsigned_less)

lemma word_eq_of_unat: "(a :: 'a::len word) = b \<longleftrightarrow> unat a = unat b"
  by (rule word_unat_eq_iff)

lemma checked_add_Some [checked_simps]:
  "checked_add a b = Some (c :: 'a::len word) \<longleftrightarrow> unat c = unat a + unat b"
proof
  assume "checked_add a b = Some c"
  then show "unat c = unat a + unat b"
    by (auto simp: checked_add_def unat_word_ariths split: if_splits)
next
  assume *: "unat c = unat a + unat b"
  with unat_bound [of c] have "unat a + unat b < 2 ^ LENGTH('a)" by simp
  with * show "checked_add a b = Some c"
    by (auto simp: checked_add_def word_eq_of_unat unat_word_ariths)
qed

lemma checked_sub_Some [checked_simps]:
  "checked_sub a b = Some (c :: 'a::len word) \<longleftrightarrow> unat a = unat b + unat c"
proof
  assume "checked_sub a b = Some c"
  then show "unat a = unat b + unat c"
    by (auto simp: checked_sub_def unat_sub word_le_nat_alt split: if_splits)
next
  assume *: "unat a = unat b + unat c"
  then have "b \<le> a" by (simp add: word_le_nat_alt)
  with * show "checked_sub a b = Some c"
    by (auto simp: checked_sub_def word_eq_of_unat unat_sub)
qed

lemma checked_mul_Some [checked_simps]:
  "checked_mul a b = Some (c :: 'a::len word) \<longleftrightarrow> unat c = unat a * unat b"
proof
  assume "checked_mul a b = Some c"
  then show "unat c = unat a * unat b"
    by (auto simp: checked_mul_def unat_word_ariths split: if_splits)
next
  assume *: "unat c = unat a * unat b"
  with unat_bound [of c] have "unat a * unat b < 2 ^ LENGTH('a)" by simp
  with * show "checked_mul a b = Some c"
    by (auto simp: checked_mul_def word_eq_of_unat unat_word_ariths)
qed

lemma checked_div_Some [checked_simps]:
  "checked_div a b = Some (c :: 'a::len word) \<longleftrightarrow> b \<noteq> 0 \<and> unat c = unat a div unat b"
  by (auto simp: checked_div_def word_eq_of_unat unat_div)

lemma checked_add_None [checked_simps]:
  "checked_add a (b :: 'a::len word) = None \<longleftrightarrow> 2 ^ LENGTH('a) \<le> unat a + unat b"
  by (auto simp: checked_add_def)

lemma checked_sub_None [checked_simps]:
  "checked_sub a (b :: 'a::len word) = None \<longleftrightarrow> unat a < unat b"
  by (auto simp: checked_sub_def word_le_nat_alt)

lemma checked_mul_None [checked_simps]:
  "checked_mul a (b :: 'a::len word) = None \<longleftrightarrow> 2 ^ LENGTH('a) \<le> unat a * unat b"
  by (auto simp: checked_mul_def)

lemma checked_add_ex:
  "unat a + unat b < 2 ^ LENGTH('a) \<Longrightarrow> \<exists>c. checked_add a (b :: 'a::len word) = Some c \<and> unat c = unat a + unat b"
  by (auto simp: checked_add_def unat_word_ariths)

lemma checked_sub_ex:
  "unat b \<le> unat a \<Longrightarrow> \<exists>c. checked_sub a (b :: 'a::len word) = Some c \<and> unat c = unat a - unat b"
  by (auto simp: checked_sub_def unat_sub word_le_nat_alt)

lemma sint_range: "- (2 ^ (LENGTH('a) - 1)) \<le> sint (w :: 'a::len word) \<and> sint w < 2 ^ (LENGTH('a) - 1)"
  using sint_ge [of w] sint_lt [of w] by simp

lemma sint_of_int_in_range:
  assumes "- (2 ^ (LENGTH('a) - 1)) \<le> k" and "k < 2 ^ (LENGTH('a) - 1)"
  shows "sint (word_of_int k :: 'a::len word) = k"
proof -
  have "signed_take_bit (LENGTH('a) - 1) k = k"
    using assms by (simp add: signed_take_bit_int_eq_self_iff)
  then show ?thesis
    by (simp add: sint_uint signed_take_bit_take_bit uint_word_of_int_eq min_def)
qed

lemma sint_inj: "sint (a :: 'a::len word) = sint b \<Longrightarrow> a = b"
  by (metis signed_word_eqI)

lemma checked_sadd_Some [checked_simps]:
  "checked_sadd a b = Some (c :: 'a::len word) \<longleftrightarrow> sint c = sint a + sint b"
proof
  assume "checked_sadd a b = Some c"
  then have r: "- (2 ^ (LENGTH('a) - 1)) \<le> sint a + sint b" "sint a + sint b < 2 ^ (LENGTH('a) - 1)"
    and c: "c = a + b" by (auto simp: checked_sadd_def split: if_splits)
  have "a + b = word_of_int (sint a + sint b)" by simp
  with c r show "sint c = sint a + sint b" by (simp add: sint_of_int_in_range del: of_int_add)
next
  assume *: "sint c = sint a + sint b"
  with sint_range [of c] have r: "- (2 ^ (LENGTH('a) - 1)) \<le> sint a + sint b"
      "sint a + sint b < 2 ^ (LENGTH('a) - 1)" by simp_all
  have "c = word_of_int (sint c)" by simp
  also have "\<dots> = a + b" by (simp add: *)
  finally show "checked_sadd a b = Some c" using r by (simp add: checked_sadd_def)
qed

lemma checked_ssub_Some [checked_simps]:
  "checked_ssub a b = Some (c :: 'a::len word) \<longleftrightarrow> sint c = sint a - sint b"
proof
  assume "checked_ssub a b = Some c"
  then have r: "- (2 ^ (LENGTH('a) - 1)) \<le> sint a - sint b" "sint a - sint b < 2 ^ (LENGTH('a) - 1)"
    and c: "c = a - b" by (auto simp: checked_ssub_def split: if_splits)
  have "a - b = word_of_int (sint a - sint b)" by simp
  with c r show "sint c = sint a - sint b" by (simp add: sint_of_int_in_range del: of_int_diff)
next
  assume *: "sint c = sint a - sint b"
  with sint_range [of c] have r: "- (2 ^ (LENGTH('a) - 1)) \<le> sint a - sint b"
      "sint a - sint b < 2 ^ (LENGTH('a) - 1)" by simp_all
  have "c = word_of_int (sint c)" by simp
  also have "\<dots> = a - b" by (simp add: *)
  finally show "checked_ssub a b = Some c" using r by (simp add: checked_ssub_def)
qed

lemma word_gt_0_unat [checked_simps]: "(0 < (w :: 'a::len word)) \<longleftrightarrow> 0 < unat w"
  by (simp add: word_less_nat_alt)

subsection \<open>Byte encodings\<close>

text \<open>\<^verbatim>\<open>to_le_bytes\<close> and \<^verbatim>\<open>from_le_bytes\<close> of a number in \<open>k\<close> bytes; the big-endian forms are the
  reversals.\<close>

fun le_bytes :: "nat \<Rightarrow> nat \<Rightarrow> u8 list" where
  "le_bytes 0 n = []"
| "le_bytes (Suc k) n = of_nat (n mod 256) # le_bytes k (n div 256)"

fun le_nat :: "u8 list \<Rightarrow> nat" where
  "le_nat [] = 0"
| "le_nat (b # bs) = unat b + 256 * le_nat bs"

definition be_bytes :: "nat \<Rightarrow> nat \<Rightarrow> u8 list" where
  "be_bytes k n = rev (le_bytes k n)"

definition be_nat :: "u8 list \<Rightarrow> nat" where
  "be_nat bs = le_nat (rev bs)"

definition to_le_bytes :: "'a::len word \<Rightarrow> u8 list" where
  "to_le_bytes w = le_bytes (LENGTH('a) div 8) (unat w)"

definition to_be_bytes :: "'a::len word \<Rightarrow> u8 list" where
  "to_be_bytes w = be_bytes (LENGTH('a) div 8) (unat w)"

definition of_be_bytes :: "u8 list \<Rightarrow> 'a::len word" where
  "of_be_bytes bs = of_nat (be_nat bs)"

text \<open>\<^verbatim>\<open>b"..."\<close> literals.\<close>

definition ascii :: "string \<Rightarrow> u8 list" where
  "ascii s = map (\<lambda>c. of_nat (of_char c)) s"

lemma unat_of_nat_byte: "unat (of_nat (n mod 256) :: u8) = n mod 256"
  by (simp add: unat_of_nat)

lemma length_le_bytes [simp]: "length (le_bytes k n) = k"
  by (induction k arbitrary: n) auto

lemma length_be_bytes [simp]: "length (be_bytes k n) = k"
  by (simp add: be_bytes_def)

lemma length_to_le_bytes [simp]: "length (to_le_bytes (w :: 'a::len word)) = LENGTH('a) div 8"
  by (simp add: to_le_bytes_def)

lemma length_to_be_bytes [simp]: "length (to_be_bytes (w :: 'a::len word)) = LENGTH('a) div 8"
  by (simp add: to_be_bytes_def)

lemma take_le_bytes: "m \<le> n \<Longrightarrow> take m (le_bytes n x) = le_bytes m x"
proof (induction n arbitrary: m x)
  case 0
  then show ?case by simp
next
  case (Suc n)
  then show ?case by (cases m) simp_all
qed

lemma le_nat_le_bytes: "le_nat (le_bytes k n) = n mod 256 ^ k"
proof (induction k arbitrary: n)
  case 0
  then show ?case by simp
next
  case (Suc k)
  have "le_nat (le_bytes (Suc k) n) = n mod 256 + 256 * (n div 256 mod 256 ^ k)"
    by (simp add: Suc unat_of_nat_byte)
  also have "\<dots> = n mod 256 ^ Suc k"
    by (simp add: mod_mult2_eq)
  finally show ?case .
qed

lemma le_nat_bound: "le_nat bs < 256 ^ length bs"
proof (induction bs)
  case Nil
  then show ?case by simp
next
  case (Cons b bs)
  have "unat b < 256" using unat_bound [of b] by simp
  with Cons show ?case by simp
qed

lemma le_nat_append: "le_nat (xs @ ys) = le_nat xs + 256 ^ length xs * le_nat ys"
  by (induction xs) (simp_all add: algebra_simps)

lemma be_nat_bound: "be_nat bs < 256 ^ length bs"
  using le_nat_bound [of "rev bs"] by (simp add: be_nat_def)

lemma be_nat_be_bytes: "be_nat (be_bytes k n) = n mod 256 ^ k"
  by (simp add: be_nat_def be_bytes_def le_nat_le_bytes)

lemma be_nat_Cons: "be_nat (b # bs) = unat b * 256 ^ length bs + be_nat bs"
  by (simp add: be_nat_def le_nat_append)

lemma be_nat_Nil [simp]: "be_nat [] = 0"
  by (simp add: be_nat_def)

lemma le_nat_inject: "length xs = length ys \<Longrightarrow> le_nat xs = le_nat ys \<Longrightarrow> xs = ys"
proof (induction xs ys rule: list_induct2)
  case Nil
  then show ?case by simp
next
  case (Cons x xs y ys)
  have b: "unat x < 256" "unat y < 256" using unat_bound [of x] unat_bound [of y] by simp_all
  from Cons.prems have eq: "unat x + 256 * le_nat xs = unat y + 256 * le_nat ys" by simp
  then have "(unat x + 256 * le_nat xs) mod 256 = (unat y + 256 * le_nat ys) mod 256" by simp
  with b have h: "unat x = unat y" by simp
  with eq have "le_nat xs = le_nat ys" by simp
  with h Cons.IH show ?case by (simp add: word_eq_of_unat)
qed

lemma to_le_bytes_inject:
  assumes "8 dvd LENGTH('a)"
  shows "to_le_bytes (a :: 'a::len word) = to_le_bytes b \<longleftrightarrow> a = b"
proof
  assume "to_le_bytes a = to_le_bytes b"
  then have "le_nat (to_le_bytes a) = le_nat (to_le_bytes b)" by simp
  moreover have "(256 :: nat) ^ (LENGTH('a) div 8) = 2 ^ LENGTH('a)"
  proof -
    have "(256 :: nat) = 2 ^ 8" by simp
    then have "(256 :: nat) ^ (LENGTH('a) div 8) = 2 ^ (8 * (LENGTH('a) div 8))"
      by (simp only: power_mult)
    also have "8 * (LENGTH('a) div 8) = LENGTH('a)" using assms by simp
    finally show ?thesis .
  qed
  ultimately show "a = b"
    by (simp add: to_le_bytes_def le_nat_le_bytes word_eq_of_unat)
qed simp

lemma to_be_bytes_inject:
  assumes "8 dvd LENGTH('a)"
  shows "to_be_bytes (a :: 'a::len word) = to_be_bytes b \<longleftrightarrow> a = b"
  using to_le_bytes_inject [OF assms, of a b]
  by (simp add: to_be_bytes_def to_le_bytes_def be_bytes_def)

subsection \<open>Vectors and slices\<close>

text \<open>\<^verbatim>\<open>iter().position(..)\<close>, \<^verbatim>\<open>Vec::remove\<close> and \<^verbatim>\<open>slice.get(a..b)\<close>.\<close>

fun position :: "'a \<Rightarrow> 'a list \<Rightarrow> nat option" where
  "position x [] = None"
| "position x (y # ys) = (if y = x then Some 0 else map_option Suc (position x ys))"

definition vec_remove :: "nat \<Rightarrow> 'a list \<Rightarrow> 'a list" where
  "vec_remove i xs = take i xs @ drop (Suc i) xs"

definition slice_get :: "'a list \<Rightarrow> nat \<Rightarrow> nat \<Rightarrow> 'a list option" where
  "slice_get xs a b = (if a \<le> b \<and> b \<le> length xs then Some (take (b - a) (drop a xs)) else None)"

lemma position_None [simp]: "position x xs = None \<longleftrightarrow> x \<notin> set xs"
  by (induction xs) auto

lemma position_Some: "position x xs = Some i \<Longrightarrow> i < length xs \<and> xs ! i = x"
proof (induction xs arbitrary: i)
  case Nil
  then show ?case by simp
next
  case (Cons y ys)
  then show ?case by (auto split: if_splits)
qed

lemma vec_remove_position:
  assumes "position x xs = Some i"
  shows "vec_remove i xs = remove1 x xs"
  using assms
proof (induction xs arbitrary: i)
  case Nil
  then show ?case by simp
next
  case (Cons y ys)
  show ?case
  proof (cases "y = x")
    case True
    with Cons.prems show ?thesis by (simp add: vec_remove_def)
  next
    case False
    with Cons.prems obtain j where "position x ys = Some j" and "i = Suc j" by auto
    with Cons.IH False show ?thesis by (simp add: vec_remove_def)
  qed
qed

lemma slice_get_length: "slice_get xs a b = Some ys \<Longrightarrow> length ys = b - a"
  by (auto simp: slice_get_def split: if_splits)

subsection \<open>Account stores\<close>

text \<open>
  An account store maps addresses to the deserialised accounts of one type. \<open>account\<close> is the load
  that \<^verbatim>\<open>Account<T>\<close> performs (a missing account, or one with another discriminator, is rejected);
  \<open>msum f m\<close> adds \<open>f\<close> over all accounts of a store. Addresses form a finite type, so the sum is
  always over a finite set.
\<close>

definition account :: "'v option \<Rightarrow> 'v result" where
  "account x = (case x of None \<Rightarrow> Inl (Anchor AccountNotInitialized) | Some v \<Rightarrow> Inr v)"

lemma account_simps [simp]:
  "account (Some v) = Inr v"
  "account None = Inl (Anchor AccountNotInitialized)"
  by (simp_all add: account_def)

lemma account_Inr [result_simps]: "account x = Inr v \<longleftrightarrow> x = Some v"
  by (cases x) simp_all

lemma account_Inl [result_simps]:
  "account x = Inl e \<longleftrightarrow> x = None \<and> e = Anchor AccountNotInitialized"
  by (cases x) auto

definition msum :: "('v \<Rightarrow> nat) \<Rightarrow> ('k::finite \<rightharpoonup> 'v) \<Rightarrow> nat" where
  "msum f m = (\<Sum>k\<in>dom m. f (the (m k)))"

lemma msum_empty [simp]: "msum f Map.empty = 0"
  by (simp add: msum_def)

lemma msum_insert [store_simps]:
  assumes "m k = None"
  shows "msum f (m(k \<mapsto> v)) = msum f m + f v"
proof -
  have "(\<Sum>j\<in>dom m. f (the ((m(k \<mapsto> v)) j))) = (\<Sum>j\<in>dom m. f (the (m j)))"
    using assms by (intro sum.cong) auto
  with assms show ?thesis by (simp add: msum_def domIff)
qed

lemma msum_insert_deleted: "msum f (m(k \<mapsto> v)) = msum f (m(k := None)) + f v"
proof -
  have "msum f ((m(k := None))(k \<mapsto> v)) = msum f (m(k := None)) + f v"
    by (rule msum_insert) simp
  then show ?thesis by simp
qed

lemma msum_delete_plus:
  assumes "m k = Some u"
  shows "msum f (m(k := None)) + f u = msum f m"
proof -
  have "m(k \<mapsto> u) = m" using assms by auto
  with msum_insert_deleted [of f m k u] show ?thesis by simp
qed

lemma msum_update_plus:
  assumes "m k = Some u"
  shows "msum f (m(k \<mapsto> v)) + f u = msum f m + f v"
  using msum_insert_deleted [of f m k v] msum_delete_plus [of m k u f] assms by simp

lemma msum_member_le: "m k = Some u \<Longrightarrow> f u \<le> msum f m"
  using msum_delete_plus [of m k u f] by simp

lemma msum_delete [store_simps]: "m k = Some u \<Longrightarrow> msum f (m(k := None)) = msum f m - f u"
  using msum_delete_plus [of m k u f] by simp

lemma msum_update [store_simps]: "m k = Some u \<Longrightarrow> msum f (m(k \<mapsto> v)) = msum f m + f v - f u"
  using msum_update_plus [of m k u f v] by simp

lemma msum_cong:
  assumes "dom m = dom m'" and "\<And>k u v. m k = Some u \<Longrightarrow> m' k = Some v \<Longrightarrow> f u = g v"
  shows "msum f m = msum g m'"
proof -
  have "f (the (m k)) = g (the (m' k))" if "k \<in> dom m'" for k
    using that assms by (metis domD domI option.sel)
  with assms(1) show ?thesis by (simp add: msum_def)
qed

lemma msum_zero: "(\<And>k u. m k = Some u \<Longrightarrow> f u = 0) \<Longrightarrow> msum f m = 0"
  by (auto simp: msum_def)

text \<open>\<open>at f m k\<close> reads \<open>f\<close> of the account at \<open>k\<close>, and zero where there is none.\<close>

definition at :: "('v \<Rightarrow> nat) \<Rightarrow> ('k \<rightharpoonup> 'v) \<Rightarrow> 'k \<Rightarrow> nat" where
  "at f m k = (case m k of None \<Rightarrow> 0 | Some v \<Rightarrow> f v)"

lemma at_simps [simp]:
  "at f (m(k \<mapsto> v)) j = (if j = k then f v else at f m j)"
  "at f (m(k := None)) j = (if j = k then 0 else at f m j)"
  by (simp_all add: at_def)

lemma at_Some: "m k = Some v \<Longrightarrow> at f m k = f v"
  by (simp add: at_def)

lemma at_None: "m k = None \<Longrightarrow> at f m k = 0"
  by (simp add: at_def)

lemma msum_put: "msum f (m(k \<mapsto> v)) + at f m k = msum f m + f v"
  by (cases "m k") (simp_all add: at_def msum_insert msum_update_plus)

lemma msum_drop: "msum f (m(k := None)) + at f m k = msum f m"
proof (cases "m k")
  case None
  then have "m(k := None) = m" by auto
  with None show ?thesis by (simp add: at_def)
next
  case (Some u)
  then show ?thesis by (simp add: at_def msum_delete_plus)
qed

lemma at_le_msum: "at f m k \<le> msum f m"
  using msum_drop [of f m k] by simp

end
