(* ===== verification/Constants.thy ===== *)
theory Constants
  imports Prelude
begin

text \<open>
  The constants of \<^verbatim>\<open>src/programs/zkp2p_solana/src/constants.rs\<close> and the program address of
  \<^verbatim>\<open>declare_id!\<close> in \<^verbatim>\<open>lib.rs\<close>. A 32-byte array constant is the word its bytes spell in
  big-endian order; \<^verbatim>\<open>BPS\<close> is an \<^verbatim>\<open>i128\<close> in the source and is only ever added to a sign-extended
  \<^verbatim>\<open>i16\<close>, so an unbounded integer holds it. The program address is the base-58 literal as a number.
\<close>

definition PRECISE_UNIT :: u128 where
  "PRECISE_UNIT = 1000000000000000000"

definition BPS :: int where
  "BPS = 10000"

definition MAX_FEE :: u128 where
  "MAX_FEE = 50000000000000000"

definition MAX_REFERRAL_FEE :: u128 where
  "MAX_REFERRAL_FEE = 500000000000000000"

definition MAX_INTENT_LIFETIME_SECONDS :: i64 where
  "MAX_INTENT_LIFETIME_SECONDS = 5 * 24 * 60 * 60"

definition MIN_CONTROLLER_CHANGE_DELAY_SECONDS :: i64 where
  "MIN_CONTROLLER_CHANGE_DELAY_SECONDS = 24 * 60 * 60"

definition MAX_RISK_WINDOW_SECONDS :: i64 where
  "MAX_RISK_WINDOW_SECONDS = 365 * 24 * 60 * 60"

definition MAX_GROUPS_PER_DEPOSIT :: nat where
  "MAX_GROUPS_PER_DEPOSIT = 10"

definition MAX_RESOLVER_ACCOUNTS :: nat where
  "MAX_RESOLVER_ACCOUNTS = 16"

definition MAX_WITNESSES :: nat where
  "MAX_WITNESSES = 2"

definition MAX_TIMESTAMP_BUFFER_MS :: u64 where
  "MAX_TIMESTAMP_BUFFER_MS = 48 * 60 * 60 * 1000"

definition NEVER_MATURES :: i64 where
  "NEVER_MATURES = 2 ^ 63 - 1"

definition DEPLOYMENT_DOMAIN_PREFIX :: "u8 list" where
  "DEPLOYMENT_DOMAIN_PREFIX = ascii ''ZKP2P_SOLANA_DEPLOYMENT_DOMAIN_V1''"

definition EIP712_DOMAIN_TYPEHASH :: bytes32 where
  "EIP712_DOMAIN_TYPEHASH = 0x8b73c3c69bb8fe3d512ecc4cf759cc79239f7b179b0ffacaa9a75d522b39400f"

definition EIP712_VERSION_ONE_HASH :: bytes32 where
  "EIP712_VERSION_ONE_HASH = 0xc89efdaa54c0f20c7adf612882df0950f5a951637e0307cdcb4c672f298b8bc6"

definition PAYMENT_VERIFIER_NAME_HASH :: bytes32 where
  "PAYMENT_VERIFIER_NAME_HASH = 0x48801cbbd53d2e054850b7bc935ecce36286f21c085367c2fb803f758141dd3a"

definition PAYMENT_ATTESTATION_TYPEHASH :: bytes32 where
  "PAYMENT_ATTESTATION_TYPEHASH = 0x3fbf9df18b1c2ca7c48d809a8d8c6bbf8d7ac33f3741ab78dac072aba0f77103"

definition DISPUTE_VERIFIER_NAME_HASH :: bytes32 where
  "DISPUTE_VERIFIER_NAME_HASH = 0x6d80cefa387870944c7c59eece6e3f92090d5e4dd1f8bdd240ffffe84af38ab3"

definition DISPUTE_ATTESTATION_TYPEHASH :: bytes32 where
  "DISPUTE_ATTESTATION_TYPEHASH = 0xa80001b13bc451240eb60a9c81c71d67e7cf7994aa0ab64892d9512aefb189fa"

definition PROTOCOL_SEED :: "u8 list" where
  "PROTOCOL_SEED = ascii ''protocol''"

definition ESCROW_CONFIG_SEED :: "u8 list" where
  "ESCROW_CONFIG_SEED = ascii ''escrow-config''"

definition ORCHESTRATOR_CONFIG_SEED :: "u8 list" where
  "ORCHESTRATOR_CONFIG_SEED = ascii ''orchestrator-config''"

definition STAKE_VAULT_CONFIG_SEED :: "u8 list" where
  "STAKE_VAULT_CONFIG_SEED = ascii ''stake-vault-config''"

definition VERIFIER_CONFIG_SEED :: "u8 list" where
  "VERIFIER_CONFIG_SEED = ascii ''verifier-config''"

definition WHITELIST_CONFIG_SEED :: "u8 list" where
  "WHITELIST_CONFIG_SEED = ascii ''whitelist-config''"

definition DISPUTE_CONFIG_SEED :: "u8 list" where
  "DISPUTE_CONFIG_SEED = ascii ''dispute-config''"

definition RATE_MANAGER_CONFIG_SEED :: "u8 list" where
  "RATE_MANAGER_CONFIG_SEED = ascii ''rate-manager-config''"

definition STAKE_POSITION_SEED :: "u8 list" where
  "STAKE_POSITION_SEED = ascii ''stake-position''"

definition STAKE_TOKEN_VAULT_SEED :: "u8 list" where
  "STAKE_TOKEN_VAULT_SEED = ascii ''stake-token-vault''"

definition TAKER_AUTHORIZATION_SEED :: "u8 list" where
  "TAKER_AUTHORIZATION_SEED = ascii ''taker-authorization''"

definition STAKE_SELECTION_SEED :: "u8 list" where
  "STAKE_SELECTION_SEED = ascii ''stake-selection''"

definition CLAIM_BALANCE_SEED :: "u8 list" where
  "CLAIM_BALANCE_SEED = ascii ''claim-balance''"

definition RATE_MANAGER_SEED :: "u8 list" where
  "RATE_MANAGER_SEED = ascii ''rate-manager''"

definition RATE_ENTRY_SEED :: "u8 list" where
  "RATE_ENTRY_SEED = ascii ''rate-entry''"

definition DEPOSIT_SEED :: "u8 list" where
  "DEPOSIT_SEED = ascii ''deposit''"

definition DEPOSIT_VAULT_SEED :: "u8 list" where
  "DEPOSIT_VAULT_SEED = ascii ''deposit-vault''"

definition PAYMENT_METHOD_SEED :: "u8 list" where
  "PAYMENT_METHOD_SEED = ascii ''payment-method''"

definition DEPOSIT_CURRENCY_SEED :: "u8 list" where
  "DEPOSIT_CURRENCY_SEED = ascii ''deposit-currency''"

definition ORACLE_QUOTE_SEED :: "u8 list" where
  "ORACLE_QUOTE_SEED = ascii ''oracle-quote''"

definition ESCROW_INTENT_LOCK_SEED :: "u8 list" where
  "ESCROW_INTENT_LOCK_SEED = ascii ''escrow-intent-lock''"

definition INTENT_SEED :: "u8 list" where
  "INTENT_SEED = ascii ''intent''"

definition TAKER_INTENT_STATE_SEED :: "u8 list" where
  "TAKER_INTENT_STATE_SEED = ascii ''taker-intent-state''"

definition PAYMENT_BINDING_SEED :: "u8 list" where
  "PAYMENT_BINDING_SEED = ascii ''payment-binding''"

definition INTENT_PAYMENT_BINDING_SEED :: "u8 list" where
  "INTENT_PAYMENT_BINDING_SEED = ascii ''intent-payment-binding''"

definition ADDRESS_GROUP_SEED :: "u8 list" where
  "ADDRESS_GROUP_SEED = ascii ''address-group''"

definition GROUP_MEMBER_SEED :: "u8 list" where
  "GROUP_MEMBER_SEED = ascii ''group-member''"

definition DEPOSIT_WHITELIST_SEED :: "u8 list" where
  "DEPOSIT_WHITELIST_SEED = ascii ''deposit-whitelist''"

definition DEPOSIT_WHITELIST_MEMBER_SEED :: "u8 list" where
  "DEPOSIT_WHITELIST_MEMBER_SEED = ascii ''deposit-whitelist-member''"

definition STAKE_LOCK_SEED :: "u8 list" where
  "STAKE_LOCK_SEED = ascii ''stake-lock''"

definition RISK_WINDOW_SEED :: "u8 list" where
  "RISK_WINDOW_SEED = ascii ''risk-window''"

definition DEPOSIT_DISPUTE_SETTING_SEED :: "u8 list" where
  "DEPOSIT_DISPUTE_SETTING_SEED = ascii ''deposit-dispute-setting''"

definition DISPUTE_INTENT_SEED :: "u8 list" where
  "DISPUTE_INTENT_SEED = ascii ''dispute-intent''"

definition DISPUTE_NULLIFIER_SEED :: "u8 list" where
  "DISPUTE_NULLIFIER_SEED = ascii ''dispute-nullifier''"

definition crate_ID :: pubkey where
  "crate_ID = 0x422b4eab6cdff90ccd3ade46e940ab72f21e28bbf682a2a180470731719e281b"

subsection \<open>Values of the limits\<close>

lemmas limit_defs = PRECISE_UNIT_def MAX_FEE_def MAX_REFERRAL_FEE_def MAX_INTENT_LIFETIME_SECONDS_def
  MIN_CONTROLLER_CHANGE_DELAY_SECONDS_def MAX_RISK_WINDOW_SECONDS_def MAX_GROUPS_PER_DEPOSIT_def
  MAX_RESOLVER_ACCOUNTS_def MAX_WITNESSES_def MAX_TIMESTAMP_BUFFER_MS_def NEVER_MATURES_def

lemma unat_limits [checked_simps]:
  "unat PRECISE_UNIT = 10 ^ 18"
  "unat MAX_FEE = 5 * 10 ^ 16"
  "unat MAX_REFERRAL_FEE = 5 * 10 ^ 17"
  by (simp_all add: limit_defs)

lemma sint_limits [checked_simps]:
  "sint MAX_INTENT_LIFETIME_SECONDS = 432000"
  "sint MIN_CONTROLLER_CHANGE_DELAY_SECONDS = 86400"
  "sint MAX_RISK_WINDOW_SECONDS = 31536000"
  "sint NEVER_MATURES = 2 ^ 63 - 1"
  by (simp_all add: limit_defs)

end
