(* ===== verification/State.thy ===== *)
theory State
  imports Constants
begin

text \<open>
  The account types of \<^verbatim>\<open>src/programs/zkp2p_solana/src/state.rs\<close>, one record per struct with the
  source's fields in the source's order. Isabelle keeps record fields in one name space, so the
  fields of a struct carry a short prefix (\<open>d_\<close> for \<^verbatim>\<open>Deposit\<close>, \<open>sp_\<close> for \<^verbatim>\<open>StakePosition\<close>, and so on).
  \<open>LifecyclePolicy\<close> and \<open>DisputeStatus\<close> are the two enumerations. The theory ends with the ledger (the
  stores of all account types plus the token accounts) and the runtime the handlers call: clock,
  program-derived addresses, hashing, signature recovery, the token program and the transaction's
  instruction list. The runtime is code outside this repository and stays a parameter.
\<close>

record ProtocolConfig =
  pc_authority :: "pubkey"
  pc_pending_authority :: "pubkey option"
  pc_version :: "u8"
  pc_domain_seed_slot :: "u64"
  pc_domain_seed :: "bytes32"
  pc_domain_chain_id :: "bytes32"
  pc_bump :: "u8"

record InitializeProtocolArgs =
  ipa_protocol_fee :: "u128"
  ipa_protocol_fee_recipient :: "pubkey"
  ipa_intent_expiration_period :: "i64"
  ipa_max_intents_per_deposit :: "u16"
  ipa_controller_change_delay :: "i64"
  ipa_initial_witnesses :: "eth_address list"
  ipa_required_signatures :: "u8"

datatype LifecyclePolicy =
    PolicyNone
  | PolicyWhitelist
  | PolicyWhitelistAndDispute

record EscrowConfig =
  ec_protocol :: "pubkey"
  ec_token_mint :: "pubkey"
  ec_dust_recipient :: "pubkey"
  ec_dust_threshold :: "u64"
  ec_max_intents_per_deposit :: "u16"
  ec_intent_expiration_period :: "i64"
  ec_next_deposit_id :: "u64"
  ec_paused :: "bool"
  ec_bump :: "u8"

record OrchestratorConfig =
  oc_protocol :: "pubkey"
  oc_escrow_config :: "pubkey"
  oc_verifier_config :: "pubkey"
  oc_domain_chain_id :: "bytes32"
  oc_protocol_fee :: "u128"
  oc_protocol_fee_recipient :: "pubkey"
  oc_lifecycle_policy :: "LifecyclePolicy"
  oc_allow_multiple_intents :: "bool"
  oc_next_intent_id :: "u64"
  oc_paused :: "bool"
  oc_bump :: "u8"

record AmountRange =
  ar_min :: "u64"
  ar_max :: "u64"

record Deposit =
  d_escrow_config :: "pubkey"
  d_id :: "u64"
  d_depositor :: "pubkey"
  d_delegate :: "pubkey option"
  d_token_mint :: "pubkey"
  d_intent_amount_range :: "AmountRange"
  d_accepting_intents :: "bool"
  d_remaining_deposits :: "u64"
  d_outstanding_intent_amount :: "u64"
  d_active_intents :: "u16"
  d_intent_guardian :: "pubkey option"
  d_retain_on_empty :: "bool"
  d_rate_manager :: "pubkey option"
  d_bump :: "u8"
  d_vault_authority_bump :: "u8"

record DepositPaymentMethod =
  pm_deposit :: "pubkey"
  pm_payment_method :: "bytes32"
  pm_payee_details :: "bytes32"
  pm_gating_service :: "pubkey option"
  pm_active :: "bool"
  pm_bump :: "u8"

record CreateDepositArgs =
  cda_amount :: "u64"
  cda_intent_amount_range :: "AmountRange"
  cda_delegate :: "pubkey option"
  cda_intent_guardian :: "pubkey option"
  cda_retain_on_empty :: "bool"
  cda_payment_method :: "bytes32"
  cda_payee_details :: "bytes32"
  cda_gating_service :: "pubkey option"
  cda_currency :: "bytes32"
  cda_fixed_min_rate :: "u128"
  cda_oracle_quote :: "pubkey option"
  cda_spread_bps :: "i16"
  cda_max_staleness :: "u32"

record OracleQuote =
  oq_authority :: "pubkey"
  oq_market_rate :: "u128"
  oq_updated_at :: "i64"
  oq_valid :: "bool"
  oq_bump :: "u8"

record DepositCurrency =
  dc_deposit :: "pubkey"
  dc_payment_method :: "bytes32"
  dc_currency :: "bytes32"
  dc_fixed_min_rate :: "u128"
  dc_oracle_quote :: "pubkey option"
  dc_spread_bps :: "i16"
  dc_max_staleness :: "u32"
  dc_listed :: "bool"
  dc_bump :: "u8"

record EscrowIntentLock =
  el_deposit :: "pubkey"
  el_intent_hash :: "bytes32"
  el_orchestrator :: "pubkey"
  el_amount :: "u64"
  el_timestamp :: "i64"
  el_expiry_time :: "i64"
  el_bump :: "u8"

record ReferralFee =
  rf_recipient :: "pubkey"
  rf_fee :: "u128"

record Intent =
  i_orchestrator :: "pubkey"
  i_intent_hash :: "bytes32"
  i_nonce :: "u64"
  i_owner :: "pubkey"
  i_recipient :: "pubkey"
  i_deposit :: "pubkey"
  i_amount :: "u64"
  i_timestamp :: "i64"
  i_payment_method :: "bytes32"
  i_fiat_currency :: "bytes32"
  i_conversion_rate :: "u128"
  i_payee_id :: "bytes32"
  i_manager_fee_recipient :: "pubkey option"
  i_manager_fee :: "u128"
  i_lifecycle_policy :: "LifecyclePolicy"
  i_dispute_covered :: "bool"
  i_referral_fees :: "ReferralFee list"
  i_bump :: "u8"

record TakerIntentState =
  ts_orchestrator :: "pubkey"
  ts_taker :: "pubkey"
  ts_active_intents :: "u16"
  ts_bump :: "u8"

record RateManager =
  rm_config :: "pubkey"
  rm_nonce :: "u64"
  rm_id :: "bytes32"
  rm_manager :: "pubkey"
  rm_fee_recipient :: "pubkey option"
  rm_max_fee :: "u128"
  rm_fee :: "u128"
  rm_min_liquidity :: "u64"
  rm_name :: "string"
  rm_uri :: "string"
  rm_bump :: "u8"

record CreateRateManagerArgs =
  crm_manager :: "pubkey"
  crm_fee_recipient :: "pubkey option"
  crm_max_fee :: "u128"
  crm_fee :: "u128"
  crm_min_liquidity :: "u64"
  crm_name :: "string"
  crm_uri :: "string"

record RateEntry =
  re_rate_manager :: "pubkey"
  re_payment_method :: "bytes32"
  re_currency :: "bytes32"
  re_rate :: "u128"
  re_bump :: "u8"

record RateManagerConfig =
  rmc_protocol :: "pubkey"
  rmc_next_manager_id :: "u64"
  rmc_bump :: "u8"

record StakeVaultConfig =
  sv_protocol :: "pubkey"
  sv_stake_mint :: "pubkey"
  sv_controller :: "pubkey"
  sv_pending_controller :: "pubkey option"
  sv_pending_controller_valid_at :: "i64"
  sv_controller_change_delay :: "i64"
  sv_total_staked :: "u64"
  sv_total_claimable :: "u64"
  sv_bump :: "u8"
  sv_vault_authority_bump :: "u8"

record StakePosition =
  sp_vault :: "pubkey"
  sp_owner :: "pubkey"
  sp_balance :: "u64"
  sp_locked :: "u64"
  sp_bump :: "u8"

record TakerAuthorization =
  ta_stake_owner :: "pubkey"
  ta_taker :: "pubkey"
  ta_authorized :: "bool"
  ta_bump :: "u8"

record StakeSelection =
  ss_taker :: "pubkey"
  ss_selected_owner :: "pubkey option"
  ss_bump :: "u8"

record StakeLock =
  sl_vault :: "pubkey"
  sl_id :: "bytes32"
  sl_stake_owner :: "pubkey"
  sl_amount :: "u64"
  sl_matures_at :: "i64"
  sl_bump :: "u8"

record ClaimBalance =
  cb_vault :: "pubkey"
  cb_beneficiary :: "pubkey"
  cb_amount :: "u64"
  cb_bump :: "u8"

record VerifierConfig =
  vc_protocol :: "pubkey"
  vc_domain_chain_id :: "bytes32"
  vc_required_signatures :: "u8"
  vc_witnesses :: "eth_address list"
  vc_payment_methods :: "bytes32 list"
  vc_bump :: "u8"

record WhitelistConfig =
  wc_protocol :: "pubkey"
  wc_next_group_id :: "u64"
  wc_bump :: "u8"

record DisputeConfig =
  dg_protocol :: "pubkey"
  dg_domain_chain_id :: "bytes32"
  dg_stake_vault :: "pubkey"
  dg_verifier_config :: "pubkey"
  dg_admissions_paused :: "bool"
  dg_bump :: "u8"

record PaymentBinding =
  pb_verifier :: "pubkey"
  pb_nullifier :: "bytes32"
  pb_intent_hash :: "bytes32"
  pb_bump :: "u8"

record IntentPaymentBinding =
  ib_verifier :: "pubkey"
  ib_intent_hash :: "bytes32"
  ib_nullifier :: "bytes32"
  ib_bump :: "u8"

record AddressGroup =
  ag_whitelist_config :: "pubkey"
  ag_nonce :: "u64"
  ag_id :: "bytes32"
  ag_curator :: "pubkey"
  ag_pending_curator :: "pubkey option"
  ag_public :: "bool"
  ag_resolver :: "pubkey option"
  ag_name :: "string"
  ag_bump :: "u8"

record GroupMember =
  gm_group :: "pubkey"
  gm_member :: "pubkey"
  gm_active :: "bool"
  gm_bump :: "u8"

record DepositWhitelist =
  dw_deposit :: "pubkey"
  dw_enabled :: "bool"
  dw_bootstrapped :: "bool"
  dw_allowed_groups :: "bytes32 list"
  dw_bump :: "u8"

record DepositWhitelistMember =
  wm_deposit_whitelist :: "pubkey"
  wm_taker :: "pubkey"
  wm_active :: "bool"
  wm_bump :: "u8"

datatype DisputeStatus =
    Pending
  | Cancelled
  | Settled
  | Released
  | Disputed

record DisputeIntent =
  di_dispute_config :: "pubkey"
  di_intent_hash :: "bytes32"
  di_deposit :: "pubkey"
  di_taker :: "pubkey"
  di_stake_owner :: "pubkey"
  di_depositor :: "pubkey"
  di_payment_method :: "bytes32"
  di_locked_amount :: "u64"
  di_status :: "DisputeStatus"
  di_risk_window :: "i64"
  di_release_eligible_at :: "i64"
  di_release_amount :: "u64"
  di_bump :: "u8"

record RiskWindow =
  rw_dispute_config :: "pubkey"
  rw_payment_method :: "bytes32"
  rw_seconds :: "i64"
  rw_bump :: "u8"

record DepositDisputeSetting =
  ds_deposit :: "pubkey"
  ds_enabled :: "bool"
  ds_bump :: "u8"

record DisputeNullifier =
  dn_dispute_config :: "pubkey"
  dn_nullifier :: "bytes32"
  dn_intent_hash :: "bytes32"
  dn_bump :: "u8"

subsection \<open>Token accounts, the ledger and the runtime\<close>

text \<open>An SPL token account: owning token program, mint, authority and balance; and the part of a mint
  the program reads.\<close>

record TokenAccount =
  tk_program :: pubkey
  tk_mint :: pubkey
  tk_owner :: pubkey
  tk_amount :: u64

record Mint =
  mint_program :: pubkey
  mint_decimals :: u8

type_synonym token_store = "pubkey \<rightharpoonup> TokenAccount"

text \<open>
  The ledger. Accounts whose seeds are constants exist at most once and are options; every other
  account type is a store indexed by address.
\<close>

record ledger =
  protocol :: "ProtocolConfig option"
  escrow_config :: "EscrowConfig option"
  orchestrator_config :: "OrchestratorConfig option"
  stake_vault_config :: "StakeVaultConfig option"
  verifier_config :: "VerifierConfig option"
  rate_manager_config :: "RateManagerConfig option"
  whitelist_config :: "WhitelistConfig option"
  dispute_config :: "DisputeConfig option"
  deposits :: "pubkey \<rightharpoonup> Deposit"
  payment_methods :: "pubkey \<rightharpoonup> DepositPaymentMethod"
  deposit_currencies :: "pubkey \<rightharpoonup> DepositCurrency"
  oracle_quotes :: "pubkey \<rightharpoonup> OracleQuote"
  intent_locks :: "pubkey \<rightharpoonup> EscrowIntentLock"
  intents :: "pubkey \<rightharpoonup> Intent"
  taker_states :: "pubkey \<rightharpoonup> TakerIntentState"
  rate_managers :: "pubkey \<rightharpoonup> RateManager"
  rate_entries :: "pubkey \<rightharpoonup> RateEntry"
  stake_positions :: "pubkey \<rightharpoonup> StakePosition"
  taker_authorizations :: "pubkey \<rightharpoonup> TakerAuthorization"
  stake_selections :: "pubkey \<rightharpoonup> StakeSelection"
  stake_locks :: "pubkey \<rightharpoonup> StakeLock"
  claim_balances :: "pubkey \<rightharpoonup> ClaimBalance"
  payment_bindings :: "pubkey \<rightharpoonup> PaymentBinding"
  intent_payment_bindings :: "pubkey \<rightharpoonup> IntentPaymentBinding"
  address_groups :: "pubkey \<rightharpoonup> AddressGroup"
  group_members :: "pubkey \<rightharpoonup> GroupMember"
  deposit_whitelists :: "pubkey \<rightharpoonup> DepositWhitelist"
  whitelist_members :: "pubkey \<rightharpoonup> DepositWhitelistMember"
  dispute_intents :: "pubkey \<rightharpoonup> DisputeIntent"
  risk_windows :: "pubkey \<rightharpoonup> RiskWindow"
  dispute_settings :: "pubkey \<rightharpoonup> DepositDisputeSetting"
  dispute_nullifiers :: "pubkey \<rightharpoonup> DisputeNullifier"
  mints :: "pubkey \<rightharpoonup> Mint"
  tokens :: token_store

definition empty_ledger :: ledger where
  "empty_ledger = \<lparr>protocol = None, escrow_config = None, orchestrator_config = None,
     stake_vault_config = None, verifier_config = None, rate_manager_config = None,
     whitelist_config = None, dispute_config = None, deposits = Map.empty,
     payment_methods = Map.empty, deposit_currencies = Map.empty, oracle_quotes = Map.empty,
     intent_locks = Map.empty, intents = Map.empty, taker_states = Map.empty,
     rate_managers = Map.empty, rate_entries = Map.empty, stake_positions = Map.empty,
     taker_authorizations = Map.empty, stake_selections = Map.empty, stake_locks = Map.empty,
     claim_balances = Map.empty, payment_bindings = Map.empty,
     intent_payment_bindings = Map.empty, address_groups = Map.empty, group_members = Map.empty,
     deposit_whitelists = Map.empty, whitelist_members = Map.empty, dispute_intents = Map.empty,
     risk_windows = Map.empty, dispute_settings = Map.empty, dispute_nullifiers = Map.empty,
     mints = Map.empty, tokens = Map.empty\<rparr>"

text \<open>
  One instruction of the running transaction as the instructions sysvar shows it, and the runtime.
  \<open>initialize_account program tokens account mint authority\<close>,
  \<open>transfer_checked program tokens from mint to authority amount decimals\<close> and
  \<open>close_account program tokens account destination authority\<close> are the calls of the token program
  that a deployment configures; the two discriminators are the constants \<^verbatim>\<open>DISCRIMINATOR\<close> that Anchor
  generates for the instructions \<^verbatim>\<open>signal_intent\<close> and \<^verbatim>\<open>cancel_intent\<close>; \<open>signal_args_try_from_slice\<close> is the
  decoder \<^verbatim>\<open>SignalIntentArgs::try_from_slice\<close> that Anchor derives, \<open>None\<close> for its error; \<open>invoke_resolver program accounts data\<close> is \<open>None\<close> when the
  cross-program call fails and otherwise the return data that is visible after it.
\<close>

record SignalIntentArgs =
  sia_expected_intent_hash :: bytes32
  sia_amount :: u64
  sia_recipient :: pubkey
  sia_payment_method :: bytes32
  sia_fiat_currency :: bytes32
  sia_conversion_rate :: u128
  sia_referral_fees :: "ReferralFee list"
  sia_gating_signature_expiration :: i64

record AccountMeta =
  am_pubkey :: pubkey
  am_is_signer :: bool
  am_is_writable :: bool

record Instruction =
  ix_program_id :: pubkey
  ix_accounts :: "AccountMeta list"
  ix_data :: "u8 list"

record runtime =
  unix_timestamp :: i64
  find_program_address :: "u8 list list \<Rightarrow> pubkey \<times> u8"
  keccak256 :: "u8 list \<Rightarrow> bytes32"
  secp256k1_recover :: "bytes32 \<Rightarrow> u8 \<Rightarrow> u8 list \<Rightarrow> u8 list option"
  spl_token_ID :: pubkey
  token_2022_ID :: pubkey
  ed25519_program_ID :: pubkey
  initialize_account ::
    "pubkey \<Rightarrow> token_store \<Rightarrow> pubkey \<Rightarrow> pubkey \<Rightarrow> pubkey \<Rightarrow> token_store result"
  transfer_checked ::
    "pubkey \<Rightarrow> token_store \<Rightarrow> pubkey \<Rightarrow> pubkey \<Rightarrow> pubkey \<Rightarrow> pubkey \<Rightarrow> u64 \<Rightarrow> u8 \<Rightarrow> token_store result"
  close_account :: "pubkey \<Rightarrow> token_store \<Rightarrow> pubkey \<Rightarrow> pubkey \<Rightarrow> pubkey \<Rightarrow> token_store result"
  current_index :: "nat option"
  instruction_at :: "nat \<Rightarrow> Instruction option"
  signal_intent_discriminator :: "u8 list"
  cancel_intent_discriminator :: "u8 list"
  signal_args_try_from_slice :: "u8 list \<Rightarrow> SignalIntentArgs option"
  invoke_resolver :: "pubkey \<Rightarrow> AccountMeta list \<Rightarrow> u8 list \<Rightarrow> (pubkey \<times> u8 list) option option"

text \<open>\<^verbatim>\<open>keccak::hashv\<close> hashes the concatenation of its slices; \<^verbatim>\<open>Pubkey::as_ref\<close> and the bytes of a
  \<^verbatim>\<open>[u8; 32]\<close> are the big-endian bytes of the word.\<close>

definition hashv :: "runtime \<Rightarrow> u8 list list \<Rightarrow> bytes32" where
  "hashv rt xs = keccak256 rt (concat xs)"

definition key_bytes :: "pubkey \<Rightarrow> u8 list" where
  "key_bytes k = to_be_bytes k"

lemma length_key_bytes [simp]: "length (key_bytes k) = 32"
  by (simp add: key_bytes_def)

lemma key_bytes_inject [simp]: "key_bytes a = key_bytes b \<longleftrightarrow> a = b"
  by (simp add: key_bytes_def to_be_bytes_inject)

text \<open>Address and bump of a program-derived account.\<close>

definition pda :: "runtime \<Rightarrow> u8 list list \<Rightarrow> pubkey" where
  "pda rt seeds = fst (find_program_address rt seeds)"

definition pda_bump :: "runtime \<Rightarrow> u8 list list \<Rightarrow> u8" where
  "pda_bump rt seeds = snd (find_program_address rt seeds)"

text \<open>The singleton component accounts.\<close>

definition protocol_key :: "runtime \<Rightarrow> pubkey" where
  "protocol_key rt = pda rt [PROTOCOL_SEED]"

definition escrow_config_key :: "runtime \<Rightarrow> pubkey" where
  "escrow_config_key rt = pda rt [ESCROW_CONFIG_SEED]"

definition orchestrator_config_key :: "runtime \<Rightarrow> pubkey" where
  "orchestrator_config_key rt = pda rt [ORCHESTRATOR_CONFIG_SEED]"

definition stake_vault_config_key :: "runtime \<Rightarrow> pubkey" where
  "stake_vault_config_key rt = pda rt [STAKE_VAULT_CONFIG_SEED]"

definition verifier_config_key :: "runtime \<Rightarrow> pubkey" where
  "verifier_config_key rt = pda rt [VERIFIER_CONFIG_SEED]"

definition whitelist_config_key :: "runtime \<Rightarrow> pubkey" where
  "whitelist_config_key rt = pda rt [WHITELIST_CONFIG_SEED]"

definition dispute_config_key :: "runtime \<Rightarrow> pubkey" where
  "dispute_config_key rt = pda rt [DISPUTE_CONFIG_SEED]"

definition rate_manager_config_key :: "runtime \<Rightarrow> pubkey" where
  "rate_manager_config_key rt = pda rt [RATE_MANAGER_CONFIG_SEED]"

end
