(* ===== verification/Fixed_Point.thy ===== *)
theory Fixed_Point
  imports State
begin

text \<open>
  \<^verbatim>\<open>src/programs/zkp2p_solana/src/math.rs\<close>: the fixed-point product that computes every fee, and the
  basis-point spread of the oracle floor. Both are characterised completely: when they succeed, with
  which value, and with which error they fail otherwise.
\<close>

definition u64_try_from :: "u128 \<Rightarrow> u64 option" where
  "u64_try_from q = (if unat q < 2 ^ 64 then Some (ucast q) else None)"

definition precise_mul_floor :: "u64 \<Rightarrow> u128 \<Rightarrow> u64 result" where
  "precise_mul_floor amount rate =
     and_then (ok_or (checked_mul (ucast amount) rate) ArithmeticOverflow) (\<lambda>product.
     and_then (ok_or (checked_div product PRECISE_UNIT) ArithmeticOverflow) (\<lambda>quotient.
     ok_or (u64_try_from quotient) ArithmeticOverflow))"

definition spread_rate_ceil :: "u128 \<Rightarrow> i16 \<Rightarrow> u128 result" where
  "spread_rate_ceil market_rate spread_bps =
     (let multiplier = BPS + sint spread_bps in
      require (multiplier > 0) InvalidSpread (
      let positive_multiplier = word_of_int multiplier;
          denominator = word_of_int BPS in
      and_then (ok_or (checked_mul market_rate positive_multiplier) ArithmeticOverflow) (\<lambda>product.
      and_then (ok_or (checked_sub denominator 1) ArithmeticOverflow) (\<lambda>pad.
      and_then (ok_or (checked_add product pad) ArithmeticOverflow) (\<lambda>rounded.
      ok_or (checked_div rounded denominator) ArithmeticOverflow)))))"

subsection \<open>The fee product\<close>

lemma unat_ucast_u64_u128 [simp]: "unat (ucast (a :: u64) :: u128) = unat a"
  by (simp add: unsigned_ucast_eq take_bit_nat_eq_self order_less_le_trans [OF unat_bound])

lemma unat_ucast_u128_u64: "unat (q :: u128) < 2 ^ 64 \<Longrightarrow> unat (ucast q :: u64) = unat q"
  by (simp add: unsigned_ucast_eq take_bit_nat_eq_self)

lemma u64_try_from_Some [checked_simps]: "u64_try_from q = Some r \<longleftrightarrow> unat r = unat q"
proof
  assume "u64_try_from q = Some r"
  then show "unat r = unat q"
    by (auto simp: u64_try_from_def unat_ucast_u128_u64 split: if_splits)
next
  assume *: "unat r = unat q"
  with unat_bound [of r] have "unat q < 2 ^ 64" by simp
  with * show "u64_try_from q = Some r"
    by (auto simp: u64_try_from_def word_eq_of_unat unat_ucast_u128_u64)
qed

lemma PRECISE_UNIT_nonzero [simp]: "PRECISE_UNIT \<noteq> 0"
  by (simp add: PRECISE_UNIT_def)

lemma precise_mul_floor_Inr:
  "precise_mul_floor a r = Inr f \<longleftrightarrow>
     unat a * unat r < 2 ^ 128 \<and> unat f = unat a * unat r div 10 ^ 18"
proof
  assume "precise_mul_floor a r = Inr f"
  then obtain p q :: u128 where p: "unat p = unat a * unat r" and q: "unat q = unat p div 10 ^ 18"
      and f: "unat f = unat q"
    by (auto simp: precise_mul_floor_def result_simps checked_simps)
  from p unat_bound [of p] q f show "unat a * unat r < 2 ^ 128 \<and> unat f = unat a * unat r div 10 ^ 18"
    by simp
next
  assume *: "unat a * unat r < 2 ^ 128 \<and> unat f = unat a * unat r div 10 ^ 18"
  define p :: u128 where "p = ucast a * r"
  have p: "unat p = unat a * unat r"
    using * by (simp add: p_def unat_word_ariths)
  define q :: u128 where "q = p div PRECISE_UNIT"
  have q: "unat q = unat p div 10 ^ 18"
    by (simp add: q_def unat_div checked_simps)
  have "checked_mul (ucast a) r = Some p" using p by (simp add: checked_simps)
  moreover have "checked_div p PRECISE_UNIT = Some q" using q by (simp add: checked_simps)
  moreover have "u64_try_from q = Some f" using * p q by (simp add: checked_simps)
  ultimately show "precise_mul_floor a r = Inr f" by (simp add: precise_mul_floor_def)
qed

lemma precise_mul_floor_error: "precise_mul_floor a r = Inl e \<Longrightarrow> e = Zkp2p ArithmeticOverflow"
  by (auto simp: precise_mul_floor_def result_simps)

text \<open>A rate of at most one (every fee is) never overflows and never exceeds the amount.\<close>

lemma precise_mul_floor_fraction:
  assumes "unat r \<le> 10 ^ 18"
  shows "\<exists>f. precise_mul_floor a r = Inr f \<and> unat f = unat a * unat r div 10 ^ 18 \<and> unat f \<le> unat a"
proof -
  have a: "unat a < 2 ^ 64" using unat_bound [of a] by simp
  have "unat a * unat r \<le> 2 ^ 64 * 10 ^ 18"
    using a assms by (intro mult_le_mono) auto
  also have "(2 :: nat) ^ 64 * 10 ^ 18 < 2 ^ 128" by simp
  finally have p: "unat a * unat r < 2 ^ 128" .
  have "unat a * unat r \<le> unat a * 10 ^ 18" using assms by simp
  then have le: "unat a * unat r div 10 ^ 18 \<le> unat a"
    using div_le_mono [of "unat a * unat r" "unat a * 10 ^ 18" "10 ^ 18"] by simp
  define f :: u64 where "f = of_nat (unat a * unat r div 10 ^ 18)"
  have "unat f = unat a * unat r div 10 ^ 18"
    using le a by (simp add: f_def unat_of_nat)
  with p le show ?thesis by (auto simp: precise_mul_floor_Inr)
qed

subsection \<open>The spread\<close>

lemma multiplier_range:
  "- 22768 \<le> BPS + sint (s :: i16)" "BPS + sint (s :: i16) < 42768"
  using sint_range [of s] by (simp_all add: BPS_def)

lemma unat_multiplier:
  assumes "0 < BPS + sint (s :: i16)"
  shows "unat (word_of_int (BPS + sint s) :: u128) = nat (BPS + sint s)"
proof -
  have "BPS + sint s < 2 ^ 128" using multiplier_range(2) [of s] by simp
  with assms show ?thesis by (simp add: unsigned_of_int take_bit_int_eq_self del: of_int_add)
qed

lemma unat_denominator: "unat (word_of_int BPS :: u128) = 10000"
  by (simp add: BPS_def)

lemma spread_rate_ceil_Inr:
  "spread_rate_ceil m s = Inr r \<longleftrightarrow>
     0 < 10000 + sint s \<and>
     unat m * nat (10000 + sint s) + 9999 < 2 ^ 128 \<and>
     unat r = (unat m * nat (10000 + sint s) + 9999) div 10000"
proof (cases "0 < BPS + sint s")
  case False
  then show ?thesis by (simp add: spread_rate_ceil_def Let_def result_simps BPS_def)
next
  case True
  let ?k = "nat (BPS + sint s)"
  note mult = unat_multiplier [OF True]
  show ?thesis
  proof
    assume "spread_rate_ceil m s = Inr r"
    with True mult obtain p d x :: u128 where p: "unat p = unat m * ?k"
        and d: "unat (word_of_int BPS :: u128) = unat (1 :: u128) + unat d"
        and x: "unat x = unat p + unat d" and r: "unat r = unat x div unat (word_of_int BPS :: u128)"
      by (auto simp: spread_rate_ceil_def Let_def result_simps checked_simps simp del: of_int_add)
    from d have d: "unat d = 9999" by (simp add: unat_denominator)
    from unat_bound [of x] x d p r True show "0 < 10000 + sint s \<and>
        unat m * nat (10000 + sint s) + 9999 < 2 ^ 128 \<and>
        unat r = (unat m * nat (10000 + sint s) + 9999) div 10000"
      by (simp add: unat_denominator BPS_def)
  next
    assume *: "0 < 10000 + sint s \<and>
        unat m * nat (10000 + sint s) + 9999 < 2 ^ 128 \<and>
        unat r = (unat m * nat (10000 + sint s) + 9999) div 10000"
    define p :: u128 where "p = m * word_of_int (BPS + sint s)"
    have k: "?k = nat (10000 + sint s)" by (simp add: BPS_def)
    have p: "unat p = unat m * ?k"
      using * by (simp add: p_def unat_word_ariths mult k del: of_int_add)
    define x :: u128 where "x = p + 9999"
    have x: "unat x = unat p + 9999"
      using * p k by (simp add: x_def unat_word_ariths)
    have "checked_mul m (word_of_int (BPS + sint s)) = Some p"
      using p by (simp add: checked_simps mult del: of_int_add)
    moreover have "checked_sub (word_of_int BPS) 1 = Some (9999 :: u128)"
      by (simp add: checked_simps unat_denominator)
    moreover have "checked_add p 9999 = Some x" using x by (simp add: checked_simps)
    moreover have "checked_div x (word_of_int BPS) = Some r"
      using * p x k unat_denominator by (auto simp: checked_simps BPS_def)
    ultimately show "spread_rate_ceil m s = Inr r"
      using True by (simp add: spread_rate_ceil_def Let_def del: of_int_add)
  qed
qed

lemma spread_rate_ceil_error:
  "spread_rate_ceil m s = Inl e \<Longrightarrow>
     e = (if sint s \<le> - 10000 then Zkp2p InvalidSpread else Zkp2p ArithmeticOverflow)"
  by (auto simp: spread_rate_ceil_def Let_def result_simps BPS_def)

end
