(* ===== verification/Interfaces.thy ===== *)
theory Interfaces
  imports Prelude
begin

text \<open>
  The contracts that several components of the program share, each stated once as a locale whose
  parameters are the operations and whose assumptions are the laws a provider promises. The lemmas a
  client needs are proved inside the locale; the component theories interpret the locale on the
  model's own operations. \<open>run\<close> executes a list of requests on a machine whose failed requests leave
  the state unchanged, which is how a Solana program sees a failed instruction.
\<close>

fun run :: "('s \<Rightarrow> 'l \<Rightarrow> 's result) \<Rightarrow> 's \<Rightarrow> 'l list \<Rightarrow> 's" where
  "run step s [] = s"
| "run step s (l # ls) = run step (case step s l of Inl e \<Rightarrow> s | Inr s' \<Rightarrow> s') ls"

lemma run_append: "run step s (es @ es') = run step (run step s es) es'"
  by (induction es arbitrary: s) simp_all

subsection \<open>Machines with an invariant, and with a preorder they only climb\<close>

locale monitored_machine =
  fixes step :: "'s \<Rightarrow> 'l \<Rightarrow> 's result" and ok :: "'l \<Rightarrow> bool" and inv :: "'s \<Rightarrow> bool"
  assumes step_inv: "inv s \<Longrightarrow> ok l \<Longrightarrow> step s l = Inr s' \<Longrightarrow> inv s'"
begin

lemma run_inv: "inv s \<Longrightarrow> list_all ok ls \<Longrightarrow> inv (run step s ls)"
proof (induction ls arbitrary: s)
  case Nil
  then show ?case by simp
next
  case (Cons l ls)
  then show ?case by (cases "step s l") (auto dest: step_inv)
qed

end

locale guarded_machine =
  fixes step :: "'s \<Rightarrow> 'l \<Rightarrow> 's result" and inv :: "'s \<Rightarrow> bool"
  assumes step_inv: "inv s \<Longrightarrow> step s l = Inr s' \<Longrightarrow> inv s'"

sublocale guarded_machine \<subseteq> unmonitored: monitored_machine step "\<lambda>l. True" inv
  by unfold_locales (rule step_inv)

context guarded_machine
begin

lemma run_inv: "inv s \<Longrightarrow> inv (run step s ls)"
  by (rule unmonitored.run_inv) (simp_all add: list_all_iff)

end

locale climbing_machine =
  fixes step :: "'s \<Rightarrow> 'l \<Rightarrow> 's result" and le :: "'s \<Rightarrow> 's \<Rightarrow> bool"
  assumes le_refl: "le s s"
    and le_trans: "le s t \<Longrightarrow> le t u \<Longrightarrow> le s u"
    and step_le: "step s l = Inr s' \<Longrightarrow> le s s'"
begin

lemma run_le: "le s (run step s ls)"
proof (induction ls arbitrary: s)
  case Nil
  then show ?case by (simp add: le_refl)
next
  case (Cons l ls)
  show ?case
  proof (cases "step s l")
    case (Inl e)
    with Cons show ?thesis by simp
  next
    case (Inr s')
    with Cons [of s'] step_le le_trans show ?thesis by fastforce
  qed
qed

end

subsection \<open>Pools that reserve, return and consume principal\<close>

text \<open>
  A pool splits its principal into an available and a held part. Reserving moves principal from
  available to held, releasing moves it back, and consuming a reservation pays a part of it out and
  returns the rest.
\<close>

locale reserve_pool =
  fixes inv :: "'s \<Rightarrow> bool" and avail held :: "'s \<Rightarrow> nat"
    and reserve release :: "'s \<Rightarrow> u64 \<Rightarrow> 's result"
  assumes reserve: "inv s \<Longrightarrow> reserve s a = Inr s' \<Longrightarrow>
      inv s' \<and> avail s = avail s' + unat a \<and> held s' = held s + unat a"
    and release: "inv s \<Longrightarrow> release s a = Inr s' \<Longrightarrow>
      inv s' \<and> held s = held s' + unat a \<and> avail s' = avail s + unat a"
begin

lemma reserve_total: "inv s \<Longrightarrow> reserve s a = Inr s' \<Longrightarrow> avail s' + held s' = avail s + held s"
  by (drule reserve) auto

lemma release_total: "inv s \<Longrightarrow> release s a = Inr s' \<Longrightarrow> avail s' + held s' = avail s + held s"
  by (drule release) auto

lemma reserve_bounded: "inv s \<Longrightarrow> reserve s a = Inr s' \<Longrightarrow> unat a \<le> avail s"
  by (drule reserve) auto

lemma release_bounded: "inv s \<Longrightarrow> release s a = Inr s' \<Longrightarrow> unat a \<le> held s"
  by (drule release) auto

lemma reserve_then_release:
  assumes "inv s" and "reserve s a = Inr t" and "release t a = Inr u"
  shows "avail u = avail s \<and> held u = held s"
  using assms reserve [of s a t] release [of t a u] by auto

end

datatype pool_op = Reserve u64 | Release u64 | Consume u64 u64

fun paid_out :: "pool_op \<Rightarrow> nat" where
  "paid_out (Consume l u) = unat u"
| "paid_out _ = 0"

locale settling_pool = reserve_pool +
  fixes consume :: "'a \<Rightarrow> u64 \<Rightarrow> u64 \<Rightarrow> 'a result"
  assumes consume: "inv s \<Longrightarrow> consume s l u = Inr s' \<Longrightarrow>
      inv s' \<and> unat u \<le> unat l \<and> held s = held s' + unat l \<and> avail s' + unat u = avail s + unat l"
begin

fun pool_step :: "'a \<Rightarrow> pool_op \<Rightarrow> 'a result" where
  "pool_step s (Reserve a) = reserve s a"
| "pool_step s (Release a) = release s a"
| "pool_step s (Consume l u) = consume s l u"

lemma consume_total:
  "inv s \<Longrightarrow> consume s l u = Inr s' \<Longrightarrow> avail s' + held s' + unat u = avail s + held s"
  by (drule consume) auto

lemma pool_step_total:
  "inv s \<Longrightarrow> pool_step s p = Inr s' \<Longrightarrow> inv s' \<and> avail s' + held s' + paid_out p = avail s + held s"
  by (cases p) (auto dest: reserve release consume)

text \<open>Over any sequence of requests the total shrinks exactly by what the successful consumptions paid
  out.\<close>

fun pool_paid :: "'a \<Rightarrow> pool_op list \<Rightarrow> nat" where
  "pool_paid s [] = 0"
| "pool_paid s (p # ps) =
     (case pool_step s p of Inl e \<Rightarrow> pool_paid s ps | Inr s' \<Rightarrow> paid_out p + pool_paid s' ps)"

lemma run_pool_total:
  "inv s \<Longrightarrow> avail (run pool_step s ps) + held (run pool_step s ps) + pool_paid s ps = avail s + held s"
proof (induction ps arbitrary: s)
  case Nil
  then show ?case by simp
next
  case (Cons p ps)
  show ?case
  proof (cases "pool_step s p")
    case (Inl e)
    with Cons show ?thesis by simp
  next
    case (Inr s')
    with Cons pool_step_total [of s p s'] show ?thesis by fastforce
  qed
qed

end

subsection \<open>Registries with a capacity\<close>

locale bounded_registry =
  fixes items :: "'s \<Rightarrow> 'x list" and toggle :: "'s \<Rightarrow> 'x \<Rightarrow> bool \<Rightarrow> 's result" and cap :: nat
  assumes enable: "toggle s x True = Inr s' \<Longrightarrow>
      x \<notin> set (items s) \<and> length (items s) < cap \<and> items s' = items s @ [x]"
    and disable: "toggle s x False = Inr s' \<Longrightarrow> x \<in> set (items s) \<and> items s' = remove1 x (items s)"
begin

abbreviation wf_registry :: "'s \<Rightarrow> bool" where
  "wf_registry s \<equiv> distinct (items s) \<and> length (items s) \<le> cap"

lemma toggle_wf:
  assumes "wf_registry s" and "toggle s x b = Inr s'"
  shows "wf_registry s'"
proof (cases b)
  case True
  with assms show ?thesis by (auto dest: enable)
next
  case False
  with assms have "items s' = remove1 x (items s)" by (auto dest: disable)
  with assms(1) show ?thesis by (auto simp: distinct_remove1 length_remove1)
qed

lemma toggle_set:
  assumes "distinct (items s)" and "toggle s x b = Inr s'"
  shows "set (items s') = (if b then insert x (set (items s)) else set (items s) - {x})"
proof (cases b)
  case True
  with assms show ?thesis by (auto dest!: enable)
next
  case False
  with assms have "items s' = remove1 x (items s)" by (auto dest: disable)
  with assms(1) False show ?thesis by simp
qed

lemma toggle_not_repeatable:
  assumes "distinct (items s)" and "toggle s x b = Inr s'"
  shows "toggle s' x b \<noteq> Inr s''"
  using toggle_set [OF assms] enable [of s' x s''] disable [of s' x s''] by (cases b) auto

end

sublocale bounded_registry \<subseteq> registry_machine: guarded_machine "\<lambda>s (x, b). toggle s x b" wf_registry
proof unfold_locales
  fix s s' and l :: "'x \<times> bool"
  assume "wf_registry s" and "(case l of (x, b) \<Rightarrow> toggle s x b) = Inr s'"
  then show "wf_registry s'" using toggle_wf [of s "fst l" "snd l" s'] by (simp add: case_prod_beta)
qed

subsection \<open>Two-step handover of an authority\<close>

datatype handover_op = Propose "pubkey option" | Accept pubkey

locale handover =
  fixes current :: "'s \<Rightarrow> pubkey" and pending :: "'s \<Rightarrow> pubkey option"
    and propose :: "'s \<Rightarrow> pubkey option \<Rightarrow> 's result" and accept :: "'s \<Rightarrow> pubkey \<Rightarrow> 's result"
  assumes propose: "propose s c = Inr s' \<Longrightarrow>
      current s' = current s \<and> pending s' = c \<and> c \<noteq> Some 0 \<and> c \<noteq> Some (current s)"
    and accept: "accept s k = Inr s' \<Longrightarrow> pending s = Some k \<and> current s' = k \<and> pending s' = None"
begin

fun handover_step :: "'s \<Rightarrow> handover_op \<Rightarrow> 's result" where
  "handover_step s (Propose c) = propose s c"
| "handover_step s (Accept k) = accept s k"

abbreviation nonzero_authority :: "'s \<Rightarrow> bool" where
  "nonzero_authority s \<equiv> current s \<noteq> 0 \<and> pending s \<noteq> Some 0"

lemma handover_step_nonzero:
  "nonzero_authority s \<Longrightarrow> handover_step s p = Inr s' \<Longrightarrow> nonzero_authority s'"
  by (cases p) (auto dest!: propose accept)

lemma current_changes_by_acceptance:
  "handover_step s p = Inr s' \<Longrightarrow> current s' \<noteq> current s \<Longrightarrow> \<exists>k. p = Accept k \<and> pending s = Some k \<and> current s' = k"
  by (cases p) (auto dest!: propose accept)

end

sublocale handover \<subseteq> handover_machine: guarded_machine handover_step nonzero_authority
  by unfold_locales (rule handover_step_nonzero)

end
