(* ===== verification/Accounting.thy ===== *)
theory Accounting
  imports Fixed_Point Interfaces
begin

text \<open>
  The methods that \<^verbatim>\<open>state.rs\<close> attaches to its accounts: the liquidity of a \<^verbatim>\<open>Deposit\<close>, the principal
  of a \<^verbatim>\<open>StakePosition\<close>, the floor of a \<^verbatim>\<open>DepositCurrency\<close> and the life cycle of a \<^verbatim>\<open>DisputeIntent\<close>. The
  first two implement the contract \<open>settling_pool\<close>; the last is a state machine whose reachable states
  are described by rule induction. A method that takes \<^verbatim>\<open>&mut self\<close> returns the updated record.
\<close>

subsection \<open>Deposit\<close>

definition Deposit_total_liquidity :: "Deposit \<Rightarrow> u64 option" where
  "Deposit_total_liquidity d = checked_add (d_remaining_deposits d) (d_outstanding_intent_amount d)"

definition Deposit_lock :: "Deposit \<Rightarrow> u64 \<Rightarrow> u16 \<Rightarrow> Deposit result" where
  "Deposit_lock d amount maximum_intents =
     require (d_accepting_intents d) DepositNotAcceptingIntents (
     require (amount \<ge> ar_min (d_intent_amount_range d)) AmountBelowMinimum (
     require (amount \<le> ar_max (d_intent_amount_range d)) AmountAboveMaximum (
     require (d_remaining_deposits d \<ge> amount) InsufficientBalance (
     and_then (ok_or (checked_add (d_active_intents d) 1) ArithmeticOverflow) (\<lambda>new_count.
     require (new_count \<le> maximum_intents) MaximumIntentsExceeded (
     and_then (ok_or (checked_sub (d_remaining_deposits d) amount) ArithmeticOverflow) (\<lambda>remaining.
     and_then (ok_or (checked_add (d_outstanding_intent_amount d) amount) ArithmeticOverflow) (\<lambda>outstanding.
     Inr (d\<lparr>d_remaining_deposits := remaining, d_outstanding_intent_amount := outstanding,
            d_active_intents := new_count\<rparr>)))))))))"

definition Deposit_unlock :: "Deposit \<Rightarrow> u64 \<Rightarrow> Deposit result" where
  "Deposit_unlock d amount =
     and_then (ok_or (checked_sub (d_outstanding_intent_amount d) amount) ArithmeticOverflow) (\<lambda>outstanding.
     and_then (ok_or (checked_add (d_remaining_deposits d) amount) ArithmeticOverflow) (\<lambda>remaining.
     and_then (ok_or (checked_sub (d_active_intents d) 1) ArithmeticOverflow) (\<lambda>count.
     Inr (d\<lparr>d_outstanding_intent_amount := outstanding, d_remaining_deposits := remaining,
            d_active_intents := count\<rparr>))))"

definition Deposit_settle :: "Deposit \<Rightarrow> u64 \<Rightarrow> u64 \<Rightarrow> Deposit result" where
  "Deposit_settle d locked_amount release_amount =
     require (release_amount > 0) ZeroValue (
     require (release_amount \<le> locked_amount) AmountAboveMaximum (
     and_then (ok_or (checked_sub (d_outstanding_intent_amount d) locked_amount) ArithmeticOverflow) (\<lambda>outstanding.
     and_then (ok_or (checked_sub locked_amount release_amount) ArithmeticOverflow) (\<lambda>remainder.
     and_then (ok_or (checked_add (d_remaining_deposits d) remainder) ArithmeticOverflow) (\<lambda>remaining.
     and_then (ok_or (checked_sub (d_active_intents d) 1) ArithmeticOverflow) (\<lambda>count.
     Inr (d\<lparr>d_outstanding_intent_amount := outstanding, d_remaining_deposits := remaining,
            d_active_intents := count\<rparr>)))))))"

definition deposit_ok :: "Deposit \<Rightarrow> bool" where
  "deposit_ok d \<longleftrightarrow> unat (d_remaining_deposits d) + unat (d_outstanding_intent_amount d) < 2 ^ 64"

abbreviation deposit_avail :: "Deposit \<Rightarrow> nat" where
  "deposit_avail d \<equiv> unat (d_remaining_deposits d)"

abbreviation deposit_held :: "Deposit \<Rightarrow> nat" where
  "deposit_held d \<equiv> unat (d_outstanding_intent_amount d)"

lemma Deposit_total_liquidity_Some:
  "deposit_ok d \<longleftrightarrow> (\<exists>t. Deposit_total_liquidity d = Some t \<and> unat t = deposit_avail d + deposit_held d)"
proof
  assume "deposit_ok d"
  then show "\<exists>t. Deposit_total_liquidity d = Some t \<and> unat t = deposit_avail d + deposit_held d"
    using checked_add_ex [of "d_remaining_deposits d" "d_outstanding_intent_amount d"]
    by (simp add: deposit_ok_def Deposit_total_liquidity_def)
next
  assume "\<exists>t. Deposit_total_liquidity d = Some t \<and> unat t = deposit_avail d + deposit_held d"
  then obtain t :: u64 where "unat t = deposit_avail d + deposit_held d" by blast
  with unat_bound [of t] show "deposit_ok d" by (simp add: deposit_ok_def)
qed

text \<open>What a successful call of each method changes; every other field is untouched.\<close>

definition deposit_moved :: "Deposit \<Rightarrow> Deposit \<Rightarrow> bool" where
  "deposit_moved d d' \<longleftrightarrow>
     d' = d\<lparr>d_remaining_deposits := d_remaining_deposits d',
            d_outstanding_intent_amount := d_outstanding_intent_amount d',
            d_active_intents := d_active_intents d'\<rparr>"

lemma deposit_moved_fields:
  assumes "deposit_moved d d'"
  shows "d_escrow_config d' = d_escrow_config d" "d_id d' = d_id d" "d_depositor d' = d_depositor d"
    "d_token_mint d' = d_token_mint d" "d_bump d' = d_bump d" "d_rate_manager d' = d_rate_manager d"
    "d_vault_authority_bump d' = d_vault_authority_bump d"
  by (subst assms [unfolded deposit_moved_def], simp)+

lemma Deposit_lock_Inr:
  assumes "Deposit_lock d a m = Inr d'"
  shows "d_accepting_intents d" "ar_min (d_intent_amount_range d) \<le> a" "a \<le> ar_max (d_intent_amount_range d)"
    "deposit_avail d = deposit_avail d' + unat a" "deposit_held d' = deposit_held d + unat a"
    "unat (d_active_intents d') = unat (d_active_intents d) + 1" "d_active_intents d' \<le> m"
    "deposit_moved d d'"
  using assms by (auto simp: Deposit_lock_def deposit_moved_def result_simps checked_simps)

lemma Deposit_unlock_Inr:
  assumes "Deposit_unlock d a = Inr d'"
  shows "deposit_held d = deposit_held d' + unat a" "deposit_avail d' = deposit_avail d + unat a"
    "unat (d_active_intents d) = unat (d_active_intents d') + 1" "deposit_moved d d'"
  using assms by (auto simp: Deposit_unlock_def deposit_moved_def result_simps checked_simps)

lemma Deposit_settle_Inr:
  assumes "Deposit_settle d l r = Inr d'"
  shows "0 < unat r" "unat r \<le> unat l" "deposit_held d = deposit_held d' + unat l"
    "deposit_avail d' + unat r = deposit_avail d + unat l"
    "unat (d_active_intents d) = unat (d_active_intents d') + 1" "deposit_moved d d'"
  using assms by (auto simp: Deposit_settle_def deposit_moved_def result_simps checked_simps)

interpretation deposit_pool: settling_pool deposit_ok deposit_avail deposit_held
  "\<lambda>d a. Deposit_lock d a m" Deposit_unlock Deposit_settle for m :: u16
proof unfold_locales
  fix d d' a
  assume "deposit_ok d" and "Deposit_lock d a m = Inr d'"
  with Deposit_lock_Inr [OF this(2)]
  show "deposit_ok d' \<and> deposit_avail d = deposit_avail d' + unat a \<and>
      deposit_held d' = deposit_held d + unat a"
    by (simp add: deposit_ok_def)
next
  fix d d' a
  assume "deposit_ok d" and "Deposit_unlock d a = Inr d'"
  with Deposit_unlock_Inr [OF this(2)]
  show "deposit_ok d' \<and> deposit_held d = deposit_held d' + unat a \<and>
      deposit_avail d' = deposit_avail d + unat a"
    by (simp add: deposit_ok_def)
next
  fix d d' l u
  assume "deposit_ok d" and "Deposit_settle d l u = Inr d'"
  with Deposit_settle_Inr [OF this(2)]
  show "deposit_ok d' \<and> unat u \<le> unat l \<and> deposit_held d = deposit_held d' + unat l \<and>
      deposit_avail d' + unat u = deposit_avail d + unat l"
    by (simp add: deposit_ok_def)
qed

text \<open>The methods that end a lock cannot fail while the lock is part of the outstanding amount.\<close>

lemma Deposit_unlock_succeeds:
  assumes "deposit_ok d" and "unat a \<le> deposit_held d" and "0 < unat (d_active_intents d)"
  shows "\<exists>d'. Deposit_unlock d a = Inr d'"
  using assms checked_sub_ex [of a "d_outstanding_intent_amount d"]
    checked_add_ex [of "d_remaining_deposits d" a] checked_sub_ex [of 1 "d_active_intents d"]
  by (fastforce simp: Deposit_unlock_def deposit_ok_def)

lemma Deposit_settle_succeeds:
  assumes "deposit_ok d" and "unat l \<le> deposit_held d" and "0 < unat (d_active_intents d)"
    and "0 < r" and "r \<le> l"
  shows "\<exists>d'. Deposit_settle d l r = Inr d'"
proof -
  have "unat r \<le> unat l" using assms(5) by (simp add: word_le_nat_alt)
  then obtain x where x: "checked_sub l r = Some x" "unat x = unat l - unat r"
    using checked_sub_ex by blast
  obtain h where h: "checked_sub (d_outstanding_intent_amount d) l = Some h"
    using checked_sub_ex assms(2) by blast
  have "deposit_avail d + unat x < 2 ^ 64" using x(2) assms(1,2) by (simp add: deposit_ok_def)
  then obtain y where y: "checked_add (d_remaining_deposits d) x = Some y"
    using checked_add_ex [of "d_remaining_deposits d" x] by auto
  obtain c where "checked_sub (d_active_intents d) 1 = Some c"
    using checked_sub_ex [of 1 "d_active_intents d"] assms(3) by auto
  with x h y assms(4,5) show ?thesis by (simp add: Deposit_settle_def)
qed

subsection \<open>StakePosition\<close>

definition StakePosition_free :: "StakePosition \<Rightarrow> u64 option" where
  "StakePosition_free p = checked_sub (sp_balance p) (sp_locked p)"

definition StakePosition_lock :: "StakePosition \<Rightarrow> u64 \<Rightarrow> StakePosition result" where
  "StakePosition_lock p amount =
     require (amount > 0) ZeroValue (
     and_then (ok_or (StakePosition_free p) ArithmeticOverflow) (\<lambda>free.
     require (free \<ge> amount) InsufficientFreeStake (
     and_then (ok_or (checked_add (sp_locked p) amount) ArithmeticOverflow) (\<lambda>locked.
     Inr (p\<lparr>sp_locked := locked\<rparr>)))))"

definition StakePosition_unlock :: "StakePosition \<Rightarrow> u64 \<Rightarrow> StakePosition result" where
  "StakePosition_unlock p amount =
     and_then (ok_or (checked_sub (sp_locked p) amount) ArithmeticOverflow) (\<lambda>locked.
     Inr (p\<lparr>sp_locked := locked\<rparr>))"

definition StakePosition_resolve :: "StakePosition \<Rightarrow> u64 \<Rightarrow> u64 \<Rightarrow> StakePosition result" where
  "StakePosition_resolve p lock_amount claims_amount =
     require (claims_amount \<le> lock_amount) ClaimsExceedLock (
     and_then (StakePosition_unlock p lock_amount) (\<lambda>p.
     and_then (ok_or (checked_sub (sp_balance p) claims_amount) ArithmeticOverflow) (\<lambda>balance.
     Inr (p\<lparr>sp_balance := balance\<rparr>))))"

definition position_ok :: "StakePosition \<Rightarrow> bool" where
  "position_ok p \<longleftrightarrow> unat (sp_locked p) \<le> unat (sp_balance p)"

abbreviation position_avail :: "StakePosition \<Rightarrow> nat" where
  "position_avail p \<equiv> unat (sp_balance p) - unat (sp_locked p)"

abbreviation position_held :: "StakePosition \<Rightarrow> nat" where
  "position_held p \<equiv> unat (sp_locked p)"

lemma StakePosition_lock_Inr:
  assumes "StakePosition_lock p a = Inr p'"
  shows "0 < unat a" "unat (sp_locked p') = unat (sp_locked p) + unat a" "position_ok p'"
    "p' = p\<lparr>sp_locked := sp_locked p'\<rparr>"
  using assms
  by (auto simp: StakePosition_lock_def StakePosition_free_def position_ok_def result_simps
      checked_simps word_le_nat_alt)

lemma StakePosition_unlock_Inr:
  assumes "StakePosition_unlock p a = Inr p'"
  shows "unat (sp_locked p) = unat (sp_locked p') + unat a" "p' = p\<lparr>sp_locked := sp_locked p'\<rparr>"
  using assms by (auto simp: StakePosition_unlock_def result_simps checked_simps)

lemma StakePosition_resolve_Inr:
  assumes "StakePosition_resolve p l c = Inr p'"
  shows "unat c \<le> unat l" "unat (sp_locked p) = unat (sp_locked p') + unat l"
    "unat (sp_balance p) = unat (sp_balance p') + unat c"
    "p' = p\<lparr>sp_locked := sp_locked p', sp_balance := sp_balance p'\<rparr>"
  using assms
  by (auto simp: StakePosition_resolve_def StakePosition_unlock_def result_simps checked_simps
      word_le_nat_alt)

interpretation stake_pool: settling_pool position_ok position_avail position_held
  StakePosition_lock StakePosition_unlock StakePosition_resolve
proof unfold_locales
  fix p p' a
  assume "position_ok p" and lock: "StakePosition_lock p a = Inr p'"
  moreover have "sp_balance p' = sp_balance p" by (subst StakePosition_lock_Inr(4) [OF lock]) simp
  ultimately show "position_ok p' \<and> position_avail p = position_avail p' + unat a \<and>
      position_held p' = position_held p + unat a"
    using StakePosition_lock_Inr(1-3) [OF lock] by (simp add: position_ok_def)
next
  fix p p' a
  assume "position_ok p" and unlock: "StakePosition_unlock p a = Inr p'"
  moreover have "sp_balance p' = sp_balance p" by (subst StakePosition_unlock_Inr(2) [OF unlock]) simp
  ultimately show "position_ok p' \<and> position_held p = position_held p' + unat a \<and>
      position_avail p' = position_avail p + unat a"
    using StakePosition_unlock_Inr(1) [OF unlock] by (simp add: position_ok_def)
next
  fix p p' l u
  assume "position_ok p" and "StakePosition_resolve p l u = Inr p'"
  with StakePosition_resolve_Inr(1-3) [OF this(2)]
  show "position_ok p' \<and> unat u \<le> unat l \<and> position_held p = position_held p' + unat l \<and>
      position_avail p' + unat u = position_avail p + unat l"
    by (simp add: position_ok_def)
qed

subsection \<open>DepositCurrency\<close>

definition DepositCurrency_escrow_floor :: "DepositCurrency \<Rightarrow> OracleQuote option \<Rightarrow> i64 \<Rightarrow> u128 result" where
  "DepositCurrency_escrow_floor c quote now =
     (if \<not> dc_listed c then Inr 0
      else case dc_oracle_quote c of
        None \<Rightarrow> Inr (max (dc_fixed_min_rate c) 0)
      | Some _ \<Rightarrow>
          and_then (ok_or quote InvalidOracleQuote) (\<lambda>oracle.
          if \<not> oq_valid oracle \<or> oq_market_rate oracle = 0 \<or> sint (oq_updated_at oracle) \<le> 0
             \<or> sint (oq_updated_at oracle) > sint now
          then Inr 0
          else and_then (ok_or (checked_ssub now (oq_updated_at oracle)) ArithmeticOverflow) (\<lambda>age.
            if sint age > int (unat (dc_max_staleness c)) then Inr 0
            else and_then (spread_rate_ceil (oq_market_rate oracle) (dc_spread_bps c)) (\<lambda>spread_rate.
              Inr (max (dc_fixed_min_rate c) spread_rate)))))"

definition quote_usable :: "OracleQuote \<Rightarrow> u32 \<Rightarrow> i64 \<Rightarrow> bool" where
  "quote_usable q staleness now \<longleftrightarrow>
     oq_valid q \<and> oq_market_rate q \<noteq> 0 \<and> 0 < sint (oq_updated_at q) \<and>
     sint (oq_updated_at q) \<le> sint now \<and> sint now - sint (oq_updated_at q) \<le> int (unat staleness)"

lemma checked_ssub_nonneg:
  assumes "0 < sint a" and "sint a \<le> sint b"
  shows "\<exists>c. checked_ssub b a = Some (c :: 'a::len word) \<and> sint c = sint b - sint a"
proof -
  have "checked_ssub b a = Some (b - a)" using assms sint_range [of b] by (auto simp: checked_ssub_def)
  then show ?thesis by (auto simp: checked_simps)
qed

lemma escrow_floor_halted:
  assumes "\<not> dc_listed c \<or> dc_oracle_quote c = Some k \<and> \<not> quote_usable q (dc_max_staleness c) now"
  shows "DepositCurrency_escrow_floor c (Some q) now = Inr 0"
proof (cases "dc_listed c \<and> oq_valid q \<and> oq_market_rate q \<noteq> 0 \<and> 0 < sint (oq_updated_at q) \<and>
    sint (oq_updated_at q) \<le> sint now")
  case True
  then obtain age where "checked_ssub now (oq_updated_at q) = Some age"
      "sint age = sint now - sint (oq_updated_at q)"
    using checked_ssub_nonneg by blast
  with assms True show ?thesis
    by (auto simp: DepositCurrency_escrow_floor_def quote_usable_def)
next
  case False
  with assms show ?thesis by (auto simp: DepositCurrency_escrow_floor_def)
qed

lemma escrow_floor_oracle:
  assumes "dc_listed c" and "dc_oracle_quote c = Some k" and "quote_usable q (dc_max_staleness c) now"
  shows "DepositCurrency_escrow_floor c (Some q) now =
    and_then (spread_rate_ceil (oq_market_rate q) (dc_spread_bps c)) (\<lambda>r. Inr (max (dc_fixed_min_rate c) r))"
proof -
  from assms(3) obtain age where "checked_ssub now (oq_updated_at q) = Some age"
      "sint age = sint now - sint (oq_updated_at q)"
    using checked_ssub_nonneg unfolding quote_usable_def by blast
  with assms show ?thesis by (auto simp: DepositCurrency_escrow_floor_def quote_usable_def)
qed

lemma escrow_floor_fixed:
  "dc_listed c \<Longrightarrow> dc_oracle_quote c = None \<Longrightarrow>
     DepositCurrency_escrow_floor c q now = Inr (dc_fixed_min_rate c)"
  by (simp add: DepositCurrency_escrow_floor_def max_def)

subsection \<open>DisputeIntent\<close>

definition DisputeIntent_cancel :: "DisputeIntent \<Rightarrow> DisputeIntent result" where
  "DisputeIntent_cancel d =
     require (di_status d = Pending) DisputeIntentNotPending (
     Inr (d\<lparr>di_status := Cancelled\<rparr>))"

definition DisputeIntent_settle :: "DisputeIntent \<Rightarrow> u64 \<Rightarrow> i64 \<Rightarrow> (DisputeIntent \<times> i64) result" where
  "DisputeIntent_settle d release_amount now =
     require (di_status d = Pending) DisputeIntentNotPending (
     require (release_amount > 0) ZeroValue (
     and_then (ok_or (checked_sadd now (di_risk_window d)) ArithmeticOverflow) (\<lambda>release_eligible_at.
     Inr (d\<lparr>di_release_amount := release_amount, di_release_eligible_at := release_eligible_at,
            di_status := Settled\<rparr>, release_eligible_at))))"

definition DisputeIntent_release :: "DisputeIntent \<Rightarrow> i64 \<Rightarrow> (DisputeIntent \<times> u64) result" where
  "DisputeIntent_release d now =
     require (di_status d = Settled) DisputeIntentNotSettled (
     require (sint now \<ge> sint (di_release_eligible_at d)) NotReleaseEligible (
     Inr (d\<lparr>di_status := Released\<rparr>, di_release_amount d)))"

definition DisputeIntent_dispute :: "DisputeIntent \<Rightarrow> (DisputeIntent \<times> u64) result" where
  "DisputeIntent_dispute d =
     require (di_status d = Settled) DisputeIntentNotSettled (
     Inr (d\<lparr>di_status := Disputed\<rparr>, di_release_amount d))"

inductive dispute_step :: "DisputeIntent \<Rightarrow> DisputeIntent \<Rightarrow> bool" where
  step_cancel: "DisputeIntent_cancel d = Inr d' \<Longrightarrow> dispute_step d d'"
| step_settle: "DisputeIntent_settle d a now = Inr (d', t) \<Longrightarrow> dispute_step d d'"
| step_release: "DisputeIntent_release d now = Inr (d', a) \<Longrightarrow> dispute_step d d'"
| step_dispute: "DisputeIntent_dispute d = Inr (d', a) \<Longrightarrow> dispute_step d d'"

lemmas dispute_method_defs = DisputeIntent_cancel_def DisputeIntent_settle_def
  DisputeIntent_release_def DisputeIntent_dispute_def

text \<open>Position in the life cycle: every step strictly advances, so no status is entered twice.\<close>

fun dispute_rank :: "DisputeStatus \<Rightarrow> nat" where
  "dispute_rank Pending = 0"
| "dispute_rank Settled = 1"
| "dispute_rank _ = 2"

lemma dispute_step_status:
  "dispute_step d d' \<Longrightarrow>
     (di_status d, di_status d') \<in> {(Pending, Cancelled), (Pending, Settled), (Settled, Released), (Settled, Disputed)}"
  by (cases rule: dispute_step.cases) (auto simp: dispute_method_defs result_simps)

lemma dispute_step_rank: "dispute_step d d' \<Longrightarrow> dispute_rank (di_status d) < dispute_rank (di_status d')"
  by (drule dispute_step_status) auto

definition dispute_terms :: "DisputeIntent \<Rightarrow> DisputeIntent" where
  "dispute_terms d = d\<lparr>di_status := Pending, di_release_eligible_at := 0, di_release_amount := 0\<rparr>"

end
