(* ===== verification/Token.thy ===== *)
theory Token
  imports Accounting
begin

text \<open>
  Account validation shared by the instruction contexts, and the token program. Anchor accepts an
  account with \<^verbatim>\<open>seeds\<close> only at the derived address, so such an account is looked up there; the
  \<^verbatim>\<open>bump = x.bump\<close> part of the attribute is \<open>seeds_bump\<close>. \<open>token_account\<close> renders the
  \<^verbatim>\<open>token::mint\<close>, \<^verbatim>\<open>token::authority\<close> and \<^verbatim>\<open>token::token_program\<close> attributes, \<open>init\<close> and
  \<open>init_if_needed\<close> the attributes of that name, and \<open>signed_by\<close> the check of the Solana runtime that a
  program-derived signer of a cross-program call is derived from the given seeds. \<open>token_laws\<close> states
  what the program relies on from the token program.
\<close>

definition seeds_bump :: "runtime \<Rightarrow> u8 list list \<Rightarrow> u8 \<Rightarrow> 'a result \<Rightarrow> 'a result" where
  "seeds_bump rt seeds b k = constraint (b = pda_bump rt seeds) ConstraintSeeds k"

definition init :: "'v option \<Rightarrow> 'a result \<Rightarrow> 'a result" where
  "init slot k = constraint (Option.is_none slot) AccountInUse k"

definition init_if_needed :: "'v option \<Rightarrow> 'v \<Rightarrow> 'v" where
  "init_if_needed slot zeroed = (case slot of None \<Rightarrow> zeroed | Some v \<Rightarrow> v)"

definition is_token_program :: "runtime \<Rightarrow> pubkey \<Rightarrow> bool" where
  "is_token_program rt token_program \<longleftrightarrow> token_program = spl_token_ID rt \<or> token_program = token_2022_ID rt"

definition token_interface :: "runtime \<Rightarrow> pubkey \<Rightarrow> 'a result \<Rightarrow> 'a result" where
  "token_interface rt token_program k = constraint (is_token_program rt token_program) InvalidProgramId k"

definition token_account :: "ledger \<Rightarrow> pubkey \<Rightarrow> pubkey \<Rightarrow> pubkey \<Rightarrow> pubkey \<Rightarrow> TokenAccount result" where
  "token_account ls key mint auth token_program =
     and_then (account (tokens ls key)) (\<lambda>t.
     constraint (tk_mint t = mint) ConstraintTokenMint (
     constraint (tk_owner t = auth) ConstraintTokenOwner (
     constraint (tk_program t = token_program) ConstraintTokenTokenProgram (
     Inr t))))"

definition mint_account :: "ledger \<Rightarrow> pubkey \<Rightarrow> Mint result" where
  "mint_account ls key = account (mints ls key)"

definition signed_by :: "runtime \<Rightarrow> u8 list list \<Rightarrow> u8 \<Rightarrow> pubkey \<Rightarrow> 'a result \<Rightarrow> 'a result" where
  "signed_by rt seeds b authority k =
     (if pda rt seeds = authority \<and> pda_bump rt seeds = b then k else Inl PrivilegeEscalation)"

text \<open>\<open>if_some x f s\<close> is \<^verbatim>\<open>if let Some(v) = x { f(v) }\<close> on the account being updated.\<close>

definition if_some :: "'a option \<Rightarrow> ('a \<Rightarrow> 's \<Rightarrow> 's result) \<Rightarrow> 's \<Rightarrow> 's result" where
  "if_some x f s = (case x of None \<Rightarrow> Inr s | Some v \<Rightarrow> f v s)"

text \<open>The amount of a token account after \<^verbatim>\<open>reload()\<close>.\<close>

definition reload_amount :: "token_store \<Rightarrow> pubkey \<Rightarrow> u64 result" where
  "reload_amount ts key = and_then (account (ts key)) (\<lambda>t. Inr (tk_amount t))"

lemma seeds_bump_Inr [result_simps]: "seeds_bump rt s b k = Inr y \<longleftrightarrow> b = pda_bump rt s \<and> k = Inr y"
  by (simp add: seeds_bump_def result_simps)

lemma init_Inr [result_simps]: "init slot k = Inr y \<longleftrightarrow> slot = None \<and> k = Inr y"
  by (auto simp: init_def result_simps Option.is_none_def)

lemma init_if_needed_simps [simp]:
  "init_if_needed None z = z"
  "init_if_needed (Some v) z = v"
  by (simp_all add: init_if_needed_def)

lemma token_interface_Inr [result_simps]:
  "token_interface rt tp k = Inr y \<longleftrightarrow> is_token_program rt tp \<and> k = Inr y"
  by (simp add: token_interface_def result_simps)

lemma token_account_Inr [result_simps]:
  "token_account ls key mint auth tp = Inr t \<longleftrightarrow>
     tokens ls key = Some t \<and> tk_mint t = mint \<and> tk_owner t = auth \<and> tk_program t = tp"
  by (auto simp: token_account_def result_simps)

lemma mint_account_Inr [result_simps]: "mint_account ls key = Inr m \<longleftrightarrow> mints ls key = Some m"
  by (simp add: mint_account_def result_simps)

lemma signed_by_Inr [result_simps]:
  "signed_by rt s b k c = Inr y \<longleftrightarrow> pda rt s = k \<and> pda_bump rt s = b \<and> c = Inr y"
  by (auto simp: signed_by_def)

lemma reload_amount_Inr [result_simps]:
  "reload_amount ts key = Inr a \<longleftrightarrow> (\<exists>t. ts key = Some t \<and> tk_amount t = a)"
  by (auto simp: reload_amount_def result_simps)

lemma if_some_simps [simp]:
  "if_some None f s = Inr s"
  "if_some (Some v) f s = f v s"
  by (simp_all add: if_some_def)

lemma seeds_bump_weak_cong [cong]: "b = b' \<Longrightarrow> seeds_bump rt s b k = seeds_bump rt s b' k"
  by simp

lemma init_weak_cong [cong]: "x = x' \<Longrightarrow> init x k = init x' k"
  by simp

lemma token_interface_weak_cong [cong]: "x = x' \<Longrightarrow> token_interface rt x k = token_interface rt x' k"
  by simp

lemma signed_by_weak_cong [cong]: "x = x' \<Longrightarrow> signed_by rt s b x k = signed_by rt s b x' k"
  by simp

subsection \<open>What the program relies on from the token program\<close>

text \<open>
  A transfer debits the source by exactly the amount, credits the destination by at most the amount
  (a Token-2022 mint may withhold a fee) and touches nothing else; authority, mint and program of an
  account never change. A transfer of an account to itself moves nothing. A new token account is empty
  and carries the requested mint and authority; closing removes an empty account.
\<close>

definition token_moved :: "token_store \<Rightarrow> token_store \<Rightarrow> pubkey \<Rightarrow> pubkey \<Rightarrow> u64 \<Rightarrow> bool" where
  "token_moved ts ts' from to amount \<longleftrightarrow>
     (if from = to then ts' = ts
      else \<exists>f t a b. ts from = Some f \<and> ts to = Some t \<and>
        ts' = ts(from \<mapsto> f\<lparr>tk_amount := a\<rparr>, to \<mapsto> t\<lparr>tk_amount := b\<rparr>) \<and>
        unat (tk_amount f) = unat a + unat amount \<and>
        unat (tk_amount t) \<le> unat b \<and> unat b \<le> unat (tk_amount t) + unat amount)"

definition transfer_law :: "runtime \<Rightarrow> bool" where
  "transfer_law rt \<longleftrightarrow>
     (\<forall>tp ts from mint to auth amount decimals ts'.
        transfer_checked rt tp ts from mint to auth amount decimals = Inr ts' \<longrightarrow>
        token_moved ts ts' from to amount)"

definition initialize_law :: "runtime \<Rightarrow> bool" where
  "initialize_law rt \<longleftrightarrow>
     (\<forall>tp ts key mint auth ts'. initialize_account rt tp ts key mint auth = Inr ts' \<longrightarrow>
        ts key = None \<and>
        ts' = ts(key \<mapsto> \<lparr>tk_program = tp, tk_mint = mint, tk_owner = auth, tk_amount = 0\<rparr>))"

definition close_law :: "runtime \<Rightarrow> bool" where
  "close_law rt \<longleftrightarrow>
     (\<forall>tp ts key dest auth ts'. close_account rt tp ts key dest auth = Inr ts' \<longrightarrow>
        (\<exists>t. ts key = Some t \<and> tk_amount t = 0) \<and> ts' = ts(key := None))"

definition token_laws :: "runtime \<Rightarrow> bool" where
  "token_laws rt \<longleftrightarrow> transfer_law rt \<and> initialize_law rt \<and> close_law rt"

lemma transfer_moved:
  "token_laws rt \<Longrightarrow> transfer_checked rt tp ts from mint to auth amount decimals = Inr ts' \<Longrightarrow>
     token_moved ts ts' from to amount"
  unfolding token_laws_def transfer_law_def by blast

lemma initialize_fresh:
  "token_laws rt \<Longrightarrow> initialize_account rt tp ts key mint auth = Inr ts' \<Longrightarrow>
     ts key = None \<and> ts' = ts(key \<mapsto> \<lparr>tk_program = tp, tk_mint = mint, tk_owner = auth, tk_amount = 0\<rparr>)"
  unfolding token_laws_def initialize_law_def by blast

lemma close_empties:
  "token_laws rt \<Longrightarrow> close_account rt tp ts key dest auth = Inr ts' \<Longrightarrow>
     (\<exists>t. ts key = Some t \<and> tk_amount t = 0) \<and> ts' = ts(key := None)"
  unfolding token_laws_def close_law_def by blast

text \<open>How a transfer looks to an account that is not its source: identity is kept and the balance can
  only grow.\<close>

definition token_grows :: "token_store \<Rightarrow> token_store \<Rightarrow> pubkey \<Rightarrow> bool" where
  "token_grows ts ts' k \<longleftrightarrow>
     (\<forall>t. ts k = Some t \<longrightarrow> (\<exists>t'. ts' k = Some t' \<and> t' = t\<lparr>tk_amount := tk_amount t'\<rparr> \<and>
        unat (tk_amount t) \<le> unat (tk_amount t')))"

lemma token_grows_refl [simp]: "token_grows ts ts k"
  by (auto simp: token_grows_def)

lemma token_grows_trans: "token_grows ts ts' k \<Longrightarrow> token_grows ts' ts'' k \<Longrightarrow> token_grows ts ts'' k"
  unfolding token_grows_def
proof (intro allI impI)
  fix t
  assume 1: "\<forall>t. ts k = Some t \<longrightarrow> (\<exists>t'. ts' k = Some t' \<and> t' = t\<lparr>tk_amount := tk_amount t'\<rparr> \<and>
      unat (tk_amount t) \<le> unat (tk_amount t'))"
    and 2: "\<forall>t. ts' k = Some t \<longrightarrow> (\<exists>t'. ts'' k = Some t' \<and> t' = t\<lparr>tk_amount := tk_amount t'\<rparr> \<and>
      unat (tk_amount t) \<le> unat (tk_amount t'))"
    and "ts k = Some t"
  then obtain t' where t': "ts' k = Some t'" "t' = t\<lparr>tk_amount := tk_amount t'\<rparr>"
      "unat (tk_amount t) \<le> unat (tk_amount t')" by blast
  with 2 obtain t'' where t'': "ts'' k = Some t''" "t'' = t'\<lparr>tk_amount := tk_amount t''\<rparr>"
      "unat (tk_amount t') \<le> unat (tk_amount t'')" by blast
  have "t'' = t\<lparr>tk_amount := tk_amount t''\<rparr>"
    by (subst t''(2), subst t'(2)) simp
  with t' t'' show "\<exists>t'. ts'' k = Some t' \<and> t' = t\<lparr>tk_amount := tk_amount t'\<rparr> \<and>
      unat (tk_amount t) \<le> unat (tk_amount t')" by auto
qed

lemma token_moved_grows: "token_moved ts ts' from to amount \<Longrightarrow> k \<noteq> from \<Longrightarrow> token_grows ts ts' k"
  by (auto simp: token_moved_def token_grows_def split: if_splits)

lemma token_moved_other:
  "token_moved ts ts' from to amount \<Longrightarrow> k \<noteq> from \<Longrightarrow> k \<noteq> to \<Longrightarrow> ts' k = ts k"
  by (auto simp: token_moved_def split: if_splits)

lemma token_moved_source:
  assumes "token_moved ts ts' from to amount" and "from \<noteq> to" and "ts from = Some f"
  obtains f' where "ts' from = Some f'" "f' = f\<lparr>tk_amount := tk_amount f'\<rparr>"
    "unat (tk_amount f) = unat (tk_amount f') + unat amount"
  using assms by (auto simp: token_moved_def split: if_splits)

end
