(* ===== verification/Stake.thy ===== *)
theory Stake
  imports Token
begin

text \<open>
  \<^verbatim>\<open>src/programs/zkp2p_solana/src/instructions/stake.rs\<close>: custody of stake principal, delegation of
  stake to takers, and the locks a controller places on principal and resolves into claims. One
  definition per handler, with the account validation of its context; arguments are the accounts whose
  address the context does not derive, then the instruction data. The accounting
  invariant of the vault is in \<open>Stake_Books\<close>, its preservation in \<open>Stake_Invariant\<close>.
\<close>

subsection \<open>Addresses\<close>

definition position_seeds :: "runtime \<Rightarrow> pubkey \<Rightarrow> u8 list list" where
  "position_seeds rt owner = [STAKE_POSITION_SEED, key_bytes (stake_vault_config_key rt), key_bytes owner]"

definition position_key :: "runtime \<Rightarrow> pubkey \<Rightarrow> pubkey" where
  "position_key rt owner = pda rt (position_seeds rt owner)"

definition stake_token_vault_key :: "runtime \<Rightarrow> pubkey" where
  "stake_token_vault_key rt = pda rt [STAKE_TOKEN_VAULT_SEED, key_bytes (stake_vault_config_key rt)]"

definition claim_seeds :: "runtime \<Rightarrow> pubkey \<Rightarrow> u8 list list" where
  "claim_seeds rt beneficiary = [CLAIM_BALANCE_SEED, key_bytes (stake_vault_config_key rt), key_bytes beneficiary]"

definition claim_key :: "runtime \<Rightarrow> pubkey \<Rightarrow> pubkey" where
  "claim_key rt beneficiary = pda rt (claim_seeds rt beneficiary)"

definition authorization_seeds :: "pubkey \<Rightarrow> pubkey \<Rightarrow> u8 list list" where
  "authorization_seeds stake_owner taker = [TAKER_AUTHORIZATION_SEED, key_bytes stake_owner, key_bytes taker]"

definition authorization_key :: "runtime \<Rightarrow> pubkey \<Rightarrow> pubkey \<Rightarrow> pubkey" where
  "authorization_key rt stake_owner taker = pda rt (authorization_seeds stake_owner taker)"

definition selection_seeds :: "pubkey \<Rightarrow> u8 list list" where
  "selection_seeds taker = [STAKE_SELECTION_SEED, key_bytes taker]"

definition selection_key :: "runtime \<Rightarrow> pubkey \<Rightarrow> pubkey" where
  "selection_key rt taker = pda rt (selection_seeds taker)"

definition stake_lock_seeds :: "runtime \<Rightarrow> bytes32 \<Rightarrow> u8 list list" where
  "stake_lock_seeds rt lock_id = [STAKE_LOCK_SEED, key_bytes (stake_vault_config_key rt), key_bytes lock_id]"

definition stake_lock_key :: "runtime \<Rightarrow> bytes32 \<Rightarrow> pubkey" where
  "stake_lock_key rt lock_id = pda rt (stake_lock_seeds rt lock_id)"

text \<open>The canonical vault account, and the zero-filled accounts that \<^verbatim>\<open>init_if_needed\<close> creates.\<close>

definition vault_account :: "runtime \<Rightarrow> ledger \<Rightarrow> StakeVaultConfig result" where
  "vault_account rt ls =
     and_then (account (stake_vault_config ls)) (\<lambda>vault.
     seeds_bump rt [STAKE_VAULT_CONFIG_SEED] (sv_bump vault) (Inr vault))"

lemma vault_account_Inr [result_simps]:
  "vault_account rt ls = Inr v \<longleftrightarrow>
     stake_vault_config ls = Some v \<and> sv_bump v = pda_bump rt [STAKE_VAULT_CONFIG_SEED]"
  by (auto simp: vault_account_def result_simps)

definition zero_position :: StakePosition where
  "zero_position = \<lparr>sp_vault = 0, sp_owner = 0, sp_balance = 0, sp_locked = 0, sp_bump = 0\<rparr>"

definition zero_authorization :: TakerAuthorization where
  "zero_authorization = \<lparr>ta_stake_owner = 0, ta_taker = 0, ta_authorized = False, ta_bump = 0\<rparr>"

definition zero_selection :: StakeSelection where
  "zero_selection = \<lparr>ss_taker = 0, ss_selected_owner = None, ss_bump = 0\<rparr>"

definition zero_claim :: ClaimBalance where
  "zero_claim = \<lparr>cb_vault = 0, cb_beneficiary = 0, cb_amount = 0, cb_bump = 0\<rparr>"

subsection \<open>Custody\<close>

definition handle_initialize_stake_token_vault :: "runtime \<Rightarrow> ledger \<Rightarrow> pubkey \<Rightarrow> ledger result" where
  "handle_initialize_stake_token_vault rt ls token_program =
     and_then (vault_account rt ls) (\<lambda>vault.
     and_then (mint_account ls (sv_stake_mint vault)) (\<lambda>mint.
     token_interface rt token_program (
     init (tokens ls (stake_token_vault_key rt)) (
     and_then (initialize_account rt token_program (tokens ls) (stake_token_vault_key rt)
                 (sv_stake_mint vault) (stake_vault_config_key rt)) (\<lambda>ts.
     Inr (ls\<lparr>tokens := ts\<rparr>))))))"

definition handle_deposit_stake :: "runtime \<Rightarrow> ledger \<Rightarrow> pubkey \<Rightarrow> pubkey \<Rightarrow> pubkey \<Rightarrow> u64 \<Rightarrow> ledger result" where
  "handle_deposit_stake rt ls owner owner_token token_program amount =
     and_then (vault_account rt ls) (\<lambda>vault.
     let position = init_if_needed (stake_positions ls (position_key rt owner)) zero_position in
     and_then (mint_account ls (sv_stake_mint vault)) (\<lambda>mint.
     and_then (token_account ls owner_token (sv_stake_mint vault) owner token_program) (\<lambda>_.
     and_then (token_account ls (stake_token_vault_key rt) (sv_stake_mint vault)
                 (stake_vault_config_key rt) token_program) (\<lambda>vault_token.
     token_interface rt token_program (
     require (amount > 0) ZeroValue (
     let balance_before = tk_amount vault_token in
     and_then (transfer_checked rt token_program (tokens ls) owner_token (sv_stake_mint vault)
                 (stake_token_vault_key rt) owner amount (mint_decimals mint)) (\<lambda>ts.
     and_then (reload_amount ts (stake_token_vault_key rt)) (\<lambda>balance.
     and_then (ok_or (checked_sub balance balance_before) InvalidTokenBalanceDelta) (\<lambda>received.
     require (received = amount) InvalidTokenBalanceDelta (
     let position = (if sp_owner position = 0
                     then position\<lparr>sp_vault := stake_vault_config_key rt, sp_owner := owner,
                                   sp_bump := pda_bump rt (position_seeds rt owner)\<rparr>
                     else position) in
     and_then (ok_or (checked_add (sp_balance position) amount) ArithmeticOverflow) (\<lambda>owner_balance.
     and_then (ok_or (checked_add (sv_total_staked vault) amount) ArithmeticOverflow) (\<lambda>total_staked.
     Inr (ls\<lparr>tokens := ts,
             stake_positions := (stake_positions ls)(position_key rt owner \<mapsto> position\<lparr>sp_balance := owner_balance\<rparr>),
             stake_vault_config := Some (vault\<lparr>sv_total_staked := total_staked\<rparr>)\<rparr>)))))))))))))"

definition handle_withdraw_stake :: "runtime \<Rightarrow> ledger \<Rightarrow> pubkey \<Rightarrow> pubkey \<Rightarrow> pubkey \<Rightarrow> u64 \<Rightarrow> ledger result" where
  "handle_withdraw_stake rt ls owner owner_token token_program amount =
     and_then (vault_account rt ls) (\<lambda>vault.
     and_then (account (stake_positions ls (position_key rt owner))) (\<lambda>position.
     seeds_bump rt (position_seeds rt owner) (sp_bump position) (
     constraint (sp_vault position = stake_vault_config_key rt) ConstraintHasOne (
     require (sp_owner position = owner) Unauthorized (
     and_then (mint_account ls (sv_stake_mint vault)) (\<lambda>mint.
     and_then (token_account ls (stake_token_vault_key rt) (sv_stake_mint vault)
                 (stake_vault_config_key rt) token_program) (\<lambda>_.
     and_then (token_account ls owner_token (sv_stake_mint vault) owner token_program) (\<lambda>_.
     token_interface rt token_program (
     require (amount > 0) ZeroValue (
     and_then (ok_or (StakePosition_free position) ArithmeticOverflow) (\<lambda>free.
     require (free \<ge> amount) InsufficientFreeStake (
     and_then (ok_or (checked_sub (sp_balance position) amount) ArithmeticOverflow) (\<lambda>balance.
     and_then (ok_or (checked_sub (sv_total_staked vault) amount) ArithmeticOverflow) (\<lambda>total_staked.
     signed_by rt [STAKE_VAULT_CONFIG_SEED] (sv_bump vault) (stake_vault_config_key rt) (
     and_then (transfer_checked rt token_program (tokens ls) (stake_token_vault_key rt) (sv_stake_mint vault)
                 owner_token (stake_vault_config_key rt) amount (mint_decimals mint)) (\<lambda>ts.
     Inr (ls\<lparr>tokens := ts,
             stake_positions := (stake_positions ls)(position_key rt owner \<mapsto> position\<lparr>sp_balance := balance\<rparr>),
             stake_vault_config := Some (vault\<lparr>sv_total_staked := total_staked\<rparr>)\<rparr>)))))))))))))))))"

definition handle_claim_stake :: "runtime \<Rightarrow> ledger \<Rightarrow> pubkey \<Rightarrow> pubkey \<Rightarrow> pubkey \<Rightarrow> ledger result" where
  "handle_claim_stake rt ls beneficiary beneficiary_token token_program =
     and_then (vault_account rt ls) (\<lambda>vault.
     and_then (account (claim_balances ls (claim_key rt beneficiary))) (\<lambda>claim.
     seeds_bump rt (claim_seeds rt beneficiary) (cb_bump claim) (
     constraint (cb_vault claim = stake_vault_config_key rt) ConstraintHasOne (
     require (cb_beneficiary claim = beneficiary) Unauthorized (
     and_then (mint_account ls (sv_stake_mint vault)) (\<lambda>mint.
     and_then (token_account ls (stake_token_vault_key rt) (sv_stake_mint vault)
                 (stake_vault_config_key rt) token_program) (\<lambda>_.
     and_then (token_account ls beneficiary_token (sv_stake_mint vault) beneficiary token_program) (\<lambda>_.
     token_interface rt token_program (
     let amount = cb_amount claim in
     require (amount > 0) ZeroValue (
     and_then (ok_or (checked_sub (sv_total_claimable vault) amount) ArithmeticOverflow) (\<lambda>total_claimable.
     signed_by rt [STAKE_VAULT_CONFIG_SEED] (sv_bump vault) (stake_vault_config_key rt) (
     and_then (transfer_checked rt token_program (tokens ls) (stake_token_vault_key rt) (sv_stake_mint vault)
                 beneficiary_token (stake_vault_config_key rt) amount (mint_decimals mint)) (\<lambda>ts.
     Inr (ls\<lparr>tokens := ts,
             claim_balances := (claim_balances ls)(claim_key rt beneficiary \<mapsto> claim\<lparr>cb_amount := 0\<rparr>),
             stake_vault_config := Some (vault\<lparr>sv_total_claimable := total_claimable\<rparr>)\<rparr>))))))))))))))"

subsection \<open>Delegation\<close>

definition handle_set_taker_authorization :: "runtime \<Rightarrow> ledger \<Rightarrow> pubkey \<Rightarrow> pubkey \<Rightarrow> bool \<Rightarrow> ledger result" where
  "handle_set_taker_authorization rt ls stake_owner taker authorized =
     (let authorization = init_if_needed (taker_authorizations ls (authorization_key rt stake_owner taker)) zero_authorization;
          selection = init_if_needed (stake_selections ls (selection_key rt taker)) zero_selection in
      require (taker \<noteq> 0 \<and> taker \<noteq> stake_owner) ZeroAddress (
      let authorization = (if ta_stake_owner authorization = 0
                           then authorization\<lparr>ta_stake_owner := stake_owner, ta_taker := taker,
                                              ta_bump := pda_bump rt (authorization_seeds stake_owner taker)\<rparr>
                           else authorization);
          authorization = authorization\<lparr>ta_authorized := authorized\<rparr>;
          selection = (if ss_taker selection = 0
                       then selection\<lparr>ss_taker := taker, ss_selected_owner := None,
                                      ss_bump := pda_bump rt (selection_seeds taker)\<rparr>
                       else selection);
          selection = (if \<not> authorized \<and> ss_selected_owner selection = Some stake_owner
                       then selection\<lparr>ss_selected_owner := None\<rparr> else selection) in
      Inr (ls\<lparr>taker_authorizations := (taker_authorizations ls)(authorization_key rt stake_owner taker \<mapsto> authorization),
              stake_selections := (stake_selections ls)(selection_key rt taker \<mapsto> selection)\<rparr>)))"

definition handle_select_stake_owner :: "runtime \<Rightarrow> ledger \<Rightarrow> pubkey \<Rightarrow> pubkey \<Rightarrow> ledger result" where
  "handle_select_stake_owner rt ls taker stake_owner =
     and_then (account (taker_authorizations ls (authorization_key rt stake_owner taker))) (\<lambda>authorization.
     seeds_bump rt (authorization_seeds stake_owner taker) (ta_bump authorization) (
     require (ta_stake_owner authorization = stake_owner) UnauthorizedStakeOwner (
     require (ta_taker authorization = taker) UnauthorizedStakeOwner (
     require (ta_authorized authorization) UnauthorizedStakeOwner (
     let selection = init_if_needed (stake_selections ls (selection_key rt taker)) zero_selection in
     require (stake_owner \<noteq> 0 \<and> stake_owner \<noteq> taker) ZeroAddress (
     let selection = (if ss_taker selection = 0
                      then selection\<lparr>ss_taker := taker, ss_bump := pda_bump rt (selection_seeds taker)\<rparr>
                      else selection) in
     Inr (ls\<lparr>stake_selections := (stake_selections ls)(selection_key rt taker \<mapsto>
               selection\<lparr>ss_selected_owner := Some stake_owner\<rparr>)\<rparr>)))))))"

definition handle_clear_stake_owner :: "runtime \<Rightarrow> ledger \<Rightarrow> pubkey \<Rightarrow> ledger result" where
  "handle_clear_stake_owner rt ls taker =
     and_then (account (stake_selections ls (selection_key rt taker))) (\<lambda>selection.
     seeds_bump rt (selection_seeds taker) (ss_bump selection) (
     require (ss_taker selection = taker) Unauthorized (
     Inr (ls\<lparr>stake_selections := (stake_selections ls)(selection_key rt taker \<mapsto>
               selection\<lparr>ss_selected_owner := None\<rparr>)\<rparr>))))"

subsection \<open>Controller locks\<close>

record ControllerLockArgs =
  cla_lock_id :: bytes32
  cla_amount :: u64
  cla_matures_at :: i64

definition new_stake_lock :: "runtime \<Rightarrow> bytes32 \<Rightarrow> pubkey \<Rightarrow> u64 \<Rightarrow> i64 \<Rightarrow> StakeLock" where
  "new_stake_lock rt lock_id stake_owner amount matures_at =
     \<lparr>sl_vault = stake_vault_config_key rt, sl_id = lock_id, sl_stake_owner = stake_owner,
      sl_amount = amount, sl_matures_at = matures_at, sl_bump = pda_bump rt (stake_lock_seeds rt lock_id)\<rparr>"

definition handle_controller_lock_stake :: "runtime \<Rightarrow> ledger \<Rightarrow> pubkey \<Rightarrow> pubkey \<Rightarrow> ControllerLockArgs \<Rightarrow> ledger result" where
  "handle_controller_lock_stake rt ls controller stake_owner args =
     and_then (vault_account rt ls) (\<lambda>vault.
     constraint (controller = sv_controller vault) ConstraintAddress (
     and_then (account (stake_positions ls (position_key rt stake_owner))) (\<lambda>position.
     seeds_bump rt (position_seeds rt stake_owner) (sp_bump position) (
     require (sp_owner position = stake_owner) UnauthorizedStakeOwner (
     init (stake_locks ls (stake_lock_key rt (cla_lock_id args))) (
     require (cla_lock_id args \<noteq> 0) ZeroValue (
     require (sint (cla_matures_at args) > sint (unix_timestamp rt)) InvalidMaturity (
     and_then (StakePosition_lock position (cla_amount args)) (\<lambda>position.
     Inr (ls\<lparr>stake_positions := (stake_positions ls)(position_key rt stake_owner \<mapsto> position),
             stake_locks := (stake_locks ls)(stake_lock_key rt (cla_lock_id args) \<mapsto>
               new_stake_lock rt (cla_lock_id args) stake_owner (cla_amount args) (cla_matures_at args))\<rparr>))))))))))"

definition handle_controller_fund_lock ::
  "runtime \<Rightarrow> ledger \<Rightarrow> pubkey \<Rightarrow> pubkey \<Rightarrow> pubkey \<Rightarrow> pubkey \<Rightarrow> ControllerLockArgs \<Rightarrow> ledger result" where
  "handle_controller_fund_lock rt ls controller stake_owner controller_token token_program args =
     and_then (vault_account rt ls) (\<lambda>vault.
     constraint (controller = sv_controller vault) ConstraintAddress (
     let position = init_if_needed (stake_positions ls (position_key rt stake_owner)) zero_position in
     init (stake_locks ls (stake_lock_key rt (cla_lock_id args))) (
     and_then (mint_account ls (sv_stake_mint vault)) (\<lambda>mint.
     and_then (token_account ls controller_token (sv_stake_mint vault) controller token_program) (\<lambda>_.
     and_then (token_account ls (stake_token_vault_key rt) (sv_stake_mint vault)
                 (stake_vault_config_key rt) token_program) (\<lambda>vault_token.
     token_interface rt token_program (
     require (cla_lock_id args \<noteq> 0) ZeroValue (
     require (cla_amount args > 0) ZeroValue (
     require (sint (cla_matures_at args) > sint (unix_timestamp rt)) InvalidMaturity (
     let balance_before = tk_amount vault_token in
     and_then (transfer_checked rt token_program (tokens ls) controller_token (sv_stake_mint vault)
                 (stake_token_vault_key rt) controller (cla_amount args) (mint_decimals mint)) (\<lambda>ts.
     and_then (reload_amount ts (stake_token_vault_key rt)) (\<lambda>balance.
     require (checked_sub balance balance_before = Some (cla_amount args)) InvalidTokenBalanceDelta (
     let position = (if sp_owner position = 0
                     then position\<lparr>sp_vault := stake_vault_config_key rt, sp_owner := stake_owner,
                                   sp_bump := pda_bump rt (position_seeds rt stake_owner)\<rparr>
                     else position) in
     and_then (ok_or (checked_add (sp_balance position) (cla_amount args)) ArithmeticOverflow) (\<lambda>owner_balance.
     and_then (StakePosition_lock (position\<lparr>sp_balance := owner_balance\<rparr>) (cla_amount args)) (\<lambda>position.
     and_then (ok_or (checked_add (sv_total_staked vault) (cla_amount args)) ArithmeticOverflow) (\<lambda>total_staked.
     Inr (ls\<lparr>tokens := ts,
             stake_positions := (stake_positions ls)(position_key rt stake_owner \<mapsto> position),
             stake_locks := (stake_locks ls)(stake_lock_key rt (cla_lock_id args) \<mapsto>
               new_stake_lock rt (cla_lock_id args) stake_owner (cla_amount args) (cla_matures_at args)),
             stake_vault_config := Some (vault\<lparr>sv_total_staked := total_staked\<rparr>)\<rparr>)))))))))))))))))"

text \<open>The context \<^verbatim>\<open>ManageStakeLock\<close>: the controller's signature, the lock and its owner's position.\<close>

definition manage_stake_lock :: "runtime \<Rightarrow> ledger \<Rightarrow> pubkey \<Rightarrow> bytes32 \<Rightarrow> (StakePosition \<times> StakeLock) result" where
  "manage_stake_lock rt ls controller lock_id =
     and_then (vault_account rt ls) (\<lambda>vault.
     constraint (controller = sv_controller vault) ConstraintAddress (
     and_then (account (stake_locks ls (stake_lock_key rt lock_id))) (\<lambda>stake_lock.
     and_then (account (stake_positions ls (position_key rt (sl_stake_owner stake_lock)))) (\<lambda>position.
     seeds_bump rt (position_seeds rt (sl_stake_owner stake_lock)) (sp_bump position) (
     seeds_bump rt (stake_lock_seeds rt lock_id) (sl_bump stake_lock) (
     require (sl_id stake_lock = lock_id) LockNotFound (
     Inr (position, stake_lock))))))))"

definition handle_increase_stake_lock :: "runtime \<Rightarrow> ledger \<Rightarrow> pubkey \<Rightarrow> bytes32 \<Rightarrow> u64 \<Rightarrow> ledger result" where
  "handle_increase_stake_lock rt ls controller lock_id additional_amount =
     and_then (manage_stake_lock rt ls controller lock_id) (\<lambda>(position, stake_lock).
     require (additional_amount > 0) ZeroValue (
     require (sint (unix_timestamp rt) < sint (sl_matures_at stake_lock)) LockAlreadyMatured (
     and_then (StakePosition_lock position additional_amount) (\<lambda>position.
     and_then (ok_or (checked_add (sl_amount stake_lock) additional_amount) ArithmeticOverflow) (\<lambda>amount.
     Inr (ls\<lparr>stake_positions := (stake_positions ls)(position_key rt (sl_stake_owner stake_lock) \<mapsto> position),
             stake_locks := (stake_locks ls)(stake_lock_key rt lock_id \<mapsto> stake_lock\<lparr>sl_amount := amount\<rparr>)\<rparr>))))))"

definition handle_resize_stake_lock :: "runtime \<Rightarrow> ledger \<Rightarrow> pubkey \<Rightarrow> bytes32 \<Rightarrow> u64 \<Rightarrow> i64 \<Rightarrow> ledger result" where
  "handle_resize_stake_lock rt ls controller lock_id new_amount new_matures_at =
     and_then (manage_stake_lock rt ls controller lock_id) (\<lambda>(position, stake_lock).
     let now = unix_timestamp rt in
     require (sint now < sint (sl_matures_at stake_lock)) LockAlreadyMatured (
     require (new_amount > 0) ZeroValue (
     require (new_amount \<le> sl_amount stake_lock) AmountAboveMaximum (
     require (sint new_matures_at > sint now) InvalidMaturity (
     and_then (ok_or (checked_sub (sl_amount stake_lock) new_amount) ArithmeticOverflow) (\<lambda>unlocked.
     and_then (if unlocked > 0 then StakePosition_unlock position unlocked else Inr position) (\<lambda>position.
     Inr (ls\<lparr>stake_positions := (stake_positions ls)(position_key rt (sl_stake_owner stake_lock) \<mapsto> position),
             stake_locks := (stake_locks ls)(stake_lock_key rt lock_id \<mapsto>
               stake_lock\<lparr>sl_amount := new_amount, sl_matures_at := new_matures_at\<rparr>)\<rparr>))))))))"

definition handle_controller_unlock_stake :: "runtime \<Rightarrow> ledger \<Rightarrow> pubkey \<Rightarrow> bytes32 \<Rightarrow> ledger result" where
  "handle_controller_unlock_stake rt ls controller lock_id =
     and_then (manage_stake_lock rt ls controller lock_id) (\<lambda>(position, stake_lock).
     and_then (StakePosition_unlock position (sl_amount stake_lock)) (\<lambda>position.
     Inr (ls\<lparr>stake_positions := (stake_positions ls)(position_key rt (sl_stake_owner stake_lock) \<mapsto> position),
             stake_locks := (stake_locks ls)(stake_lock_key rt lock_id := None)\<rparr>)))"

subsection \<open>Claims\<close>

record StakeClaim =
  sc_beneficiary :: pubkey
  sc_amount :: u64

definition handle_initialize_claim_balance :: "runtime \<Rightarrow> ledger \<Rightarrow> pubkey \<Rightarrow> ledger result" where
  "handle_initialize_claim_balance rt ls beneficiary =
     and_then (vault_account rt ls) (\<lambda>vault.
     let claim = init_if_needed (claim_balances ls (claim_key rt beneficiary)) zero_claim in
     require (beneficiary \<noteq> 0) InvalidClaim (
     let claim = (if cb_beneficiary claim = 0
                  then \<lparr>cb_vault = stake_vault_config_key rt, cb_beneficiary = beneficiary, cb_amount = 0,
                        cb_bump = pda_bump rt (claim_seeds rt beneficiary)\<rparr>
                  else claim) in
     Inr (ls\<lparr>claim_balances := (claim_balances ls)(claim_key rt beneficiary \<mapsto> claim)\<rparr>)))"

text \<open>The first loop of the handler: every allocation is nonzero and names a new beneficiary; the result is
  the checked total. \<open>prior\<close> are the beneficiaries of the allocations before.\<close>

fun sum_claims :: "pubkey list \<Rightarrow> u64 \<Rightarrow> StakeClaim list \<Rightarrow> u64 result" where
  "sum_claims prior sofar [] = Inr sofar"
| "sum_claims prior sofar (allocation # rest) =
     require (sc_beneficiary allocation \<noteq> 0 \<and> sc_amount allocation > 0) InvalidClaim (
     require (sc_beneficiary allocation \<notin> set prior) InvalidClaim (
     and_then (ok_or (checked_add sofar (sc_amount allocation)) ArithmeticOverflow) (\<lambda>total.
     sum_claims (prior @ [sc_beneficiary allocation]) total rest)))"

text \<open>The second loop credits the prepared claim accounts; an account is its address and whether the
  transaction marks it writable.\<close>

fun credit_claims ::
  "runtime \<Rightarrow> (pubkey \<rightharpoonup> ClaimBalance) \<Rightarrow> (StakeClaim \<times> pubkey \<times> bool) list \<Rightarrow> (pubkey \<rightharpoonup> ClaimBalance) result" where
  "credit_claims rt cs [] = Inr cs"
| "credit_claims rt cs ((allocation, key, is_writable) # rest) =
     require is_writable Unauthorized (
     require (key = claim_key rt (sc_beneficiary allocation)) InvalidClaim (
     and_then (account (cs key)) (\<lambda>claim.
     require (cb_vault claim = stake_vault_config_key rt) InvalidClaim (
     require (cb_beneficiary claim = sc_beneficiary allocation) InvalidClaim (
     and_then (ok_or (checked_add (cb_amount claim) (sc_amount allocation)) ArithmeticOverflow) (\<lambda>amount.
     credit_claims rt (cs(key \<mapsto> claim\<lparr>cb_amount := amount\<rparr>)) rest))))))"

definition handle_resolve_stake_lock ::
  "runtime \<Rightarrow> ledger \<Rightarrow> pubkey \<Rightarrow> (pubkey \<times> bool) list \<Rightarrow> bytes32 \<Rightarrow> StakeClaim list \<Rightarrow> ledger result" where
  "handle_resolve_stake_lock rt ls controller remaining_accounts lock_id claims =
     and_then (vault_account rt ls) (\<lambda>vault.
     constraint (controller = sv_controller vault) ConstraintAddress (
     and_then (account (stake_locks ls (stake_lock_key rt lock_id))) (\<lambda>stake_lock.
     and_then (account (stake_positions ls (position_key rt (sl_stake_owner stake_lock)))) (\<lambda>position.
     seeds_bump rt (position_seeds rt (sl_stake_owner stake_lock)) (sp_bump position) (
     seeds_bump rt (stake_lock_seeds rt lock_id) (sl_bump stake_lock) (
     require (claims \<noteq> []) InvalidClaim (
     require (length claims = length remaining_accounts) ArrayLengthMismatch (
     and_then (sum_claims [] 0 claims) (\<lambda>total_claims.
     and_then (StakePosition_resolve position (sl_amount stake_lock) total_claims) (\<lambda>position.
     and_then (ok_or (checked_sub (sv_total_staked vault) total_claims) ArithmeticOverflow) (\<lambda>total_staked.
     and_then (ok_or (checked_add (sv_total_claimable vault) total_claims) ArithmeticOverflow) (\<lambda>total_claimable.
     and_then (credit_claims rt (claim_balances ls) (zip claims remaining_accounts)) (\<lambda>cs.
     Inr (ls\<lparr>stake_positions := (stake_positions ls)(position_key rt (sl_stake_owner stake_lock) \<mapsto> position),
             stake_locks := (stake_locks ls)(stake_lock_key rt lock_id := None),
             claim_balances := cs,
             stake_vault_config := Some (vault\<lparr>sv_total_staked := total_staked,
                                               sv_total_claimable := total_claimable\<rparr>)\<rparr>))))))))))))))"

end
