(* ===== verification/Stake_Books.thy ===== *)
theory Stake_Books
  imports Stake
begin

text \<open>
  The books of the stake vault: the two totals of the vault account are the sums of the owners'
  balances and of the beneficiaries' claims, the locked part of every position is the sum of the locks
  on it and never exceeds its balance, a position lies at the address derived from its owner, and the custody account holds at least both totals. The lemmas
  \<open>books_*\<close> cover the shapes of change that the stake and dispute instructions make; the lemmas
  \<open>*_stake_inv\<close> apply them to the handlers.
\<close>

definition locks_on :: "runtime \<Rightarrow> (pubkey \<rightharpoonup> StakeLock) \<Rightarrow> pubkey \<Rightarrow> nat" where
  "locks_on rt lks k = msum (\<lambda>l. if position_key rt (sl_stake_owner l) = k then unat (sl_amount l) else 0) lks"

abbreviation balance :: "StakePosition \<Rightarrow> nat" where
  "balance p \<equiv> unat (sp_balance p)"

abbreviation locked :: "StakePosition \<Rightarrow> nat" where
  "locked p \<equiv> unat (sp_locked p)"

abbreviation claimed :: "ClaimBalance \<Rightarrow> nat" where
  "claimed c \<equiv> unat (cb_amount c)"

definition stake_books ::
  "runtime \<Rightarrow> StakeVaultConfig \<Rightarrow> (pubkey \<rightharpoonup> StakePosition) \<Rightarrow> (pubkey \<rightharpoonup> StakeLock) \<Rightarrow> (pubkey \<rightharpoonup> ClaimBalance) \<Rightarrow> bool" where
  "stake_books rt v ps lks cs \<longleftrightarrow>
     unat (sv_total_staked v) = msum balance ps \<and>
     unat (sv_total_claimable v) = msum claimed cs \<and>
     (\<forall>k. at locked ps k = locks_on rt lks k) \<and>
     (\<forall>k p. ps k = Some p \<longrightarrow> position_ok p \<and> position_key rt (sp_owner p) = k)"

definition vault_covered :: "runtime \<Rightarrow> StakeVaultConfig \<Rightarrow> token_store \<Rightarrow> bool" where
  "vault_covered rt v ts \<longleftrightarrow>
     unat (sv_total_staked v) + unat (sv_total_claimable v)
       \<le> at (\<lambda>t. unat (tk_amount t)) ts (stake_token_vault_key rt)"

definition stake_inv :: "runtime \<Rightarrow> ledger \<Rightarrow> bool" where
  "stake_inv rt ls \<longleftrightarrow>
     (stake_vault_config ls = None \<longrightarrow>
        stake_positions ls = Map.empty \<and> stake_locks ls = Map.empty \<and> claim_balances ls = Map.empty) \<and>
     (\<forall>v. stake_vault_config ls = Some v \<longrightarrow>
        stake_books rt v (stake_positions ls) (stake_locks ls) (claim_balances ls) \<and>
        vault_covered rt v (tokens ls))"

lemma stake_inv_Some:
  "stake_vault_config ls = Some v \<Longrightarrow> stake_inv rt ls \<longleftrightarrow>
     stake_books rt v (stake_positions ls) (stake_locks ls) (claim_balances ls) \<and> vault_covered rt v (tokens ls)"
  by (simp add: stake_inv_def)

lemma stake_inv_cong:
  assumes "stake_vault_config ls' = stake_vault_config ls" "stake_positions ls' = stake_positions ls"
    "stake_locks ls' = stake_locks ls" "claim_balances ls' = claim_balances ls" "tokens ls' = tokens ls"
  shows "stake_inv rt ls' = stake_inv rt ls"
  using assms by (simp add: stake_inv_def)

subsection \<open>Sums of locks\<close>

lemma locks_on_put:
  "locks_on rt (lks(j \<mapsto> l)) k + at (\<lambda>l. if position_key rt (sl_stake_owner l) = k then unat (sl_amount l) else 0) lks j =
   locks_on rt lks k + (if position_key rt (sl_stake_owner l) = k then unat (sl_amount l) else 0)"
  unfolding locks_on_def by (rule msum_put)

lemma locks_on_drop:
  "locks_on rt (lks(j := None)) k + at (\<lambda>l. if position_key rt (sl_stake_owner l) = k then unat (sl_amount l) else 0) lks j =
   locks_on rt lks k"
  unfolding locks_on_def by (rule msum_drop)

lemma lock_le_locks_on:
  "lks j = Some l \<Longrightarrow> unat (sl_amount l) \<le> locks_on rt lks (position_key rt (sl_stake_owner l))"
  using locks_on_drop [of rt lks j "position_key rt (sl_stake_owner l)"] by (simp add: at_def)

subsection \<open>Shapes of change\<close>

lemma books_credit:
  assumes "stake_books rt v ps lks cs"
    and p: "p = init_if_needed (ps k) zero_position"
    and p': "unat (sp_balance p') = balance p + unat a" "sp_locked p' = sp_locked p"
      "position_key rt (sp_owner p') = k"
    and t: "unat t = unat (sv_total_staked v) + unat a"
  shows "stake_books rt (v\<lparr>sv_total_staked := t\<rparr>) (ps(k \<mapsto> p')) lks cs"
proof -
  have at: "at balance ps k = balance p" "at locked ps k = locked p"
    using p by (cases "ps k"; simp add: at_def zero_position_def)+
  have ok: "position_ok p'" using assms(1) p p' unfolding stake_books_def
    by (cases "ps k") (auto simp: position_ok_def zero_position_def intro: trans_le_add1)
  have "msum balance (ps(k \<mapsto> p')) = msum balance ps + unat a"
    using msum_put [of balance ps k p'] at(1) p'(1) by simp
  with assms(1) at ok p' t show ?thesis by (auto simp: stake_books_def)
qed

lemma books_debit:
  assumes "stake_books rt v ps lks cs" and "ps k = Some p"
    and p': "balance p = unat (sp_balance p') + unat a" "sp_locked p' = sp_locked p" "position_ok p'"
      "sp_owner p' = sp_owner p"
    and t: "unat (sv_total_staked v) = unat t + unat a"
  shows "stake_books rt (v\<lparr>sv_total_staked := t\<rparr>) (ps(k \<mapsto> p')) lks cs"
proof -
  have "msum balance (ps(k \<mapsto> p')) + unat a = msum balance ps"
    using msum_put [of balance ps k p'] assms(2) p'(1) by (simp add: at_def)
  moreover have "at locked ps k = locked p" using assms(2) by (simp add: at_def)
  ultimately show ?thesis using assms(1,2) p' t by (auto simp: stake_books_def)
qed

lemma locked_eq_locks:
  assumes "stake_books rt v ps lks cs" and "ps k = Some p"
  shows "locked p = locks_on rt lks k"
proof -
  have "at locked ps k = locks_on rt lks k" using assms(1) by (simp add: stake_books_def)
  with assms(2) show ?thesis by (simp add: at_Some)
qed

text \<open>Replacing a position whose balance stays and whose locked part follows its locks.\<close>

lemma books_relock:
  assumes "stake_books rt v ps lks cs" and "ps k = Some p"
    and "sp_balance p' = sp_balance p" and "position_ok p'" and "sp_owner p' = sp_owner p"
    and other: "\<And>j. j \<noteq> k \<Longrightarrow> locks_on rt lks' j = locks_on rt lks j"
    and here: "locked p' + locks_on rt lks k = locked p + locks_on rt lks' k"
  shows "stake_books rt v (ps(k \<mapsto> p')) lks' cs"
proof -
  have "msum balance (ps(k \<mapsto> p')) = msum balance ps"
    using msum_put [of balance ps k p'] assms(2,3) by (simp add: at_def)
  moreover have "at locked (ps(k \<mapsto> p')) j = locks_on rt lks' j" for j
    using other [of j] here locked_eq_locks [OF assms(1,2)] assms(1)
    by (cases "j = k") (simp_all add: stake_books_def)
  ultimately show ?thesis using assms(1,2,4,5) by (simp add: stake_books_def)
qed

lemma books_lock:
  assumes books: "stake_books rt v ps lks cs" and p: "ps (position_key rt (sl_stake_owner l)) = Some p"
    and lock: "StakePosition_lock p a = Inr p'"
    and l: "unat (sl_amount l) = at (\<lambda>l. unat (sl_amount l)) lks j + unat a"
    and same: "\<And>l0. lks j = Some l0 \<Longrightarrow> sl_stake_owner l0 = sl_stake_owner l"
  shows "stake_books rt v (ps(position_key rt (sl_stake_owner l) \<mapsto> p')) (lks(j \<mapsto> l)) cs"
proof (rule books_relock [OF books p])
  show "sp_balance p' = sp_balance p" "sp_owner p' = sp_owner p"
    by (subst StakePosition_lock_Inr(4) [OF lock], simp)+
  show "position_ok p'" by (rule StakePosition_lock_Inr(3) [OF lock])
  show "locks_on rt (lks(j \<mapsto> l)) i = locks_on rt lks i" if "i \<noteq> position_key rt (sl_stake_owner l)" for i
    using locks_on_put [of rt lks j l i] that same by (cases "lks j") (auto simp: at_def)
  show "locked p' + locks_on rt lks (position_key rt (sl_stake_owner l)) =
      locked p + locks_on rt (lks(j \<mapsto> l)) (position_key rt (sl_stake_owner l))"
    using locks_on_put [of rt lks j l "position_key rt (sl_stake_owner l)"] l same
      StakePosition_lock_Inr(2) [OF lock] by (cases "lks j") (auto simp: at_def)
qed

lemma books_shrink:
  assumes books: "stake_books rt v ps lks cs" and p: "ps (position_key rt (sl_stake_owner l)) = Some p"
    and l: "lks j = Some l" and l': "sl_stake_owner l' = sl_stake_owner l"
    and unlock: "StakePosition_unlock p a = Inr p'" and a: "unat (sl_amount l) = unat (sl_amount l') + unat a"
  shows "stake_books rt v (ps(position_key rt (sl_stake_owner l) \<mapsto> p')) (lks(j \<mapsto> l')) cs"
proof (rule books_relock [OF books p])
  show bal: "sp_balance p' = sp_balance p" and "sp_owner p' = sp_owner p"
    by (subst StakePosition_unlock_Inr(2) [OF unlock], simp)+
  have "position_ok p" using books p by (auto simp: stake_books_def)
  with bal StakePosition_unlock_Inr(1) [OF unlock] show "position_ok p'" by (simp add: position_ok_def)
  show "locks_on rt (lks(j \<mapsto> l')) i = locks_on rt lks i" if "i \<noteq> position_key rt (sl_stake_owner l)" for i
    using locks_on_put [of rt lks j l' i] that l l' by (auto simp: at_def)
  show "locked p' + locks_on rt lks (position_key rt (sl_stake_owner l)) =
      locked p + locks_on rt (lks(j \<mapsto> l')) (position_key rt (sl_stake_owner l))"
    using locks_on_put [of rt lks j l' "position_key rt (sl_stake_owner l)"] l l' a
      StakePosition_unlock_Inr(1) [OF unlock] by (simp add: at_def)
qed

lemma books_unlock:
  assumes books: "stake_books rt v ps lks cs" and p: "ps (position_key rt (sl_stake_owner l)) = Some p"
    and l: "lks j = Some l" and unlock: "StakePosition_unlock p (sl_amount l) = Inr p'"
  shows "stake_books rt v (ps(position_key rt (sl_stake_owner l) \<mapsto> p')) (lks(j := None)) cs"
proof (rule books_relock [OF books p])
  show bal: "sp_balance p' = sp_balance p" and "sp_owner p' = sp_owner p"
    by (subst StakePosition_unlock_Inr(2) [OF unlock], simp)+
  have "position_ok p" using books p by (auto simp: stake_books_def)
  with bal StakePosition_unlock_Inr(1) [OF unlock] show "position_ok p'" by (simp add: position_ok_def)
  show "locks_on rt (lks(j := None)) i = locks_on rt lks i" if "i \<noteq> position_key rt (sl_stake_owner l)" for i
    using locks_on_drop [of rt lks j i] that l by (auto simp: at_def)
  show "locked p' + locks_on rt lks (position_key rt (sl_stake_owner l)) =
      locked p + locks_on rt (lks(j := None)) (position_key rt (sl_stake_owner l))"
    using locks_on_drop [of rt lks j "position_key rt (sl_stake_owner l)"] l
      StakePosition_unlock_Inr(1) [OF unlock] by (simp add: at_def)
qed

text \<open>Resolution: the lock disappears, the claimed part leaves the position's balance and the total of
  stake, and enters the total of claims.\<close>

lemma books_resolve:
  assumes books: "stake_books rt v ps lks cs" and p: "ps (position_key rt (sl_stake_owner l)) = Some p"
    and l: "lks j = Some l" and resolve: "StakePosition_resolve p (sl_amount l) c = Inr p'"
    and s: "unat (sv_total_staked v) = unat s + unat c" and t: "unat t = unat (sv_total_claimable v) + unat c"
    and cs: "msum claimed cs' = msum claimed cs + unat c"
  shows "stake_books rt (v\<lparr>sv_total_staked := s, sv_total_claimable := t\<rparr>)
    (ps(position_key rt (sl_stake_owner l) \<mapsto> p')) (lks(j := None)) cs'"
proof -
  let ?k = "position_key rt (sl_stake_owner l)"
  note r = StakePosition_resolve_Inr(1-3) [OF resolve]
  have "position_ok p" using books p by (auto simp: stake_books_def)
  with r have ok: "position_ok p'" by (simp add: position_ok_def)
  have bal: "msum balance (ps(?k \<mapsto> p')) + unat c = msum balance ps"
    using msum_put [of balance ps ?k p'] p r(3) by (simp add: at_def)
  have locks: "at locked (ps(?k \<mapsto> p')) i = locks_on rt (lks(j := None)) i" for i
  proof (cases "i = ?k")
    case True
    with locks_on_drop [of rt lks j i] l r(2) locked_eq_locks [OF books p] show ?thesis
      by (simp add: at_def)
  next
    case False
    moreover have "at locked ps i = locks_on rt lks i" using books by (simp add: stake_books_def)
    ultimately show ?thesis using locks_on_drop [of rt lks j i] l by (simp add: at_def)
  qed
  have "sp_owner p' = sp_owner p" by (subst StakePosition_resolve_Inr(4) [OF resolve]) simp
  with books p bal locks ok s t cs show ?thesis by (auto simp: stake_books_def)
qed

subsection \<open>Claims\<close>

lemma sum_claims_Inr:
  "sum_claims prior t xs = Inr r \<Longrightarrow>
     unat r = unat t + sum_list (map (\<lambda>x. unat (sc_amount x)) xs) \<and>
     distinct (map sc_beneficiary xs) \<and> set prior \<inter> sc_beneficiary ` set xs = {} \<and>
     (\<forall>x\<in>set xs. sc_beneficiary x \<noteq> 0 \<and> 0 < sc_amount x)"
proof (induction prior t xs rule: sum_claims.induct)
  case (1 prior t)
  then show ?case by simp
next
  case (2 prior t a rest)
  from 2(2) obtain t' :: u64 where "sc_beneficiary a \<noteq> 0" "0 < sc_amount a"
      "sc_beneficiary a \<notin> set prior" "unat t' = unat t + unat (sc_amount a)"
      "checked_add t (sc_amount a) = Some t'"
      "sum_claims (prior @ [sc_beneficiary a]) t' rest = Inr r"
    by (auto simp: result_simps checked_simps)
  with 2(1) [of t'] show ?case by auto
qed

lemma credit_claims_Inr:
  "credit_claims rt cs xs = Inr cs' \<Longrightarrow>
     msum claimed cs' = msum claimed cs + sum_list (map (\<lambda>x. unat (sc_amount (fst x))) xs)"
proof (induction rt cs xs rule: credit_claims.induct)
  case (1 rt cs)
  then show ?case by simp
next
  case (2 rt cs a key w rest)
  from 2(2) obtain c b where "cs key = Some c" and b: "unat b = unat (cb_amount c) + unat (sc_amount a)"
      "checked_add (cb_amount c) (sc_amount a) = Some b"
      and rest: "credit_claims rt (cs(key \<mapsto> c\<lparr>cb_amount := b\<rparr>)) rest = Inr cs'"
      "w" "key = claim_key rt (sc_beneficiary a)" "cb_vault c = stake_vault_config_key rt"
      "cb_beneficiary c = sc_beneficiary a"
    by (auto simp: result_simps checked_simps)
  then have "msum claimed (cs(key \<mapsto> c\<lparr>cb_amount := b\<rparr>)) = msum claimed cs + unat (sc_amount a)"
    using msum_put [of claimed cs key "c\<lparr>cb_amount := b\<rparr>"] by (simp add: at_def)
  with 2(1) [OF rest(1)] show ?case by (simp add: fun_upd_def)
qed

lemma sum_list_zip_fst:
  "length xs = length ys \<Longrightarrow>
     sum_list (map (\<lambda>x. unat (sc_amount (fst x))) (zip xs ys)) = sum_list (map (\<lambda>x. unat (sc_amount x)) xs)"
  by (induction xs ys rule: list_induct2) auto

end
