(* ===== verification/Stake_Invariant.thy ===== *)
theory Stake_Invariant
  imports Stake_Books
begin

text \<open>
  Every instruction of \<^verbatim>\<open>stake.rs\<close> keeps the books of the vault: one lemma per handler. The handlers that
  call the token program need \<open>token_laws\<close>.
\<close>

lemma vault_covered_in:
  assumes "vault_covered rt v ts" and "ts (stake_token_vault_key rt) = Some t"
    and "ts' (stake_token_vault_key rt) = Some t'" and "unat (tk_amount t') = unat (tk_amount t) + unat a"
    and "unat s = unat (sv_total_staked v) + unat a"
  shows "vault_covered rt (v\<lparr>sv_total_staked := s\<rparr>) ts'"
  using assms by (simp add: vault_covered_def at_def)

lemma vault_covered_out:
  assumes "vault_covered rt v ts" and moved: "token_moved ts ts' (stake_token_vault_key rt) to a"
    and less: "unat (sv_total_staked v) + unat (sv_total_claimable v) =
      unat (sv_total_staked v') + unat (sv_total_claimable v') + unat a"
  shows "vault_covered rt v' ts'"
proof (cases "stake_token_vault_key rt = to")
  case True
  with moved have "ts' = ts" by (simp add: token_moved_def)
  with assms(1) less show ?thesis by (simp add: vault_covered_def)
next
  case False
  with moved obtain f where f: "ts (stake_token_vault_key rt) = Some f" by (auto simp: token_moved_def)
  from token_moved_source [OF moved False f] obtain f' where
    "ts' (stake_token_vault_key rt) = Some f'" "unat (tk_amount f) = unat (tk_amount f') + unat a" .
  with assms(1) f less show ?thesis by (simp add: vault_covered_def at_def)
qed

lemma vault_covered_moves:
  "vault_covered rt v ts \<Longrightarrow> token_grows ts ts' (stake_token_vault_key rt) \<Longrightarrow> vault_covered rt v ts'"
  by (cases "ts (stake_token_vault_key rt)")
    (auto simp: vault_covered_def token_grows_def at_def intro: le_trans)

subsection \<open>Custody\<close>

lemma initialize_stake_token_vault_stake_inv:
  assumes "stake_inv rt ls" and "token_laws rt"
    and "handle_initialize_stake_token_vault rt ls tp = Inr ls'"
  shows "stake_inv rt ls'"
proof -
  from assms(3) obtain v ts where v: "stake_vault_config ls = Some v"
      and none: "tokens ls (stake_token_vault_key rt) = None"
      and ts: "initialize_account rt tp (tokens ls) (stake_token_vault_key rt) (sv_stake_mint v)
        (stake_vault_config_key rt) = Inr ts"
      and ls': "ls' = ls\<lparr>tokens := ts\<rparr>"
    by (auto simp: handle_initialize_stake_token_vault_def result_simps)
  from initialize_fresh [OF assms(2) ts] none assms(1) v ls' show ?thesis
    by (simp add: stake_inv_Some vault_covered_def at_def)
qed

lemma deposit_stake_stake_inv:
  assumes "stake_inv rt ls" and "handle_deposit_stake rt ls owner owner_token tp amount = Inr ls'"
  shows "stake_inv rt ls'"
proof -
  let ?k = "position_key rt owner"
  let ?p = "init_if_needed (stake_positions ls ?k) zero_position"
  from assms(2) obtain v t ts t' r b s where v: "stake_vault_config ls = Some v"
      and t: "tokens ls (stake_token_vault_key rt) = Some t"
      and t': "ts (stake_token_vault_key rt) = Some t'"
      and r: "unat (tk_amount t') = unat (tk_amount t) + unat amount"
      and b: "unat b = balance ?p + unat amount"
      and s: "unat s = unat (sv_total_staked v) + unat amount"
      and ls': "ls' = ls\<lparr>tokens := ts,
          stake_positions := (stake_positions ls)(?k \<mapsto>
            (if sp_owner ?p = 0 then ?p\<lparr>sp_vault := stake_vault_config_key rt, sp_owner := owner,
                sp_bump := pda_bump rt (position_seeds rt owner)\<rparr> else ?p)\<lparr>sp_balance := b\<rparr>),
          stake_vault_config := Some (v\<lparr>sv_total_staked := s\<rparr>)\<rparr>"
    by (auto simp: handle_deposit_stake_def result_simps checked_simps Let_def split: if_splits)
  have books: "stake_books rt v (stake_positions ls) (stake_locks ls) (claim_balances ls)"
    and cov: "vault_covered rt v (tokens ls)"
    using assms(1) v by (simp_all add: stake_inv_Some)
  have keyed: "position_key rt (sp_owner (if sp_owner ?p = 0 then ?p\<lparr>sp_vault := stake_vault_config_key rt,
      sp_owner := owner, sp_bump := pda_bump rt (position_seeds rt owner)\<rparr> else ?p)) = ?k"
    using books by (cases "stake_positions ls ?k") (auto simp: stake_books_def zero_position_def)
  from books_credit [OF books refl _ _ _ s, of _ ?k] keyed vault_covered_in [of rt v "tokens ls" t ts t' amount s, OF cov t t' r s] b
  show ?thesis by (simp add: ls' stake_inv_def)
qed

lemma withdraw_stake_stake_inv:
  assumes "stake_inv rt ls" and "token_laws rt"
    and "handle_withdraw_stake rt ls owner owner_token tp amount = Inr ls'"
  shows "stake_inv rt ls'"
proof -
  from assms(3) obtain v p f b s ts and m :: Mint where v: "stake_vault_config ls = Some v"
      and p: "stake_positions ls (position_key rt owner) = Some p"
      and raw: "StakePosition_free p = Some f" "amount \<le> f" "checked_sub (sp_balance p) amount = Some b"
        "checked_sub (sv_total_staked v) amount = Some s"
      and ts: "transfer_checked rt tp (tokens ls) (stake_token_vault_key rt) (sv_stake_mint v) owner_token
          (stake_vault_config_key rt) amount (mint_decimals m) = Inr ts"
      and ls': "ls' = ls\<lparr>tokens := ts,
          stake_positions := (stake_positions ls)(position_key rt owner \<mapsto> p\<lparr>sp_balance := b\<rparr>),
          stake_vault_config := Some (v\<lparr>sv_total_staked := s\<rparr>)\<rparr>"
    by (simp add: handle_withdraw_stake_def result_simps, elim exE conjE, blast)
  from raw have f: "balance p = locked p + unat f" "unat amount \<le> unat f"
    and b: "balance p = unat amount + unat b" and s: "unat (sv_total_staked v) = unat amount + unat s"
    by (simp_all add: StakePosition_free_def checked_simps word_le_nat_alt)
  have books: "stake_books rt v (stake_positions ls) (stake_locks ls) (claim_balances ls)"
    and cov: "vault_covered rt v (tokens ls)"
    using assms(1) v by (simp_all add: stake_inv_Some)
  have "stake_books rt (v\<lparr>sv_total_staked := s\<rparr>)
      ((stake_positions ls)(position_key rt owner \<mapsto> p\<lparr>sp_balance := b\<rparr>)) (stake_locks ls) (claim_balances ls)"
    using f b s by (intro books_debit [OF books p]) (simp_all add: position_ok_def)
  moreover have "vault_covered rt (v\<lparr>sv_total_staked := s\<rparr>) ts"
    using s by (intro vault_covered_out [OF cov transfer_moved [OF assms(2) ts]]) simp
  ultimately show ?thesis by (simp add: ls' stake_inv_def)
qed

lemma claim_stake_stake_inv:
  assumes "stake_inv rt ls" and "token_laws rt"
    and "handle_claim_stake rt ls beneficiary beneficiary_token tp = Inr ls'"
  shows "stake_inv rt ls'"
proof -
  from assms(3) obtain v c t ts and m :: Mint where v: "stake_vault_config ls = Some v"
      and c: "claim_balances ls (claim_key rt beneficiary) = Some c"
      and raw: "checked_sub (sv_total_claimable v) (cb_amount c) = Some t"
      and ts: "transfer_checked rt tp (tokens ls) (stake_token_vault_key rt) (sv_stake_mint v) beneficiary_token
          (stake_vault_config_key rt) (cb_amount c) (mint_decimals m) = Inr ts"
      and ls': "ls' = ls\<lparr>tokens := ts,
          claim_balances := (claim_balances ls)(claim_key rt beneficiary \<mapsto> c\<lparr>cb_amount := 0\<rparr>),
          stake_vault_config := Some (v\<lparr>sv_total_claimable := t\<rparr>)\<rparr>"
    by (simp add: handle_claim_stake_def result_simps Let_def, elim exE conjE, blast)
  from raw have t: "unat (sv_total_claimable v) = claimed c + unat t" by (simp add: checked_simps)
  have books: "stake_books rt v (stake_positions ls) (stake_locks ls) (claim_balances ls)"
    and cov: "vault_covered rt v (tokens ls)"
    using assms(1) v by (simp_all add: stake_inv_Some)
  have "msum claimed ((claim_balances ls)(claim_key rt beneficiary \<mapsto> c\<lparr>cb_amount := 0\<rparr>)) + claimed c =
      msum claimed (claim_balances ls)"
    using msum_put [of claimed "claim_balances ls" "claim_key rt beneficiary" "c\<lparr>cb_amount := 0\<rparr>"] c
    by (simp add: at_def)
  with books t have "stake_books rt (v\<lparr>sv_total_claimable := t\<rparr>) (stake_positions ls) (stake_locks ls)
      ((claim_balances ls)(claim_key rt beneficiary \<mapsto> c\<lparr>cb_amount := 0\<rparr>))"
    by (simp add: stake_books_def)
  moreover have "vault_covered rt (v\<lparr>sv_total_claimable := t\<rparr>) ts"
    using t by (intro vault_covered_out [OF cov transfer_moved [OF assms(2) ts]]) simp
  ultimately show ?thesis by (simp add: ls' stake_inv_def)
qed

subsection \<open>Delegation does not touch the books\<close>

lemma set_taker_authorization_stake_inv:
  "stake_inv rt ls \<Longrightarrow> handle_set_taker_authorization rt ls o1 t a = Inr ls' \<Longrightarrow> stake_inv rt ls'"
  by (auto simp: handle_set_taker_authorization_def result_simps Let_def stake_inv_def)

lemma select_stake_owner_stake_inv:
  "stake_inv rt ls \<Longrightarrow> handle_select_stake_owner rt ls t o1 = Inr ls' \<Longrightarrow> stake_inv rt ls'"
  by (auto simp: handle_select_stake_owner_def result_simps Let_def stake_inv_def)

lemma clear_stake_owner_stake_inv:
  "stake_inv rt ls \<Longrightarrow> handle_clear_stake_owner rt ls t = Inr ls' \<Longrightarrow> stake_inv rt ls'"
  by (auto simp: handle_clear_stake_owner_def result_simps stake_inv_def)

subsection \<open>Controller locks\<close>

lemma controller_lock_stake_stake_inv:
  assumes "stake_inv rt ls" and "handle_controller_lock_stake rt ls controller stake_owner args = Inr ls'"
  shows "stake_inv rt ls'"
proof -
  let ?l = "new_stake_lock rt (cla_lock_id args) stake_owner (cla_amount args) (cla_matures_at args)"
  let ?j = "stake_lock_key rt (cla_lock_id args)"
  from assms(2) obtain v p p' where v: "stake_vault_config ls = Some v"
      and p: "stake_positions ls (position_key rt (sl_stake_owner ?l)) = Some p"
      and none: "stake_locks ls ?j = None" and lock: "StakePosition_lock p (cla_amount args) = Inr p'"
      and ls': "ls' = ls\<lparr>stake_positions := (stake_positions ls)(position_key rt (sl_stake_owner ?l) \<mapsto> p'),
          stake_locks := (stake_locks ls)(?j \<mapsto> ?l)\<rparr>"
    by (auto simp: handle_controller_lock_stake_def result_simps new_stake_lock_def)
  have books: "stake_books rt v (stake_positions ls) (stake_locks ls) (claim_balances ls)"
    and cov: "vault_covered rt v (tokens ls)"
    using assms(1) v by (simp_all add: stake_inv_Some)
  have "unat (sl_amount ?l) = at (\<lambda>l. unat (sl_amount l)) (stake_locks ls) ?j + unat (cla_amount args)"
    using none by (simp add: new_stake_lock_def at_def)
  from books_lock [OF books p lock this] none have "stake_books rt v (stake_positions ls') (stake_locks ls') (claim_balances ls')"
    by (simp add: ls')
  with cov v show ?thesis by (simp add: ls' stake_inv_def)
qed

lemma controller_fund_lock_stake_inv:
  assumes "stake_inv rt ls"
    and "handle_controller_fund_lock rt ls controller stake_owner controller_token tp args = Inr ls'"
  shows "stake_inv rt ls'"
proof -
  let ?l = "new_stake_lock rt (cla_lock_id args) stake_owner (cla_amount args) (cla_matures_at args)"
  let ?j = "stake_lock_key rt (cla_lock_id args)"
  let ?k = "position_key rt (sl_stake_owner ?l)"
  let ?p = "init_if_needed (stake_positions ls ?k) zero_position"
  let ?q = "if sp_owner ?p = 0 then ?p\<lparr>sp_vault := stake_vault_config_key rt, sp_owner := stake_owner,
                sp_bump := pda_bump rt (position_seeds rt stake_owner)\<rparr> else ?p"
  from assms(2) obtain v t ts t' b s p' where v: "stake_vault_config ls = Some v"
      and none: "stake_locks ls ?j = None"
      and t: "tokens ls (stake_token_vault_key rt) = Some t"
      and t': "ts (stake_token_vault_key rt) = Some t'"
      and r: "unat (tk_amount t') = unat (tk_amount t) + unat (cla_amount args)"
      and b: "unat b = balance ?p + unat (cla_amount args)"
      and s: "unat s = unat (sv_total_staked v) + unat (cla_amount args)"
      and lock: "StakePosition_lock (?q\<lparr>sp_balance := b\<rparr>) (cla_amount args) = Inr p'"
      and ls': "ls' = ls\<lparr>tokens := ts, stake_positions := (stake_positions ls)(?k \<mapsto> p'),
          stake_locks := (stake_locks ls)(?j \<mapsto> ?l),
          stake_vault_config := Some (v\<lparr>sv_total_staked := s\<rparr>)\<rparr>"
    by (auto simp: handle_controller_fund_lock_def result_simps checked_simps Let_def new_stake_lock_def
        split: if_splits)
  have books: "stake_books rt v (stake_positions ls) (stake_locks ls) (claim_balances ls)"
    and cov: "vault_covered rt v (tokens ls)"
    using assms(1) v by (simp_all add: stake_inv_Some)
  have keyed: "position_key rt (sp_owner ?q) = ?k"
    using books by (cases "stake_positions ls ?k") (auto simp: stake_books_def zero_position_def new_stake_lock_def)
  let ?v = "v\<lparr>sv_total_staked := s\<rparr>" and ?ps = "(stake_positions ls)(?k \<mapsto> ?q\<lparr>sp_balance := b\<rparr>)"
  from b have credited: "stake_books rt ?v ?ps (stake_locks ls) (claim_balances ls)"
    by (intro books_credit [OF books refl _ _ _ s]) (use keyed in simp_all)
  have "unat (sl_amount ?l) = at (\<lambda>l. unat (sl_amount l)) (stake_locks ls) ?j + unat (cla_amount args)"
    using none by (simp add: new_stake_lock_def at_def)
  from books_lock [OF credited _ lock this] none
  have "stake_books rt ?v ((stake_positions ls)(?k \<mapsto> p')) ((stake_locks ls)(?j \<mapsto> ?l)) (claim_balances ls)"
    by simp
  with vault_covered_in [of rt v "tokens ls" t ts t' "cla_amount args" s, OF cov t t' r s] show ?thesis by (simp add: ls' stake_inv_def)
qed

lemma manage_stake_lock_Inr:
  "manage_stake_lock rt ls controller lock_id = Inr (p, l) \<longleftrightarrow>
     (\<exists>v. vault_account rt ls = Inr v \<and> controller = sv_controller v) \<and>
     stake_locks ls (stake_lock_key rt lock_id) = Some l \<and>
     stake_positions ls (position_key rt (sl_stake_owner l)) = Some p \<and>
     sp_bump p = pda_bump rt (position_seeds rt (sl_stake_owner l)) \<and>
     sl_bump l = pda_bump rt (stake_lock_seeds rt lock_id) \<and> sl_id l = lock_id"
  by (auto simp: manage_stake_lock_def result_simps)

lemma increase_stake_lock_stake_inv:
  assumes "stake_inv rt ls" and "handle_increase_stake_lock rt ls controller lock_id a = Inr ls'"
  shows "stake_inv rt ls'"
proof -
  from assms(2) obtain v p l p' b where v: "stake_vault_config ls = Some v"
      and l: "stake_locks ls (stake_lock_key rt lock_id) = Some l"
      and p: "stake_positions ls (position_key rt (sl_stake_owner (l\<lparr>sl_amount := b\<rparr>))) = Some p"
      and lock: "StakePosition_lock p a = Inr p'" and b: "unat b = unat (sl_amount l) + unat a"
      and ls': "ls' = ls\<lparr>stake_positions := (stake_positions ls)(position_key rt (sl_stake_owner (l\<lparr>sl_amount := b\<rparr>)) \<mapsto> p'),
          stake_locks := (stake_locks ls)(stake_lock_key rt lock_id \<mapsto> l\<lparr>sl_amount := b\<rparr>)\<rparr>"
    by (auto simp: handle_increase_stake_lock_def manage_stake_lock_Inr result_simps checked_simps)
  have books: "stake_books rt v (stake_positions ls) (stake_locks ls) (claim_balances ls)"
    and cov: "vault_covered rt v (tokens ls)"
    using assms(1) v by (simp_all add: stake_inv_Some)
  have "unat (sl_amount (l\<lparr>sl_amount := b\<rparr>)) =
      at (\<lambda>l. unat (sl_amount l)) (stake_locks ls) (stake_lock_key rt lock_id) + unat a"
    using b l by (simp add: at_Some)
  from books_lock [OF books p lock this] l
  have "stake_books rt v (stake_positions ls') (stake_locks ls') (claim_balances ls')"
    by (simp add: ls')
  with cov v show ?thesis by (simp add: ls' stake_inv_def)
qed

lemma StakePosition_unlock_zero: "unat u = 0 \<Longrightarrow> StakePosition_unlock p u = Inr p"
  by (simp add: StakePosition_unlock_def checked_sub_def unat_eq_0)

lemma resize_stake_lock_stake_inv:
  assumes "stake_inv rt ls" and "handle_resize_stake_lock rt ls controller lock_id a m = Inr ls'"
  shows "stake_inv rt ls'"
proof -
  from assms(2) obtain v p l p' u where v: "stake_vault_config ls = Some v"
      and l: "stake_locks ls (stake_lock_key rt lock_id) = Some l"
      and p: "stake_positions ls (position_key rt (sl_stake_owner l)) = Some p"
      and raw: "checked_sub (sl_amount l) a = Some u"
        "(if u > 0 then StakePosition_unlock p u else Inr p) = Inr p'"
      and ls': "ls' = ls\<lparr>stake_positions := (stake_positions ls)(position_key rt (sl_stake_owner l) \<mapsto> p'),
          stake_locks := (stake_locks ls)(stake_lock_key rt lock_id \<mapsto> l\<lparr>sl_amount := a, sl_matures_at := m\<rparr>)\<rparr>"
    by (auto simp: handle_resize_stake_lock_def manage_stake_lock_Inr result_simps Let_def)
  from raw have u: "unat (sl_amount l) = unat a + unat u" "StakePosition_unlock p u = Inr p'"
    by (auto simp: checked_simps StakePosition_unlock_zero split: if_splits)
  have books: "stake_books rt v (stake_positions ls) (stake_locks ls) (claim_balances ls)"
    and cov: "vault_covered rt v (tokens ls)"
    using assms(1) v by (simp_all add: stake_inv_Some)
  have "stake_books rt v (stake_positions ls') (stake_locks ls') (claim_balances ls')"
    using books_shrink [OF books p l _ u(2), of "l\<lparr>sl_amount := a, sl_matures_at := m\<rparr>"] u(1) by (simp add: ls')
  with cov v show ?thesis by (simp add: ls' stake_inv_def)
qed

lemma controller_unlock_stake_stake_inv:
  assumes "stake_inv rt ls" and "handle_controller_unlock_stake rt ls controller lock_id = Inr ls'"
  shows "stake_inv rt ls'"
proof -
  from assms(2) obtain v p l p' where v: "stake_vault_config ls = Some v"
      and l: "stake_locks ls (stake_lock_key rt lock_id) = Some l"
      and p: "stake_positions ls (position_key rt (sl_stake_owner l)) = Some p"
      and u: "StakePosition_unlock p (sl_amount l) = Inr p'"
      and ls': "ls' = ls\<lparr>stake_positions := (stake_positions ls)(position_key rt (sl_stake_owner l) \<mapsto> p'),
          stake_locks := (stake_locks ls)(stake_lock_key rt lock_id := None)\<rparr>"
    by (auto simp: handle_controller_unlock_stake_def manage_stake_lock_Inr result_simps)
  have books: "stake_books rt v (stake_positions ls) (stake_locks ls) (claim_balances ls)"
    and cov: "vault_covered rt v (tokens ls)"
    using assms(1) v by (simp_all add: stake_inv_Some)
  from books_unlock [OF books p l u] cov v show ?thesis by (simp add: ls' stake_inv_def)
qed

subsection \<open>Claims\<close>

lemma initialize_claim_balance_stake_inv:
  assumes "stake_inv rt ls" and "handle_initialize_claim_balance rt ls b = Inr ls'"
    and zero: "\<And>k c. claim_balances ls k = Some c \<Longrightarrow> cb_beneficiary c = 0 \<Longrightarrow> cb_amount c = 0"
  shows "stake_inv rt ls'"
proof -
  let ?c = "init_if_needed (claim_balances ls (claim_key rt b)) zero_claim"
  from assms(2) obtain v c' where v: "stake_vault_config ls = Some v"
      and c': "c' = (if cb_beneficiary ?c = 0 then \<lparr>cb_vault = stake_vault_config_key rt, cb_beneficiary = b,
          cb_amount = 0, cb_bump = pda_bump rt (claim_seeds rt b)\<rparr> else ?c)"
      and ls': "ls' = ls\<lparr>claim_balances := (claim_balances ls)(claim_key rt b \<mapsto> c')\<rparr>"
    by (auto simp: handle_initialize_claim_balance_def result_simps Let_def)
  have "claimed c' = at claimed (claim_balances ls) (claim_key rt b)"
    using c' zero by (cases "claim_balances ls (claim_key rt b)") (auto simp: at_def zero_claim_def)
  then have "msum claimed (claim_balances ls') = msum claimed (claim_balances ls)"
    using msum_put [of claimed "claim_balances ls" "claim_key rt b" c'] by (simp add: ls')
  with assms(1) v show ?thesis by (simp add: ls' stake_inv_def stake_books_def)
qed

lemma resolve_stake_lock_stake_inv:
  assumes "stake_inv rt ls" and "handle_resolve_stake_lock rt ls controller accounts lock_id claims = Inr ls'"
  shows "stake_inv rt ls'"
proof -
  from assms(2) obtain v p l c p' s t cs where v: "stake_vault_config ls = Some v"
      and l: "stake_locks ls (stake_lock_key rt lock_id) = Some l"
      and p: "stake_positions ls (position_key rt (sl_stake_owner l)) = Some p"
      and len: "length claims = length accounts"
      and c: "sum_claims [] 0 claims = Inr c"
      and resolve: "StakePosition_resolve p (sl_amount l) c = Inr p'"
      and s: "unat (sv_total_staked v) = unat s + unat c"
      and t: "unat t = unat (sv_total_claimable v) + unat c"
      and cs: "credit_claims rt (claim_balances ls) (zip claims accounts) = Inr cs"
      and ls': "ls' = ls\<lparr>stake_positions := (stake_positions ls)(position_key rt (sl_stake_owner l) \<mapsto> p'),
             stake_locks := (stake_locks ls)(stake_lock_key rt lock_id := None), claim_balances := cs,
             stake_vault_config := Some (v\<lparr>sv_total_staked := s, sv_total_claimable := t\<rparr>)\<rparr>"
    by (auto simp: handle_resolve_stake_lock_def result_simps checked_simps)
  have books: "stake_books rt v (stake_positions ls) (stake_locks ls) (claim_balances ls)"
    and cov: "vault_covered rt v (tokens ls)"
    using assms(1) v by (simp_all add: stake_inv_Some)
  have "msum claimed cs = msum claimed (claim_balances ls) + unat c"
    using credit_claims_Inr [OF cs] sum_claims_Inr [OF c] by (simp add: sum_list_zip_fst [OF len])
  from books_resolve [OF books p l resolve s t this] cov s t show ?thesis
    by (simp add: ls' stake_inv_def vault_covered_def)
qed

end
