(* ===== verification/Escrow.thy ===== *)
theory Escrow
  imports Token
begin

text \<open>
  \<^verbatim>\<open>src/programs/zkp2p_solana/src/instructions/escrow.rs\<close>: deposits and their custody accounts, oracle
  quotes, payment methods, currencies, the choice of a rate manager, and intent locks. One definition per
  handler with the validation of its account context. A \<^verbatim>\<open>deposit\<close> account carries no seeds in the
  contexts that use an existing deposit, so its address is an argument.
\<close>

subsection \<open>Addresses and contexts\<close>

definition deposit_seeds :: "pubkey \<Rightarrow> u64 \<Rightarrow> u8 list list" where
  "deposit_seeds escrow deposit_id = [DEPOSIT_SEED, key_bytes escrow, to_le_bytes deposit_id]"

definition deposit_vault_seeds :: "pubkey \<Rightarrow> u8 list list" where
  "deposit_vault_seeds deposit = [DEPOSIT_VAULT_SEED, key_bytes deposit]"

definition deposit_vault_key :: "runtime \<Rightarrow> pubkey \<Rightarrow> pubkey" where
  "deposit_vault_key rt deposit = pda rt (deposit_vault_seeds deposit)"

definition payment_method_seeds :: "pubkey \<Rightarrow> bytes32 \<Rightarrow> u8 list list" where
  "payment_method_seeds deposit payment_method = [PAYMENT_METHOD_SEED, key_bytes deposit, key_bytes payment_method]"

definition payment_method_key :: "runtime \<Rightarrow> pubkey \<Rightarrow> bytes32 \<Rightarrow> pubkey" where
  "payment_method_key rt deposit payment_method = pda rt (payment_method_seeds deposit payment_method)"

definition currency_seeds :: "pubkey \<Rightarrow> bytes32 \<Rightarrow> bytes32 \<Rightarrow> u8 list list" where
  "currency_seeds deposit payment_method currency =
     [DEPOSIT_CURRENCY_SEED, key_bytes deposit, key_bytes payment_method, key_bytes currency]"

definition currency_key :: "runtime \<Rightarrow> pubkey \<Rightarrow> bytes32 \<Rightarrow> bytes32 \<Rightarrow> pubkey" where
  "currency_key rt deposit payment_method currency = pda rt (currency_seeds deposit payment_method currency)"

definition oracle_quote_seeds :: "pubkey \<Rightarrow> bytes32 \<Rightarrow> u8 list list" where
  "oracle_quote_seeds authority quote_id = [ORACLE_QUOTE_SEED, key_bytes authority, key_bytes quote_id]"

definition oracle_quote_key :: "runtime \<Rightarrow> pubkey \<Rightarrow> bytes32 \<Rightarrow> pubkey" where
  "oracle_quote_key rt authority quote_id = pda rt (oracle_quote_seeds authority quote_id)"

definition intent_lock_seeds :: "pubkey \<Rightarrow> bytes32 \<Rightarrow> u8 list list" where
  "intent_lock_seeds deposit intent_hash = [ESCROW_INTENT_LOCK_SEED, key_bytes deposit, key_bytes intent_hash]"

definition intent_lock_key :: "runtime \<Rightarrow> pubkey \<Rightarrow> bytes32 \<Rightarrow> pubkey" where
  "intent_lock_key rt deposit intent_hash = pda rt (intent_lock_seeds deposit intent_hash)"

definition escrow_account :: "runtime \<Rightarrow> ledger \<Rightarrow> EscrowConfig result" where
  "escrow_account rt ls =
     and_then (account (escrow_config ls)) (\<lambda>escrow.
     seeds_bump rt [ESCROW_CONFIG_SEED] (ec_bump escrow) (Inr escrow))"

text \<open>The canonical unpaused escrow and one of its deposits, the first two accounts of most contexts.\<close>

definition unpaused_deposit :: "runtime \<Rightarrow> ledger \<Rightarrow> pubkey \<Rightarrow> (EscrowConfig \<times> Deposit) result" where
  "unpaused_deposit rt ls deposit =
     and_then (escrow_account rt ls) (\<lambda>escrow.
     require (\<not> ec_paused escrow) Paused (
     and_then (account (deposits ls deposit)) (\<lambda>d.
     require (d_escrow_config d = escrow_config_key rt) DepositNotFound (
     Inr (escrow, d)))))"

text \<open>The additional constraint of the configuration contexts: the signer is the depositor or the delegate.\<close>

definition managed_deposit :: "runtime \<Rightarrow> ledger \<Rightarrow> pubkey \<Rightarrow> pubkey \<Rightarrow> (EscrowConfig \<times> Deposit) result" where
  "managed_deposit rt ls authority deposit =
     and_then (unpaused_deposit rt ls deposit) (\<lambda>(escrow, d).
     require (d_depositor d = authority \<or> d_delegate d = Some authority) Unauthorized (
     Inr (escrow, d)))"

definition zero_quote :: OracleQuote where
  "zero_quote = \<lparr>oq_authority = 0, oq_market_rate = 0, oq_updated_at = 0, oq_valid = False, oq_bump = 0\<rparr>"

subsection \<open>Oracle quotes\<close>

definition handle_update_oracle_quote :: "runtime \<Rightarrow> ledger \<Rightarrow> pubkey \<Rightarrow> bytes32 \<Rightarrow> u128 \<Rightarrow> bool \<Rightarrow> ledger result" where
  "handle_update_oracle_quote rt ls authority quote_id market_rate valid =
     (let quote = init_if_needed (oracle_quotes ls (oracle_quote_key rt authority quote_id)) zero_quote in
      require (\<not> valid \<or> market_rate > 0) ZeroValue (
      let quote = (if oq_authority quote = 0
                   then quote\<lparr>oq_authority := authority, oq_bump := pda_bump rt (oracle_quote_seeds authority quote_id)\<rparr>
                   else quote) in
      require (oq_authority quote = authority) Unauthorized (
      Inr (ls\<lparr>oracle_quotes := (oracle_quotes ls)(oracle_quote_key rt authority quote_id \<mapsto>
                quote\<lparr>oq_market_rate := market_rate, oq_updated_at := unix_timestamp rt, oq_valid := valid\<rparr>)\<rparr>))))"

subsection \<open>Deposits\<close>

text \<open>The argument checks of \<^verbatim>\<open>handle_create_deposit\<close>, in the source's order.\<close>

definition check_create_deposit_args :: "pubkey \<Rightarrow> CreateDepositArgs \<Rightarrow> unit result" where
  "check_create_deposit_args depositor args =
     require (cda_amount args > 0) ZeroValue (
     require (ar_min (cda_intent_amount_range args) > 0) ZeroValue (
     require (ar_min (cda_intent_amount_range args) \<le> ar_max (cda_intent_amount_range args)) InvalidRange (
     require (cda_amount args \<ge> ar_min (cda_intent_amount_range args)) AmountBelowMinimum (
     require (cda_payment_method args \<noteq> 0) ZeroValue (
     require (cda_payee_details args \<noteq> 0) ZeroValue (
     require (cda_currency args \<noteq> 0) ZeroValue (
     require (cda_fixed_min_rate args > 0 \<or> cda_oracle_quote args \<noteq> None) CurrencyNotSupported (
     require (sint (cda_spread_bps args) > - 10000) InvalidSpread (
     require (\<forall>delegate\<in>set_option (cda_delegate args). delegate \<noteq> 0 \<and> delegate \<noteq> depositor) ZeroAddress (
     require (cda_intent_guardian args \<noteq> Some 0) ZeroAddress (
     require (cda_gating_service args \<noteq> Some 0) ZeroAddress (
     require (cda_oracle_quote args \<noteq> Some 0) ZeroAddress (
     require (cda_oracle_quote args = None \<or> cda_max_staleness args > 0) ZeroValue (Inr ()))))))))))))))"

text \<open>The three accounts that the instruction initialises.\<close>

definition new_deposit :: "runtime \<Rightarrow> EscrowConfig \<Rightarrow> pubkey \<Rightarrow> pubkey \<Rightarrow> CreateDepositArgs \<Rightarrow> Deposit" where
  "new_deposit rt escrow deposit depositor args =
     \<lparr>d_escrow_config = escrow_config_key rt, d_id = ec_next_deposit_id escrow, d_depositor = depositor,
      d_delegate = cda_delegate args, d_token_mint = ec_token_mint escrow,
      d_intent_amount_range = cda_intent_amount_range args, d_accepting_intents = True,
      d_remaining_deposits = cda_amount args, d_outstanding_intent_amount = 0, d_active_intents = 0,
      d_intent_guardian = cda_intent_guardian args, d_retain_on_empty = cda_retain_on_empty args,
      d_rate_manager = None, d_bump = pda_bump rt (deposit_seeds (escrow_config_key rt) (ec_next_deposit_id escrow)),
      d_vault_authority_bump = pda_bump rt (deposit_vault_seeds deposit)\<rparr>"

definition new_payment_method :: "runtime \<Rightarrow> pubkey \<Rightarrow> CreateDepositArgs \<Rightarrow> DepositPaymentMethod" where
  "new_payment_method rt deposit args =
     \<lparr>pm_deposit = deposit, pm_payment_method = cda_payment_method args,
      pm_payee_details = cda_payee_details args, pm_gating_service = cda_gating_service args,
      pm_active = True, pm_bump = pda_bump rt (payment_method_seeds deposit (cda_payment_method args))\<rparr>"

definition new_deposit_currency :: "runtime \<Rightarrow> pubkey \<Rightarrow> CreateDepositArgs \<Rightarrow> DepositCurrency" where
  "new_deposit_currency rt deposit args =
     \<lparr>dc_deposit = deposit, dc_payment_method = cda_payment_method args, dc_currency = cda_currency args,
      dc_fixed_min_rate = cda_fixed_min_rate args, dc_oracle_quote = cda_oracle_quote args,
      dc_spread_bps = cda_spread_bps args, dc_max_staleness = cda_max_staleness args, dc_listed = True,
      dc_bump = pda_bump rt (currency_seeds deposit (cda_payment_method args) (cda_currency args))\<rparr>"

text \<open>The creation at the address \<open>deposit\<close> that the counter of the escrow designates.\<close>

definition create_deposit_at ::
  "runtime \<Rightarrow> ledger \<Rightarrow> EscrowConfig \<Rightarrow> pubkey \<Rightarrow> pubkey \<Rightarrow> pubkey \<Rightarrow> pubkey \<Rightarrow> CreateDepositArgs \<Rightarrow> ledger result" where
  "create_deposit_at rt ls escrow deposit depositor depositor_token token_program args =
     (let payment_method = payment_method_key rt deposit (cda_payment_method args);
         currency = currency_key rt deposit (cda_payment_method args) (cda_currency args);
         deposit_vault = deposit_vault_key rt deposit;
         mint_key = ec_token_mint escrow in
     init (deposits ls deposit) (
     init (payment_methods ls payment_method) (
     init (deposit_currencies ls currency) (
     and_then (mint_account ls mint_key) (\<lambda>mint.
     and_then (token_account ls depositor_token mint_key depositor token_program) (\<lambda>_.
     token_interface rt token_program (
     init (tokens ls deposit_vault) (
     and_then (initialize_account rt token_program (tokens ls) deposit_vault mint_key deposit) (\<lambda>ts0.
     require (\<not> ec_paused escrow) Paused (
     and_then (check_create_deposit_args depositor args) (\<lambda>_.
     and_then (ok_or (checked_add (ec_next_deposit_id escrow) 1) ArithmeticOverflow) (\<lambda>next_id.
     and_then (reload_amount ts0 deposit_vault) (\<lambda>balance_before.
     and_then (transfer_checked rt token_program ts0 depositor_token mint_key deposit_vault depositor
                 (cda_amount args) (mint_decimals mint)) (\<lambda>ts.
     and_then (reload_amount ts deposit_vault) (\<lambda>balance.
     and_then (ok_or (checked_sub balance balance_before) InvalidTokenBalanceDelta) (\<lambda>received.
     require (received = cda_amount args) InvalidTokenBalanceDelta (
     Inr (ls\<lparr>deposits := (deposits ls)(deposit \<mapsto> new_deposit rt escrow deposit depositor args),
             payment_methods := (payment_methods ls)(payment_method \<mapsto> new_payment_method rt deposit args),
             deposit_currencies := (deposit_currencies ls)(currency \<mapsto> new_deposit_currency rt deposit args),
             escrow_config := Some (escrow\<lparr>ec_next_deposit_id := next_id\<rparr>),
             tokens := ts\<rparr>))))))))))))))))))"

definition handle_create_deposit :: "runtime \<Rightarrow> ledger \<Rightarrow> pubkey \<Rightarrow> pubkey \<Rightarrow> pubkey \<Rightarrow> CreateDepositArgs \<Rightarrow> ledger result" where
  "handle_create_deposit rt ls depositor depositor_token token_program args =
     and_then (escrow_account rt ls) (\<lambda>escrow.
     create_deposit_at rt ls escrow (pda rt (deposit_seeds (escrow_config_key rt) (ec_next_deposit_id escrow)))
       depositor depositor_token token_program args)"

definition handle_add_funds :: "runtime \<Rightarrow> ledger \<Rightarrow> pubkey \<Rightarrow> pubkey \<Rightarrow> pubkey \<Rightarrow> pubkey \<Rightarrow> u64 \<Rightarrow> ledger result" where
  "handle_add_funds rt ls funder deposit funder_token token_program amount =
     and_then (unpaused_deposit rt ls deposit) (\<lambda>(escrow, d).
     and_then (mint_account ls (d_token_mint d)) (\<lambda>mint.
     and_then (token_account ls funder_token (d_token_mint d) funder token_program) (\<lambda>_.
     and_then (account (tokens ls (deposit_vault_key rt deposit))) (\<lambda>deposit_vault.
     seeds_bump rt (deposit_vault_seeds deposit) (d_vault_authority_bump d) (
     token_interface rt token_program (
     require (amount > 0) ZeroValue (
     let balance_before = tk_amount deposit_vault in
     and_then (transfer_checked rt token_program (tokens ls) funder_token (d_token_mint d)
                 (deposit_vault_key rt deposit) funder amount (mint_decimals mint)) (\<lambda>ts.
     and_then (reload_amount ts (deposit_vault_key rt deposit)) (\<lambda>balance.
     and_then (ok_or (checked_sub balance balance_before) InvalidTokenBalanceDelta) (\<lambda>received.
     require (received = amount) InvalidTokenBalanceDelta (
     and_then (ok_or (checked_add (d_remaining_deposits d) received) ArithmeticOverflow) (\<lambda>remaining.
     Inr (ls\<lparr>deposits := (deposits ls)(deposit \<mapsto> d\<lparr>d_remaining_deposits := remaining\<rparr>), tokens := ts\<rparr>)))))))))))))"

text \<open>A transfer out of a deposit's custody account, signed with the deposit's seeds.\<close>

definition transfer_from_deposit ::
  "runtime \<Rightarrow> token_store \<Rightarrow> pubkey \<Rightarrow> Deposit \<Rightarrow> pubkey \<Rightarrow> Mint \<Rightarrow> pubkey \<Rightarrow> u64 \<Rightarrow> token_store result" where
  "transfer_from_deposit rt ts deposit d destination mint token_program amount =
     signed_by rt (deposit_seeds (d_escrow_config d) (d_id d)) (d_bump d) deposit (
     transfer_checked rt token_program ts (deposit_vault_key rt deposit) (d_token_mint d) destination deposit
       amount (mint_decimals mint))"

definition handle_remove_funds :: "runtime \<Rightarrow> ledger \<Rightarrow> pubkey \<Rightarrow> pubkey \<Rightarrow> pubkey \<Rightarrow> pubkey \<Rightarrow> u64 \<Rightarrow> ledger result" where
  "handle_remove_funds rt ls depositor deposit depositor_token token_program amount =
     and_then (unpaused_deposit rt ls deposit) (\<lambda>(escrow, d).
     constraint (depositor = d_depositor d) ConstraintAddress (
     and_then (mint_account ls (d_token_mint d)) (\<lambda>mint.
     and_then (account (tokens ls (deposit_vault_key rt deposit))) (\<lambda>deposit_vault.
     seeds_bump rt (deposit_vault_seeds deposit) (d_vault_authority_bump d) (
     and_then (token_account ls depositor_token (d_token_mint d) depositor token_program) (\<lambda>_.
     token_interface rt token_program (
     require (amount > 0) ZeroValue (
     require (d_remaining_deposits d \<ge> amount) InsufficientBalance (
     and_then (ok_or (checked_sub (d_remaining_deposits d) amount) ArithmeticOverflow) (\<lambda>remaining.
     and_then (transfer_from_deposit rt (tokens ls) deposit d depositor_token mint token_program amount) (\<lambda>ts.
     Inr (ls\<lparr>deposits := (deposits ls)(deposit \<mapsto> d\<lparr>d_remaining_deposits := remaining\<rparr>), tokens := ts\<rparr>))))))))))))"

text \<open>The closing branch of \<^verbatim>\<open>handle_withdraw_deposit\<close>: a residual above the dust threshold keeps the
  deposit, a smaller one goes to the dust recipient before the custody account and the deposit close.\<close>

definition close_deposit ::
  "runtime \<Rightarrow> ledger \<Rightarrow> EscrowConfig \<Rightarrow> pubkey \<Rightarrow> Deposit \<Rightarrow> Mint \<Rightarrow> pubkey \<Rightarrow> pubkey option \<Rightarrow> token_store \<Rightarrow> ledger result" where
  "close_deposit rt ls escrow deposit d mint token_program dust_recipient_token ts =
     and_then (reload_amount ts (deposit_vault_key rt deposit)) (\<lambda>residual.
     if residual > ec_dust_threshold escrow
     then Inr (ls\<lparr>deposits := (deposits ls)(deposit \<mapsto> d\<lparr>d_retain_on_empty := True\<rparr>), tokens := ts\<rparr>)
     else
       and_then (if residual > 0
                 then and_then (ok_or dust_recipient_token DepositNotFound) (\<lambda>dust.
                      transfer_from_deposit rt ts deposit d dust mint token_program residual)
                 else Inr ts) (\<lambda>ts.
       signed_by rt (deposit_seeds (d_escrow_config d) (d_id d)) (d_bump d) deposit (
       and_then (close_account rt token_program ts (deposit_vault_key rt deposit) (d_depositor d) deposit) (\<lambda>ts.
       Inr (ls\<lparr>deposits := (deposits ls)(deposit := None), tokens := ts\<rparr>)))))"

definition handle_withdraw_deposit ::
  "runtime \<Rightarrow> ledger \<Rightarrow> pubkey \<Rightarrow> pubkey \<Rightarrow> pubkey \<Rightarrow> pubkey \<Rightarrow> pubkey option \<Rightarrow> ledger result" where
  "handle_withdraw_deposit rt ls depositor deposit depositor_token token_program dust_recipient_token =
     and_then (escrow_account rt ls) (\<lambda>escrow.
     and_then (account (deposits ls deposit)) (\<lambda>d.
     constraint (depositor = d_depositor d) ConstraintAddress (
     require (d_escrow_config d = escrow_config_key rt) DepositNotFound (
     and_then (mint_account ls (d_token_mint d)) (\<lambda>mint.
     and_then (account (tokens ls (deposit_vault_key rt deposit))) (\<lambda>deposit_vault.
     seeds_bump rt (deposit_vault_seeds deposit) (d_vault_authority_bump d) (
     and_then (token_account ls depositor_token (d_token_mint d) depositor token_program) (\<lambda>_.
     token_interface rt token_program (
     and_then (case dust_recipient_token of None \<Rightarrow> Inr ()
               | Some dust \<Rightarrow> and_then (token_account ls dust (d_token_mint d) (ec_dust_recipient escrow) token_program)
                                (\<lambda>_. Inr ())) (\<lambda>_.
     let amount = d_remaining_deposits d;
         d = d\<lparr>d_remaining_deposits := 0, d_accepting_intents := False\<rparr> in
     and_then (if amount > 0
               then transfer_from_deposit rt (tokens ls) deposit d depositor_token mint token_program amount
               else Inr (tokens ls)) (\<lambda>ts.
     if d_active_intents d = 0 \<and> d_outstanding_intent_amount d = 0 \<and> \<not> d_retain_on_empty d
     then close_deposit rt ls escrow deposit d mint token_program dust_recipient_token ts
     else Inr (ls\<lparr>deposits := (deposits ls)(deposit \<mapsto> d), tokens := ts\<rparr>))))))))))))"

subsection \<open>Configuration\<close>

record UpdateDepositArgs =
  uda_delegate :: "pubkey option option"
  uda_intent_guardian :: "pubkey option option"
  uda_intent_amount_range :: "AmountRange option"
  uda_accepting_intents :: "bool option"
  uda_retain_on_empty :: "bool option"

definition handle_update_deposit :: "runtime \<Rightarrow> ledger \<Rightarrow> pubkey \<Rightarrow> pubkey \<Rightarrow> UpdateDepositArgs \<Rightarrow> ledger result" where
  "handle_update_deposit rt ls authority deposit args =
     and_then (managed_deposit rt ls authority deposit) (\<lambda>(escrow, d).
     and_then (if_some (uda_delegate args) (\<lambda>delegate d.
         require (authority = d_depositor d) Unauthorized (
         require (\<forall>key\<in>set_option delegate. key \<noteq> 0 \<and> key \<noteq> d_depositor d) ZeroAddress (
         Inr (d\<lparr>d_delegate := delegate\<rparr>)))) d) (\<lambda>d.
     and_then (if_some (uda_intent_guardian args) (\<lambda>guardian d.
         require (guardian \<noteq> Some 0) ZeroAddress (
         Inr (d\<lparr>d_intent_guardian := guardian\<rparr>))) d) (\<lambda>d.
     and_then (if_some (uda_intent_amount_range args) (\<lambda>range d.
         require (ar_min range > 0) ZeroValue (
         require (ar_min range \<le> ar_max range) InvalidRange (
         Inr (d\<lparr>d_intent_amount_range := range\<rparr>)))) d) (\<lambda>d.
     and_then (if_some (uda_accepting_intents args) (\<lambda>accepting d.
         require (d_accepting_intents d \<noteq> accepting) AlreadyInState (
         require (\<not> accepting \<or> d_remaining_deposits d \<ge> ar_min (d_intent_amount_range d)) InsufficientBalance (
         Inr (d\<lparr>d_accepting_intents := accepting\<rparr>)))) d) (\<lambda>d.
     and_then (if_some (uda_retain_on_empty args) (\<lambda>retain d.
         require (d_retain_on_empty d \<noteq> retain) AlreadyInState (
         Inr (d\<lparr>d_retain_on_empty := retain\<rparr>))) d) (\<lambda>d.
     Inr (ls\<lparr>deposits := (deposits ls)(deposit \<mapsto> d)\<rparr>)))))))"

record ConfigurePaymentMethodArgs =
  cpm_payment_method :: bytes32
  cpm_payee_details :: bytes32
  cpm_gating_service :: "pubkey option"
  cpm_active :: bool

definition handle_configure_payment_method ::
  "runtime \<Rightarrow> ledger \<Rightarrow> pubkey \<Rightarrow> pubkey \<Rightarrow> ConfigurePaymentMethodArgs \<Rightarrow> ledger result" where
  "handle_configure_payment_method rt ls authority deposit args =
     and_then (managed_deposit rt ls authority deposit) (\<lambda>(escrow, d).
     require (cpm_payment_method args \<noteq> 0) ZeroValue (
     require (cpm_payee_details args \<noteq> 0) ZeroValue (
     require (cpm_gating_service args \<noteq> Some 0) ZeroAddress (
     Inr (ls\<lparr>payment_methods := (payment_methods ls)(payment_method_key rt deposit (cpm_payment_method args) \<mapsto>
               \<lparr>pm_deposit = deposit, pm_payment_method = cpm_payment_method args,
                pm_payee_details = cpm_payee_details args, pm_gating_service = cpm_gating_service args,
                pm_active = cpm_active args,
                pm_bump = pda_bump rt (payment_method_seeds deposit (cpm_payment_method args))\<rparr>)\<rparr>)))))"

record ConfigureCurrencyArgs =
  cca_payment_method :: bytes32
  cca_currency :: bytes32
  cca_fixed_min_rate :: u128
  cca_oracle_quote :: "pubkey option"
  cca_spread_bps :: i16
  cca_max_staleness :: u32
  cca_listed :: bool

definition handle_configure_currency ::
  "runtime \<Rightarrow> ledger \<Rightarrow> pubkey \<Rightarrow> pubkey \<Rightarrow> ConfigureCurrencyArgs \<Rightarrow> ledger result" where
  "handle_configure_currency rt ls authority deposit args =
     and_then (managed_deposit rt ls authority deposit) (\<lambda>(escrow, d).
     and_then (account (payment_methods ls (payment_method_key rt deposit (cca_payment_method args)))) (\<lambda>payment_method.
     seeds_bump rt (payment_method_seeds deposit (cca_payment_method args)) (pm_bump payment_method) (
     require (pm_deposit payment_method = deposit) PaymentMethodNotSupported (
     require (cca_currency args \<noteq> 0) ZeroValue (
     require (\<not> cca_listed args \<or> cca_fixed_min_rate args > 0 \<or> cca_oracle_quote args \<noteq> None) CurrencyNotSupported (
     require (sint (cca_spread_bps args) > - 10000) InvalidSpread (
     require (cca_oracle_quote args \<noteq> Some 0) ZeroAddress (
     require (cca_oracle_quote args = None \<or> cca_max_staleness args > 0) ZeroValue (
     Inr (ls\<lparr>deposit_currencies := (deposit_currencies ls)
             (currency_key rt deposit (cca_payment_method args) (cca_currency args) \<mapsto>
               \<lparr>dc_deposit = deposit, dc_payment_method = cca_payment_method args, dc_currency = cca_currency args,
                dc_fixed_min_rate = cca_fixed_min_rate args, dc_oracle_quote = cca_oracle_quote args,
                dc_spread_bps = cca_spread_bps args, dc_max_staleness = cca_max_staleness args,
                dc_listed = cca_listed args,
                dc_bump = pda_bump rt (currency_seeds deposit (cca_payment_method args) (cca_currency args))\<rparr>)\<rparr>))))))))))"

definition rate_manager_seeds :: "pubkey \<Rightarrow> u64 \<Rightarrow> u8 list list" where
  "rate_manager_seeds config nonce = [RATE_MANAGER_SEED, key_bytes config, to_le_bytes nonce]"

text \<open>The optional account \<^verbatim>\<open>rate_manager\<close> is an address argument.\<close>

definition handle_set_deposit_rate_manager ::
  "runtime \<Rightarrow> ledger \<Rightarrow> pubkey \<Rightarrow> pubkey \<Rightarrow> pubkey option \<Rightarrow> pubkey option \<Rightarrow> ledger result" where
  "handle_set_deposit_rate_manager rt ls authority deposit rate_manager manager =
     and_then (managed_deposit rt ls authority deposit) (\<lambda>(escrow, d).
     and_then (case rate_manager of None \<Rightarrow> Inr None
               | Some k \<Rightarrow> and_then (account (rate_managers ls k)) (\<lambda>m. Inr (Some (k, m)))) (\<lambda>loaded.
     case manager of
       None \<Rightarrow> Inr (ls\<lparr>deposits := (deposits ls)(deposit \<mapsto> d\<lparr>d_rate_manager := None\<rparr>)\<rparr>)
     | Some key \<Rightarrow>
         and_then (ok_or loaded Unauthorized) (\<lambda>(k, m).
         require (k = pda rt (rate_manager_seeds (rm_config m) (rm_nonce m))) Unauthorized (
         require (k = key) Unauthorized (
         and_then (ok_or (Deposit_total_liquidity d) ArithmeticOverflow) (\<lambda>total.
         require (total \<ge> rm_min_liquidity m) InsufficientBalance (
         Inr (ls\<lparr>deposits := (deposits ls)(deposit \<mapsto> d\<lparr>d_rate_manager := Some key\<rparr>)\<rparr>))))))))"

subsection \<open>Intent locks\<close>

text \<open>\<^verbatim>\<open>handle_lock_funds\<close> and \<^verbatim>\<open>handle_unlock_funds\<close> are not dispatched by \<^verbatim>\<open>lib.rs\<close>; the orchestrator
  performs the same accounting inside its own instructions.\<close>

definition handle_lock_funds :: "runtime \<Rightarrow> ledger \<Rightarrow> pubkey \<Rightarrow> bytes32 \<Rightarrow> u64 \<Rightarrow> ledger result" where
  "handle_lock_funds rt ls deposit intent_hash amount =
     and_then (account (orchestrator_config ls)) (\<lambda>orchestrator.
     seeds_bump rt [ORCHESTRATOR_CONFIG_SEED] (oc_bump orchestrator) (
     and_then (escrow_account rt ls) (\<lambda>escrow.
     and_then (account (deposits ls deposit)) (\<lambda>d.
     require (d_escrow_config d = escrow_config_key rt) DepositNotFound (
     init (intent_locks ls (intent_lock_key rt deposit intent_hash)) (
     require (\<not> ec_paused escrow) Paused (
     require (intent_hash \<noteq> 0) ZeroValue (
     and_then (Deposit_lock d amount (ec_max_intents_per_deposit escrow)) (\<lambda>d.
     let now = unix_timestamp rt in
     and_then (ok_or (checked_sadd now (ec_intent_expiration_period escrow)) ArithmeticOverflow) (\<lambda>expiry.
     Inr (ls\<lparr>deposits := (deposits ls)(deposit \<mapsto> d),
             intent_locks := (intent_locks ls)(intent_lock_key rt deposit intent_hash \<mapsto>
               \<lparr>el_deposit = deposit, el_intent_hash = intent_hash, el_orchestrator = orchestrator_config_key rt,
                el_amount = amount, el_timestamp = now, el_expiry_time = expiry,
                el_bump = pda_bump rt (intent_lock_seeds deposit intent_hash)\<rparr>)\<rparr>)))))))))))"

definition handle_unlock_funds :: "runtime \<Rightarrow> ledger \<Rightarrow> pubkey \<Rightarrow> pubkey \<Rightarrow> bytes32 \<Rightarrow> ledger result" where
  "handle_unlock_funds rt ls authority deposit intent_hash =
     and_then (account (deposits ls deposit)) (\<lambda>d.
     and_then (account (intent_locks ls (intent_lock_key rt deposit intent_hash))) (\<lambda>lock.
     constraint (el_intent_hash lock = intent_hash) ConstraintSeeds (
     seeds_bump rt (intent_lock_seeds deposit intent_hash) (el_bump lock) (
     require (el_deposit lock = deposit) IntentNotFound (
     require (authority = el_orchestrator lock \<or> sint (unix_timestamp rt) > sint (el_expiry_time lock)) Unauthorized (
     and_then (Deposit_unlock d (el_amount lock)) (\<lambda>d.
     Inr (ls\<lparr>deposits := (deposits ls)(deposit \<mapsto> d),
             intent_locks := (intent_locks ls)(intent_lock_key rt deposit intent_hash := None)\<rparr>))))))))"

definition handle_extend_intent_expiry :: "runtime \<Rightarrow> ledger \<Rightarrow> pubkey \<Rightarrow> pubkey \<Rightarrow> bytes32 \<Rightarrow> i64 \<Rightarrow> ledger result" where
  "handle_extend_intent_expiry rt ls guardian deposit intent_hash additional_time =
     and_then (account (deposits ls deposit)) (\<lambda>d.
     and_then (account (intent_locks ls (intent_lock_key rt deposit intent_hash))) (\<lambda>lock.
     require (d_intent_guardian d = Some guardian) Unauthorized (
     constraint (el_intent_hash lock = intent_hash) ConstraintSeeds (
     seeds_bump rt (intent_lock_seeds deposit intent_hash) (el_bump lock) (
     require (el_deposit lock = deposit) IntentNotFound (
     require (sint additional_time > 0) ZeroValue (
     and_then (ok_or (checked_sadd (el_expiry_time lock) additional_time) ArithmeticOverflow) (\<lambda>new_expiry.
     and_then (ok_or (checked_sadd (el_timestamp lock) MAX_INTENT_LIFETIME_SECONDS) ArithmeticOverflow) (\<lambda>maximum.
     require (sint new_expiry \<le> sint maximum) AmountAboveMaximum (
     Inr (ls\<lparr>intent_locks := (intent_locks ls)(intent_lock_key rt deposit intent_hash \<mapsto>
               lock\<lparr>el_expiry_time := new_expiry\<rparr>)\<rparr>)))))))))))"

end
