(* ===== verification/Governance.thy ===== *)
theory Governance
  imports Stake Escrow
begin

text \<open>
  \<^verbatim>\<open>src/programs/zkp2p_solana/src/instructions/governance.rs\<close> and the deployment instruction of
  \<^verbatim>\<open>src/programs/zkp2p_solana/src/instructions.rs\<close>: the one-time initialisation of all components, the two-step
  protocol authority and stake controller, and the bounded settings of escrow and orchestrator. Both
  handovers implement the contract \<open>handover\<close>.
\<close>

subsection \<open>The deployment domain\<close>

definition derive_deployment_domain :: "runtime \<Rightarrow> pubkey \<Rightarrow> bytes32 \<Rightarrow> bytes32" where
  "derive_deployment_domain rt program_id domain_seed =
     hashv rt [DEPLOYMENT_DOMAIN_PREFIX, key_bytes program_id, key_bytes domain_seed]"

text \<open>\<^verbatim>\<open>slot_hashes::MAX_ENTRIES\<close>; \<^verbatim>\<open>usize\<close> has 64 bits on the target, so the offsets cannot overflow once the
  count is bounded.\<close>

definition MAX_ENTRIES :: nat where
  "MAX_ENTRIES = 512"

definition newest_slot_hash :: "u8 list \<Rightarrow> (u64 \<times> bytes32) result" where
  "newest_slot_hash data =
     (let HEADER_SIZE = 8; ENTRY_SIZE = 40 in
      and_then (ok_or (slice_get data 0 HEADER_SIZE) InvalidDeploymentDomain) (\<lambda>count_bytes.
      let count = le_nat count_bytes in
      require (count > 0 \<and> count \<le> MAX_ENTRIES) InvalidDeploymentDomain (
      let required_len = HEADER_SIZE + count * ENTRY_SIZE in
      require (length data \<ge> required_len) InvalidDeploymentDomain (
      let slot_end = HEADER_SIZE + 8; hash_end = slot_end + 32 in
      and_then (ok_or (slice_get data HEADER_SIZE slot_end) InvalidDeploymentDomain) (\<lambda>slot_bytes.
      and_then (ok_or (slice_get data slot_end hash_end) InvalidDeploymentDomain) (\<lambda>hash.
      require ((of_be_bytes hash :: bytes32) \<noteq> 0) InvalidDeploymentDomain (
      Inr (of_nat (le_nat slot_bytes), of_be_bytes hash))))))))"

subsection \<open>Initialisation\<close>

text \<open>The loop over \<^verbatim>\<open>initial_witnesses\<close>: \<open>prior\<close> are the witnesses before.\<close>

fun check_witnesses :: "eth_address list \<Rightarrow> eth_address list \<Rightarrow> 'a result \<Rightarrow> 'a result" where
  "check_witnesses prior [] k = k"
| "check_witnesses prior (w # ws) k =
     require (w \<noteq> 0) ZeroAddress (
     require (w \<notin> set prior) InvalidSignature (
     check_witnesses (prior @ [w]) ws k))"

definition check_initialize_args :: "InitializeProtocolArgs \<Rightarrow> 'a result \<Rightarrow> 'a result" where
  "check_initialize_args args k =
     require (ipa_protocol_fee args \<le> MAX_FEE) FeeExceedsMaximum (
     require (ipa_protocol_fee_recipient args \<noteq> 0) ZeroAddress (
     require (sint (ipa_intent_expiration_period args) > 0) ZeroValue (
     require (sint (ipa_intent_expiration_period args) \<le> sint MAX_INTENT_LIFETIME_SECONDS) AmountAboveMaximum (
     require (ipa_max_intents_per_deposit args > 0) ZeroValue (
     require (sint (ipa_controller_change_delay args) \<ge> sint MIN_CONTROLLER_CHANGE_DELAY_SECONDS) ControllerNotReady (
     require (ipa_initial_witnesses args \<noteq> []) ZeroValue (
     require (unat (ipa_required_signatures args) \<le> length (ipa_initial_witnesses args) \<and>
              ipa_required_signatures args > 0) InvalidSignature (
     require (length (ipa_initial_witnesses args) \<le> MAX_WITNESSES) AmountAboveMaximum (
     check_witnesses [] (ipa_initial_witnesses args) k)))))))))"

text \<open>The eight configuration accounts that the initialisation writes.\<close>

definition initial_accounts ::
  "runtime \<Rightarrow> ledger \<Rightarrow> pubkey \<Rightarrow> u64 \<Rightarrow> bytes32 \<Rightarrow> bytes32 \<Rightarrow> pubkey \<Rightarrow> InitializeProtocolArgs \<Rightarrow> ledger" where
  "initial_accounts rt ls authority domain_seed_slot domain_seed domain_chain_id stake_mint args =
     ls\<lparr>
       protocol := Some \<lparr>pc_authority = authority, pc_pending_authority = None, pc_version = 1,
         pc_domain_seed_slot = domain_seed_slot, pc_domain_seed = domain_seed,
         pc_domain_chain_id = domain_chain_id, pc_bump = pda_bump rt [PROTOCOL_SEED]\<rparr>,
       escrow_config := Some \<lparr>ec_protocol = protocol_key rt, ec_token_mint = stake_mint,
         ec_dust_recipient = ipa_protocol_fee_recipient args, ec_dust_threshold = 0,
         ec_max_intents_per_deposit = ipa_max_intents_per_deposit args,
         ec_intent_expiration_period = ipa_intent_expiration_period args, ec_next_deposit_id = 0,
         ec_paused = False, ec_bump = pda_bump rt [ESCROW_CONFIG_SEED]\<rparr>,
       verifier_config := Some \<lparr>vc_protocol = protocol_key rt, vc_domain_chain_id = domain_chain_id,
         vc_required_signatures = ipa_required_signatures args, vc_witnesses = ipa_initial_witnesses args,
         vc_payment_methods = [], vc_bump = pda_bump rt [VERIFIER_CONFIG_SEED]\<rparr>,
       orchestrator_config := Some \<lparr>oc_protocol = protocol_key rt, oc_escrow_config = escrow_config_key rt,
         oc_verifier_config = verifier_config_key rt, oc_domain_chain_id = domain_chain_id,
         oc_protocol_fee = ipa_protocol_fee args, oc_protocol_fee_recipient = ipa_protocol_fee_recipient args,
         oc_lifecycle_policy = PolicyWhitelistAndDispute, oc_allow_multiple_intents = False,
         oc_next_intent_id = 0, oc_paused = False, oc_bump = pda_bump rt [ORCHESTRATOR_CONFIG_SEED]\<rparr>,
       stake_vault_config := Some \<lparr>sv_protocol = protocol_key rt, sv_stake_mint = stake_mint,
         sv_controller = dispute_config_key rt, sv_pending_controller = None, sv_pending_controller_valid_at = 0,
         sv_controller_change_delay = ipa_controller_change_delay args, sv_total_staked = 0,
         sv_total_claimable = 0, sv_bump = pda_bump rt [STAKE_VAULT_CONFIG_SEED],
         sv_vault_authority_bump = pda_bump rt [STAKE_VAULT_CONFIG_SEED]\<rparr>,
       rate_manager_config := Some \<lparr>rmc_protocol = protocol_key rt, rmc_next_manager_id = 0,
         rmc_bump = pda_bump rt [RATE_MANAGER_CONFIG_SEED]\<rparr>,
       whitelist_config := Some \<lparr>wc_protocol = protocol_key rt, wc_next_group_id = 0,
         wc_bump = pda_bump rt [WHITELIST_CONFIG_SEED]\<rparr>,
       dispute_config := Some \<lparr>dg_protocol = protocol_key rt, dg_domain_chain_id = domain_chain_id,
         dg_stake_vault = stake_vault_config_key rt, dg_verifier_config = verifier_config_key rt,
         dg_admissions_paused = False, dg_bump = pda_bump rt [DISPUTE_CONFIG_SEED]\<rparr>
     \<rparr>"

declare initial_accounts_def [simp]

text \<open>
  \<^verbatim>\<open>programdata_address\<close> is the address the program account names, \<^verbatim>\<open>program_data\<close> the supplied account and its
  upgrade authority, \<^verbatim>\<open>slot_hashes\<close> the bytes of the sysvar.
\<close>

definition handle_initialize_protocol ::
  "runtime \<Rightarrow> ledger \<Rightarrow> pubkey \<Rightarrow> pubkey option \<Rightarrow> pubkey \<times> pubkey option \<Rightarrow> u8 list \<Rightarrow> pubkey \<Rightarrow>
   InitializeProtocolArgs \<Rightarrow> ledger result" where
  "handle_initialize_protocol rt ls authority programdata_address program_data slot_hashes stake_mint args =
     init (protocol ls) (
     and_then (mint_account ls stake_mint) (\<lambda>mint.
     init (escrow_config ls) (
     init (verifier_config ls) (
     init (orchestrator_config ls) (
     init (stake_vault_config ls) (
     init (rate_manager_config ls) (
     init (whitelist_config ls) (
     init (dispute_config ls) (
     require (programdata_address = Some (fst program_data)) Unauthorized (
     require (snd program_data = Some authority) Unauthorized (
     and_then (newest_slot_hash slot_hashes) (\<lambda>(domain_seed_slot, domain_seed).
     let domain_chain_id = derive_deployment_domain rt crate_ID domain_seed in
     require (domain_chain_id \<noteq> 0) InvalidDeploymentDomain (
     require (mint_program mint = spl_token_ID rt) Unauthorized (
     require (mint_decimals mint = 6) Unauthorized (
     check_initialize_args args (
     Inr (initial_accounts rt ls authority domain_seed_slot domain_seed domain_chain_id stake_mint args)))))))))))))))))"

subsection \<open>Governance\<close>

definition protocol_account :: "runtime \<Rightarrow> ledger \<Rightarrow> ProtocolConfig result" where
  "protocol_account rt ls =
     and_then (account (protocol ls)) (\<lambda>p.
     seeds_bump rt [PROTOCOL_SEED] (pc_bump p) (Inr p))"

text \<open>The signature of the protocol authority that every governance context demands.\<close>

definition governed_by :: "runtime \<Rightarrow> ledger \<Rightarrow> pubkey \<Rightarrow> ProtocolConfig result" where
  "governed_by rt ls authority =
     and_then (protocol_account rt ls) (\<lambda>p.
     constraint (authority = pc_authority p) ConstraintAddress (Inr p))"

definition handle_propose_protocol_authority :: "runtime \<Rightarrow> ledger \<Rightarrow> pubkey \<Rightarrow> pubkey option \<Rightarrow> ledger result" where
  "handle_propose_protocol_authority rt ls authority pending =
     and_then (governed_by rt ls authority) (\<lambda>p.
     require (pending \<noteq> Some 0) ZeroAddress (
     require (pending \<noteq> Some (pc_authority p)) AlreadyInState (
     require (pc_pending_authority p \<noteq> pending) AlreadyInState (
     Inr (ls\<lparr>protocol := Some (p\<lparr>pc_pending_authority := pending\<rparr>)\<rparr>)))))"

definition handle_accept_protocol_authority :: "runtime \<Rightarrow> ledger \<Rightarrow> pubkey \<Rightarrow> ledger result" where
  "handle_accept_protocol_authority rt ls pending_authority =
     and_then (protocol_account rt ls) (\<lambda>p.
     require (pc_pending_authority p = Some pending_authority) Unauthorized (
     Inr (ls\<lparr>protocol := Some (p\<lparr>pc_authority := pending_authority, pc_pending_authority := None\<rparr>)\<rparr>)))"

record ConfigureOrchestratorArgs =
  coa_protocol_fee :: "u128 option"
  coa_protocol_fee_recipient :: "pubkey option"
  coa_lifecycle_policy :: "LifecyclePolicy option"
  coa_allow_multiple_intents :: "bool option"
  coa_paused :: "bool option"

definition handle_configure_orchestrator :: "runtime \<Rightarrow> ledger \<Rightarrow> pubkey \<Rightarrow> ConfigureOrchestratorArgs \<Rightarrow> ledger result" where
  "handle_configure_orchestrator rt ls authority args =
     and_then (governed_by rt ls authority) (\<lambda>p.
     and_then (account (orchestrator_config ls)) (\<lambda>oc.
     seeds_bump rt [ORCHESTRATOR_CONFIG_SEED] (oc_bump oc) (
     require (oc_protocol oc = protocol_key rt) Unauthorized (
     and_then (if_some (coa_protocol_fee args) (\<lambda>fee oc.
         require (fee \<le> MAX_FEE) FeeExceedsMaximum (Inr (oc\<lparr>oc_protocol_fee := fee\<rparr>))) oc) (\<lambda>oc.
     and_then (if_some (coa_protocol_fee_recipient args) (\<lambda>recipient oc.
         require (recipient \<noteq> 0) ZeroAddress (Inr (oc\<lparr>oc_protocol_fee_recipient := recipient\<rparr>))) oc) (\<lambda>oc.
     and_then (if_some (coa_lifecycle_policy args) (\<lambda>policy oc. Inr (oc\<lparr>oc_lifecycle_policy := policy\<rparr>)) oc) (\<lambda>oc.
     and_then (if_some (coa_allow_multiple_intents args) (\<lambda>allow oc. Inr (oc\<lparr>oc_allow_multiple_intents := allow\<rparr>)) oc) (\<lambda>oc.
     and_then (if_some (coa_paused args) (\<lambda>paused oc. Inr (oc\<lparr>oc_paused := paused\<rparr>)) oc) (\<lambda>oc.
     Inr (ls\<lparr>orchestrator_config := Some oc\<rparr>))))))))))"

record ConfigureEscrowArgs =
  cea_dust_recipient :: "pubkey option"
  cea_dust_threshold :: "u64 option"
  cea_max_intents_per_deposit :: "u16 option"
  cea_intent_expiration_period :: "i64 option"
  cea_paused :: "bool option"

definition handle_configure_escrow :: "runtime \<Rightarrow> ledger \<Rightarrow> pubkey \<Rightarrow> ConfigureEscrowArgs \<Rightarrow> ledger result" where
  "handle_configure_escrow rt ls authority args =
     and_then (governed_by rt ls authority) (\<lambda>p.
     and_then (escrow_account rt ls) (\<lambda>ec.
     require (ec_protocol ec = protocol_key rt) Unauthorized (
     and_then (if_some (cea_dust_recipient args) (\<lambda>recipient ec.
         require (recipient \<noteq> 0) ZeroAddress (Inr (ec\<lparr>ec_dust_recipient := recipient\<rparr>))) ec) (\<lambda>ec.
     and_then (if_some (cea_dust_threshold args) (\<lambda>threshold ec. Inr (ec\<lparr>ec_dust_threshold := threshold\<rparr>)) ec) (\<lambda>ec.
     and_then (if_some (cea_max_intents_per_deposit args) (\<lambda>maximum ec.
         require (maximum > 0) ZeroValue (Inr (ec\<lparr>ec_max_intents_per_deposit := maximum\<rparr>))) ec) (\<lambda>ec.
     and_then (if_some (cea_intent_expiration_period args) (\<lambda>expiry ec.
         require (sint expiry > 0) ZeroValue (
         require (sint expiry \<le> sint MAX_INTENT_LIFETIME_SECONDS) AmountAboveMaximum (
         Inr (ec\<lparr>ec_intent_expiration_period := expiry\<rparr>)))) ec) (\<lambda>ec.
     and_then (if_some (cea_paused args) (\<lambda>paused ec. Inr (ec\<lparr>ec_paused := paused\<rparr>)) ec) (\<lambda>ec.
     Inr (ls\<lparr>escrow_config := Some ec\<rparr>)))))))))"

definition handle_propose_stake_controller :: "runtime \<Rightarrow> ledger \<Rightarrow> pubkey \<Rightarrow> pubkey option \<Rightarrow> ledger result" where
  "handle_propose_stake_controller rt ls authority pending =
     and_then (governed_by rt ls authority) (\<lambda>p.
     and_then (vault_account rt ls) (\<lambda>vault.
     require (sv_protocol vault = protocol_key rt) Unauthorized (
     case pending of
       Some candidate \<Rightarrow>
         require (candidate \<noteq> 0) ZeroAddress (
         require (candidate \<noteq> sv_controller vault) AlreadyInState (
         and_then (ok_or (checked_sadd (unix_timestamp rt) (sv_controller_change_delay vault)) ArithmeticOverflow) (\<lambda>valid_at.
         Inr (ls\<lparr>stake_vault_config := Some (vault\<lparr>sv_pending_controller := Some candidate,
                                                  sv_pending_controller_valid_at := valid_at\<rparr>)\<rparr>))))
     | None \<Rightarrow>
         require (sv_pending_controller vault \<noteq> None) AlreadyInState (
         Inr (ls\<lparr>stake_vault_config := Some (vault\<lparr>sv_pending_controller := None,
                                                  sv_pending_controller_valid_at := 0\<rparr>)\<rparr>)))))"

definition handle_accept_stake_controller :: "runtime \<Rightarrow> ledger \<Rightarrow> pubkey \<Rightarrow> ledger result" where
  "handle_accept_stake_controller rt ls pending_controller =
     and_then (vault_account rt ls) (\<lambda>vault.
     require (sv_pending_controller vault = Some pending_controller) Unauthorized (
     require (sint (unix_timestamp rt) \<ge> sint (sv_pending_controller_valid_at vault)) ControllerNotReady (
     Inr (ls\<lparr>stake_vault_config := Some (vault\<lparr>sv_controller := pending_controller,
                                              sv_pending_controller := None,
                                              sv_pending_controller_valid_at := 0\<rparr>)\<rparr>))))"

subsection \<open>Reading the newest slot hash\<close>

lemma slice_get_append:
  "slice_get (xs @ ys @ zs) (length xs) (length xs + length ys) = Some ys"
  by (simp add: slice_get_def)

lemma le_nat_to_le_bytes_u64: "le_nat (to_le_bytes (w :: u64)) = unat w"
  using unat_bound [of w] by (simp add: to_le_bytes_def le_nat_le_bytes)

lemma of_be_bytes_key_bytes [simp]: "of_be_bytes (key_bytes k) = k"
proof -
  have "(256 :: nat) ^ 32 = 2 ^ 256" by simp
  then have "be_nat (key_bytes k) = unat k"
    using unat_bound [of k] by (simp add: key_bytes_def to_be_bytes_def be_nat_be_bytes)
  then show ?thesis by (simp add: of_be_bytes_def)
qed

lemma newest_slot_hash_layout:
  assumes count: "0 < unat count" "unat count \<le> MAX_ENTRIES" and "hash \<noteq> 0"
    and len: "40 * (unat count - 1) \<le> length rest"
  shows "newest_slot_hash (to_le_bytes (count :: u64) @ to_le_bytes (slot :: u64) @ key_bytes hash @ rest) = Inr (slot, hash)"
proof -
  let ?d = "to_le_bytes count @ to_le_bytes slot @ key_bytes hash @ rest"
  have c: "slice_get ?d 0 8 = Some (to_le_bytes count)" by (simp add: slice_get_def)
  have s: "slice_get ?d 8 16 = Some (to_le_bytes slot)"
    using slice_get_append [of "to_le_bytes count" "to_le_bytes slot" "key_bytes hash @ rest"] by simp
  have h: "slice_get ?d 16 48 = Some (key_bytes hash)"
    using slice_get_append [of "to_le_bytes count @ to_le_bytes slot" "key_bytes hash" rest] by simp
  have "8 + unat count * 40 \<le> length ?d" using count len by simp
  with c s h assms show ?thesis by (simp add: newest_slot_hash_def Let_def le_nat_to_le_bytes_u64)
qed

lemma newest_slot_hash_short: "length data < 48 \<Longrightarrow> newest_slot_hash data = Inl (Zkp2p InvalidDeploymentDomain)"
proof (cases "length data < 8")
  case True
  then show ?thesis by (simp add: newest_slot_hash_def Let_def slice_get_def)
next
  case False
  assume "length data < 48"
  then have "\<not> (0 < le_nat (take 8 data) \<and> 8 + le_nat (take 8 data) * 40 \<le> length data)" by auto
  with False show ?thesis
    by (auto simp: newest_slot_hash_def Let_def slice_get_def require_def)
qed

subsection \<open>Handovers\<close>

lemma protocol_account_Inr [result_simps]:
  "protocol_account rt ls = Inr p \<longleftrightarrow> protocol ls = Some p \<and> pc_bump p = pda_bump rt [PROTOCOL_SEED]"
  by (auto simp: protocol_account_def result_simps)

lemma governed_by_Inr [result_simps]:
  "governed_by rt ls a = Inr p \<longleftrightarrow> protocol ls = Some p \<and> pc_bump p = pda_bump rt [PROTOCOL_SEED] \<and> a = pc_authority p"
  by (auto simp: governed_by_def result_simps)

lemma escrow_account_Inr [result_simps]:
  "escrow_account rt ls = Inr e \<longleftrightarrow> escrow_config ls = Some e \<and> ec_bump e = pda_bump rt [ESCROW_CONFIG_SEED]"
  by (auto simp: escrow_account_def result_simps)

definition protocol_authority :: "ledger \<Rightarrow> pubkey" where
  "protocol_authority ls = (case protocol ls of None \<Rightarrow> 0 | Some p \<Rightarrow> pc_authority p)"

definition protocol_pending :: "ledger \<Rightarrow> pubkey option" where
  "protocol_pending ls = (case protocol ls of None \<Rightarrow> None | Some p \<Rightarrow> pc_pending_authority p)"

interpretation protocol_handover: handover protocol_authority protocol_pending
  "\<lambda>ls c. handle_propose_protocol_authority rt ls authority c" "\<lambda>ls k. handle_accept_protocol_authority rt ls k"
  for rt :: runtime and authority :: pubkey
  by unfold_locales (auto simp: handle_propose_protocol_authority_def handle_accept_protocol_authority_def
      protocol_authority_def protocol_pending_def result_simps)

definition stake_controller :: "ledger \<Rightarrow> pubkey" where
  "stake_controller ls = (case stake_vault_config ls of None \<Rightarrow> 0 | Some v \<Rightarrow> sv_controller v)"

definition pending_stake_controller :: "ledger \<Rightarrow> pubkey option" where
  "pending_stake_controller ls = (case stake_vault_config ls of None \<Rightarrow> None | Some v \<Rightarrow> sv_pending_controller v)"

interpretation controller_handover: handover stake_controller pending_stake_controller
  "\<lambda>ls c. handle_propose_stake_controller rt ls authority c" "\<lambda>ls k. handle_accept_stake_controller rt ls k"
  for rt :: runtime and authority :: pubkey
proof unfold_locales
  fix ls ls' c
  assume "handle_propose_stake_controller rt ls authority c = Inr ls'"
  then show "stake_controller ls' = stake_controller ls \<and> pending_stake_controller ls' = c \<and>
      c \<noteq> Some 0 \<and> c \<noteq> Some (stake_controller ls)"
    by (cases c) (auto simp: handle_propose_stake_controller_def stake_controller_def
        pending_stake_controller_def result_simps)
next
  fix ls ls' k
  assume "handle_accept_stake_controller rt ls k = Inr ls'"
  then show "pending_stake_controller ls = Some k \<and> stake_controller ls' = k \<and>
      pending_stake_controller ls' = None"
    by (auto simp: handle_accept_stake_controller_def stake_controller_def pending_stake_controller_def
        result_simps)
qed

end
