(* ===== verification/Verifier.thy ===== *)
theory Verifier
  imports Governance
begin

text \<open>
  \<^verbatim>\<open>src/programs/zkp2p_solana/src/instructions/verifier.rs\<close>: the witness set and its threshold, and the
  verification of payment attestations: data hash, EIP-712 digest, signature recovery. Hashing and curve
  arithmetic are parameters of the runtime. A signature is its 65 bytes \<^verbatim>\<open>r || s || v\<close>.
\<close>

record PaymentDetails =
  pd_method :: bytes32
  pd_payee_id :: bytes32
  pd_amount :: u128
  pd_currency :: bytes32
  pd_timestamp_ms :: u64
  pd_payment_id :: bytes32

record IntentSnapshot =
  sn_intent_hash :: bytes32
  sn_amount :: u64
  sn_payment_method :: bytes32
  sn_fiat_currency :: bytes32
  sn_payee_details :: bytes32
  sn_conversion_rate :: u128
  sn_signal_timestamp :: i64
  sn_timestamp_buffer_ms :: u64

record PaymentAttestation =
  pa_intent_hash :: bytes32
  pa_release_amount :: u64
  pa_data_hash :: bytes32
  pa_signatures :: "u8 list list"
  pa_payment :: PaymentDetails
  pa_snapshot :: IntentSnapshot

subsection \<open>Configuration\<close>

definition configure_verifier :: "runtime \<Rightarrow> ledger \<Rightarrow> pubkey \<Rightarrow> VerifierConfig result" where
  "configure_verifier rt ls authority =
     and_then (governed_by rt ls authority) (\<lambda>p.
     and_then (account (verifier_config ls)) (\<lambda>verifier.
     seeds_bump rt [VERIFIER_CONFIG_SEED] (vc_bump verifier) (
     require (vc_protocol verifier = protocol_key rt) Unauthorized (
     Inr verifier))))"

definition set_payment_method :: "VerifierConfig \<Rightarrow> bytes32 \<Rightarrow> bool \<Rightarrow> VerifierConfig result" where
  "set_payment_method verifier payment_method enabled =
     require (payment_method \<noteq> 0) ZeroValue (
     case (enabled, position payment_method (vc_payment_methods verifier)) of
       (True, None) \<Rightarrow>
         require (length (vc_payment_methods verifier) < 64) AmountAboveMaximum (
         Inr (verifier\<lparr>vc_payment_methods := vc_payment_methods verifier @ [payment_method]\<rparr>))
     | (False, Some index) \<Rightarrow>
         Inr (verifier\<lparr>vc_payment_methods := vec_remove index (vc_payment_methods verifier)\<rparr>)
     | _ \<Rightarrow> Inl (Zkp2p AlreadyInState))"

definition handle_set_verifier_payment_method :: "runtime \<Rightarrow> ledger \<Rightarrow> pubkey \<Rightarrow> bytes32 \<Rightarrow> bool \<Rightarrow> ledger result" where
  "handle_set_verifier_payment_method rt ls authority payment_method enabled =
     and_then (configure_verifier rt ls authority) (\<lambda>verifier.
     and_then (set_payment_method verifier payment_method enabled) (\<lambda>verifier.
     Inr (ls\<lparr>verifier_config := Some verifier\<rparr>)))"

definition set_witness :: "VerifierConfig \<Rightarrow> eth_address \<Rightarrow> bool \<Rightarrow> VerifierConfig result" where
  "set_witness verifier witness enabled =
     require (witness \<noteq> 0) ZeroAddress (
     case (enabled, position witness (vc_witnesses verifier)) of
       (True, None) \<Rightarrow>
         require (length (vc_witnesses verifier) < MAX_WITNESSES) AmountAboveMaximum (
         Inr (verifier\<lparr>vc_witnesses := vc_witnesses verifier @ [witness]\<rparr>))
     | (False, Some index) \<Rightarrow>
         require (length (vc_witnesses verifier) - 1 \<ge> unat (vc_required_signatures verifier)) InvalidSignature (
         Inr (verifier\<lparr>vc_witnesses := vec_remove index (vc_witnesses verifier)\<rparr>))
     | _ \<Rightarrow> Inl (Zkp2p AlreadyInState))"

definition handle_set_verifier_witness :: "runtime \<Rightarrow> ledger \<Rightarrow> pubkey \<Rightarrow> eth_address \<Rightarrow> bool \<Rightarrow> ledger result" where
  "handle_set_verifier_witness rt ls authority witness enabled =
     and_then (configure_verifier rt ls authority) (\<lambda>verifier.
     and_then (set_witness verifier witness enabled) (\<lambda>verifier.
     Inr (ls\<lparr>verifier_config := Some verifier\<rparr>)))"

definition handle_set_required_signatures :: "runtime \<Rightarrow> ledger \<Rightarrow> pubkey \<Rightarrow> u8 \<Rightarrow> ledger result" where
  "handle_set_required_signatures rt ls authority required =
     and_then (configure_verifier rt ls authority) (\<lambda>verifier.
     require (required > 0) ZeroValue (
     require (unat required \<le> length (vc_witnesses verifier)) InvalidSignature (
     Inr (ls\<lparr>verifier_config := Some (verifier\<lparr>vc_required_signatures := required\<rparr>)\<rparr>))))"

subsection \<open>Hashes and digests\<close>

text \<open>The slices \<^verbatim>\<open>payment_data_hash\<close> passes to the hasher.\<close>

definition payment_data_slices :: "PaymentDetails \<Rightarrow> IntentSnapshot \<Rightarrow> u8 list list" where
  "payment_data_slices payment snapshot =
     [key_bytes (pd_method payment), key_bytes (pd_payee_id payment), to_le_bytes (pd_amount payment),
      key_bytes (pd_currency payment), to_le_bytes (pd_timestamp_ms payment), key_bytes (pd_payment_id payment),
      key_bytes (sn_intent_hash snapshot), to_le_bytes (sn_amount snapshot),
      key_bytes (sn_payment_method snapshot), key_bytes (sn_fiat_currency snapshot),
      key_bytes (sn_payee_details snapshot), to_le_bytes (sn_conversion_rate snapshot),
      to_le_bytes (sn_signal_timestamp snapshot), to_le_bytes (sn_timestamp_buffer_ms snapshot)]"

definition payment_data_hash :: "runtime \<Rightarrow> PaymentDetails \<Rightarrow> IntentSnapshot \<Rightarrow> bytes32" where
  "payment_data_hash rt payment snapshot = hashv rt (payment_data_slices payment snapshot)"

text \<open>\<^verbatim>\<open>get(12..)\<close> of a hash: the 20 bytes of an Ethereum address; and the same bytes left-padded to a word.\<close>

definition address_of_hash :: "bytes32 \<Rightarrow> eth_address" where
  "address_of_hash h = of_be_bytes (drop 12 (key_bytes h))"

definition address_word :: "bytes32 \<Rightarrow> u8 list" where
  "address_word h = replicate 12 0 @ drop 12 (key_bytes h)"

definition payment_attestation_digest :: "runtime \<Rightarrow> pubkey \<Rightarrow> bytes32 \<Rightarrow> bytes32 \<Rightarrow> u64 \<Rightarrow> bytes32 \<Rightarrow> bytes32" where
  "payment_attestation_digest rt verifier_key domain_chain_id intent_hash release_amount data_hash =
     (let verifier_hash = keccak256 rt (key_bytes verifier_key);
          domain_separator = hashv rt
            [key_bytes EIP712_DOMAIN_TYPEHASH, key_bytes PAYMENT_VERIFIER_NAME_HASH,
             key_bytes EIP712_VERSION_ONE_HASH, key_bytes domain_chain_id, address_word verifier_hash];
          release_word = replicate 24 0 @ to_be_bytes release_amount;
          struct_hash = hashv rt
            [key_bytes PAYMENT_ATTESTATION_TYPEHASH, key_bytes intent_hash, release_word, key_bytes data_hash] in
      hashv rt [[0x19, 0x01], key_bytes domain_separator, key_bytes struct_hash])"

subsection \<open>Witness threshold\<close>

text \<open>Slices of bytes compare lexicographically.\<close>

fun bytes_le :: "u8 list \<Rightarrow> u8 list \<Rightarrow> bool" where
  "bytes_le [] ys = True"
| "bytes_le (x # xs) [] = False"
| "bytes_le (x # xs) (y # ys) = (x < y \<or> x = y \<and> bytes_le xs ys)"

definition HALF_ORDER :: "u8 list" where
  "HALF_ORDER =
     [0x7f, 0xff, 0xff, 0xff, 0xff, 0xff, 0xff, 0xff, 0xff, 0xff, 0xff, 0xff, 0xff, 0xff, 0xff,
      0xff, 0x5d, 0x57, 0x6e, 0x73, 0x57, 0xa4, 0x50, 0x1d, 0xdf, 0xe9, 0x2f, 0x46, 0x68, 0x1b,
      0x20, 0xa0]"

definition is_low_s :: "u8 list \<Rightarrow> bool" where
  "is_low_s signature = (length signature \<ge> 32 \<and> bytes_le (drop 32 signature) HALF_ORDER)"

definition recovery_id :: "u8 \<Rightarrow> u8 result" where
  "recovery_id b =
     (if b = 0 \<or> b = 1 then Inr b
      else if b = 27 \<or> b = 28 then ok_or (checked_sub b 27) InvalidSignature
      else Inl (Zkp2p InvalidSignature))"

text \<open>One iteration of the loop: the address whose key made the signature.\<close>

definition recover_signer :: "runtime \<Rightarrow> bytes32 \<Rightarrow> u8 list \<Rightarrow> eth_address result" where
  "recover_signer rt digest signature =
     and_then (ok_or (slice_get signature 0 64) InvalidSignature) (\<lambda>signature_bytes.
     and_then (ok_or (if 64 < length signature then Some (signature ! 64) else None) InvalidSignature) (\<lambda>recovery_byte.
     and_then (recovery_id recovery_byte) (\<lambda>recovery_id.
     require (is_low_s signature_bytes) InvalidSignature (
     and_then (ok_or (secp256k1_recover rt digest recovery_id signature_bytes) InvalidSignature) (\<lambda>public_key.
     Inr (address_of_hash (keccak256 rt public_key)))))))"

fun recover_all :: "runtime \<Rightarrow> VerifierConfig \<Rightarrow> bytes32 \<Rightarrow> eth_address list \<Rightarrow> u8 list list \<Rightarrow> eth_address list result" where
  "recover_all rt verifier digest recovered [] = Inr recovered"
| "recover_all rt verifier digest recovered (signature # rest) =
     and_then (recover_signer rt digest signature) (\<lambda>address.
     require (address \<in> set (vc_witnesses verifier)) InvalidSignature (
     require (address \<notin> set recovered) InvalidSignature (
     recover_all rt verifier digest (recovered @ [address]) rest)))"

definition verify_witness_threshold :: "runtime \<Rightarrow> VerifierConfig \<Rightarrow> bytes32 \<Rightarrow> u8 list list \<Rightarrow> unit result" where
  "verify_witness_threshold rt verifier digest signatures =
     require (length signatures \<ge> unat (vc_required_signatures verifier)) InvalidSignature (
     require (length signatures \<le> length (vc_witnesses verifier)) InvalidSignature (
     and_then (recover_all rt verifier digest [] signatures) (\<lambda>recovered.
     require (length recovered \<ge> unat (vc_required_signatures verifier)) InvalidSignature (
     Inr ()))))"

subsection \<open>Payment attestations\<close>

definition validate_snapshot :: "Intent \<Rightarrow> IntentSnapshot \<Rightarrow> unit result" where
  "validate_snapshot intent snapshot =
     require (sn_intent_hash snapshot = i_intent_hash intent) IntentSnapshotMismatch (
     require (sn_amount snapshot = i_amount intent) IntentSnapshotMismatch (
     require (sn_payment_method snapshot = i_payment_method intent) IntentSnapshotMismatch (
     require (sn_fiat_currency snapshot = i_fiat_currency intent) IntentSnapshotMismatch (
     require (sn_payee_details snapshot = i_payee_id intent) IntentSnapshotMismatch (
     require (sn_conversion_rate snapshot = i_conversion_rate intent) IntentSnapshotMismatch (
     require (sn_signal_timestamp snapshot = i_timestamp intent) IntentSnapshotMismatch (
     Inr ())))))))"

definition verify_payment_attestation ::
  "runtime \<Rightarrow> pubkey \<Rightarrow> VerifierConfig \<Rightarrow> Intent \<Rightarrow> PaymentAttestation \<Rightarrow> bytes32 result" where
  "verify_payment_attestation rt verifier_key verifier intent attestation =
     require (pa_intent_hash attestation = i_intent_hash intent) IntentSnapshotMismatch (
     require (pa_release_amount attestation > 0) ZeroValue (
     require (pd_method (pa_payment attestation) \<in> set (vc_payment_methods verifier)) PaymentMethodNotSupported (
     require (pd_method (pa_payment attestation) = sn_payment_method (pa_snapshot attestation)) IntentSnapshotMismatch (
     require (pd_payment_id (pa_payment attestation) \<noteq> 0) ZeroValue (
     require (pd_amount (pa_payment attestation) > 0) ZeroValue (
     require (pd_currency (pa_payment attestation) \<noteq> 0) ZeroValue (
     require (sn_timestamp_buffer_ms (pa_snapshot attestation) \<le> MAX_TIMESTAMP_BUFFER_MS) AmountAboveMaximum (
     and_then (validate_snapshot intent (pa_snapshot attestation)) (\<lambda>_.
     require (payment_data_hash rt (pa_payment attestation) (pa_snapshot attestation) = pa_data_hash attestation) DataHashMismatch (
     let digest = payment_attestation_digest rt verifier_key (vc_domain_chain_id verifier)
                    (pa_intent_hash attestation) (pa_release_amount attestation) (pa_data_hash attestation) in
     and_then (verify_witness_threshold rt verifier digest (pa_signatures attestation)) (\<lambda>_.
     Inr (hashv rt [key_bytes (pd_method (pa_payment attestation)),
                    key_bytes (pd_payment_id (pa_payment attestation))]))))))))))))"

subsection \<open>The witness set\<close>

definition verifier_ok :: "VerifierConfig \<Rightarrow> bool" where
  "verifier_ok v \<longleftrightarrow>
     0 < vc_required_signatures v \<and> unat (vc_required_signatures v) \<le> length (vc_witnesses v) \<and>
     length (vc_witnesses v) \<le> MAX_WITNESSES \<and> distinct (vc_witnesses v) \<and> 0 \<notin> set (vc_witnesses v) \<and>
     distinct (vc_payment_methods v) \<and> length (vc_payment_methods v) \<le> 64 \<and> 0 \<notin> set (vc_payment_methods v)"

interpretation method_registry: bounded_registry vc_payment_methods set_payment_method 64
proof unfold_locales
  fix v v' :: VerifierConfig and m
  assume "set_payment_method v m True = Inr v'"
  then show "m \<notin> set (vc_payment_methods v) \<and> length (vc_payment_methods v) < 64 \<and>
      vc_payment_methods v' = vc_payment_methods v @ [m]"
    by (auto simp: set_payment_method_def result_simps split: option.splits)
next
  fix v v' :: VerifierConfig and m
  assume "set_payment_method v m False = Inr v'"
  then obtain i where "position m (vc_payment_methods v) = Some i"
      and "vc_payment_methods v' = vec_remove i (vc_payment_methods v)"
    by (auto simp: set_payment_method_def result_simps split: option.splits)
  then show "m \<in> set (vc_payment_methods v) \<and> vc_payment_methods v' = remove1 m (vc_payment_methods v)"
    using position_Some [of m "vc_payment_methods v" i] by (auto simp: vec_remove_position)
qed

interpretation witness_registry: bounded_registry vc_witnesses set_witness MAX_WITNESSES
proof unfold_locales
  fix v v' :: VerifierConfig and w
  assume "set_witness v w True = Inr v'"
  then show "w \<notin> set (vc_witnesses v) \<and> length (vc_witnesses v) < MAX_WITNESSES \<and>
      vc_witnesses v' = vc_witnesses v @ [w]"
    by (auto simp: set_witness_def result_simps split: option.splits)
next
  fix v v' :: VerifierConfig and w
  assume "set_witness v w False = Inr v'"
  then obtain i where "position w (vc_witnesses v) = Some i"
      and "vc_witnesses v' = vec_remove i (vc_witnesses v)"
    by (auto simp: set_witness_def result_simps split: option.splits)
  then show "w \<in> set (vc_witnesses v) \<and> vc_witnesses v' = remove1 w (vc_witnesses v)"
    using position_Some [of w "vc_witnesses v" i] by (auto simp: vec_remove_position)
qed

lemma set_payment_method_ok:
  assumes "verifier_ok v" and "set_payment_method v m b = Inr v'"
  shows "verifier_ok v'"
proof -
  have "m \<noteq> 0" and same: "v' = v\<lparr>vc_payment_methods := vc_payment_methods v'\<rparr>"
    using assms(2) by (auto simp: set_payment_method_def result_simps split: option.splits bool.splits)
  have "distinct (vc_payment_methods v') \<and> length (vc_payment_methods v') \<le> 64"
    by (rule method_registry.toggle_wf [OF _ assms(2)]) (use assms(1) in \<open>simp add: verifier_ok_def\<close>)
  moreover have "0 \<notin> set (vc_payment_methods v')"
    using method_registry.toggle_set [OF _ assms(2)] assms(1) \<open>m \<noteq> 0\<close> by (auto simp: verifier_ok_def split: if_splits)
  ultimately show ?thesis using assms(1) by (subst same) (simp add: verifier_ok_def)
qed

lemma set_witness_ok:
  assumes "verifier_ok v" and "set_witness v w b = Inr v'"
  shows "verifier_ok v'"
proof -
  have "w \<noteq> 0" and same: "v' = v\<lparr>vc_witnesses := vc_witnesses v'\<rparr>"
    using assms(2) by (auto simp: set_witness_def result_simps split: option.splits bool.splits)
  have "distinct (vc_witnesses v') \<and> length (vc_witnesses v') \<le> MAX_WITNESSES"
    by (rule witness_registry.toggle_wf [OF _ assms(2)]) (use assms(1) in \<open>simp add: verifier_ok_def\<close>)
  moreover have "0 \<notin> set (vc_witnesses v')"
    using witness_registry.toggle_set [OF _ assms(2)] assms(1) \<open>w \<noteq> 0\<close> by (auto simp: verifier_ok_def split: if_splits)
  moreover have "unat (vc_required_signatures v) \<le> length (vc_witnesses v')"
  proof (cases b)
    case True
    with witness_registry.enable [of v w v'] assms show ?thesis by (simp add: verifier_ok_def)
  next
    case False
    with witness_registry.disable [of v w v'] assms have
      "w \<in> set (vc_witnesses v)" "vc_witnesses v' = remove1 w (vc_witnesses v)" by simp_all
    moreover have "unat (vc_required_signatures v) \<le> length (vc_witnesses v) - 1"
      using assms(2) False by (auto simp: set_witness_def result_simps split: option.splits)
    ultimately show ?thesis by (simp add: length_remove1)
  qed
  ultimately show ?thesis using assms(1) by (subst same) (simp add: verifier_ok_def)
qed

subsection \<open>Comparison of signatures\<close>

lemma bytes_le_be_nat:
  "length xs = length ys \<Longrightarrow> bytes_le xs ys \<longleftrightarrow> be_nat xs \<le> be_nat ys"
proof (induction xs ys rule: list_induct2)
  case Nil
  then show ?case by simp
next
  case (Cons x xs y ys)
  let ?B = "(256 :: nat) ^ length xs"
  have b: "be_nat xs < ?B" "be_nat ys < ?B" using be_nat_bound [of xs] be_nat_bound [of ys] Cons.hyps by simp_all
  consider "unat x < unat y" | "unat x = unat y" | "unat y < unat x" by linarith
  then show ?case
  proof cases
    case 1
    then have "(unat x + 1) * ?B \<le> unat y * ?B" by (intro mult_le_mono1) simp
    with b 1 Cons.hyps show ?thesis by (simp add: be_nat_Cons word_less_nat_alt)
  next
    case 2
    with Cons show ?thesis by (simp add: be_nat_Cons word_eq_of_unat word_less_nat_alt)
  next
    case 3
    then have "(unat y + 1) * ?B \<le> unat x * ?B" by (intro mult_le_mono1) simp
    with b 3 Cons.hyps show ?thesis by (simp add: be_nat_Cons word_eq_of_unat word_less_nat_alt)
  qed
qed

subsection \<open>Recovered signers\<close>

lemma recover_all_Inr:
  "recover_all rt v digest recovered sigs = Inr ws \<Longrightarrow> distinct recovered \<Longrightarrow>
     \<exists>new. ws = recovered @ new \<and> distinct ws \<and> set new \<subseteq> set (vc_witnesses v) \<and>
       list_all2 (\<lambda>s a. recover_signer rt digest s = Inr a) sigs new"
proof (induction rt v digest recovered sigs rule: recover_all.induct)
  case (1 rt v digest recovered)
  then show ?case by simp
next
  case (2 rt v digest recovered s rest)
  from 2(2) obtain a where a: "recover_signer rt digest s = Inr a" "a \<in> set (vc_witnesses v)" "a \<notin> set recovered"
      and rest: "recover_all rt v digest (recovered @ [a]) rest = Inr ws"
    by (auto simp: result_simps)
  from 2(1) [OF rest] 2(3) a obtain new where "ws = (recovered @ [a]) @ new" "distinct ws"
      "set new \<subseteq> set (vc_witnesses v)" "list_all2 (\<lambda>s a. recover_signer rt digest s = Inr a) rest new"
    by auto
  with a show ?case by (intro exI [of _ "a # new"]) simp
qed

lemma recover_all_complete:
  "list_all2 (\<lambda>s a. recover_signer rt digest s = Inr a) sigs new \<Longrightarrow> set new \<subseteq> set (vc_witnesses v) \<Longrightarrow>
     distinct (recovered @ new) \<Longrightarrow> recover_all rt v digest recovered sigs = Inr (recovered @ new)"
proof (induction sigs new arbitrary: recovered rule: list_all2_induct)
  case Nil
  then show ?case by simp
next
  case (Cons s sigs a new)
  from Cons.IH [of "recovered @ [a]"] Cons.prems Cons.hyps show ?case by simp
qed

lemma verify_witness_threshold_iff:
  "verify_witness_threshold rt v digest sigs = Inr () \<longleftrightarrow>
     unat (vc_required_signatures v) \<le> length sigs \<and> length sigs \<le> length (vc_witnesses v) \<and>
     (\<exists>ws. list_all2 (\<lambda>s a. recover_signer rt digest s = Inr a) sigs ws \<and> distinct ws \<and>
        set ws \<subseteq> set (vc_witnesses v))"
proof
  assume "verify_witness_threshold rt v digest sigs = Inr ()"
  then obtain ws where "recover_all rt v digest [] sigs = Inr ws"
      and "unat (vc_required_signatures v) \<le> length sigs" "length sigs \<le> length (vc_witnesses v)"
    by (auto simp: verify_witness_threshold_def result_simps)
  with recover_all_Inr [of rt v digest "[]" sigs ws] show "unat (vc_required_signatures v) \<le> length sigs \<and>
      length sigs \<le> length (vc_witnesses v) \<and>
      (\<exists>ws. list_all2 (\<lambda>s a. recover_signer rt digest s = Inr a) sigs ws \<and> distinct ws \<and>
        set ws \<subseteq> set (vc_witnesses v))" by auto
next
  assume *: "unat (vc_required_signatures v) \<le> length sigs \<and> length sigs \<le> length (vc_witnesses v) \<and>
     (\<exists>ws. list_all2 (\<lambda>s a. recover_signer rt digest s = Inr a) sigs ws \<and> distinct ws \<and>
        set ws \<subseteq> set (vc_witnesses v))"
  then obtain ws where ws: "list_all2 (\<lambda>s a. recover_signer rt digest s = Inr a) sigs ws" "distinct ws"
      "set ws \<subseteq> set (vc_witnesses v)" by auto
  then have "recover_all rt v digest [] sigs = Inr ws" using recover_all_complete [OF ws(1), of v "[]"] by simp
  with * list_all2_lengthD [OF ws(1)] show "verify_witness_threshold rt v digest sigs = Inr ()"
    by (simp add: verify_witness_threshold_def)
qed

end
