(* ===== verification/Circom.thy ===== *)
theory Circom
  imports Verifier
begin

text \<open>
  The derivation of intent identifiers in \<^verbatim>\<open>src/programs/zkp2p_solana/src/instructions/orchestrator.rs\<close>:
  \<^verbatim>\<open>derive_intent_hash\<close> and the byte-wise modular reduction \<^verbatim>\<open>reduce_circom_field\<close>, whose loop subtracts the
  modulus with a borrow. The theory proves that the loop ends and computes the remainder.
\<close>

definition saturating_add :: "u16 \<Rightarrow> u16 \<Rightarrow> u16" where
  "saturating_add a b = (if unat a + unat b < 2 ^ 16 then a + b else 0xffff)"

definition saturating_sub :: "u16 \<Rightarrow> u16 \<Rightarrow> u16" where
  "saturating_sub a b = (if b \<le> a then a - b else 0)"

text \<open>\<^verbatim>\<open>u8::try_from(x).unwrap_or(0)\<close>\<close>

definition u8_or_zero :: "u16 \<Rightarrow> u8" where
  "u8_or_zero x = (if unat x < 256 then ucast x else 0)"

text \<open>The inner \<^verbatim>\<open>for\<close> loop runs over both arrays from the last byte; the lists here are the reversed arrays.\<close>

fun subtract_loop :: "u16 \<Rightarrow> u8 list \<Rightarrow> u8 list \<Rightarrow> u8 list" where
  "subtract_loop borrow (left_byte # ls) (modulus_byte # ms) =
     (let left = ucast left_byte;
          right = saturating_add (ucast modulus_byte) borrow in
      if left \<ge> right
      then u8_or_zero (saturating_sub left right) # subtract_loop 0 ls ms
      else u8_or_zero (saturating_sub (saturating_add left 256) right) # subtract_loop 1 ls ms)"
| "subtract_loop borrow ls [] = ls"
| "subtract_loop borrow [] ms = []"

definition MODULUS :: "u8 list" where
  "MODULUS =
     [0x30, 0x64, 0x4e, 0x72, 0xe1, 0x31, 0xa0, 0x29, 0xb8, 0x50, 0x45, 0xb6, 0x81, 0x81, 0x58,
      0x5d, 0x97, 0x81, 0x6a, 0x91, 0x68, 0x71, 0xca, 0x8d, 0x3c, 0x20, 0x8c, 0x16, 0xd8, 0x7c,
      0xfd, 0x47]"

definition subtract_modulus :: "u8 list \<Rightarrow> u8 list" where
  "subtract_modulus value = rev (subtract_loop 0 (rev value) (rev MODULUS))"

subsection \<open>One pass subtracts the modulus\<close>

lemma unat_u8_u16 [simp]: "unat (ucast (b :: u8) :: u16) = unat b"
  by (simp add: unsigned_ucast_eq take_bit_nat_eq_self order_less_le_trans [OF unat_bound])

lemma unat_u8_or_zero: "unat x < 256 \<Longrightarrow> unat (u8_or_zero x) = unat x"
  by (simp add: u8_or_zero_def unsigned_ucast_eq take_bit_nat_eq_self)

lemma unat_saturating_add: "unat a + unat b < 2 ^ 16 \<Longrightarrow> unat (saturating_add a b) = unat a + unat b"
  by (simp add: saturating_add_def unat_word_ariths)

lemma unat_saturating_sub: "unat b \<le> unat a \<Longrightarrow> unat (saturating_sub a b) = unat a - unat b"
  by (simp add: saturating_sub_def unat_sub word_le_nat_alt)

lemma u8_lt_256: "unat (b :: u8) < 256"
  using unat_bound [of b] by simp

text \<open>One byte: the digit and the outgoing borrow.\<close>

lemma subtract_digit:
  fixes l m :: u8 and borrow :: u16
  assumes "unat borrow \<le> 1"
  defines "right \<equiv> saturating_add (ucast m) borrow"
  shows "right \<le> ucast l \<Longrightarrow> unat (u8_or_zero (saturating_sub (ucast l) right)) + (unat m + unat borrow) = unat l"
    and "\<not> right \<le> ucast l \<Longrightarrow>
      unat (u8_or_zero (saturating_sub (saturating_add (ucast l) 256) right)) + (unat m + unat borrow) = unat l + 256"
proof -
  note b = u8_lt_256 [of l] u8_lt_256 [of m]
  have r: "unat right = unat m + unat borrow"
    using assms b by (simp add: right_def unat_saturating_add)
  show "right \<le> ucast l \<Longrightarrow> unat (u8_or_zero (saturating_sub (ucast l) right)) + (unat m + unat borrow) = unat l"
    using b r by (simp add: word_le_nat_alt unat_u8_or_zero unat_saturating_sub)
  assume "\<not> right \<le> ucast l"
  then have lt: "unat l < unat m + unat borrow" using r by (simp add: word_le_nat_alt)
  have a: "unat (saturating_add (ucast l) 256) = unat l + 256" using b by (simp add: unat_saturating_add)
  have "unat (saturating_sub (saturating_add (ucast l) 256) right) = unat l + 256 - (unat m + unat borrow)"
    using a r b assms(1) by (subst unat_saturating_sub) simp_all
  with lt b assms(1) show "unat (u8_or_zero (saturating_sub (saturating_add (ucast l) 256) right)) +
      (unat m + unat borrow) = unat l + 256"
    by (subst unat_u8_or_zero) simp_all
qed

lemma length_subtract_loop [simp]: "length (subtract_loop b ls ms) = length ls"
  by (induction b ls ms rule: subtract_loop.induct) (simp_all add: Let_def)

lemma subtract_loop_value:
  "length ls = length ms \<Longrightarrow> unat b \<le> 1 \<Longrightarrow> le_nat ms + unat b \<le> le_nat ls \<Longrightarrow>
     le_nat (subtract_loop b ls ms) + (le_nat ms + unat b) = le_nat ls"
proof (induction b ls ms rule: subtract_loop.induct)
  case (1 b l ls m ms)
  let ?r = "saturating_add (ucast m) b :: u16"
  note bytes = u8_lt_256 [of l] u8_lt_256 [of m]
  show ?case
  proof (cases "?r \<le> ucast l")
    case True
    note digit = subtract_digit(1) [OF 1(4) True]
    with 1(5) bytes have "le_nat ms \<le> le_nat ls" by simp
    with 1(1) [OF refl refl True] 1(3) have "le_nat (subtract_loop 0 ls ms) + le_nat ms = le_nat ls" by simp
    with True digit show ?thesis by (simp add: Let_def)
  next
    case False
    note digit = subtract_digit(2) [OF 1(4) False]
    with 1(5) bytes have "le_nat ms + 1 \<le> le_nat ls"
      using u8_lt_256 [of "u8_or_zero (saturating_sub (saturating_add (ucast l) 256) ?r)"] by simp
    with 1(2) [OF refl refl False] 1(3) have "le_nat (subtract_loop 1 ls ms) + (le_nat ms + 1) = le_nat ls" by simp
    with False digit show ?thesis by (simp add: Let_def)
  qed
qed simp_all

definition modulus_nat :: nat where
  "modulus_nat = 21888242871839275222246405745257275088696311157297823662689037894645226208583"

lemma be_nat_MODULUS: "be_nat MODULUS = modulus_nat"
  by (simp add: MODULUS_def modulus_nat_def be_nat_def)

lemma length_MODULUS [simp]: "length MODULUS = 32"
  by (simp add: MODULUS_def)

lemma length_subtract_modulus [simp]: "length (subtract_modulus v) = length v"
  by (simp add: subtract_modulus_def)

lemma subtract_modulus_value:
  assumes "length v = 32" and "bytes_le MODULUS v"
  shows "be_nat (subtract_modulus v) + modulus_nat = be_nat v"
proof -
  have "be_nat MODULUS \<le> be_nat v" using assms by (simp add: bytes_le_be_nat)
  then have "le_nat (rev MODULUS) \<le> le_nat (rev v)" by (simp add: be_nat_def)
  with subtract_loop_value [of "rev v" "rev MODULUS" 0] assms(1)
  show ?thesis by (simp add: subtract_modulus_def be_nat_def flip: be_nat_MODULUS)
qed

subsection \<open>The outer loop\<close>

text \<open>\<^verbatim>\<open>while value >= MODULUS\<close>. The array type \<^verbatim>\<open>[u8; 32]\<close> is the guard on the length.\<close>

function reduce_circom_field :: "u8 list \<Rightarrow> u8 list" where
  "reduce_circom_field v =
     (if length v = 32 \<and> bytes_le MODULUS v then reduce_circom_field (subtract_modulus v) else v)"
  by pat_completeness auto

termination
proof (relation "measure be_nat")
  fix v :: "u8 list"
  assume "length v = 32 \<and> bytes_le MODULUS v"
  then have "be_nat (subtract_modulus v) + modulus_nat = be_nat v" by (simp add: subtract_modulus_value)
  then show "(subtract_modulus v, v) \<in> measure be_nat" by (simp add: modulus_nat_def)
qed simp

declare reduce_circom_field.simps [simp del]

lemma length_reduce_circom_field [simp]: "length (reduce_circom_field v) = length v"
proof (induction v rule: reduce_circom_field.induct)
  case (1 v)
  then show ?case by (subst reduce_circom_field.simps) simp
qed

lemma reduce_circom_field_mod:
  assumes "length v = 32"
  shows "be_nat (reduce_circom_field v) = be_nat v mod modulus_nat"
  using assms
proof (induction v rule: reduce_circom_field.induct)
  case (1 v)
  show ?case
  proof (cases "bytes_le MODULUS v")
    case True
    with 1 have "be_nat (reduce_circom_field v) = be_nat (subtract_modulus v) mod modulus_nat"
      by (subst reduce_circom_field.simps) simp
    also have "\<dots> = (be_nat (subtract_modulus v) + modulus_nat) mod modulus_nat" by simp
    finally show ?thesis using True 1(2) by (simp add: subtract_modulus_value)
  next
    case False
    with 1(2) have "be_nat v < modulus_nat" by (simp add: bytes_le_be_nat be_nat_MODULUS)
    with False show ?thesis by (subst reduce_circom_field.simps) simp
  qed
qed

subsection \<open>Intent identifiers\<close>

definition derive_intent_hash :: "runtime \<Rightarrow> pubkey \<Rightarrow> u64 \<Rightarrow> bytes32" where
  "derive_intent_hash rt orchestrator nonce =
     (let digest = hashv rt [key_bytes orchestrator, to_be_bytes nonce] in
      of_be_bytes (reduce_circom_field (key_bytes digest)))"

lemma be_nat_key_bytes: "be_nat (key_bytes k) = unat k"
proof -
  have "(256 :: nat) ^ 32 = 2 ^ 256" by simp
  then show ?thesis using unat_bound [of k] by (simp add: key_bytes_def to_be_bytes_def be_nat_be_bytes)
qed

lemma unat_of_be_bytes: "length bs = 32 \<Longrightarrow> unat (of_be_bytes bs :: bytes32) = be_nat bs"
proof -
  assume l: "length bs = 32"
  have "(256 :: nat) ^ 32 = 2 ^ 256" by simp
  with be_nat_bound [of bs] l show ?thesis by (simp add: of_be_bytes_def unat_of_nat)
qed

end
