(* ===== verification/Rate_Manager.thy ===== *)
theory Rate_Manager
  imports Escrow
begin

text \<open>
  \<^verbatim>\<open>src/programs/zkp2p_solana/src/instructions/rate_manager.rs\<close>: delegated rate managers, their fees and
  their rates. The invariant \<open>rate_manager_ok\<close> is what settlement relies on when it charges the fee.
\<close>

definition rate_entry_seeds :: "pubkey \<Rightarrow> bytes32 \<Rightarrow> bytes32 \<Rightarrow> u8 list list" where
  "rate_entry_seeds rate_manager payment_method currency =
     [RATE_ENTRY_SEED, key_bytes rate_manager, key_bytes payment_method, key_bytes currency]"

definition rate_entry_key :: "runtime \<Rightarrow> pubkey \<Rightarrow> bytes32 \<Rightarrow> bytes32 \<Rightarrow> pubkey" where
  "rate_entry_key rt rate_manager payment_method currency =
     pda rt (rate_entry_seeds rate_manager payment_method currency)"

definition zero_rate_entry :: RateEntry where
  "zero_rate_entry = \<lparr>re_rate_manager = 0, re_payment_method = 0, re_currency = 0, re_rate = 0, re_bump = 0\<rparr>"

definition handle_create_rate_manager :: "runtime \<Rightarrow> ledger \<Rightarrow> CreateRateManagerArgs \<Rightarrow> ledger result" where
  "handle_create_rate_manager rt ls args =
     and_then (account (rate_manager_config ls)) (\<lambda>config.
     seeds_bump rt [RATE_MANAGER_CONFIG_SEED] (rmc_bump config) (
     let nonce = rmc_next_manager_id config;
         seeds = rate_manager_seeds (rate_manager_config_key rt) nonce in
     init (rate_managers ls (pda rt seeds)) (
     require (crm_manager args \<noteq> 0) ZeroAddress (
     require (length (crm_name args) \<le> 64) AmountAboveMaximum (
     require (length (crm_uri args) \<le> 200) AmountAboveMaximum (
     require (crm_max_fee args \<le> MAX_FEE) FeeExceedsMaximum (
     require (crm_fee args \<le> crm_max_fee args) FeeExceedsMaximum (
     require (crm_fee args = 0 \<or> crm_fee_recipient args \<noteq> None) ZeroAddress (
     require (crm_fee_recipient args \<noteq> Some 0) ZeroAddress (
     let id = hashv rt [key_bytes crate_ID, key_bytes (rate_manager_config_key rt), to_le_bytes nonce] in
     and_then (ok_or (checked_add nonce 1) ArithmeticOverflow) (\<lambda>next_id.
     Inr (ls\<lparr>rate_managers := (rate_managers ls)(pda rt seeds \<mapsto>
               \<lparr>rm_config = rate_manager_config_key rt, rm_nonce = nonce, rm_id = id, rm_manager = crm_manager args,
                rm_fee_recipient = crm_fee_recipient args, rm_max_fee = crm_max_fee args, rm_fee = crm_fee args,
                rm_min_liquidity = crm_min_liquidity args, rm_name = crm_name args, rm_uri = crm_uri args,
                rm_bump = pda_bump rt seeds\<rparr>),
             rate_manager_config := Some (config\<lparr>rmc_next_manager_id := next_id\<rparr>)\<rparr>))))))))))))"

text \<open>The context \<^verbatim>\<open>ManageRateManager\<close>.\<close>

definition manage_rate_manager :: "runtime \<Rightarrow> ledger \<Rightarrow> pubkey \<Rightarrow> pubkey \<Rightarrow> RateManager result" where
  "manage_rate_manager rt ls manager rate_manager =
     and_then (account (rate_managers ls rate_manager)) (\<lambda>m.
     constraint (rate_manager = pda rt (rate_manager_seeds (rm_config m) (rm_nonce m))) ConstraintSeeds (
     seeds_bump rt (rate_manager_seeds (rm_config m) (rm_nonce m)) (rm_bump m) (
     require (rm_manager m = manager) Unauthorized (
     Inr m))))"

definition handle_set_rate_manager_config ::
  "runtime \<Rightarrow> ledger \<Rightarrow> pubkey \<Rightarrow> pubkey \<Rightarrow> pubkey \<Rightarrow> pubkey option \<Rightarrow> string \<Rightarrow> string \<Rightarrow> ledger result" where
  "handle_set_rate_manager_config rt ls signer rate_manager manager fee_recipient name uri =
     and_then (manage_rate_manager rt ls signer rate_manager) (\<lambda>m.
     require (manager \<noteq> 0) ZeroAddress (
     require (length name \<le> 64) AmountAboveMaximum (
     require (length uri \<le> 200) AmountAboveMaximum (
     require (rm_fee m = 0 \<or> fee_recipient \<noteq> None) ZeroAddress (
     require (fee_recipient \<noteq> Some 0) ZeroAddress (
     Inr (ls\<lparr>rate_managers := (rate_managers ls)(rate_manager \<mapsto>
               m\<lparr>rm_manager := manager, rm_fee_recipient := fee_recipient, rm_name := name, rm_uri := uri\<rparr>)\<rparr>)))))))"

definition handle_set_manager_fee :: "runtime \<Rightarrow> ledger \<Rightarrow> pubkey \<Rightarrow> pubkey \<Rightarrow> u128 \<Rightarrow> ledger result" where
  "handle_set_manager_fee rt ls signer rate_manager fee =
     and_then (manage_rate_manager rt ls signer rate_manager) (\<lambda>m.
     require (fee \<le> rm_max_fee m) FeeExceedsMaximum (
     require (fee = 0 \<or> rm_fee_recipient m \<noteq> None) ZeroAddress (
     Inr (ls\<lparr>rate_managers := (rate_managers ls)(rate_manager \<mapsto> m\<lparr>rm_fee := fee\<rparr>)\<rparr>))))"

definition handle_set_manager_min_liquidity :: "runtime \<Rightarrow> ledger \<Rightarrow> pubkey \<Rightarrow> pubkey \<Rightarrow> u64 \<Rightarrow> ledger result" where
  "handle_set_manager_min_liquidity rt ls signer rate_manager min_liquidity =
     and_then (manage_rate_manager rt ls signer rate_manager) (\<lambda>m.
     Inr (ls\<lparr>rate_managers := (rate_managers ls)(rate_manager \<mapsto> m\<lparr>rm_min_liquidity := min_liquidity\<rparr>)\<rparr>))"

definition handle_set_manager_rate ::
  "runtime \<Rightarrow> ledger \<Rightarrow> pubkey \<Rightarrow> pubkey \<Rightarrow> bytes32 \<Rightarrow> bytes32 \<Rightarrow> u128 \<Rightarrow> ledger result" where
  "handle_set_manager_rate rt ls signer rate_manager payment_method currency rate =
     and_then (manage_rate_manager rt ls signer rate_manager) (\<lambda>m.
     let key = rate_entry_key rt rate_manager payment_method currency;
         entry = init_if_needed (rate_entries ls key) zero_rate_entry in
     require (payment_method \<noteq> 0) ZeroValue (
     require (currency \<noteq> 0) ZeroValue (
     let entry = (if re_rate_manager entry = 0
                  then entry\<lparr>re_rate_manager := rate_manager, re_payment_method := payment_method,
                             re_currency := currency,
                             re_bump := pda_bump rt (rate_entry_seeds rate_manager payment_method currency)\<rparr>
                  else entry) in
     Inr (ls\<lparr>rate_entries := (rate_entries ls)(key \<mapsto> entry\<lparr>re_rate := rate\<rparr>)\<rparr>))))"

subsection \<open>Fees of managers are bounded and payable\<close>

definition rate_manager_ok :: "RateManager \<Rightarrow> bool" where
  "rate_manager_ok m \<longleftrightarrow>
     rm_manager m \<noteq> 0 \<and> rm_fee m \<le> rm_max_fee m \<and> rm_max_fee m \<le> MAX_FEE \<and> rm_fee_recipient m \<noteq> Some 0 \<and>
     (rm_fee m \<noteq> 0 \<longrightarrow> rm_fee_recipient m \<noteq> None)"

definition rate_managers_ok :: "ledger \<Rightarrow> bool" where
  "rate_managers_ok ls \<longleftrightarrow> (\<forall>k m. rate_managers ls k = Some m \<longrightarrow> rate_manager_ok m)"

datatype rate_manager_request =
    CreateRateManager CreateRateManagerArgs
  | SetRateManagerConfig pubkey pubkey pubkey "pubkey option" string string
  | SetManagerFee pubkey pubkey u128
  | SetManagerMinLiquidity pubkey pubkey u64
  | SetManagerRate pubkey pubkey bytes32 bytes32 u128

fun rate_manager_step :: "runtime \<Rightarrow> ledger \<Rightarrow> rate_manager_request \<Rightarrow> ledger result" where
  "rate_manager_step rt ls (CreateRateManager args) = handle_create_rate_manager rt ls args"
| "rate_manager_step rt ls (SetRateManagerConfig s k m r n u) = handle_set_rate_manager_config rt ls s k m r n u"
| "rate_manager_step rt ls (SetManagerFee s k f) = handle_set_manager_fee rt ls s k f"
| "rate_manager_step rt ls (SetManagerMinLiquidity s k l) = handle_set_manager_min_liquidity rt ls s k l"
| "rate_manager_step rt ls (SetManagerRate s k p c r) = handle_set_manager_rate rt ls s k p c r"

lemmas rate_manager_handler_defs = handle_create_rate_manager_def handle_set_rate_manager_config_def
  handle_set_manager_fee_def handle_set_manager_min_liquidity_def handle_set_manager_rate_def

lemma manage_rate_manager_Inr [result_simps]:
  "manage_rate_manager rt ls signer k = Inr m \<longleftrightarrow>
     rate_managers ls k = Some m \<and> k = pda rt (rate_manager_seeds (rm_config m) (rm_nonce m)) \<and>
     rm_bump m = pda_bump rt (rate_manager_seeds (rm_config m) (rm_nonce m)) \<and> rm_manager m = signer"
  by (auto simp: manage_rate_manager_def result_simps)

lemma rate_manager_step_ok:
  "rate_managers_ok ls \<Longrightarrow> rate_manager_step rt ls r = Inr ls' \<Longrightarrow> rate_managers_ok ls'"
  by (cases r) (auto simp: rate_manager_handler_defs rate_managers_ok_def rate_manager_ok_def result_simps
      Let_def split: if_splits)

interpretation rate_manager_machine: guarded_machine "rate_manager_step rt" rate_managers_ok for rt
  by unfold_locales (rule rate_manager_step_ok)

text \<open>The fee ceiling of a manager never changes, and its fee moves only by the manager's signature.\<close>

lemma rate_manager_step_ceiling:
  "rate_manager_step rt ls r = Inr ls' \<Longrightarrow> rate_managers ls k = Some m \<Longrightarrow>
     \<exists>m'. rate_managers ls' k = Some m' \<and> rm_max_fee m' = rm_max_fee m \<and> rm_id m' = rm_id m \<and>
       rm_config m' = rm_config m \<and> rm_nonce m' = rm_nonce m"
  by (cases r) (auto simp: rate_manager_handler_defs result_simps Let_def split: if_splits)

end
