(* ===== verification/Whitelist.thy ===== *)
theory Whitelist
  imports Escrow
begin

text \<open>
  \<^verbatim>\<open>src/programs/zkp2p_solana/src/instructions/whitelist.rs\<close>: address groups with two-step curators, grp
  membership, and the whitelist a deposit enforces. The curator handover implements the contract
  \<open>handover\<close>, the list of allowed groups the contract \<open>bounded_registry\<close>.
\<close>

definition group_seeds :: "pubkey \<Rightarrow> u64 \<Rightarrow> u8 list list" where
  "group_seeds config nonce = [ADDRESS_GROUP_SEED, key_bytes config, to_le_bytes nonce]"

definition group_member_seeds :: "pubkey \<Rightarrow> pubkey \<Rightarrow> u8 list list" where
  "group_member_seeds grp member = [GROUP_MEMBER_SEED, key_bytes grp, key_bytes member]"

definition group_member_key :: "runtime \<Rightarrow> pubkey \<Rightarrow> pubkey \<Rightarrow> pubkey" where
  "group_member_key rt grp member = pda rt (group_member_seeds grp member)"

definition deposit_whitelist_seeds :: "pubkey \<Rightarrow> u8 list list" where
  "deposit_whitelist_seeds deposit = [DEPOSIT_WHITELIST_SEED, key_bytes deposit]"

definition deposit_whitelist_key :: "runtime \<Rightarrow> pubkey \<Rightarrow> pubkey" where
  "deposit_whitelist_key rt deposit = pda rt (deposit_whitelist_seeds deposit)"

definition whitelist_member_seeds :: "pubkey \<Rightarrow> pubkey \<Rightarrow> u8 list list" where
  "whitelist_member_seeds deposit_whitelist taker =
     [DEPOSIT_WHITELIST_MEMBER_SEED, key_bytes deposit_whitelist, key_bytes taker]"

definition whitelist_member_key :: "runtime \<Rightarrow> pubkey \<Rightarrow> pubkey \<Rightarrow> pubkey" where
  "whitelist_member_key rt deposit_whitelist taker = pda rt (whitelist_member_seeds deposit_whitelist taker)"

subsection \<open>Groups\<close>

definition handle_create_address_group :: "runtime \<Rightarrow> ledger \<Rightarrow> pubkey \<Rightarrow> string \<Rightarrow> bool \<Rightarrow> ledger result" where
  "handle_create_address_group rt ls curator name public =
     and_then (account (whitelist_config ls)) (\<lambda>config.
     seeds_bump rt [WHITELIST_CONFIG_SEED] (wc_bump config) (
     let nonce = wc_next_group_id config;
         seeds = group_seeds (whitelist_config_key rt) nonce in
     init (address_groups ls (pda rt seeds)) (
     require (name \<noteq> []) ZeroValue (
     require (length name \<le> 64) AmountAboveMaximum (
     let id = hashv rt [key_bytes (whitelist_config_key rt), to_le_bytes nonce] in
     and_then (ok_or (checked_add nonce 1) ArithmeticOverflow) (\<lambda>next_id.
     Inr (ls\<lparr>address_groups := (address_groups ls)(pda rt seeds \<mapsto>
               \<lparr>ag_whitelist_config = whitelist_config_key rt, ag_nonce = nonce, ag_id = id, ag_curator = curator,
                ag_pending_curator = None, ag_public = public, ag_resolver = None, ag_name = name,
                ag_bump = pda_bump rt seeds\<rparr>),
             whitelist_config := Some (config\<lparr>wc_next_group_id := next_id\<rparr>)\<rparr>)))))))"

text \<open>A group account supplied by address, validated against its own seeds.\<close>

definition group_account :: "runtime \<Rightarrow> ledger \<Rightarrow> pubkey \<Rightarrow> AddressGroup result" where
  "group_account rt ls grp =
     and_then (account (address_groups ls grp)) (\<lambda>g.
     constraint (grp = pda rt (group_seeds (ag_whitelist_config g) (ag_nonce g))) ConstraintSeeds (
     seeds_bump rt (group_seeds (ag_whitelist_config g) (ag_nonce g)) (ag_bump g) (
     Inr g)))"

text \<open>The resolver branch of \<^verbatim>\<open>handle_configure_address_group\<close>. \<^verbatim>\<open>resolver_program\<close> is the optional account:
  its address and whether it is executable.\<close>

definition configure_resolver ::
  "(pubkey \<times> bool) option \<Rightarrow> pubkey option option \<Rightarrow> AddressGroup \<Rightarrow> AddressGroup result" where
  "configure_resolver resolver_program resolver g =
     (case resolver of
        Some v \<Rightarrow>
          and_then (case v of
              Some key \<Rightarrow>
                require (key \<noteq> 0) ZeroAddress (
                and_then (ok_or resolver_program Unauthorized) (\<lambda>(program, executable).
                require (program = key) Unauthorized (
                require executable Unauthorized (
                Inr ()))))
            | None \<Rightarrow> require (resolver_program = None) Unauthorized (Inr ())) (\<lambda>_.
          Inr (g\<lparr>ag_resolver := v\<rparr>))
      | None \<Rightarrow> require (resolver_program = None) Unauthorized (Inr g))"

definition handle_configure_address_group ::
  "runtime \<Rightarrow> ledger \<Rightarrow> pubkey \<Rightarrow> pubkey \<Rightarrow> (pubkey \<times> bool) option \<Rightarrow>
   bool option \<Rightarrow> pubkey option option \<Rightarrow> pubkey option option \<Rightarrow> ledger result" where
  "handle_configure_address_group rt ls curator grp resolver_program public resolver pending_curator =
     and_then (group_account rt ls grp) (\<lambda>g.
     constraint (curator = ag_curator g) ConstraintAddress (
     and_then (if_some public (\<lambda>v g. Inr (g\<lparr>ag_public := v\<rparr>)) g) (\<lambda>g.
     and_then (configure_resolver resolver_program resolver g) (\<lambda>g.
     and_then (if_some pending_curator (\<lambda>v g.
         require (\<forall>key\<in>set_option v. key \<noteq> 0 \<and> key \<noteq> ag_curator g) ZeroAddress (
         Inr (g\<lparr>ag_pending_curator := v\<rparr>))) g) (\<lambda>g.
     Inr (ls\<lparr>address_groups := (address_groups ls)(grp \<mapsto> g)\<rparr>))))))"

definition handle_accept_group_curator :: "runtime \<Rightarrow> ledger \<Rightarrow> pubkey \<Rightarrow> pubkey \<Rightarrow> ledger result" where
  "handle_accept_group_curator rt ls pending_curator grp =
     and_then (group_account rt ls grp) (\<lambda>g.
     require (ag_pending_curator g = Some pending_curator) Unauthorized (
     Inr (ls\<lparr>address_groups := (address_groups ls)(grp \<mapsto>
               g\<lparr>ag_curator := pending_curator, ag_pending_curator := None\<rparr>)\<rparr>)))"

definition handle_set_group_member :: "runtime \<Rightarrow> ledger \<Rightarrow> pubkey \<Rightarrow> pubkey \<Rightarrow> pubkey \<Rightarrow> bool \<Rightarrow> ledger result" where
  "handle_set_group_member rt ls curator grp member_address active =
     and_then (group_account rt ls grp) (\<lambda>g.
     constraint (curator = ag_curator g) ConstraintAddress (
     require (member_address \<noteq> 0) ZeroAddress (
     Inr (ls\<lparr>group_members := (group_members ls)(group_member_key rt grp member_address \<mapsto>
               \<lparr>gm_group = grp, gm_member = member_address, gm_active = active,
                gm_bump = pda_bump rt (group_member_seeds grp member_address)\<rparr>)\<rparr>))))"

definition handle_set_self_group_member :: "runtime \<Rightarrow> ledger \<Rightarrow> pubkey \<Rightarrow> pubkey \<Rightarrow> bool \<Rightarrow> ledger result" where
  "handle_set_self_group_member rt ls member_address grp active =
     and_then (group_account rt ls grp) (\<lambda>g.
     require (ag_public g) Unauthorized (
     Inr (ls\<lparr>group_members := (group_members ls)(group_member_key rt grp member_address \<mapsto>
               \<lparr>gm_group = grp, gm_member = member_address, gm_active = active,
                gm_bump = pda_bump rt (group_member_seeds grp member_address)\<rparr>)\<rparr>)))"

subsection \<open>Deposit whitelists\<close>

definition whitelisting_deposit :: "ledger \<Rightarrow> pubkey \<Rightarrow> pubkey \<Rightarrow> Deposit result" where
  "whitelisting_deposit ls authority deposit =
     and_then (account (deposits ls deposit)) (\<lambda>d.
     require (d_depositor d = authority \<or> d_delegate d = Some authority) Unauthorized (
     Inr d))"

definition handle_initialize_deposit_whitelist :: "runtime \<Rightarrow> ledger \<Rightarrow> pubkey \<Rightarrow> pubkey \<Rightarrow> bool \<Rightarrow> ledger result" where
  "handle_initialize_deposit_whitelist rt ls authority deposit enabled =
     and_then (whitelisting_deposit ls authority deposit) (\<lambda>d.
     init (deposit_whitelists ls (deposit_whitelist_key rt deposit)) (
     Inr (ls\<lparr>deposit_whitelists := (deposit_whitelists ls)(deposit_whitelist_key rt deposit \<mapsto>
               \<lparr>dw_deposit = deposit, dw_enabled = enabled, dw_bootstrapped = True, dw_allowed_groups = [],
                dw_bump = pda_bump rt (deposit_whitelist_seeds deposit)\<rparr>)\<rparr>)))"

definition deposit_whitelist_account :: "runtime \<Rightarrow> ledger \<Rightarrow> pubkey \<Rightarrow> DepositWhitelist result" where
  "deposit_whitelist_account rt ls deposit =
     and_then (account (deposit_whitelists ls (deposit_whitelist_key rt deposit))) (\<lambda>w.
     seeds_bump rt (deposit_whitelist_seeds deposit) (dw_bump w) (
     Inr w))"

definition handle_set_whitelist_enabled :: "runtime \<Rightarrow> ledger \<Rightarrow> pubkey \<Rightarrow> pubkey \<Rightarrow> bool \<Rightarrow> ledger result" where
  "handle_set_whitelist_enabled rt ls authority deposit enabled =
     and_then (whitelisting_deposit ls authority deposit) (\<lambda>d.
     and_then (deposit_whitelist_account rt ls deposit) (\<lambda>w.
     require (dw_deposit w = deposit) DepositNotFound (
     Inr (ls\<lparr>deposit_whitelists := (deposit_whitelists ls)(deposit_whitelist_key rt deposit \<mapsto>
               w\<lparr>dw_enabled := enabled\<rparr>)\<rparr>))))"

text \<open>The \<^verbatim>\<open>match\<close> of \<^verbatim>\<open>handle_set_deposit_allowed_group\<close>.\<close>

definition set_allowed_group :: "bytes32 list \<Rightarrow> bytes32 \<Rightarrow> bool \<Rightarrow> bytes32 list result" where
  "set_allowed_group groups group_id allowed =
     (case (allowed, position group_id groups) of
        (True, None) \<Rightarrow>
          require (length groups < MAX_GROUPS_PER_DEPOSIT) TooManyGroups (Inr (groups @ [group_id]))
      | (False, Some index) \<Rightarrow> Inr (vec_remove index groups)
      | _ \<Rightarrow> Inl (Zkp2p AlreadyInState))"

definition handle_set_deposit_allowed_group ::
  "runtime \<Rightarrow> ledger \<Rightarrow> pubkey \<Rightarrow> pubkey \<Rightarrow> pubkey \<Rightarrow> bool \<Rightarrow> ledger result" where
  "handle_set_deposit_allowed_group rt ls authority deposit grp allowed =
     and_then (whitelisting_deposit ls authority deposit) (\<lambda>d.
     and_then (deposit_whitelist_account rt ls deposit) (\<lambda>w.
     and_then (group_account rt ls grp) (\<lambda>g.
     and_then (set_allowed_group (dw_allowed_groups w) (ag_id g) allowed) (\<lambda>groups.
     Inr (ls\<lparr>deposit_whitelists := (deposit_whitelists ls)(deposit_whitelist_key rt deposit \<mapsto>
               w\<lparr>dw_allowed_groups := groups\<rparr>)\<rparr>)))))"

definition handle_set_deposit_whitelist_member ::
  "runtime \<Rightarrow> ledger \<Rightarrow> pubkey \<Rightarrow> pubkey \<Rightarrow> pubkey \<Rightarrow> bool \<Rightarrow> ledger result" where
  "handle_set_deposit_whitelist_member rt ls authority deposit taker active =
     and_then (whitelisting_deposit ls authority deposit) (\<lambda>d.
     and_then (deposit_whitelist_account rt ls deposit) (\<lambda>w.
     require (taker \<noteq> 0) ZeroAddress (
     Inr (ls\<lparr>whitelist_members := (whitelist_members ls)
             (whitelist_member_key rt (deposit_whitelist_key rt deposit) taker \<mapsto>
               \<lparr>wm_deposit_whitelist = deposit_whitelist_key rt deposit, wm_taker = taker, wm_active = active,
                wm_bump = pda_bump rt (whitelist_member_seeds (deposit_whitelist_key rt deposit) taker)\<rparr>)\<rparr>))))"

subsection \<open>The contracts\<close>

lemma group_account_Inr [result_simps]:
  "group_account rt ls k = Inr g \<longleftrightarrow>
     address_groups ls k = Some g \<and> k = pda rt (group_seeds (ag_whitelist_config g) (ag_nonce g)) \<and>
     ag_bump g = pda_bump rt (group_seeds (ag_whitelist_config g) (ag_nonce g))"
  by (auto simp: group_account_def result_simps)

definition group_curator :: "pubkey \<Rightarrow> ledger \<Rightarrow> pubkey" where
  "group_curator grp ls = (case address_groups ls grp of None \<Rightarrow> 0 | Some g \<Rightarrow> ag_curator g)"

definition group_pending_curator :: "pubkey \<Rightarrow> ledger \<Rightarrow> pubkey option" where
  "group_pending_curator grp ls = (case address_groups ls grp of None \<Rightarrow> None | Some g \<Rightarrow> ag_pending_curator g)"

lemma configure_resolver_Inr:
  "configure_resolver rp res g = Inr g' \<Longrightarrow> g' = g\<lparr>ag_resolver := ag_resolver g'\<rparr>"
  by (auto simp: configure_resolver_def result_simps split: option.splits)

lemma configure_address_group_Inr:
  assumes "handle_configure_address_group rt ls curator k rp pub res pend = Inr ls'"
  shows "\<exists>g g'. address_groups ls k = Some g \<and> curator = ag_curator g \<and>
    ls' = ls\<lparr>address_groups := (address_groups ls)(k \<mapsto> g')\<rparr> \<and> ag_curator g' = ag_curator g \<and>
    ag_id g' = ag_id g \<and>
    (case pend of None \<Rightarrow> ag_pending_curator g' = ag_pending_curator g
     | Some c \<Rightarrow> ag_pending_curator g' = c \<and> c \<noteq> Some 0 \<and> c \<noteq> Some (ag_curator g))"
proof -
  from assms obtain g g1 g2 g3 where g: "address_groups ls k = Some g" "curator = ag_curator g"
      and g1: "if_some pub (\<lambda>v g. Inr (g\<lparr>ag_public := v\<rparr>)) g = Inr g1"
      and g2: "configure_resolver rp res g1 = Inr g2"
      and g3: "if_some pend (\<lambda>v g. require (\<forall>key\<in>set_option v. key \<noteq> 0 \<and> key \<noteq> ag_curator g) ZeroAddress (
         Inr (g\<lparr>ag_pending_curator := v\<rparr>))) g2 = Inr g3"
      and ls': "ls' = ls\<lparr>address_groups := (address_groups ls)(k \<mapsto> g3)\<rparr>"
    by (simp add: handle_configure_address_group_def result_simps, elim exE conjE, blast)
  have "ag_curator g1 = ag_curator g \<and> ag_id g1 = ag_id g \<and> ag_pending_curator g1 = ag_pending_curator g"
    using g1 by (cases pub) auto
  moreover have "ag_curator g2 = ag_curator g1 \<and> ag_id g2 = ag_id g1 \<and> ag_pending_curator g2 = ag_pending_curator g1"
    by (subst (1 2 3) configure_resolver_Inr [OF g2]) simp
  moreover have "ag_curator g3 = ag_curator g2 \<and> ag_id g3 = ag_id g2 \<and>
      (case pend of None \<Rightarrow> ag_pending_curator g3 = ag_pending_curator g2
       | Some c \<Rightarrow> ag_pending_curator g3 = c \<and> c \<noteq> Some 0 \<and> c \<noteq> Some (ag_curator g2))"
    using g3 by (cases pend) (auto simp: result_simps)
  ultimately show ?thesis using g ls' by (cases pend) auto
qed

interpretation curator_handover: handover "group_curator grp" "group_pending_curator grp"
  "\<lambda>ls c. handle_configure_address_group rt ls curator grp rp pub res (Some c)"
  "\<lambda>ls k. handle_accept_group_curator rt ls k grp"
  for rt :: runtime and grp curator :: pubkey and rp :: "(pubkey \<times> bool) option" and pub :: "bool option"
    and res :: "pubkey option option"
proof unfold_locales
  fix ls ls' c
  assume "handle_configure_address_group rt ls curator grp rp pub res (Some c) = Inr ls'"
  from configure_address_group_Inr [OF this]
  show "group_curator grp ls' = group_curator grp ls \<and> group_pending_curator grp ls' = c \<and>
      c \<noteq> Some 0 \<and> c \<noteq> Some (group_curator grp ls)"
    by (auto simp: group_curator_def group_pending_curator_def)
next
  fix ls ls' k
  assume "handle_accept_group_curator rt ls k grp = Inr ls'"
  then show "group_pending_curator grp ls = Some k \<and> group_curator grp ls' = k \<and>
      group_pending_curator grp ls' = None"
    by (auto simp: handle_accept_group_curator_def result_simps group_curator_def group_pending_curator_def)
qed

interpretation allowed_groups: bounded_registry "\<lambda>groups. groups" set_allowed_group MAX_GROUPS_PER_DEPOSIT
proof unfold_locales
  fix groups groups' :: "bytes32 list" and g
  assume "set_allowed_group groups g True = Inr groups'"
  then show "g \<notin> set groups \<and> length groups < MAX_GROUPS_PER_DEPOSIT \<and> groups' = groups @ [g]"
    by (auto simp: set_allowed_group_def result_simps split: option.splits)
next
  fix groups groups' :: "bytes32 list" and g
  assume "set_allowed_group groups g False = Inr groups'"
  then obtain i where "position g groups = Some i" and "groups' = vec_remove i groups"
    by (auto simp: set_allowed_group_def split: option.splits)
  then show "g \<in> set groups \<and> groups' = remove1 g groups"
    using position_Some [of g groups i] by (auto simp: vec_remove_position)
qed

definition whitelists_ok :: "ledger \<Rightarrow> bool" where
  "whitelists_ok ls \<longleftrightarrow> (\<forall>k w. deposit_whitelists ls k = Some w \<longrightarrow>
     distinct (dw_allowed_groups w) \<and> length (dw_allowed_groups w) \<le> MAX_GROUPS_PER_DEPOSIT \<and> dw_bootstrapped w)"

lemma deposit_whitelist_account_Inr [result_simps]:
  "deposit_whitelist_account rt ls k = Inr w \<longleftrightarrow>
     deposit_whitelists ls (deposit_whitelist_key rt k) = Some w \<and> dw_bump w = pda_bump rt (deposit_whitelist_seeds k)"
  by (auto simp: deposit_whitelist_account_def result_simps)

lemma initialize_deposit_whitelist_ok:
  "whitelists_ok ls \<Longrightarrow> handle_initialize_deposit_whitelist rt ls a k e = Inr ls' \<Longrightarrow> whitelists_ok ls'"
  by (auto simp: handle_initialize_deposit_whitelist_def whitelists_ok_def result_simps split: if_splits)

lemma set_whitelist_enabled_ok:
  "whitelists_ok ls \<Longrightarrow> handle_set_whitelist_enabled rt ls a k e = Inr ls' \<Longrightarrow> whitelists_ok ls'"
  by (auto simp: handle_set_whitelist_enabled_def whitelists_ok_def result_simps split: if_splits)

lemma set_deposit_allowed_group_ok:
  assumes "whitelists_ok ls" and "handle_set_deposit_allowed_group rt ls a k g b = Inr ls'"
  shows "whitelists_ok ls'"
proof -
  from assms(2) obtain w gs and gr :: AddressGroup where w: "deposit_whitelists ls (deposit_whitelist_key rt k) = Some w"
      and gs: "set_allowed_group (dw_allowed_groups w) (ag_id gr) b = Inr gs"
      and ls': "ls' = ls\<lparr>deposit_whitelists := (deposit_whitelists ls)(deposit_whitelist_key rt k \<mapsto>
        w\<lparr>dw_allowed_groups := gs\<rparr>)\<rparr>"
    by (simp add: handle_set_deposit_allowed_group_def result_simps, elim exE conjE, blast)
  have "distinct (dw_allowed_groups w)" "length (dw_allowed_groups w) \<le> MAX_GROUPS_PER_DEPOSIT" "dw_bootstrapped w"
    using assms(1) w by (auto simp: whitelists_ok_def)
  with allowed_groups.toggle_wf [OF _ gs] assms(1) show ?thesis
    by (auto simp: ls' whitelists_ok_def)
qed

end
