(* ===== verification/Admission.thy ===== *)
theory Admission
  imports Circom Rate_Manager Whitelist
begin

text \<open>
  The admission checks of \<^verbatim>\<open>src/programs/zkp2p_solana/src/instructions/orchestrator.rs\<close>: the effective rate,
  referral fees, the gating signature found in the running transaction, and the lifecycle policy with its
  whitelist, resolver and dispute branches. An optional account is \<open>None\<close> when the transaction omits it and
  otherwise its address with its contents.
\<close>

type_synonym 'a supplied = "(pubkey \<times> 'a) option"

subsection \<open>Rates\<close>

definition effective_rate ::
  "runtime \<Rightarrow> DepositCurrency \<Rightarrow> OracleQuote supplied \<Rightarrow> pubkey option \<Rightarrow> RateManager supplied \<Rightarrow>
   RateEntry supplied \<Rightarrow> i64 \<Rightarrow> u128 result" where
  "effective_rate rt currency oracle_quote configured_manager rate_manager rate_entry now =
     and_then (case dc_oracle_quote currency of
         Some expected_quote \<Rightarrow>
           and_then (ok_or oracle_quote InvalidOracleQuote) (\<lambda>(key, _).
           require (expected_quote = key) InvalidOracleQuote (Inr ()))
       | None \<Rightarrow> require (oracle_quote = None) InvalidOracleQuote (Inr ())) (\<lambda>_.
     and_then (DepositCurrency_escrow_floor currency (map_option snd oracle_quote) now) (\<lambda>escrow_floor.
     if escrow_floor = 0 then Inr 0
     else case configured_manager of
       None \<Rightarrow>
         require (rate_manager = None \<and> rate_entry = None) Unauthorized (Inr escrow_floor)
     | Some expected_manager \<Rightarrow>
         and_then (ok_or rate_manager Unauthorized) (\<lambda>(manager_key, manager).
         and_then (ok_or rate_entry CurrencyNotSupported) (\<lambda>(_, entry).
         require (manager_key = pda rt (rate_manager_seeds (rm_config manager) (rm_nonce manager))) Unauthorized (
         require (manager_key = expected_manager) Unauthorized (
         require (re_rate_manager entry = manager_key) Unauthorized (
         require (re_payment_method entry = dc_payment_method currency) PaymentMethodNotSupported (
         require (re_currency entry = dc_currency currency) CurrencyNotSupported (
         require (re_rate entry > 0) CurrencyNotSupported (
         Inr (max (re_rate entry) escrow_floor)))))))))))"

subsection \<open>Referral fees\<close>

text \<open>The loop: each fee is checked against the later ones, then added to the checked total.\<close>

fun sum_referral_fees :: "u128 \<Rightarrow> ReferralFee list \<Rightarrow> u128 result" where
  "sum_referral_fees sofar [] = Inr sofar"
| "sum_referral_fees sofar (fee # rest) =
     require (rf_recipient fee \<noteq> 0) ZeroAddress (
     require (rf_fee fee > 0) ZeroValue (
     require (\<forall>x\<in>set rest. rf_recipient x \<noteq> rf_recipient fee) AlreadyInState (
     and_then (ok_or (checked_add sofar (rf_fee fee)) ArithmeticOverflow) (\<lambda>sofar.
     sum_referral_fees sofar rest))))"

definition validate_referral_fees :: "ReferralFee list \<Rightarrow> unit result" where
  "validate_referral_fees fees =
     require (length fees \<le> 10) MaximumIntentsExceeded (
     and_then (sum_referral_fees 0 fees) (\<lambda>sum.
     require (sum \<le> MAX_REFERRAL_FEE) FeeExceedsMaximum (
     Inr ())))"

subsection \<open>Gating signatures\<close>

definition read_u16 :: "u8 list \<Rightarrow> nat \<Rightarrow> nat option" where
  "read_u16 data offset = map_option le_nat (slice_get data offset (offset + 2))"

text \<open>\<^verbatim>\<open>let Some(x) = e else { return false }\<close>\<close>

definition else_false :: "'a option \<Rightarrow> ('a \<Rightarrow> bool) \<Rightarrow> bool" where
  "else_false x f = (case x of None \<Rightarrow> False | Some v \<Rightarrow> f v)"

definition ed25519_instruction_matches :: "u8 list \<Rightarrow> pubkey \<Rightarrow> u8 list \<Rightarrow> bool" where
  "ed25519_instruction_matches data signer message =
     (if data = [] \<or> hd data \<noteq> 1 then False
      else
        else_false (read_u16 data 4) (\<lambda>signature_instruction.
        else_false (read_u16 data 6) (\<lambda>public_key_offset.
        else_false (read_u16 data 8) (\<lambda>public_key_instruction.
        else_false (read_u16 data 10) (\<lambda>message_offset.
        else_false (read_u16 data 12) (\<lambda>message_size.
        else_false (read_u16 data 14) (\<lambda>message_instruction.
        if signature_instruction \<noteq> 0xffff \<or> public_key_instruction \<noteq> 0xffff \<or> message_instruction \<noteq> 0xffff \<or>
           message_size \<noteq> length message
        then False
        else slice_get data public_key_offset (public_key_offset + 32) = Some (key_bytes signer) \<and>
             slice_get data message_offset (message_offset + length message) = Some message)))))))"

text \<open>The Borsh bytes of the signed message: a vector is its length in four little-endian bytes and its elements.\<close>

definition referral_fee_bytes :: "ReferralFee \<Rightarrow> u8 list" where
  "referral_fee_bytes fee = key_bytes (rf_recipient fee) @ to_le_bytes (rf_fee fee)"

definition gating_message :: "runtime \<Rightarrow> OrchestratorConfig \<Rightarrow> pubkey \<Rightarrow> pubkey \<Rightarrow> SignalIntentArgs \<Rightarrow> u8 list" where
  "gating_message rt orchestrator deposit taker args =
     key_bytes (orchestrator_config_key rt) @ key_bytes deposit @ key_bytes taker @
     to_le_bytes (sia_amount args) @ key_bytes (sia_recipient args) @ key_bytes (sia_payment_method args) @
     key_bytes (sia_fiat_currency args) @ to_le_bytes (sia_conversion_rate args) @
     le_bytes 4 (length (sia_referral_fees args)) @ concat (map referral_fee_bytes (sia_referral_fees args)) @
     to_le_bytes (sia_gating_signature_expiration args) @ key_bytes (oc_domain_chain_id orchestrator) @
     key_bytes crate_ID"

text \<open>The scan of the instructions before the current one.\<close>

fun find_ed25519 :: "runtime \<Rightarrow> pubkey \<Rightarrow> u8 list \<Rightarrow> nat list \<Rightarrow> unit result" where
  "find_ed25519 rt gating_service digest [] = Inl (Zkp2p InvalidSignature)"
| "find_ed25519 rt gating_service digest (index # rest) =
     and_then (ok_or (instruction_at rt index) InvalidSignature) (\<lambda>instruction.
     if ix_program_id instruction = ed25519_program_ID rt \<and>
        ed25519_instruction_matches (ix_data instruction) gating_service digest
     then Inr ()
     else find_ed25519 rt gating_service digest rest)"

definition validate_gating_signature ::
  "runtime \<Rightarrow> pubkey option \<Rightarrow> OrchestratorConfig \<Rightarrow> pubkey \<Rightarrow> pubkey \<Rightarrow> SignalIntentArgs \<Rightarrow> unit result" where
  "validate_gating_signature rt gating_service orchestrator deposit taker args =
     (case gating_service of
        None \<Rightarrow> Inr ()
      | Some gating_service \<Rightarrow>
          require (sint (unix_timestamp rt) \<le> sint (sia_gating_signature_expiration args)) SignatureExpired (
          let digest = keccak256 rt (gating_message rt orchestrator deposit taker args) in
          and_then (ok_or (current_index rt) InvalidSignature) (\<lambda>current.
          find_ed25519 rt gating_service (key_bytes digest) [0..<current])))"

subsection \<open>Whitelists\<close>

definition readonly_resolver_meta :: "AccountMeta \<Rightarrow> AccountMeta result" where
  "readonly_resolver_meta info =
     require (\<not> am_is_signer info \<and> \<not> am_is_writable info) Unauthorized (
     Inr \<lparr>am_pubkey = am_pubkey info, am_is_signer = False, am_is_writable = False\<rparr>)"

fun resolver_metas :: "AccountMeta list \<Rightarrow> AccountMeta list result" where
  "resolver_metas [] = Inr []"
| "resolver_metas (a # rest) =
     and_then (readonly_resolver_meta a) (\<lambda>m.
     and_then (resolver_metas rest) (\<lambda>ms. Inr (m # ms)))"

definition resolver_return_is_yes :: "pubkey \<Rightarrow> (pubkey \<times> u8 list) option \<Rightarrow> bool" where
  "resolver_return_is_yes expected_program returned =
     (case returned of None \<Rightarrow> False | Some (program_id, result) \<Rightarrow> program_id = expected_program \<and> result = [1])"

definition resolver_says_yes ::
  "runtime \<Rightarrow> AddressGroup \<Rightarrow> pubkey \<Rightarrow> (pubkey \<times> bool) option \<Rightarrow> AccountMeta list \<Rightarrow> bool result" where
  "resolver_says_yes rt g taker resolver_program resolver_accounts =
     (case ag_resolver g of
        None \<Rightarrow> require (resolver_program = None \<and> resolver_accounts = []) Unauthorized (Inr False)
      | Some expected_program \<Rightarrow>
          and_then (ok_or resolver_program TakerNotWhitelisted) (\<lambda>(resolver, executable).
          require (resolver = expected_program) Unauthorized (
          require executable Unauthorized (
          require (length resolver_accounts \<le> MAX_RESOLVER_ACCOUNTS) AmountAboveMaximum (
          and_then (resolver_metas resolver_accounts) (\<lambda>metas.
          let data = ascii ''zkp2p-whitelist-resolver-v1'' @ key_bytes (ag_id g) @ key_bytes taker in
          case invoke_resolver rt resolver metas data of
            None \<Rightarrow> Inr False
          | Some returned \<Rightarrow> Inr (resolver_return_is_yes resolver returned)))))))"

definition whitelist_allows ::
  "runtime \<Rightarrow> pubkey \<times> DepositWhitelist \<Rightarrow> DepositWhitelistMember supplied \<Rightarrow> AddressGroup supplied \<Rightarrow>
   GroupMember supplied \<Rightarrow> (pubkey \<times> bool) option \<Rightarrow> AccountMeta list \<Rightarrow> pubkey \<Rightarrow> bool result" where
  "whitelist_allows rt whitelist direct_member allowed_group group_member resolver_program resolver_accounts taker =
     (let direct = (case direct_member of None \<Rightarrow> False
                    | Some (key, member) \<Rightarrow> key = whitelist_member_key rt (fst whitelist) taker \<and> wm_active member \<and>
                        wm_taker member = taker \<and> wm_deposit_whitelist member = fst whitelist) in
      if direct then
        require (allowed_group = None \<and> group_member = None \<and> resolver_program = None \<and> resolver_accounts = [])
          Unauthorized (Inr True)
      else case allowed_group of
        None \<Rightarrow>
          require (group_member = None \<and> resolver_program = None \<and> resolver_accounts = []) Unauthorized (Inr False)
      | Some (group_key, g) \<Rightarrow>
          require (group_key = pda rt (group_seeds (ag_whitelist_config g) (ag_nonce g))) Unauthorized (
          if ag_id g \<notin> set (dw_allowed_groups (snd whitelist)) then Inr False
          else
            let curated = (case group_member of None \<Rightarrow> False
                           | Some (key, member) \<Rightarrow> key = group_member_key rt group_key taker \<and> gm_active member \<and>
                               gm_member member = taker \<and> gm_group member = group_key) in
            if curated then
              require (resolver_program = None \<and> resolver_accounts = []) Unauthorized (Inr True)
            else resolver_says_yes rt g taker resolver_program resolver_accounts))"

subsection \<open>Dispute coverage\<close>

definition risk_window_seeds :: "pubkey \<Rightarrow> bytes32 \<Rightarrow> u8 list list" where
  "risk_window_seeds config payment_method = [RISK_WINDOW_SEED, key_bytes config, key_bytes payment_method]"

definition dispute_intent_seeds :: "pubkey \<Rightarrow> bytes32 \<Rightarrow> u8 list list" where
  "dispute_intent_seeds config intent_hash = [DISPUTE_INTENT_SEED, key_bytes config, key_bytes intent_hash]"

definition dispute_setting_seeds :: "pubkey \<Rightarrow> u8 list list" where
  "dispute_setting_seeds deposit = [DEPOSIT_DISPUTE_SETTING_SEED, key_bytes deposit]"

definition validate_dispute_admission ::
  "runtime \<Rightarrow> pubkey \<Rightarrow> DisputeIntent supplied \<Rightarrow> RiskWindow supplied \<Rightarrow> bytes32 \<Rightarrow> pubkey \<Rightarrow> bytes32 \<Rightarrow> u64 \<Rightarrow> unit result" where
  "validate_dispute_admission rt deposit dispute_intent risk_window intent_hash taker payment_method amount =
     and_then (ok_or risk_window DisputeProtectionDisabled) (\<lambda>(risk_key, risk).
     require (rw_dispute_config risk = dispute_config_key rt) Unauthorized (
     require (risk_key = pda rt (risk_window_seeds (rw_dispute_config risk) payment_method)) Unauthorized (
     require (rw_payment_method risk = payment_method) PaymentMethodNotSupported (
     if rw_seconds risk = 0 then require (dispute_intent = None) Unauthorized (Inr ())
     else
       and_then (ok_or dispute_intent DisputeProtectionDisabled) (\<lambda>(dispute_key, dispute).
       require (dispute_key = pda rt (dispute_intent_seeds (rw_dispute_config risk) intent_hash)) Unauthorized (
       require (di_dispute_config dispute = rw_dispute_config risk) Unauthorized (
       require (di_intent_hash dispute = intent_hash \<and> di_taker dispute = taker \<and>
                di_payment_method dispute = rw_payment_method risk \<and> di_risk_window dispute = rw_seconds risk \<and>
                di_deposit dispute = deposit \<and> di_locked_amount dispute = amount) IntentSnapshotMismatch (
       require (di_status dispute = Pending) DisputeIntentNotPending (
       Inr ())))))))))"

subsection \<open>Lifecycle policy\<close>

record LifecycleAdmission =
  la_policy :: LifecyclePolicy
  la_deposit :: pubkey
  la_whitelist :: "DepositWhitelist supplied"
  la_direct_member :: "DepositWhitelistMember supplied"
  la_allowed_group :: "AddressGroup supplied"
  la_group_member :: "GroupMember supplied"
  la_resolver_program :: "(pubkey \<times> bool) option"
  la_resolver_accounts :: "AccountMeta list"
  la_dispute_intent :: "DisputeIntent supplied"
  la_deposit_dispute_setting :: "DepositDisputeSetting supplied"
  la_risk_window :: "RiskWindow supplied"
  la_intent_hash :: bytes32
  la_taker :: pubkey
  la_payment_method :: bytes32
  la_amount :: u64

definition no_whitelist_evidence :: "LifecycleAdmission \<Rightarrow> bool" where
  "no_whitelist_evidence a \<longleftrightarrow>
     la_direct_member a = None \<and> la_allowed_group a = None \<and> la_group_member a = None \<and>
     la_resolver_program a = None \<and> la_resolver_accounts a = []"

definition no_dispute_evidence :: "LifecycleAdmission \<Rightarrow> bool" where
  "no_dispute_evidence a \<longleftrightarrow>
     la_dispute_intent a = None \<and> la_deposit_dispute_setting a = None \<and> la_risk_window a = None"

text \<open>\<^verbatim>\<open>whitelist_enabled\<close>\<close>

definition whitelist_enabled :: "runtime \<Rightarrow> LifecycleAdmission \<Rightarrow> bool result" where
  "whitelist_enabled rt a =
     (case la_whitelist a of
        Some (key, w) \<Rightarrow>
          require (key = deposit_whitelist_key rt (la_deposit a)) Unauthorized (
          require (dw_deposit w = la_deposit a) Unauthorized (
          Inr (dw_enabled w)))
      | None \<Rightarrow> Inr False)"

text \<open>\<^verbatim>\<open>whitelisted\<close>\<close>

definition whitelisted :: "runtime \<Rightarrow> LifecycleAdmission \<Rightarrow> bool \<Rightarrow> bool result" where
  "whitelisted rt a enabled =
     (if enabled
      then and_then (ok_or (la_whitelist a) TakerNotWhitelisted) (\<lambda>w.
           whitelist_allows rt w (la_direct_member a) (la_allowed_group a) (la_group_member a)
             (la_resolver_program a) (la_resolver_accounts a) (la_taker a))
      else require (no_whitelist_evidence a) Unauthorized (Inr False))"

text \<open>\<^verbatim>\<open>dispute_enabled\<close>\<close>

definition dispute_enabled :: "runtime \<Rightarrow> LifecycleAdmission \<Rightarrow> bool result" where
  "dispute_enabled rt a =
     (case la_deposit_dispute_setting a of
        None \<Rightarrow> Inr True
      | Some (key, setting) \<Rightarrow>
          require (key = pda rt (dispute_setting_seeds (la_deposit a))) Unauthorized (
          require (ds_deposit setting = la_deposit a) Unauthorized (
          Inr (ds_enabled setting))))"

definition validate_lifecycle_admission :: "runtime \<Rightarrow> LifecycleAdmission \<Rightarrow> unit result" where
  "validate_lifecycle_admission rt a =
     (if la_policy a = PolicyNone then
        require (la_whitelist a = None \<and> no_whitelist_evidence a \<and> no_dispute_evidence a) Unauthorized (Inr ())
      else
        and_then (whitelist_enabled rt a) (\<lambda>enabled.
        and_then (whitelisted rt a enabled) (\<lambda>listed.
        if la_policy a = PolicyWhitelist then
          require (\<not> enabled \<or> listed) TakerNotWhitelisted (
          require (no_dispute_evidence a) Unauthorized (Inr ()))
        else if listed then require (no_dispute_evidence a) Unauthorized (Inr ())
        else
          and_then (dispute_enabled rt a) (\<lambda>dispute.
          if \<not> dispute then
            require (la_dispute_intent a = None \<and> la_risk_window a = None) Unauthorized (
            require (\<not> enabled) TakerNotWhitelisted (Inr ()))
          else validate_dispute_admission rt (la_deposit a) (la_dispute_intent a) (la_risk_window a)
                 (la_intent_hash a) (la_taker a) (la_payment_method a) (la_amount a)))))"

end
