(* ===== verification/Orchestrator.thy ===== *)
theory Orchestrator
  imports Admission Stake
begin

text \<open>
  The instructions of \<^verbatim>\<open>src/programs/zkp2p_solana/src/instructions/orchestrator.rs\<close>: signalling an intent with
  its escrow lock, cancelling it, and pruning it after expiry. The accounts of a context whose address is
  not derived are gathered in a record.
\<close>

definition intent_seeds :: "runtime \<Rightarrow> u64 \<Rightarrow> u8 list list" where
  "intent_seeds rt nonce = [INTENT_SEED, key_bytes (orchestrator_config_key rt), to_le_bytes nonce]"

definition taker_state_seeds :: "runtime \<Rightarrow> pubkey \<Rightarrow> u8 list list" where
  "taker_state_seeds rt taker = [TAKER_INTENT_STATE_SEED, key_bytes (orchestrator_config_key rt), key_bytes taker]"

definition taker_state_key :: "runtime \<Rightarrow> pubkey \<Rightarrow> pubkey" where
  "taker_state_key rt taker = pda rt (taker_state_seeds rt taker)"

definition orchestrator_account :: "runtime \<Rightarrow> ledger \<Rightarrow> OrchestratorConfig result" where
  "orchestrator_account rt ls =
     and_then (account (orchestrator_config ls)) (\<lambda>oc.
     seeds_bump rt [ORCHESTRATOR_CONFIG_SEED] (oc_bump oc) (Inr oc))"

definition opt_account :: "(pubkey \<rightharpoonup> 'v) \<Rightarrow> pubkey option \<Rightarrow> 'v supplied result" where
  "opt_account m key =
     (case key of None \<Rightarrow> Inr None | Some k \<Rightarrow> and_then (account (m k)) (\<lambda>v. Inr (Some (k, v))))"

definition zero_taker_state :: TakerIntentState where
  "zero_taker_state = \<lparr>ts_orchestrator = 0, ts_taker = 0, ts_active_intents = 0, ts_bump = 0\<rparr>"

record SignalIntentAccounts =
  ska_deposit :: pubkey
  ska_oracle_quote :: "pubkey option"
  ska_rate_manager :: "pubkey option"
  ska_rate_entry :: "pubkey option"
  ska_deposit_whitelist :: "pubkey option"
  ska_direct_whitelist_member :: "pubkey option"
  ska_allowed_group :: "pubkey option"
  ska_group_member :: "pubkey option"
  ska_resolver_program :: "(pubkey \<times> bool) option"
  ska_dispute_intent :: "pubkey option"
  ska_deposit_dispute_setting :: "pubkey option"
  ska_risk_window :: "pubkey option"
  ska_remaining_accounts :: "AccountMeta list"

subsection \<open>Signalling\<close>

text \<open>The fixed accounts of the context: configuration, deposit, payment method and currency.\<close>

definition signal_context ::
  "runtime \<Rightarrow> ledger \<Rightarrow> pubkey \<Rightarrow> SignalIntentArgs \<Rightarrow>
   (OrchestratorConfig \<times> EscrowConfig \<times> Deposit \<times> DepositPaymentMethod \<times> DepositCurrency) result" where
  "signal_context rt ls deposit args =
     and_then (orchestrator_account rt ls) (\<lambda>oc.
     and_then (escrow_account rt ls) (\<lambda>escrow.
     require (oc_escrow_config oc = escrow_config_key rt) Unauthorized (
     and_then (account (deposits ls deposit)) (\<lambda>d.
     require (d_escrow_config d = escrow_config_key rt) DepositNotFound (
     and_then (account (payment_methods ls (payment_method_key rt deposit (sia_payment_method args)))) (\<lambda>method.
     seeds_bump rt (payment_method_seeds deposit (sia_payment_method args)) (pm_bump method) (
     require (pm_deposit method = deposit) PaymentMethodNotSupported (
     and_then (account (deposit_currencies ls (currency_key rt deposit (sia_payment_method args) (sia_fiat_currency args)))) (\<lambda>currency.
     seeds_bump rt (currency_seeds deposit (sia_payment_method args) (sia_fiat_currency args)) (dc_bump currency) (
     require (dc_deposit currency = deposit) CurrencyNotSupported (
     Inr (oc, escrow, d, method, currency))))))))))))"

text \<open>The optional accounts, loaded into the structure that \<^verbatim>\<open>validate_lifecycle_admission\<close> takes.\<close>

definition signal_admission ::
  "ledger \<Rightarrow> OrchestratorConfig \<Rightarrow> SignalIntentAccounts \<Rightarrow> pubkey \<Rightarrow> bytes32 \<Rightarrow> SignalIntentArgs \<Rightarrow> LifecycleAdmission result" where
  "signal_admission ls oc accs taker intent_hash args =
     and_then (opt_account (deposit_whitelists ls) (ska_deposit_whitelist accs)) (\<lambda>deposit_whitelist.
     and_then (opt_account (whitelist_members ls) (ska_direct_whitelist_member accs)) (\<lambda>direct_whitelist_member.
     and_then (opt_account (address_groups ls) (ska_allowed_group accs)) (\<lambda>allowed_group.
     and_then (opt_account (group_members ls) (ska_group_member accs)) (\<lambda>group_member.
     and_then (opt_account (dispute_intents ls) (ska_dispute_intent accs)) (\<lambda>dispute_intent.
     and_then (opt_account (dispute_settings ls) (ska_deposit_dispute_setting accs)) (\<lambda>deposit_dispute_setting.
     and_then (opt_account (risk_windows ls) (ska_risk_window accs)) (\<lambda>risk_window.
     Inr \<lparr>la_policy = oc_lifecycle_policy oc, la_deposit = ska_deposit accs, la_whitelist = deposit_whitelist,
          la_direct_member = direct_whitelist_member, la_allowed_group = allowed_group,
          la_group_member = group_member, la_resolver_program = ska_resolver_program accs,
          la_resolver_accounts = ska_remaining_accounts accs, la_dispute_intent = dispute_intent,
          la_deposit_dispute_setting = deposit_dispute_setting, la_risk_window = risk_window,
          la_intent_hash = intent_hash, la_taker = taker, la_payment_method = sia_payment_method args,
          la_amount = sia_amount args\<rparr>)))))))"

definition new_intent ::
  "runtime \<Rightarrow> OrchestratorConfig \<Rightarrow> pubkey \<Rightarrow> pubkey \<Rightarrow> DepositPaymentMethod \<Rightarrow> bytes32 \<Rightarrow>
   pubkey option \<times> u128 \<Rightarrow> bool \<Rightarrow> SignalIntentArgs \<Rightarrow> Intent" where
  "new_intent rt oc taker deposit method intent_hash manager_terms dispute_covered args =
     \<lparr>i_orchestrator = orchestrator_config_key rt, i_intent_hash = intent_hash, i_nonce = oc_next_intent_id oc,
      i_owner = taker, i_recipient = sia_recipient args, i_deposit = deposit, i_amount = sia_amount args,
      i_timestamp = unix_timestamp rt, i_payment_method = sia_payment_method args,
      i_fiat_currency = sia_fiat_currency args, i_conversion_rate = sia_conversion_rate args,
      i_payee_id = pm_payee_details method, i_manager_fee_recipient = fst manager_terms,
      i_manager_fee = snd manager_terms, i_lifecycle_policy = oc_lifecycle_policy oc,
      i_dispute_covered = dispute_covered, i_referral_fees = sia_referral_fees args,
      i_bump = pda_bump rt (intent_seeds rt (oc_next_intent_id oc))\<rparr>"

definition new_intent_lock :: "runtime \<Rightarrow> pubkey \<Rightarrow> bytes32 \<Rightarrow> u64 \<Rightarrow> i64 \<Rightarrow> EscrowIntentLock" where
  "new_intent_lock rt deposit intent_hash amount expiry =
     \<lparr>el_deposit = deposit, el_intent_hash = intent_hash, el_orchestrator = orchestrator_config_key rt,
      el_amount = amount, el_timestamp = unix_timestamp rt, el_expiry_time = expiry,
      el_bump = pda_bump rt (intent_lock_seeds deposit intent_hash)\<rparr>"

text \<open>The checks of the handler before it changes state: the values it goes on with.\<close>

definition signal_checks ::
  "runtime \<Rightarrow> ledger \<Rightarrow> pubkey \<Rightarrow> SignalIntentAccounts \<Rightarrow> SignalIntentArgs \<Rightarrow>
   OrchestratorConfig \<Rightarrow> EscrowConfig \<Rightarrow> Deposit \<Rightarrow> DepositPaymentMethod \<Rightarrow> DepositCurrency \<Rightarrow> TakerIntentState \<Rightarrow>
   (bytes32 \<times> RateManager supplied \<times> RiskWindow supplied) result" where
  "signal_checks rt ls taker accs args oc escrow d method currency taker_state =
     and_then (opt_account (oracle_quotes ls) (ska_oracle_quote accs)) (\<lambda>oracle_quote.
     and_then (opt_account (rate_managers ls) (ska_rate_manager accs)) (\<lambda>rate_manager.
     and_then (opt_account (rate_entries ls) (ska_rate_entry accs)) (\<lambda>rate_entry.
     require (\<not> oc_paused oc) Paused (
     require (\<not> ec_paused escrow) Paused (
     require (sia_recipient args \<noteq> 0) ZeroAddress (
     require (pm_active method) PaymentMethodNotSupported (
     require (dc_listed currency) CurrencyNotSupported (
     and_then (validate_referral_fees (sia_referral_fees args)) (\<lambda>_.
     and_then (validate_gating_signature rt (pm_gating_service method) oc (ska_deposit accs) taker args) (\<lambda>_.
     require (oc_allow_multiple_intents oc \<or> ts_active_intents taker_state = 0) AccountHasActiveIntent (
     let intent_hash = derive_intent_hash rt (orchestrator_config_key rt) (oc_next_intent_id oc) in
     require (intent_hash = sia_expected_intent_hash args) DataHashMismatch (
     and_then (effective_rate rt currency oracle_quote (d_rate_manager d) rate_manager rate_entry (unix_timestamp rt)) (\<lambda>floor.
     require (floor > 0) CurrencyNotSupported (
     require (sia_conversion_rate args \<ge> floor) RateBelowMinimum (
     and_then (signal_admission ls oc accs taker intent_hash args) (\<lambda>admission.
     and_then (validate_lifecycle_admission rt admission) (\<lambda>_.
     Inr (intent_hash, rate_manager, la_risk_window admission))))))))))))))))))"

definition handle_signal_intent :: "runtime \<Rightarrow> ledger \<Rightarrow> pubkey \<Rightarrow> SignalIntentAccounts \<Rightarrow> SignalIntentArgs \<Rightarrow> ledger result" where
  "handle_signal_intent rt ls taker accs args =
     and_then (signal_context rt ls (ska_deposit accs) args) (\<lambda>(oc, escrow, d, method, currency).
     let nonce = oc_next_intent_id oc;
         intent_key = pda rt (intent_seeds rt nonce);
         lock_key = intent_lock_key rt (ska_deposit accs) (sia_expected_intent_hash args);
         taker_state = init_if_needed (taker_states ls (taker_state_key rt taker)) zero_taker_state in
     init (intents ls intent_key) (
     init (intent_locks ls lock_key) (
     and_then (signal_checks rt ls taker accs args oc escrow d method currency taker_state) (\<lambda>(intent_hash, rate_manager, risk_window).
     and_then (Deposit_lock d (sia_amount args) (ec_max_intents_per_deposit escrow)) (\<lambda>d.
     and_then (ok_or (checked_sadd (unix_timestamp rt) (ec_intent_expiration_period escrow)) ArithmeticOverflow) (\<lambda>expiry.
     let manager_terms = (case rate_manager of None \<Rightarrow> (None, 0) | Some (_, m) \<Rightarrow> (rm_fee_recipient m, rm_fee m)) in
     require (snd manager_terms \<le> MAX_FEE) FeeExceedsMaximum (
     let dispute_covered = (case risk_window of None \<Rightarrow> False | Some (_, w) \<Rightarrow> sint (rw_seconds w) > 0);
         taker_state = (if ts_taker taker_state = 0
                        then taker_state\<lparr>ts_orchestrator := orchestrator_config_key rt, ts_taker := taker,
                                         ts_bump := pda_bump rt (taker_state_seeds rt taker)\<rparr>
                        else taker_state) in
     and_then (ok_or (checked_add (ts_active_intents taker_state) 1) ArithmeticOverflow) (\<lambda>active_intents.
     and_then (ok_or (checked_add nonce 1) ArithmeticOverflow) (\<lambda>next_intent_id.
     Inr (ls\<lparr>deposits := (deposits ls)(ska_deposit accs \<mapsto> d),
             intents := (intents ls)(intent_key \<mapsto>
               new_intent rt oc taker (ska_deposit accs) method intent_hash manager_terms dispute_covered args),
             intent_locks := (intent_locks ls)(lock_key \<mapsto>
               new_intent_lock rt (ska_deposit accs) intent_hash (sia_amount args) expiry),
             taker_states := (taker_states ls)(taker_state_key rt taker \<mapsto>
               taker_state\<lparr>ts_active_intents := active_intents\<rparr>),
             orchestrator_config := Some (oc\<lparr>oc_next_intent_id := next_intent_id\<rparr>)\<rparr>))))))))))"

subsection \<open>Ending an intent\<close>

text \<open>
  An intent account validated against its seeds, with its deposit, lock and the counter of its owner: the
  accounts that cancelling and pruning share. The source's constraint on \<^verbatim>\<open>intent_lock.intent_hash\<close> is part of
  both, because Anchor derives the lock's address from the intent's hash.
\<close>

definition ending_context ::
  "runtime \<Rightarrow> ledger \<Rightarrow> pubkey \<Rightarrow> (Intent \<times> Deposit \<times> EscrowIntentLock \<times> TakerIntentState) result" where
  "ending_context rt ls intent_key =
     and_then (orchestrator_account rt ls) (\<lambda>oc.
     and_then (account (intents ls intent_key)) (\<lambda>intent.
     constraint (intent_key = pda rt (intent_seeds rt (i_nonce intent))) ConstraintSeeds (
     seeds_bump rt (intent_seeds rt (i_nonce intent)) (i_bump intent) (
     and_then (account (deposits ls (i_deposit intent))) (\<lambda>d.
     and_then (account (intent_locks ls (intent_lock_key rt (i_deposit intent) (i_intent_hash intent)))) (\<lambda>lock.
     seeds_bump rt (intent_lock_seeds (i_deposit intent) (i_intent_hash intent)) (el_bump lock) (
     require (el_orchestrator lock = orchestrator_config_key rt) Unauthorized (
     and_then (account (taker_states ls (taker_state_key rt (i_owner intent)))) (\<lambda>taker_state.
     seeds_bump rt (taker_state_seeds rt (i_owner intent)) (ts_bump taker_state) (
     Inr (intent, d, lock, taker_state)))))))))))"

text \<open>The accounting that both handlers end with; Anchor then closes the intent and its lock.\<close>

definition end_intent ::
  "runtime \<Rightarrow> ledger \<Rightarrow> pubkey \<Rightarrow> Intent \<Rightarrow> Deposit \<Rightarrow> EscrowIntentLock \<Rightarrow> TakerIntentState \<Rightarrow> ledger result" where
  "end_intent rt ls intent_key intent d lock taker_state =
     and_then (Deposit_unlock d (el_amount lock)) (\<lambda>d.
     and_then (ok_or (checked_sub (ts_active_intents taker_state) 1) ArithmeticOverflow) (\<lambda>active_intents.
     Inr (ls\<lparr>deposits := (deposits ls)(i_deposit intent \<mapsto> d),
             taker_states := (taker_states ls)(taker_state_key rt (i_owner intent) \<mapsto>
               taker_state\<lparr>ts_active_intents := active_intents\<rparr>),
             intents := (intents ls)(intent_key := None),
             intent_locks := (intent_locks ls)(intent_lock_key rt (i_deposit intent) (i_intent_hash intent) := None)\<rparr>)))"

definition handle_cancel_intent :: "runtime \<Rightarrow> ledger \<Rightarrow> pubkey \<Rightarrow> pubkey \<Rightarrow> pubkey option \<Rightarrow> ledger result" where
  "handle_cancel_intent rt ls owner intent_key resolved_dispute =
     and_then (ending_context rt ls intent_key) (\<lambda>(intent, d, lock, taker_state).
     constraint (owner = i_owner intent) ConstraintAddress (
     require (i_orchestrator intent = orchestrator_config_key rt) IntentNotFound (
     require (el_intent_hash lock = i_intent_hash intent) IntentNotFound (
     require (ts_taker taker_state = owner) Unauthorized (
     and_then (opt_account (dispute_intents ls) resolved_dispute) (\<lambda>dispute.
     and_then (if i_dispute_covered intent
               then and_then (ok_or dispute DisputeIntentNotPending) (\<lambda>(_, dispute).
                    require (di_intent_hash dispute = i_intent_hash intent \<and> di_status dispute = Cancelled)
                      DisputeIntentNotPending (Inr ()))
               else require (dispute = None) Unauthorized (Inr ())) (\<lambda>_.
     end_intent rt ls intent_key intent d lock taker_state)))))))"

text \<open>\<^verbatim>\<open>PruneDisputeAccounts\<close>: the two configuration accounts have derived addresses, so only their presence is
  supplied.\<close>

record PruneDisputeAccounts =
  pda_dispute_config :: bool
  pda_dispute_intent :: "pubkey option"
  pda_stake_vault :: bool
  pda_stake_position :: "pubkey option"
  pda_stake_lock :: "pubkey option"

definition dispute_config_account :: "runtime \<Rightarrow> ledger \<Rightarrow> DisputeConfig result" where
  "dispute_config_account rt ls =
     and_then (account (dispute_config ls)) (\<lambda>config.
     seeds_bump rt [DISPUTE_CONFIG_SEED] (dg_bump config) (Inr config))"

definition opt_singleton :: "bool \<Rightarrow> 'v result \<Rightarrow> 'v option result" where
  "opt_singleton present load = (if present then and_then load (\<lambda>v. Inr (Some v)) else Inr None)"

text \<open>The covered branch of \<^verbatim>\<open>handle_prune_expired_intent\<close>.\<close>

definition prune_dispute :: "runtime \<Rightarrow> ledger \<Rightarrow> bytes32 \<Rightarrow> DisputeConfig option \<Rightarrow> DisputeIntent supplied \<Rightarrow>
   StakeVaultConfig option \<Rightarrow> StakePosition supplied \<Rightarrow> StakeLock supplied \<Rightarrow> ledger result" where
  "prune_dispute rt ls intent_hash config dispute_intent stake_vault stake_position stake_lock =
     and_then (ok_or config DisputeIntentNotPending) (\<lambda>config.
     and_then (ok_or dispute_intent DisputeIntentNotPending) (\<lambda>(dispute_key, dispute).
     and_then (ok_or stake_vault DisputeIntentNotPending) (\<lambda>_.
     and_then (ok_or stake_position DisputeIntentNotPending) (\<lambda>(p_key, p).
     and_then (ok_or stake_lock DisputeIntentNotPending) (\<lambda>(lock_key, lock).
     require (dg_stake_vault config = stake_vault_config_key rt) Unauthorized (
     require (dispute_key = pda rt (dispute_intent_seeds (dispute_config_key rt) intent_hash)) Unauthorized (
     require (p_key = position_key rt (di_stake_owner dispute)) Unauthorized (
     require (lock_key = stake_lock_key rt intent_hash) Unauthorized (
     require (sl_stake_owner lock = sp_owner p) UnauthorizedStakeOwner (
     and_then (DisputeIntent_cancel dispute) (\<lambda>dispute.
     and_then (StakePosition_unlock p (sl_amount lock)) (\<lambda>p.
     Inr (ls\<lparr>dispute_intents := (dispute_intents ls)(dispute_key \<mapsto> dispute),
             stake_positions := (stake_positions ls)(p_key \<mapsto> p),
             stake_locks := (stake_locks ls)(lock_key := None)\<rparr>)))))))))))))"

definition handle_prune_expired_intent :: "runtime \<Rightarrow> ledger \<Rightarrow> pubkey \<Rightarrow> PruneDisputeAccounts \<Rightarrow> ledger result" where
  "handle_prune_expired_intent rt ls intent_key accs =
     and_then (ending_context rt ls intent_key) (\<lambda>(intent, d, lock, taker_state).
     and_then (opt_singleton (pda_dispute_config accs) (dispute_config_account rt ls)) (\<lambda>config.
     and_then (opt_account (dispute_intents ls) (pda_dispute_intent accs)) (\<lambda>dispute_intent.
     and_then (opt_singleton (pda_stake_vault accs) (vault_account rt ls)) (\<lambda>stake_vault.
     and_then (opt_account (stake_positions ls) (pda_stake_position accs)) (\<lambda>stake_position.
     and_then (opt_account (stake_locks ls) (pda_stake_lock accs)) (\<lambda>stake_lock.
     require (sint (unix_timestamp rt) > sint (el_expiry_time lock)) IntentNotFound (
     and_then (if i_dispute_covered intent
               then prune_dispute rt ls (i_intent_hash intent) config dispute_intent stake_vault stake_position stake_lock
               else require (config = None \<and> dispute_intent = None \<and> stake_vault = None \<and> stake_position = None \<and>
                             stake_lock = None) Unauthorized (Inr ls)) (\<lambda>ls.
     end_intent rt ls intent_key intent d lock taker_state))))))))"

end
