(* ===== verification/Dispute.thy ===== *)
theory Dispute
  imports Orchestrator
begin

text \<open>
  \<^verbatim>\<open>src/programs/zkp2p_solana/src/instructions/dispute.rs\<close>: risk windows and opt-outs, the collateral a taker
  prepares in the instruction before its signal, its cancellation, its release after the risk window, and
  the resolution of dispute evidence into a claim of the depositor. The first part reads the following instruction of
  the transaction.
\<close>

subsection \<open>The following instruction\<close>

text \<open>\<^verbatim>\<open>strip_prefix\<close>, and the loop that binds account positions of an instruction.\<close>

definition strip_prefix :: "u8 list \<Rightarrow> u8 list \<Rightarrow> u8 list option" where
  "strip_prefix p bs = (if take (length p) bs = p then Some (drop (length p) bs) else None)"

fun bind_accounts :: "AccountMeta list \<Rightarrow> (nat \<times> pubkey) list \<Rightarrow> unit result" where
  "bind_accounts accs [] = Inr ()"
| "bind_accounts accs ((index, expected) # rest) =
     and_then (ok_or (if index < length accs then Some (accs ! index) else None) Unauthorized) (\<lambda>supplied.
     require (am_pubkey supplied = expected) Unauthorized (
     bind_accounts accs rest))"

text \<open>The instruction after the current one, which must call this program, bind the given accounts and have a
  writable signer first.\<close>

definition next_instruction :: "runtime \<Rightarrow> (nat \<times> pubkey) list \<Rightarrow> Instruction result" where
  "next_instruction rt expected =
     and_then (ok_or (current_index rt) Unauthorized) (\<lambda>current.
     and_then (ok_or (instruction_at rt (current + 1)) Unauthorized) (\<lambda>instruction.
     require (ix_program_id instruction = crate_ID) Unauthorized (
     and_then (bind_accounts (ix_accounts instruction) expected) (\<lambda>_.
     require (\<exists>a\<in>set (take 1 (ix_accounts instruction)). am_is_signer a \<and> am_is_writable a) Unauthorized (
     Inr instruction)))))"

subsection \<open>Configuration\<close>

definition handle_set_risk_window :: "runtime \<Rightarrow> ledger \<Rightarrow> pubkey \<Rightarrow> bytes32 \<Rightarrow> i64 \<Rightarrow> ledger result" where
  "handle_set_risk_window rt ls authority payment_method seconds =
     and_then (governed_by rt ls authority) (\<lambda>p.
     and_then (dispute_config_account rt ls) (\<lambda>config.
     require (payment_method \<noteq> 0) ZeroValue (
     require (0 \<le> sint seconds \<and> sint seconds \<le> sint MAX_RISK_WINDOW_SECONDS) AmountAboveMaximum (
     Inr (ls\<lparr>risk_windows := (risk_windows ls)(pda rt (risk_window_seeds (dispute_config_key rt) payment_method) \<mapsto>
               \<lparr>rw_dispute_config = dispute_config_key rt, rw_payment_method = payment_method, rw_seconds = seconds,
                rw_bump = pda_bump rt (risk_window_seeds (dispute_config_key rt) payment_method)\<rparr>)\<rparr>)))))"

definition handle_set_dispute_admissions_paused :: "runtime \<Rightarrow> ledger \<Rightarrow> pubkey \<Rightarrow> bool \<Rightarrow> ledger result" where
  "handle_set_dispute_admissions_paused rt ls authority paused =
     and_then (governed_by rt ls authority) (\<lambda>p.
     and_then (dispute_config_account rt ls) (\<lambda>config.
     Inr (ls\<lparr>dispute_config := Some (config\<lparr>dg_admissions_paused := paused\<rparr>)\<rparr>)))"

definition handle_set_deposit_dispute_protection :: "runtime \<Rightarrow> ledger \<Rightarrow> pubkey \<Rightarrow> pubkey \<Rightarrow> bool \<Rightarrow> ledger result" where
  "handle_set_deposit_dispute_protection rt ls authority deposit enabled =
     and_then (whitelisting_deposit ls authority deposit) (\<lambda>d.
     Inr (ls\<lparr>dispute_settings := (dispute_settings ls)(pda rt (dispute_setting_seeds deposit) \<mapsto>
               \<lparr>ds_deposit = deposit, ds_enabled = enabled, ds_bump = pda_bump rt (dispute_setting_seeds deposit)\<rparr>)\<rparr>))"

subsection \<open>Preparing collateral\<close>

record PrepareDisputeArgs =
  pda_expected_intent_hash :: bytes32
  pda_payment_method :: bytes32
  pda_amount :: u64

definition require_atomic_signal_follows ::
  "runtime \<Rightarrow> PrepareDisputeArgs \<Rightarrow> pubkey \<Rightarrow> pubkey \<Rightarrow> pubkey \<Rightarrow> pubkey \<Rightarrow> unit result" where
  "require_atomic_signal_follows rt prepared taker orchestrator deposit dispute_intent =
     and_then (next_instruction rt [(0, taker), (1, orchestrator), (3, deposit), (14, dispute_intent)]) (\<lambda>instruction.
     and_then (ok_or (strip_prefix (signal_intent_discriminator rt) (ix_data instruction)) Unauthorized) (\<lambda>encoded_args.
     and_then (ok_or (signal_args_try_from_slice rt encoded_args) Unauthorized) (\<lambda>signal.
     require (sia_expected_intent_hash signal = pda_expected_intent_hash prepared \<and>
              sia_payment_method signal = pda_payment_method prepared \<and>
              sia_amount signal = pda_amount prepared) IntentSnapshotMismatch (
     Inr ()))))"

text \<open>\<^verbatim>\<open>selection\<close> has a derived address, so only its presence is supplied; \<^verbatim>\<open>deposit_setting\<close> is an address.\<close>

definition prepare_context ::
  "runtime \<Rightarrow> ledger \<Rightarrow> pubkey \<Rightarrow> pubkey \<Rightarrow> pubkey option \<Rightarrow> bool \<Rightarrow> pubkey \<Rightarrow> PrepareDisputeArgs \<Rightarrow>
   (OrchestratorConfig \<times> DisputeConfig \<times> Deposit \<times> DepositDisputeSetting supplied \<times> RiskWindow \<times>
    StakeSelection option \<times> StakePosition) result" where
  "prepare_context rt ls taker deposit deposit_setting selection stake_owner args =
     and_then (orchestrator_account rt ls) (\<lambda>oc.
     and_then (dispute_config_account rt ls) (\<lambda>config.
     and_then (vault_account rt ls) (\<lambda>vault.
     require (dg_stake_vault config = stake_vault_config_key rt) Unauthorized (
     require (sv_controller vault = dispute_config_key rt) Unauthorized (
     and_then (account (deposits ls deposit)) (\<lambda>d.
     require (d_token_mint d = sv_stake_mint vault) IntentTokenMismatch (
     and_then (opt_account (dispute_settings ls) deposit_setting) (\<lambda>setting.
     and_then (account (risk_windows ls (pda rt (risk_window_seeds (dispute_config_key rt) (pda_payment_method args))))) (\<lambda>risk.
     seeds_bump rt (risk_window_seeds (dispute_config_key rt) (pda_payment_method args)) (rw_bump risk) (
     require (rw_dispute_config risk = dispute_config_key rt) Unauthorized (
     and_then (opt_singleton selection (and_then (account (stake_selections ls (selection_key rt taker))) (\<lambda>s.
                 seeds_bump rt (selection_seeds taker) (ss_bump s) (Inr s)))) (\<lambda>selected.
     and_then (account (stake_positions ls (position_key rt stake_owner))) (\<lambda>p.
     seeds_bump rt (position_seeds rt stake_owner) (sp_bump p) (
     require (sp_owner p = stake_owner) UnauthorizedStakeOwner (
     Inr (oc, config, d, setting, risk, selected, p))))))))))))))))"

definition new_dispute_intent ::
  "runtime \<Rightarrow> pubkey \<Rightarrow> pubkey \<Rightarrow> Deposit \<Rightarrow> pubkey \<Rightarrow> i64 \<Rightarrow> PrepareDisputeArgs \<Rightarrow> DisputeIntent" where
  "new_dispute_intent rt taker deposit d selected_owner seconds args =
     \<lparr>di_dispute_config = dispute_config_key rt, di_intent_hash = pda_expected_intent_hash args,
      di_deposit = deposit, di_taker = taker, di_stake_owner = selected_owner, di_depositor = d_depositor d,
      di_payment_method = pda_payment_method args, di_locked_amount = pda_amount args, di_status = Pending,
      di_risk_window = seconds, di_release_eligible_at = 0, di_release_amount = 0,
      di_bump = pda_bump rt (dispute_intent_seeds (dispute_config_key rt) (pda_expected_intent_hash args))\<rparr>"

definition handle_prepare_dispute ::
  "runtime \<Rightarrow> ledger \<Rightarrow> pubkey \<Rightarrow> pubkey \<Rightarrow> pubkey option \<Rightarrow> bool \<Rightarrow> pubkey \<Rightarrow> PrepareDisputeArgs \<Rightarrow> ledger result" where
  "handle_prepare_dispute rt ls taker deposit deposit_setting selection stake_owner args =
     and_then (prepare_context rt ls taker deposit deposit_setting selection stake_owner args)
       (\<lambda>(oc, config, d, setting, risk, selected, p).
     let lock_key = stake_lock_key rt (pda_expected_intent_hash args);
         dispute_key = pda rt (dispute_intent_seeds (dispute_config_key rt) (pda_expected_intent_hash args)) in
     init (stake_locks ls lock_key) (
     init (dispute_intents ls dispute_key) (
     require (\<not> dg_admissions_paused config) AdmissionsPaused (
     require (pda_amount args > 0) ZeroValue (
     require (sint (rw_seconds risk) > 0) ZeroValue (
     require (oc_lifecycle_policy oc = PolicyWhitelistAndDispute) DisputeProtectionDisabled (
     and_then (require_atomic_signal_follows rt args taker (orchestrator_config_key rt) deposit dispute_key) (\<lambda>_.
     and_then (case setting of None \<Rightarrow> Inr ()
               | Some (_, s) \<Rightarrow> require (ds_deposit s = deposit) DepositNotFound (
                               require (ds_enabled s) DisputeProtectionDisabled (Inr ()))) (\<lambda>_.
     require (derive_intent_hash rt (orchestrator_config_key rt) (oc_next_intent_id oc) = pda_expected_intent_hash args)
       DataHashMismatch (
     let selected_owner = (case Option.bind selected ss_selected_owner of None \<Rightarrow> taker | Some k \<Rightarrow> k) in
     require (selected_owner = stake_owner) UnauthorizedStakeOwner (
     and_then (StakePosition_lock p (pda_amount args)) (\<lambda>p.
     Inr (ls\<lparr>stake_positions := (stake_positions ls)(position_key rt stake_owner \<mapsto> p),
             stake_locks := (stake_locks ls)(lock_key \<mapsto>
               new_stake_lock rt (pda_expected_intent_hash args) selected_owner (pda_amount args) NEVER_MATURES),
             dispute_intents := (dispute_intents ls)(dispute_key \<mapsto>
               new_dispute_intent rt taker deposit d selected_owner (rw_seconds risk) args)\<rparr>)))))))))))))"

subsection \<open>Cancelling and releasing collateral\<close>

definition require_atomic_cancel_follows :: "runtime \<Rightarrow> Intent \<Rightarrow> pubkey \<Rightarrow> pubkey \<Rightarrow> pubkey \<Rightarrow> unit result" where
  "require_atomic_cancel_follows rt intent intent_key owner dispute_intent =
     and_then (next_instruction rt
         [(0, owner), (1, i_orchestrator intent), (2, intent_key), (3, i_deposit intent),
          (4, intent_lock_key rt (i_deposit intent) (i_intent_hash intent)), (5, dispute_intent),
          (6, pda rt [TAKER_INTENT_STATE_SEED, key_bytes (i_orchestrator intent), key_bytes owner])]) (\<lambda>instruction.
     require (ix_data instruction = cancel_intent_discriminator rt) Unauthorized (
     Inr ()))"

definition handle_cancel_dispute :: "runtime \<Rightarrow> ledger \<Rightarrow> pubkey \<Rightarrow> pubkey \<Rightarrow> pubkey \<Rightarrow> ledger result" where
  "handle_cancel_dispute rt ls owner intent_key dispute_key =
     and_then (account (intents ls intent_key)) (\<lambda>intent.
     and_then (vault_account rt ls) (\<lambda>vault.
     and_then (account (dispute_intents ls dispute_key)) (\<lambda>dispute.
     and_then (account (stake_positions ls (position_key rt (di_stake_owner dispute)))) (\<lambda>p.
     and_then (account (stake_locks ls (stake_lock_key rt (i_intent_hash intent)))) (\<lambda>lock.
     constraint (owner = i_owner intent) ConstraintAddress (
     seeds_bump rt (position_seeds rt (di_stake_owner dispute)) (sp_bump p) (
     seeds_bump rt (stake_lock_seeds rt (i_intent_hash intent)) (sl_bump lock) (
     require (sl_stake_owner lock = sp_owner p) UnauthorizedStakeOwner (
     constraint (dispute_key = pda rt (dispute_intent_seeds (di_dispute_config dispute) (i_intent_hash intent))) ConstraintSeeds (
     seeds_bump rt (dispute_intent_seeds (di_dispute_config dispute) (i_intent_hash intent)) (di_bump dispute) (
     require (di_intent_hash dispute = i_intent_hash intent) IntentSnapshotMismatch (
     and_then (require_atomic_cancel_follows rt intent intent_key owner dispute_key) (\<lambda>_.
     and_then (DisputeIntent_cancel dispute) (\<lambda>dispute'.
     and_then (StakePosition_unlock p (sl_amount lock)) (\<lambda>p'.
     Inr (ls\<lparr>dispute_intents := (dispute_intents ls)(dispute_key \<mapsto> dispute'),
             stake_positions := (stake_positions ls)(position_key rt (di_stake_owner dispute) \<mapsto> p'),
             stake_locks := (stake_locks ls)(stake_lock_key rt (i_intent_hash intent) := None)\<rparr>))))))))))))))))"

definition handle_release_matured_dispute :: "runtime \<Rightarrow> ledger \<Rightarrow> pubkey \<Rightarrow> ledger result" where
  "handle_release_matured_dispute rt ls dispute_key =
     and_then (vault_account rt ls) (\<lambda>vault.
     and_then (account (dispute_intents ls dispute_key)) (\<lambda>dispute.
     and_then (account (stake_positions ls (position_key rt (di_stake_owner dispute)))) (\<lambda>p.
     and_then (account (stake_locks ls (stake_lock_key rt (di_intent_hash dispute)))) (\<lambda>lock.
     seeds_bump rt (position_seeds rt (di_stake_owner dispute)) (sp_bump p) (
     seeds_bump rt (stake_lock_seeds rt (di_intent_hash dispute)) (sl_bump lock) (
     constraint (dispute_key = pda rt (dispute_intent_seeds (di_dispute_config dispute) (di_intent_hash dispute))) ConstraintSeeds (
     seeds_bump rt (dispute_intent_seeds (di_dispute_config dispute) (di_intent_hash dispute)) (di_bump dispute) (
     and_then (DisputeIntent_release dispute (unix_timestamp rt)) (\<lambda>(dispute', amount).
     require (amount = sl_amount lock) IntentSnapshotMismatch (
     and_then (StakePosition_unlock p amount) (\<lambda>p'.
     Inr (ls\<lparr>dispute_intents := (dispute_intents ls)(dispute_key \<mapsto> dispute'),
             stake_positions := (stake_positions ls)(position_key rt (di_stake_owner dispute) \<mapsto> p'),
             stake_locks := (stake_locks ls)(stake_lock_key rt (di_intent_hash dispute) := None)\<rparr>))))))))))))"

subsection \<open>Disputes\<close>

record DisputeDetails =
  dd_payment_method :: bytes32
  dd_original_payment_id :: bytes32
  dd_dispute_id :: bytes32
  dd_payment_amount :: u128
  dd_payment_currency :: bytes32

record DisputeAttestation =
  da_intent_hash :: bytes32
  da_data_hash :: bytes32
  da_signatures :: "u8 list list"
  da_details :: DisputeDetails

record SubmitDisputeArgs =
  sda_attestation :: DisputeAttestation
  sda_expected_payment_nullifier :: bytes32
  sda_expected_dispute_nullifier :: bytes32

definition dispute_data_hash :: "runtime \<Rightarrow> DisputeDetails \<Rightarrow> bytes32" where
  "dispute_data_hash rt details =
     hashv rt [key_bytes (dd_payment_method details), key_bytes (dd_original_payment_id details),
               key_bytes (dd_dispute_id details), to_le_bytes (dd_payment_amount details),
               key_bytes (dd_payment_currency details)]"

definition dispute_attestation_digest :: "runtime \<Rightarrow> pubkey \<Rightarrow> bytes32 \<Rightarrow> bytes32 \<Rightarrow> bytes32 \<Rightarrow> bytes32" where
  "dispute_attestation_digest rt config domain_chain_id intent_hash data_hash =
     (let account_hash = keccak256 rt (key_bytes config);
          domain_separator = hashv rt
            [key_bytes EIP712_DOMAIN_TYPEHASH, key_bytes DISPUTE_VERIFIER_NAME_HASH,
             key_bytes EIP712_VERSION_ONE_HASH, key_bytes domain_chain_id, address_word account_hash];
          struct_hash = hashv rt
            [key_bytes DISPUTE_ATTESTATION_TYPEHASH, key_bytes intent_hash, key_bytes data_hash] in
      hashv rt [[0x19, 0x01], key_bytes domain_separator, key_bytes struct_hash])"

definition payment_binding_seeds :: "runtime \<Rightarrow> bytes32 \<Rightarrow> u8 list list" where
  "payment_binding_seeds rt nullifier =
     [PAYMENT_BINDING_SEED, key_bytes (verifier_config_key rt), key_bytes nullifier]"

definition intent_payment_binding_seeds :: "runtime \<Rightarrow> bytes32 \<Rightarrow> u8 list list" where
  "intent_payment_binding_seeds rt intent_hash =
     [INTENT_PAYMENT_BINDING_SEED, key_bytes (verifier_config_key rt), key_bytes intent_hash]"

definition dispute_nullifier_seeds :: "runtime \<Rightarrow> bytes32 \<Rightarrow> u8 list list" where
  "dispute_nullifier_seeds rt nullifier =
     [DISPUTE_NULLIFIER_SEED, key_bytes (dispute_config_key rt), key_bytes nullifier]"

text \<open>The checks of the evidence in \<^verbatim>\<open>handle_submit_dispute\<close>, up to and including the witness signatures.\<close>

definition check_dispute_evidence ::
  "runtime \<Rightarrow> DisputeConfig \<Rightarrow> VerifierConfig \<Rightarrow> DisputeIntent \<Rightarrow> PaymentBinding \<Rightarrow> IntentPaymentBinding \<Rightarrow>
   SubmitDisputeArgs \<Rightarrow> unit result" where
  "check_dispute_evidence rt config verifier dispute payment_binding intent_payment_binding args =
     (let attestation = sda_attestation args; details = da_details attestation in
      require (dd_payment_method details = di_payment_method dispute) IntentSnapshotMismatch (
      require (dd_original_payment_id details \<noteq> 0) ZeroValue (
      require (dd_dispute_id details \<noteq> 0) ZeroValue (
      require (dd_payment_amount details > 0) ZeroValue (
      require (dd_payment_currency details \<noteq> 0) ZeroValue (
      require (dispute_data_hash rt details = da_data_hash attestation) DataHashMismatch (
      let payment_nullifier = hashv rt [key_bytes (dd_payment_method details), key_bytes (dd_original_payment_id details)];
          dispute_nullifier = hashv rt [key_bytes (dd_payment_method details), key_bytes (dd_dispute_id details)] in
      require (payment_nullifier = sda_expected_payment_nullifier args) DataHashMismatch (
      require (dispute_nullifier = sda_expected_dispute_nullifier args) DataHashMismatch (
      require (pb_nullifier payment_binding = payment_nullifier) InvalidPaymentBinding (
      require (pb_intent_hash payment_binding = da_intent_hash attestation) InvalidPaymentBinding (
      require (ib_intent_hash intent_payment_binding = da_intent_hash attestation) InvalidPaymentBinding (
      require (ib_nullifier intent_payment_binding = payment_nullifier) InvalidPaymentBinding (
      let digest = dispute_attestation_digest rt (dispute_config_key rt) (dg_domain_chain_id config)
                     (da_intent_hash attestation) (da_data_hash attestation) in
      verify_witness_threshold rt verifier digest (da_signatures attestation))))))))))))))"

definition submit_context ::
  "runtime \<Rightarrow> ledger \<Rightarrow> SubmitDisputeArgs \<Rightarrow>
   (DisputeConfig \<times> VerifierConfig \<times> DisputeIntent \<times> PaymentBinding \<times> IntentPaymentBinding \<times>
    StakeVaultConfig \<times> StakePosition \<times> StakeLock) result" where
  "submit_context rt ls args =
     (let intent_hash = da_intent_hash (sda_attestation args) in
      and_then (dispute_config_account rt ls) (\<lambda>config.
      and_then (account (verifier_config ls)) (\<lambda>verifier.
      seeds_bump rt [VERIFIER_CONFIG_SEED] (vc_bump verifier) (
      require (dg_verifier_config config = verifier_config_key rt) Unauthorized (
      and_then (account (dispute_intents ls (pda rt (dispute_intent_seeds (dispute_config_key rt) intent_hash)))) (\<lambda>dispute.
      seeds_bump rt (dispute_intent_seeds (dispute_config_key rt) intent_hash) (di_bump dispute) (
      require (di_dispute_config dispute = dispute_config_key rt) Unauthorized (
      and_then (account (payment_bindings ls (pda rt (payment_binding_seeds rt (sda_expected_payment_nullifier args))))) (\<lambda>binding.
      seeds_bump rt (payment_binding_seeds rt (sda_expected_payment_nullifier args)) (pb_bump binding) (
      and_then (account (intent_payment_bindings ls (pda rt (intent_payment_binding_seeds rt intent_hash)))) (\<lambda>reverse.
      seeds_bump rt (intent_payment_binding_seeds rt intent_hash) (ib_bump reverse) (
      init (dispute_nullifiers ls (pda rt (dispute_nullifier_seeds rt (sda_expected_dispute_nullifier args)))) (
      and_then (vault_account rt ls) (\<lambda>vault.
      require (dg_stake_vault config = stake_vault_config_key rt) Unauthorized (
      require (sv_controller vault = dispute_config_key rt) Unauthorized (
      and_then (account (stake_positions ls (position_key rt (di_stake_owner dispute)))) (\<lambda>p.
      seeds_bump rt (position_seeds rt (di_stake_owner dispute)) (sp_bump p) (
      and_then (account (stake_locks ls (stake_lock_key rt intent_hash))) (\<lambda>lock.
      seeds_bump rt (stake_lock_seeds rt intent_hash) (sl_bump lock) (
      require (sl_stake_owner lock = di_stake_owner dispute) UnauthorizedStakeOwner (
      Inr (config, verifier, dispute, binding, reverse, vault, p, lock))))))))))))))))))))))"

text \<open>The claim account after \<^verbatim>\<open>init_if_needed\<close>, with its identity written on first use, and the consumed dispute.\<close>

definition prepared_claim :: "runtime \<Rightarrow> pubkey \<Rightarrow> ClaimBalance \<Rightarrow> ClaimBalance" where
  "prepared_claim rt beneficiary claim =
     (if cb_beneficiary claim = 0
      then claim\<lparr>cb_vault := stake_vault_config_key rt, cb_beneficiary := beneficiary,
                 cb_bump := pda_bump rt (claim_seeds rt beneficiary)\<rparr>
      else claim)"

definition new_dispute_nullifier :: "runtime \<Rightarrow> SubmitDisputeArgs \<Rightarrow> DisputeNullifier" where
  "new_dispute_nullifier rt args =
     \<lparr>dn_dispute_config = dispute_config_key rt, dn_nullifier = sda_expected_dispute_nullifier args,
      dn_intent_hash = da_intent_hash (sda_attestation args),
      dn_bump = pda_bump rt (dispute_nullifier_seeds rt (sda_expected_dispute_nullifier args))\<rparr>"

definition handle_submit_dispute :: "runtime \<Rightarrow> ledger \<Rightarrow> SubmitDisputeArgs \<Rightarrow> ledger result" where
  "handle_submit_dispute rt ls args =
     and_then (submit_context rt ls args) (\<lambda>(config, verifier, dispute, binding, reverse, vault, p, lock).
     let intent_hash = da_intent_hash (sda_attestation args);
         dispute_key = pda rt (dispute_intent_seeds (dispute_config_key rt) intent_hash);
         claim_addr = claim_key rt (di_depositor dispute);
         claim = init_if_needed (claim_balances ls claim_addr) zero_claim in
     and_then (check_dispute_evidence rt config verifier dispute binding reverse args) (\<lambda>_.
     and_then (DisputeIntent_dispute dispute) (\<lambda>(dispute', amount).
     require (amount = sl_amount lock) IntentSnapshotMismatch (
     and_then (StakePosition_resolve p (sl_amount lock) amount) (\<lambda>p'.
     and_then (ok_or (checked_sub (sv_total_staked vault) amount) ArithmeticOverflow) (\<lambda>total_staked.
     and_then (ok_or (checked_add (sv_total_claimable vault) amount) ArithmeticOverflow) (\<lambda>total_claimable.
     let claim = prepared_claim rt (di_depositor dispute) claim in
     and_then (ok_or (checked_add (cb_amount claim) amount) ArithmeticOverflow) (\<lambda>claim_amount.
     Inr (ls\<lparr>dispute_intents := (dispute_intents ls)(dispute_key \<mapsto> dispute'),
             stake_positions := (stake_positions ls)(position_key rt (di_stake_owner dispute) \<mapsto> p'),
             stake_locks := (stake_locks ls)(stake_lock_key rt intent_hash := None),
             stake_vault_config := Some (vault\<lparr>sv_total_staked := total_staked, sv_total_claimable := total_claimable\<rparr>),
             claim_balances := (claim_balances ls)(claim_addr \<mapsto> claim\<lparr>cb_amount := claim_amount\<rparr>),
             dispute_nullifiers := (dispute_nullifiers ls)
               (pda rt (dispute_nullifier_seeds rt (sda_expected_dispute_nullifier args)) \<mapsto>
                 new_dispute_nullifier rt args)\<rparr>)))))))))"

end
