(* ===== verification/Settlement.thy ===== *)
theory Settlement
  imports Dispute
begin

text \<open>
  \<^verbatim>\<open>src/programs/zkp2p_solana/src/instructions/settlement.rs\<close>: settlement of an intent by a payment attestation
  or by the depositor, with the distribution of fees and the settlement of dispute coverage. Token accounts
  live in one shared store, so that two of the supplied accounts may be the same; what the program reads from
  an account it deserialised before a transfer is the old amount until it reloads that account, which
  \<open>transfer_exact\<close> and \<open>distribute_funds\<close> keep track of.
\<close>

record SettlementTokenAccounts =
  sta_mint :: pubkey
  sta_deposit_vault :: pubkey
  sta_recipient_token :: pubkey
  sta_protocol_fee_token :: pubkey
  sta_manager_fee_token :: "pubkey option"
  sta_token_program :: pubkey

text \<open>The stake vault can only be the canonical account, so its presence is supplied.\<close>

record SettlementDisputeAccounts =
  sdd_dispute_intent :: "pubkey option"
  sdd_stake_vault :: bool
  sdd_stake_position :: "pubkey option"
  sdd_stake_lock :: "pubkey option"

subsection \<open>Transfers\<close>

text \<open>
  \<open>source_before\<close> and \<open>destination_before\<close> are the amounts the program holds in memory. The result is the
  token store and the reloaded amount of the source.
\<close>

definition transfer_exact ::
  "runtime \<Rightarrow> pubkey \<Rightarrow> Deposit \<Rightarrow> token_store \<Rightarrow> pubkey \<Rightarrow> u64 \<Rightarrow> pubkey \<Rightarrow> u64 \<Rightarrow> pubkey \<Rightarrow> Mint \<Rightarrow> pubkey \<Rightarrow> u64 \<Rightarrow>
   (token_store \<times> u64) result" where
  "transfer_exact rt deposit d ts source source_before destination destination_before mint_key mint token_program amount =
     require (amount > 0) ZeroValue (
     signed_by rt (deposit_seeds (d_escrow_config d) (d_id d)) (d_bump d) deposit (
     and_then (transfer_checked rt token_program ts source mint_key destination deposit amount (mint_decimals mint)) (\<lambda>ts.
     and_then (reload_amount ts source) (\<lambda>source_amount.
     and_then (reload_amount ts destination) (\<lambda>destination_amount.
     and_then (ok_or (checked_sub source_before source_amount) InvalidTokenBalanceDelta) (\<lambda>debited.
     and_then (ok_or (checked_sub destination_amount destination_before) InvalidTokenBalanceDelta) (\<lambda>credited.
     require (debited = amount \<and> credited = amount) InvalidTokenBalanceDelta (
     Inr (ts, source_amount)))))))))"

text \<open>The loop over the referral fees; a referral account is deserialised when its turn comes.\<close>

fun pay_referrals ::
  "runtime \<Rightarrow> pubkey \<Rightarrow> Deposit \<Rightarrow> SettlementTokenAccounts \<Rightarrow> Mint \<Rightarrow> u64 \<Rightarrow> (ReferralFee \<times> pubkey) list \<Rightarrow>
   token_store \<Rightarrow> u64 \<Rightarrow> u64 \<Rightarrow> (token_store \<times> u64 \<times> u64) result" where
  "pay_referrals rt deposit d accs mint release_amount [] ts vault_amount total_fees = Inr (ts, vault_amount, total_fees)"
| "pay_referrals rt deposit d accs mint release_amount ((fee, key) # rest) ts vault_amount total_fees =
     and_then (precise_mul_floor release_amount (rf_fee fee)) (\<lambda>amount.
     and_then (ok_or (checked_add total_fees amount) ArithmeticOverflow) (\<lambda>total_fees.
     and_then (account (ts key)) (\<lambda>destination.
     require (tk_mint destination = sta_mint accs) IntentTokenMismatch (
     require (tk_owner destination = rf_recipient fee) Unauthorized (
     and_then (if amount > 0
               then transfer_exact rt deposit d ts (sta_deposit_vault accs) vault_amount key (tk_amount destination)
                      (sta_mint accs) mint (sta_token_program accs) amount
               else Inr (ts, vault_amount)) (\<lambda>(ts, vault_amount).
     pay_referrals rt deposit d accs mint release_amount rest ts vault_amount total_fees))))))"

text \<open>The token accounts as Anchor deserialises them before the handler runs.\<close>

definition load_settlement_tokens ::
  "runtime \<Rightarrow> ledger \<Rightarrow> SettlementTokenAccounts \<Rightarrow>
   (Mint \<times> TokenAccount \<times> TokenAccount \<times> TokenAccount \<times> TokenAccount supplied) result" where
  "load_settlement_tokens rt ls accs =
     and_then (mint_account ls (sta_mint accs)) (\<lambda>mint.
     and_then (account (tokens ls (sta_deposit_vault accs))) (\<lambda>deposit_vault.
     and_then (account (tokens ls (sta_recipient_token accs))) (\<lambda>recipient_token.
     and_then (account (tokens ls (sta_protocol_fee_token accs))) (\<lambda>protocol_fee_token.
     and_then (opt_account (tokens ls) (sta_manager_fee_token accs)) (\<lambda>manager_fee_token.
     token_interface rt (sta_token_program accs) (
     Inr (mint, deposit_vault, recipient_token, protocol_fee_token, manager_fee_token)))))))"

text \<open>The binding checks at the start of \<^verbatim>\<open>distribute_funds\<close>.\<close>

definition check_settlement_tokens ::
  "runtime \<Rightarrow> Intent \<Rightarrow> OrchestratorConfig \<Rightarrow> pubkey \<Rightarrow> Deposit \<Rightarrow> SettlementTokenAccounts \<Rightarrow>
   TokenAccount \<Rightarrow> TokenAccount \<Rightarrow> TokenAccount \<Rightarrow> pubkey list \<Rightarrow> 'a result \<Rightarrow> 'a result" where
  "check_settlement_tokens rt intent oc deposit d accs deposit_vault recipient_token protocol_fee_token remaining_accounts k =
     require (sta_mint accs = d_token_mint d) IntentTokenMismatch (
     require (sta_deposit_vault accs = deposit_vault_key rt deposit) Unauthorized (
     require (tk_mint deposit_vault = sta_mint accs) IntentTokenMismatch (
     require (tk_owner deposit_vault = deposit) Unauthorized (
     require (tk_mint recipient_token = sta_mint accs) IntentTokenMismatch (
     require (tk_owner recipient_token = i_recipient intent) Unauthorized (
     require (tk_mint protocol_fee_token = sta_mint accs) IntentTokenMismatch (
     require (tk_owner protocol_fee_token = oc_protocol_fee_recipient oc) Unauthorized (
     require (length remaining_accounts = length (i_referral_fees intent)) ArrayLengthMismatch k))))))))"

definition pay_protocol ::
  "runtime \<Rightarrow> pubkey \<Rightarrow> Deposit \<Rightarrow> SettlementTokenAccounts \<Rightarrow> Mint \<Rightarrow> TokenAccount \<Rightarrow> u64 \<Rightarrow>
   token_store \<Rightarrow> u64 \<Rightarrow> (token_store \<times> u64) result" where
  "pay_protocol rt deposit d accs mint protocol_fee_token protocol_fee ts vault_amount =
     (if protocol_fee > 0
      then transfer_exact rt deposit d ts (sta_deposit_vault accs) vault_amount (sta_protocol_fee_token accs)
             (tk_amount protocol_fee_token) (sta_mint accs) mint (sta_token_program accs) protocol_fee
      else Inr (ts, vault_amount))"

definition pay_manager ::
  "runtime \<Rightarrow> Intent \<Rightarrow> pubkey \<Rightarrow> Deposit \<Rightarrow> SettlementTokenAccounts \<Rightarrow> Mint \<Rightarrow> TokenAccount supplied \<Rightarrow> u64 \<Rightarrow>
   token_store \<Rightarrow> u64 \<Rightarrow> (token_store \<times> u64) result" where
  "pay_manager rt intent deposit d accs mint manager_fee_token manager_fee ts vault_amount =
     (if manager_fee > 0
      then and_then (ok_or (i_manager_fee_recipient intent) ZeroAddress) (\<lambda>expected_recipient.
           and_then (ok_or manager_fee_token ZeroAddress) (\<lambda>(key, destination).
           require (tk_mint destination = sta_mint accs) IntentTokenMismatch (
           require (tk_owner destination = expected_recipient) Unauthorized (
           transfer_exact rt deposit d ts (sta_deposit_vault accs) vault_amount key (tk_amount destination)
             (sta_mint accs) mint (sta_token_program accs) manager_fee))))
      else require (manager_fee_token = None) Unauthorized (Inr (ts, vault_amount)))"

definition distribute_funds ::
  "runtime \<Rightarrow> ledger \<Rightarrow> Intent \<Rightarrow> OrchestratorConfig \<Rightarrow> pubkey \<Rightarrow> Deposit \<Rightarrow> SettlementTokenAccounts \<Rightarrow> pubkey list \<Rightarrow>
   u64 \<Rightarrow> token_store result" where
  "distribute_funds rt ls intent oc deposit d accs remaining_accounts release_amount =
     and_then (load_settlement_tokens rt ls accs) (\<lambda>(mint, deposit_vault, recipient_token, protocol_fee_token, manager_fee_token).
     check_settlement_tokens rt intent oc deposit d accs deposit_vault recipient_token protocol_fee_token remaining_accounts (
     and_then (precise_mul_floor release_amount (oc_protocol_fee oc)) (\<lambda>protocol_fee.
     and_then (precise_mul_floor release_amount (i_manager_fee intent)) (\<lambda>manager_fee.
     and_then (ok_or (checked_add protocol_fee manager_fee) ArithmeticOverflow) (\<lambda>total_fees.
     and_then (pay_protocol rt deposit d accs mint protocol_fee_token protocol_fee (tokens ls) (tk_amount deposit_vault)) (\<lambda>(ts, vault_amount).
     and_then (pay_manager rt intent deposit d accs mint manager_fee_token manager_fee ts vault_amount) (\<lambda>(ts, vault_amount).
     and_then (pay_referrals rt deposit d accs mint release_amount (zip (i_referral_fees intent) remaining_accounts)
                 ts vault_amount total_fees) (\<lambda>(ts, vault_amount, total_fees).
     and_then (ok_or (checked_sub release_amount total_fees) ArithmeticOverflow) (\<lambda>net.
     and_then (transfer_exact rt deposit d ts (sta_deposit_vault accs) vault_amount (sta_recipient_token accs)
                 (tk_amount recipient_token) (sta_mint accs) mint (sta_token_program accs) net) (\<lambda>(ts, _).
     Inr ts))))))))))"

subsection \<open>Dispute coverage\<close>

definition settle_dispute_if_covered ::
  "runtime \<Rightarrow> ledger \<Rightarrow> Intent \<Rightarrow> SettlementDisputeAccounts \<Rightarrow> u64 \<Rightarrow> ledger result" where
  "settle_dispute_if_covered rt ls intent accs release_amount =
     and_then (opt_account (dispute_intents ls) (sdd_dispute_intent accs)) (\<lambda>dispute.
     and_then (opt_singleton (sdd_stake_vault accs) (account (stake_vault_config ls))) (\<lambda>stake_vault.
     and_then (opt_account (stake_positions ls) (sdd_stake_position accs)) (\<lambda>stake_position.
     and_then (opt_account (stake_locks ls) (sdd_stake_lock accs)) (\<lambda>stake_lock.
     if \<not> i_dispute_covered intent then
       require (dispute = None \<and> stake_vault = None \<and> stake_position = None \<and> stake_lock = None) Unauthorized (Inr ls)
     else
       and_then (ok_or dispute DisputeProtectionDisabled) (\<lambda>(dispute_key, dispute).
       and_then (ok_or stake_vault DisputeProtectionDisabled) (\<lambda>vault.
       and_then (ok_or stake_position DisputeProtectionDisabled) (\<lambda>(p_key, p).
       and_then (ok_or stake_lock DisputeProtectionDisabled) (\<lambda>(lock_key, lock).
       require (di_dispute_config dispute = dispute_config_key rt) Unauthorized (
       require (dispute_key = pda rt (dispute_intent_seeds (di_dispute_config dispute) (i_intent_hash intent))) Unauthorized (
       require (sv_controller vault = dispute_config_key rt) Unauthorized (
       require (p_key = position_key rt (di_stake_owner dispute)) Unauthorized (
       require (lock_key = stake_lock_key rt (i_intent_hash intent)) Unauthorized (
       require (di_intent_hash dispute = i_intent_hash intent) IntentSnapshotMismatch (
       require (di_deposit dispute = i_deposit intent) IntentSnapshotMismatch (
       require (di_taker dispute = i_owner intent) IntentSnapshotMismatch (
       require (sl_id lock = i_intent_hash intent) IntentSnapshotMismatch (
       require (sl_vault lock = stake_vault_config_key rt) Unauthorized (
       require (sl_stake_owner lock = sp_owner p) UnauthorizedStakeOwner (
       require (release_amount \<le> sl_amount lock) AmountAboveMaximum (
       and_then (DisputeIntent_settle dispute release_amount (unix_timestamp rt)) (\<lambda>(dispute', maturity).
       and_then (ok_or (checked_sub (sl_amount lock) release_amount) ArithmeticOverflow) (\<lambda>unlocked.
       and_then (if unlocked > 0 then StakePosition_unlock p unlocked else Inr p) (\<lambda>p'.
       Inr (ls\<lparr>dispute_intents := (dispute_intents ls)(dispute_key \<mapsto> dispute'),
               stake_positions := (stake_positions ls)(p_key \<mapsto> p'),
               stake_locks := (stake_locks ls)(lock_key \<mapsto> lock\<lparr>sl_amount := release_amount, sl_matures_at := maturity\<rparr>)\<rparr>))))))))))))))))))))))))"

subsection \<open>Instructions\<close>

record FulfillIntentArgs =
  fia_attestation :: PaymentAttestation
  fia_expected_nullifier :: bytes32

text \<open>The intent, its deposit, lock and counter, as both settlement contexts validate them.\<close>

definition settlement_context ::
  "runtime \<Rightarrow> ledger \<Rightarrow> pubkey \<Rightarrow> (OrchestratorConfig \<times> Intent \<times> Deposit \<times> EscrowIntentLock \<times> TakerIntentState) result" where
  "settlement_context rt ls intent_key =
     and_then (orchestrator_account rt ls) (\<lambda>oc.
     and_then (account (intents ls intent_key)) (\<lambda>intent.
     constraint (intent_key = pda rt (intent_seeds rt (i_nonce intent))) ConstraintSeeds (
     seeds_bump rt (intent_seeds rt (i_nonce intent)) (i_bump intent) (
     and_then (account (deposits ls (i_deposit intent))) (\<lambda>d.
     and_then (account (intent_locks ls (intent_lock_key rt (i_deposit intent) (i_intent_hash intent)))) (\<lambda>lock.
     seeds_bump rt (intent_lock_seeds (i_deposit intent) (i_intent_hash intent)) (el_bump lock) (
     require (el_intent_hash lock = i_intent_hash intent) IntentSnapshotMismatch (
     and_then (account (taker_states ls (taker_state_key rt (i_owner intent)))) (\<lambda>taker_state.
     seeds_bump rt (taker_state_seeds rt (i_owner intent)) (ts_bump taker_state) (
     Inr (oc, intent, d, lock, taker_state)))))))))))"

text \<open>What both handlers do once the release amount is known: settle coverage and deposit, distribute the
  funds, decrement the counter; Anchor then closes the intent and its lock.\<close>

definition settle_intent ::
  "runtime \<Rightarrow> ledger \<Rightarrow> pubkey \<Rightarrow> OrchestratorConfig \<Rightarrow> Intent \<Rightarrow> Deposit \<Rightarrow> EscrowIntentLock \<Rightarrow> TakerIntentState \<Rightarrow>
   SettlementTokenAccounts \<Rightarrow> SettlementDisputeAccounts \<Rightarrow> pubkey list \<Rightarrow> u64 \<Rightarrow> ledger result" where
  "settle_intent rt ls intent_key oc intent d lock taker_state token_accs dispute_accs remaining_accounts release_amount =
     and_then (settle_dispute_if_covered rt ls intent dispute_accs release_amount) (\<lambda>ls.
     and_then (Deposit_settle d (el_amount lock) release_amount) (\<lambda>d.
     and_then (distribute_funds rt ls intent oc (i_deposit intent) d token_accs remaining_accounts release_amount) (\<lambda>ts.
     and_then (ok_or (checked_sub (ts_active_intents taker_state) 1) ArithmeticOverflow) (\<lambda>active_intents.
     Inr (ls\<lparr>deposits := (deposits ls)(i_deposit intent \<mapsto> d),
             taker_states := (taker_states ls)(taker_state_key rt (i_owner intent) \<mapsto>
               taker_state\<lparr>ts_active_intents := active_intents\<rparr>),
             intents := (intents ls)(intent_key := None),
             intent_locks := (intent_locks ls)(intent_lock_key rt (i_deposit intent) (i_intent_hash intent) := None),
             tokens := ts\<rparr>)))))"

definition handle_fulfill_intent ::
  "runtime \<Rightarrow> ledger \<Rightarrow> pubkey \<Rightarrow> SettlementTokenAccounts \<Rightarrow> SettlementDisputeAccounts \<Rightarrow> pubkey list \<Rightarrow>
   FulfillIntentArgs \<Rightarrow> ledger result" where
  "handle_fulfill_intent rt ls intent_key token_accs dispute_accs remaining_accounts args =
     and_then (settlement_context rt ls intent_key) (\<lambda>(oc, intent, d, lock, taker_state).
     require (\<not> oc_paused oc) Paused (
     and_then (account (verifier_config ls)) (\<lambda>verifier.
     seeds_bump rt [VERIFIER_CONFIG_SEED] (vc_bump verifier) (
     require (oc_verifier_config oc = verifier_config_key rt) Unauthorized (
     require (i_intent_hash intent = pa_intent_hash (fia_attestation args)) IntentSnapshotMismatch (
     let binding_key = pda rt (payment_binding_seeds rt (fia_expected_nullifier args));
         reverse_key = pda rt (intent_payment_binding_seeds rt (i_intent_hash intent)) in
     init (payment_bindings ls binding_key) (
     init (intent_payment_bindings ls reverse_key) (
     and_then (verify_payment_attestation rt (verifier_config_key rt) verifier intent (fia_attestation args)) (\<lambda>nullifier.
     require (nullifier = fia_expected_nullifier args) DataHashMismatch (
     let release_amount = min (pa_release_amount (fia_attestation args)) (i_amount intent) in
     and_then (settle_intent rt ls intent_key oc intent d lock taker_state token_accs dispute_accs remaining_accounts
                 release_amount) (\<lambda>ls.
     Inr (ls\<lparr>payment_bindings := (payment_bindings ls)(binding_key \<mapsto>
               \<lparr>pb_verifier = verifier_config_key rt, pb_nullifier = nullifier, pb_intent_hash = i_intent_hash intent,
                pb_bump = pda_bump rt (payment_binding_seeds rt (fia_expected_nullifier args))\<rparr>),
             intent_payment_bindings := (intent_payment_bindings ls)(reverse_key \<mapsto>
               \<lparr>ib_verifier = verifier_config_key rt, ib_intent_hash = i_intent_hash intent, ib_nullifier = nullifier,
                ib_bump = pda_bump rt (intent_payment_binding_seeds rt (i_intent_hash intent))\<rparr>)\<rparr>))))))))))))"

definition handle_manual_release ::
  "runtime \<Rightarrow> ledger \<Rightarrow> pubkey \<Rightarrow> pubkey \<Rightarrow> SettlementTokenAccounts \<Rightarrow> SettlementDisputeAccounts \<Rightarrow> pubkey list \<Rightarrow>
   ledger result" where
  "handle_manual_release rt ls depositor intent_key token_accs dispute_accs remaining_accounts =
     and_then (settlement_context rt ls intent_key) (\<lambda>(oc, intent, d, lock, taker_state).
     constraint (depositor = d_depositor d) ConstraintAddress (
     settle_intent rt ls intent_key oc intent d lock taker_state token_accs dispute_accs remaining_accounts
       (i_amount intent)))"

end
