(* ===== verification/Escrow_Books.thy ===== *)
theory Escrow_Books
  imports Settlement
begin

text \<open>
  The books of the escrow: every deposit lies at its derived address and is backed by its custody account,
  its outstanding amount and its intent count are those of the locks on it, every intent owns exactly one
  lock that carries its terms, every lock belongs to an intent, and the counter of a taker counts the
  intents of that taker. The lemmas describe the shapes of change that the escrow, orchestrator and
  settlement instructions make.
\<close>

definition held_on :: "(pubkey \<rightharpoonup> EscrowIntentLock) \<Rightarrow> pubkey \<Rightarrow> nat" where
  "held_on lks k = msum (\<lambda>l. if el_deposit l = k then unat (el_amount l) else 0) lks"

definition held_count :: "(pubkey \<rightharpoonup> EscrowIntentLock) \<Rightarrow> pubkey \<Rightarrow> nat" where
  "held_count lks k = msum (\<lambda>l. if el_deposit l = k then 1 else 0) lks"

abbreviation active :: "Deposit \<Rightarrow> nat" where
  "active d \<equiv> unat (d_active_intents d)"

definition deposit_backed :: "runtime \<Rightarrow> token_store \<Rightarrow> pubkey \<Rightarrow> Deposit \<Rightarrow> bool" where
  "deposit_backed rt ts k d \<longleftrightarrow>
     k = pda rt (deposit_seeds (escrow_config_key rt) (d_id d)) \<and> d_escrow_config d = escrow_config_key rt \<and>
     d_depositor d \<noteq> 0 \<and>
     (\<exists>t. ts (deposit_vault_key rt k) = Some t \<and> tk_owner t = k \<and> tk_mint t = d_token_mint d \<and>
        deposit_avail d + deposit_held d \<le> unat (tk_amount t))"

definition escrow_custody :: "runtime \<Rightarrow> (pubkey \<rightharpoonup> Deposit) \<Rightarrow> token_store \<Rightarrow> bool" where
  "escrow_custody rt ds ts \<longleftrightarrow> (\<forall>k d. ds k = Some d \<longrightarrow> deposit_backed rt ts k d)"

definition escrow_books :: "(pubkey \<rightharpoonup> Deposit) \<Rightarrow> (pubkey \<rightharpoonup> EscrowIntentLock) \<Rightarrow> bool" where
  "escrow_books ds lks \<longleftrightarrow> (\<forall>k. at deposit_held ds k = held_on lks k \<and> at active ds k = held_count lks k)"

definition locks_intent :: "Intent \<Rightarrow> EscrowIntentLock \<Rightarrow> bool" where
  "locks_intent i l \<longleftrightarrow> el_deposit l = i_deposit i \<and> el_intent_hash l = i_intent_hash i \<and>
     el_amount l = i_amount i \<and> el_timestamp l = i_timestamp i"

definition lock_addr :: "runtime \<Rightarrow> Intent \<Rightarrow> pubkey" where
  "lock_addr rt i = intent_lock_key rt (i_deposit i) (i_intent_hash i)"

definition intents_locked :: "runtime \<Rightarrow> (pubkey \<rightharpoonup> Intent) \<Rightarrow> (pubkey \<rightharpoonup> EscrowIntentLock) \<Rightarrow> bool" where
  "intents_locked rt ints lks \<longleftrightarrow>
     (\<forall>k i. ints k = Some i \<longrightarrow> (\<exists>l. lks (lock_addr rt i) = Some l \<and> locks_intent i l)) \<and>
     (\<forall>k k' i i'. ints k = Some i \<longrightarrow> ints k' = Some i' \<longrightarrow> lock_addr rt i = lock_addr rt i' \<longrightarrow> k = k') \<and>
     (\<forall>j l. lks j = Some l \<longrightarrow> (\<exists>k i. ints k = Some i \<and> lock_addr rt i = j))"

definition taker_counts :: "runtime \<Rightarrow> (pubkey \<rightharpoonup> Intent) \<Rightarrow> (pubkey \<rightharpoonup> TakerIntentState) \<Rightarrow> bool" where
  "taker_counts rt ints tss \<longleftrightarrow>
     (\<forall>k. at (\<lambda>t. unat (ts_active_intents t)) tss k =
            msum (\<lambda>i. if taker_state_key rt (i_owner i) = k then 1 else 0) ints)"

definition escrow_inv :: "runtime \<Rightarrow> ledger \<Rightarrow> bool" where
  "escrow_inv rt ls \<longleftrightarrow>
     escrow_custody rt (deposits ls) (tokens ls) \<and> escrow_books (deposits ls) (intent_locks ls) \<and>
     intents_locked rt (intents ls) (intent_locks ls) \<and> taker_counts rt (intents ls) (taker_states ls)"

subsection \<open>Custody\<close>

lemma custodyD:
  assumes "escrow_custody rt ds ts" and "ds k = Some d"
  obtains t where "k = pda rt (deposit_seeds (escrow_config_key rt) (d_id d))"
    "d_escrow_config d = escrow_config_key rt" "d_depositor d \<noteq> 0"
    "ts (deposit_vault_key rt k) = Some t" "tk_owner t = k" "tk_mint t = d_token_mint d"
    "deposit_avail d + deposit_held d \<le> unat (tk_amount t)"
  using assms unfolding escrow_custody_def deposit_backed_def by blast

lemma deposit_backed_grows:
  assumes "deposit_backed rt ts k d" and "token_grows ts ts' (deposit_vault_key rt k)"
  shows "deposit_backed rt ts' k d"
proof -
  from assms(1) obtain t where t: "ts (deposit_vault_key rt k) = Some t" "tk_owner t = k" "tk_mint t = d_token_mint d"
      "deposit_avail d + deposit_held d \<le> unat (tk_amount t)"
    unfolding deposit_backed_def by blast
  with assms(2) obtain t' where t': "ts' (deposit_vault_key rt k) = Some t'" "t' = t\<lparr>tk_amount := tk_amount t'\<rparr>"
      "unat (tk_amount t) \<le> unat (tk_amount t')"
    unfolding token_grows_def by blast
  have "tk_owner t' = tk_owner t" "tk_mint t' = tk_mint t" by (subst t'(2), simp)+
  with assms(1) t t' show ?thesis unfolding deposit_backed_def by fastforce
qed

lemma custody_grows:
  assumes "escrow_custody rt ds ts"
    and "\<And>k d. ds k = Some d \<Longrightarrow> token_grows ts ts' (deposit_vault_key rt k)"
  shows "escrow_custody rt ds ts'"
  using assms deposit_backed_grows unfolding escrow_custody_def by blast

text \<open>Two live deposits never share a custody account, since its authority names the deposit.\<close>

lemma custody_vault_inj:
  assumes "escrow_custody rt ds ts" and "ds k = Some d" and "ds j = Some e"
    and "deposit_vault_key rt k = deposit_vault_key rt j"
  shows "k = j"
proof -
  from custodyD [OF assms(1,2)] obtain t where "ts (deposit_vault_key rt k) = Some t" "tk_owner t = k" by metis
  moreover from custodyD [OF assms(1,3)] obtain u where "ts (deposit_vault_key rt j) = Some u" "tk_owner u = j" by metis
  ultimately show ?thesis using assms(4) by simp
qed

text \<open>A deposit changes together with its own custody account while all others keep theirs.\<close>

lemma custody_put:
  assumes "escrow_custody rt ds ts" and "deposit_backed rt ts' k d'"
    and "\<And>j d. j \<noteq> k \<Longrightarrow> ds j = Some d \<Longrightarrow> token_grows ts ts' (deposit_vault_key rt j)"
  shows "escrow_custody rt (ds(k \<mapsto> d')) ts'"
  using assms deposit_backed_grows unfolding escrow_custody_def by (metis map_upd_Some_unfold)

lemma custody_drop:
  assumes "escrow_custody rt ds ts"
    and "\<And>j d. j \<noteq> k \<Longrightarrow> ds j = Some d \<Longrightarrow> token_grows ts ts' (deposit_vault_key rt j)"
  shows "escrow_custody rt (ds(k := None)) ts'"
  using assms deposit_backed_grows unfolding escrow_custody_def by (metis fun_upd_apply option.distinct(1))

text \<open>What custody says of a deposit does not depend on its configuration.\<close>

lemma deposit_backed_cong:
  assumes "deposit_backed rt ts k d" and "d_id d' = d_id d" "d_escrow_config d' = d_escrow_config d"
    "d_depositor d' = d_depositor d" "d_token_mint d' = d_token_mint d"
    and "deposit_avail d' + deposit_held d' \<le> deposit_avail d + deposit_held d"
  shows "deposit_backed rt ts k d'"
  using assms unfolding deposit_backed_def by (auto intro: le_trans)

text \<open>Paying \<open>amount\<close> out of a custody account.\<close>

lemma deposit_backed_out:
  assumes "deposit_backed rt ts k d" and moved: "token_moved ts ts' (deposit_vault_key rt k) to a"
    and same: "d_id d' = d_id d" "d_escrow_config d' = d_escrow_config d"
      "d_depositor d' = d_depositor d" "d_token_mint d' = d_token_mint d"
    and less: "deposit_avail d' + deposit_held d' + unat a \<le> deposit_avail d + deposit_held d"
  shows "deposit_backed rt ts' k d'"
proof (cases "deposit_vault_key rt k = to")
  case True
  with moved have "ts' = ts" by (simp add: token_moved_def)
  with deposit_backed_cong [OF assms(1) same] less show ?thesis by simp
next
  case False
  from assms(1) obtain t where t: "ts (deposit_vault_key rt k) = Some t" "tk_owner t = k" "tk_mint t = d_token_mint d"
      "deposit_avail d + deposit_held d \<le> unat (tk_amount t)"
    unfolding deposit_backed_def by blast
  from token_moved_source [OF moved False t(1)] obtain t' where t': "ts' (deposit_vault_key rt k) = Some t'"
      "t' = t\<lparr>tk_amount := tk_amount t'\<rparr>" "unat (tk_amount t) = unat (tk_amount t') + unat a" .
  have "tk_owner t' = tk_owner t" "tk_mint t' = tk_mint t" by (subst t'(2), simp)+
  with assms t t' show ?thesis unfolding deposit_backed_def by auto
qed

subsection \<open>Books\<close>

lemma held_put:
  "held_on (lks(j \<mapsto> l)) k + at (\<lambda>l. if el_deposit l = k then unat (el_amount l) else 0) lks j =
     held_on lks k + (if el_deposit l = k then unat (el_amount l) else 0)"
  "held_count (lks(j \<mapsto> l)) k + at (\<lambda>l. if el_deposit l = k then 1 else 0) lks j =
     held_count lks k + (if el_deposit l = k then 1 else 0)"
  unfolding held_on_def held_count_def by (rule msum_put)+

lemma held_drop:
  "held_on (lks(j := None)) k + at (\<lambda>l. if el_deposit l = k then unat (el_amount l) else 0) lks j = held_on lks k"
  "held_count (lks(j := None)) k + at (\<lambda>l. if el_deposit l = k then 1 else 0) lks j = held_count lks k"
  unfolding held_on_def held_count_def by (rule msum_drop)+

lemma books_same:
  assumes "escrow_books ds lks" and "ds k = Some d" and "deposit_held d' = deposit_held d" and "active d' = active d"
  shows "escrow_books (ds(k \<mapsto> d')) lks"
proof -
  have "at deposit_held ds k = deposit_held d" "at active ds k = active d" using assms(2) by (simp_all add: at_def)
  with assms show ?thesis by (auto simp: escrow_books_def)
qed

lemma books_open:
  assumes "escrow_books ds lks" and "ds k = None" and "deposit_held d = 0" and "active d = 0"
  shows "escrow_books (ds(k \<mapsto> d)) lks"
proof -
  have "at deposit_held ds k = 0" "at active ds k = 0" using assms(2) by (simp_all add: at_def)
  with assms show ?thesis by (auto simp: escrow_books_def)
qed

lemma books_close:
  assumes "escrow_books ds lks" and "ds k = Some d" and "deposit_held d = 0" and "active d = 0"
  shows "escrow_books (ds(k := None)) lks"
proof -
  have "at deposit_held ds k = 0" "at active ds k = 0" using assms(2-) by (simp_all add: at_def)
  with assms show ?thesis by (auto simp: escrow_books_def)
qed

lemma escrow_books_lock:
  assumes books: "escrow_books ds lks" and d: "ds (el_deposit l) = Some d" and free: "lks j = None"
    and d': "deposit_held d' = deposit_held d + unat (el_amount l)" "active d' = active d + 1"
  shows "escrow_books (ds(el_deposit l \<mapsto> d')) (lks(j \<mapsto> l))"
  unfolding escrow_books_def
proof (intro allI conjI)
  fix k
  have at: "at deposit_held ds (el_deposit l) = deposit_held d" "at active ds (el_deposit l) = active d"
    using d by (simp_all add: at_def)
  show "at deposit_held (ds(el_deposit l \<mapsto> d')) k = held_on (lks(j \<mapsto> l)) k"
    using held_put(1) [of lks j l k] books free d' at by (auto simp: escrow_books_def at_None)
  show "at active (ds(el_deposit l \<mapsto> d')) k = held_count (lks(j \<mapsto> l)) k"
    using held_put(2) [of lks j l k] books free d' at by (auto simp: escrow_books_def at_None)
qed

lemma escrow_books_unlock:
  assumes books: "escrow_books ds lks" and l: "lks j = Some l" and d: "ds (el_deposit l) = Some d"
    and d': "deposit_held d = deposit_held d' + unat (el_amount l)" "active d = active d' + 1"
  shows "escrow_books (ds(el_deposit l \<mapsto> d')) (lks(j := None))"
  unfolding escrow_books_def
proof (intro allI conjI)
  fix k
  have at: "at deposit_held ds (el_deposit l) = deposit_held d" "at active ds (el_deposit l) = active d"
    using d by (simp_all add: at_def)
  have b: "at deposit_held ds i = held_on lks i" "at active ds i = held_count lks i" for i
    using books by (simp_all add: escrow_books_def)
  show "at deposit_held (ds(el_deposit l \<mapsto> d')) k = held_on (lks(j := None)) k"
    using held_drop(1) [of lks j k] b(1) [of k] l d' at by (cases "k = el_deposit l") (simp_all add: at_Some)
  show "at active (ds(el_deposit l \<mapsto> d')) k = held_count (lks(j := None)) k"
    using held_drop(2) [of lks j k] b(2) [of k] l d' at by (cases "k = el_deposit l") (simp_all add: at_Some)
qed

lemma books_relabel:
  assumes "escrow_books ds lks" and "lks j = Some l" and "el_deposit l' = el_deposit l" and "el_amount l' = el_amount l"
  shows "escrow_books ds (lks(j \<mapsto> l'))"
  unfolding escrow_books_def
proof (intro allI conjI)
  fix k
  show "at deposit_held ds k = held_on (lks(j \<mapsto> l')) k"
    using held_put(1) [of lks j l' k] assms by (cases "el_deposit l = k") (simp_all add: escrow_books_def at_Some)
  show "at active ds k = held_count (lks(j \<mapsto> l')) k"
    using held_put(2) [of lks j l' k] assms by (cases "el_deposit l = k") (simp_all add: escrow_books_def at_Some)
qed

subsection \<open>Intents and their locks\<close>

lemma intents_lockedI:
  assumes "\<And>k i. ints k = Some i \<Longrightarrow> \<exists>l. lks (lock_addr rt i) = Some l \<and> locks_intent i l"
    and "\<And>k k' i i'. ints k = Some i \<Longrightarrow> ints k' = Some i' \<Longrightarrow> lock_addr rt i = lock_addr rt i' \<Longrightarrow> k = k'"
    and "\<And>j l. lks j = Some l \<Longrightarrow> \<exists>k i. ints k = Some i \<and> lock_addr rt i = j"
  shows "intents_locked rt ints lks"
  using assms unfolding intents_locked_def by blast

lemma locked_lock: "intents_locked rt ints lks \<Longrightarrow> ints k = Some i \<Longrightarrow> \<exists>l. lks (lock_addr rt i) = Some l \<and> locks_intent i l"
  unfolding intents_locked_def by blast

lemma locked_inj:
  "intents_locked rt ints lks \<Longrightarrow> ints k = Some i \<Longrightarrow> ints k' = Some i' \<Longrightarrow> lock_addr rt i = lock_addr rt i' \<Longrightarrow> k = k'"
  unfolding intents_locked_def by blast

lemma locked_intent: "intents_locked rt ints lks \<Longrightarrow> lks j = Some l \<Longrightarrow> \<exists>k i. ints k = Some i \<and> lock_addr rt i = j"
  unfolding intents_locked_def by blast

lemma locked_open:
  assumes "intents_locked rt ints lks" and k: "ints k = None" and "lks (lock_addr rt i) = None" and "locks_intent i l"
  shows "intents_locked rt (ints(k \<mapsto> i)) (lks(lock_addr rt i \<mapsto> l))"
proof (rule intents_lockedI)
  have fresh: "lock_addr rt i' \<noteq> lock_addr rt i" if "ints k' = Some i'" for k' i'
    using locked_lock [OF assms(1) that] assms(3) by auto
  fix k' i' assume i': "(ints(k \<mapsto> i)) k' = Some i'"
  show "\<exists>l'. (lks(lock_addr rt i \<mapsto> l)) (lock_addr rt i') = Some l' \<and> locks_intent i' l'"
    using i' fresh locked_lock [OF assms(1), of k' i'] assms(4) by (cases "k' = k") auto
  fix k'' i'' assume "(ints(k \<mapsto> i)) k'' = Some i''" "lock_addr rt i' = lock_addr rt i''"
  then have old: "k' \<noteq> k \<Longrightarrow> ints k' = Some i'" "k'' \<noteq> k \<Longrightarrow> ints k'' = Some i''"
    and new: "k' = k \<Longrightarrow> i' = i" "k'' = k \<Longrightarrow> i'' = i" and eq: "lock_addr rt i' = lock_addr rt i''"
    using i' by simp_all
  show "k' = k''"
  proof (cases "k' = k \<or> k'' = k")
    case True
    with fresh [of k' i'] fresh [of k'' i''] old new eq show ?thesis by metis
  next
    case False
    with locked_inj [OF assms(1), of k' i' k'' i''] old eq show ?thesis by simp
  qed
next
  fix j l' assume l': "(lks(lock_addr rt i \<mapsto> l)) j = Some l'"
  show "\<exists>k' i'. (ints(k \<mapsto> i)) k' = Some i' \<and> lock_addr rt i' = j"
  proof (cases "j = lock_addr rt i")
    case True
    then show ?thesis by (intro exI [of _ k] exI [of _ i]) simp
  next
    case False
    with l' locked_intent [OF assms(1), of j l'] obtain k' i' where "ints k' = Some i'" "lock_addr rt i' = j" by auto
    with k show ?thesis by (intro exI [of _ k'] exI [of _ i']) auto
  qed
qed

lemma locked_close:
  assumes "intents_locked rt ints lks" and "ints k = Some i"
  shows "intents_locked rt (ints(k := None)) (lks(lock_addr rt i := None))"
proof (rule intents_lockedI)
  fix k' i' assume i': "(ints(k := None)) k' = Some i'"
  then have "ints k' = Some i'" and "k' \<noteq> k" by (auto split: if_splits)
  with locked_lock [OF assms(1), of k' i'] locked_inj [OF assms(1,2), of k' i']
  show "\<exists>l. (lks(lock_addr rt i := None)) (lock_addr rt i') = Some l \<and> locks_intent i' l" by auto
  fix k'' i'' assume "(ints(k := None)) k'' = Some i''" "lock_addr rt i' = lock_addr rt i''"
  with \<open>ints k' = Some i'\<close> locked_inj [OF assms(1), of k' i' k'' i''] show "k' = k''" by (auto split: if_splits)
next
  fix j l assume "(lks(lock_addr rt i := None)) j = Some l"
  then have j: "lks j = Some l" "j \<noteq> lock_addr rt i" by (auto split: if_splits)
  with locked_intent [OF assms(1) j(1)] obtain k' i' where "ints k' = Some i'" "lock_addr rt i' = j" by blast
  with j assms(2) show "\<exists>k' i'. (ints(k := None)) k' = Some i' \<and> lock_addr rt i' = j"
    by (intro exI [of _ k'] exI [of _ i']) auto
qed

lemma locked_relabel:
  assumes "intents_locked rt ints lks" and l: "lks j = Some l" and same: "el_deposit l' = el_deposit l"
    "el_intent_hash l' = el_intent_hash l" "el_amount l' = el_amount l" "el_timestamp l' = el_timestamp l"
  shows "intents_locked rt ints (lks(j \<mapsto> l'))"
proof (rule intents_lockedI)
  fix k i assume i: "ints k = Some i"
  then show "\<exists>l0. (lks(j \<mapsto> l')) (lock_addr rt i) = Some l0 \<and> locks_intent i l0"
    using locked_lock [OF assms(1) i] l same by (auto simp: locks_intent_def)
  fix k' i' assume "ints k' = Some i'" "lock_addr rt i = lock_addr rt i'"
  with i show "k = k'" by (rule locked_inj [OF assms(1)])
next
  fix m l0 assume "(lks(j \<mapsto> l')) m = Some l0"
  then have "\<exists>l. lks m = Some l" using l by (auto split: if_splits)
  then show "\<exists>k i. ints k = Some i \<and> lock_addr rt i = m" using locked_intent [OF assms(1)] by blast
qed

lemma lockedD:
  "intents_locked rt ints lks \<Longrightarrow> ints k = Some i \<Longrightarrow> lks (lock_addr rt i) = Some l \<Longrightarrow> locks_intent i l"
  unfolding intents_locked_def by fastforce

lemma counts_open:
  assumes "taker_counts rt ints tss" and "ints k = None"
    and "unat (ts_active_intents t') = at (\<lambda>t. unat (ts_active_intents t)) tss (taker_state_key rt (i_owner i)) + 1"
  shows "taker_counts rt (ints(k \<mapsto> i)) (tss(taker_state_key rt (i_owner i) \<mapsto> t'))"
  using assms by (simp add: taker_counts_def msum_insert)

lemma counts_close:
  assumes "taker_counts rt ints tss" and i: "ints k = Some i" and t: "tss (taker_state_key rt (i_owner i)) = Some t"
    and "unat (ts_active_intents t) = unat (ts_active_intents t') + 1"
  shows "taker_counts rt (ints(k := None)) (tss(taker_state_key rt (i_owner i) \<mapsto> t'))"
  unfolding taker_counts_def
proof
  fix j
  have at: "at (\<lambda>t. unat (ts_active_intents t)) tss (taker_state_key rt (i_owner i)) = unat (ts_active_intents t)"
    using t by (simp add: at_def)
  have m: "msum (\<lambda>i. if taker_state_key rt (i_owner i) = j then 1 else 0) (ints(k := None)) +
      (if taker_state_key rt (i_owner i) = j then 1 else 0) =
      msum (\<lambda>i. if taker_state_key rt (i_owner i) = j then 1 else 0) ints"
    using msum_delete_plus [of ints k i "\<lambda>i. if taker_state_key rt (i_owner i) = j then 1 else 0", OF i] by simp
  have "at (\<lambda>t. unat (ts_active_intents t)) tss j = msum (\<lambda>i. if taker_state_key rt (i_owner i) = j then 1 else 0) ints"
    using assms(1) by (simp add: taker_counts_def)
  with m at assms(4) show "at (\<lambda>t. unat (ts_active_intents t)) (tss(taker_state_key rt (i_owner i) \<mapsto> t')) j =
      msum (\<lambda>i. if taker_state_key rt (i_owner i) = j then 1 else 0) (ints(k := None))"
    by (cases "j = taker_state_key rt (i_owner i)") simp_all
qed

end
