(* ===== verification/Distribution.thy ===== *)
theory Distribution
  imports Settlement
begin

text \<open>
  What \<^verbatim>\<open>distribute_funds\<close> moves. \<open>drained\<close> describes a token store after payments out of one account: that account
  lost exactly the amount, and no other account lost anything. Every transfer of a settlement drains the custody
  account by its exact amount, so a complete distribution drains it by exactly the released amount, of which the
  recipient receives what the floors of the fees leave.
\<close>

definition drained :: "token_store \<Rightarrow> token_store \<Rightarrow> pubkey \<Rightarrow> nat \<Rightarrow> bool" where
  "drained ts ts' v a \<longleftrightarrow>
     (\<exists>s b. ts v = Some s \<and> ts' v = Some (s\<lparr>tk_amount := b\<rparr>) \<and> unat (tk_amount s) = unat b + a) \<and>
     (\<forall>k. k \<noteq> v \<longrightarrow> token_grows ts ts' k)"

lemma drained_zero: "ts v = Some s \<Longrightarrow> drained ts ts v 0"
  unfolding drained_def by (auto intro!: exI [of _ "tk_amount s"])

lemma drained_trans: "drained ts ts' v a \<Longrightarrow> drained ts' ts'' v b \<Longrightarrow> drained ts ts'' v (a + b)"
  unfolding drained_def by (fastforce intro: token_grows_trans)

lemma drainedD:
  assumes "drained ts ts' v a"
  obtains s b where "ts v = Some s" "ts' v = Some (s\<lparr>tk_amount := b\<rparr>)" "unat (tk_amount s) = unat b + a"
  using assms unfolding drained_def by blast

lemma drained_grows: "drained ts ts' v a \<Longrightarrow> k \<noteq> v \<Longrightarrow> token_grows ts ts' k"
  unfolding drained_def by blast

text \<open>The amount held in memory for the custody account.\<close>

definition cached :: "token_store \<Rightarrow> pubkey \<Rightarrow> u64 \<Rightarrow> bool" where
  "cached ts v a \<longleftrightarrow> (\<exists>s. ts v = Some s \<and> tk_amount s = a)"

lemma transfer_exact_drains:
  assumes laws: "token_laws rt" and c: "cached ts source before"
    and run: "transfer_exact rt deposit d ts source before dest dest_before mint_key mint tp a = Inr (ts', after)"
  shows "drained ts ts' source (unat a)" "cached ts' source after" "source \<noteq> dest" "0 < unat a"
    "\<exists>t. ts' dest = Some t \<and> unat (tk_amount t) = unat dest_before + unat a"
proof -
  from run obtain s' t' where a: "0 < unat a"
      and moved: "transfer_checked rt tp ts source mint_key dest deposit a (mint_decimals mint) = Inr ts'"
      and s': "ts' source = Some s'" "tk_amount s' = after" and t': "ts' dest = Some t'"
      and sub: "unat before = unat after + unat a" "unat (tk_amount t') = unat dest_before + unat a"
    by (auto simp: transfer_exact_def result_simps checked_simps)
  from c obtain s where s: "ts source = Some s" "tk_amount s = before" by (auto simp: cached_def)
  note m = transfer_moved [OF laws moved]
  show ne: "source \<noteq> dest"
  proof
    assume "source = dest"
    with m s s' sub a show False by (auto simp: token_moved_def)
  qed
  from token_moved_source [OF m ne s(1)] s' have "ts' source = Some (s\<lparr>tk_amount := after\<rparr>)" by auto
  with s sub(1) token_moved_grows [OF m] show "drained ts ts' source (unat a)"
    unfolding drained_def by blast
  show "cached ts' source after" using s' by (auto simp: cached_def)
  show "0 < unat a" by (rule a)
  show "\<exists>t. ts' dest = Some t \<and> unat (tk_amount t) = unat dest_before + unat a" using t' sub by blast
qed

lemma pay_protocol_drains:
  assumes "token_laws rt" and c: "cached ts (sta_deposit_vault accs) before"
    and "pay_protocol rt deposit d accs mint t fee ts before = Inr (ts', after)"
  shows "drained ts ts' (sta_deposit_vault accs) (unat fee) \<and> cached ts' (sta_deposit_vault accs) after"
proof (cases "0 < fee")
  case True
  with assms(3) have "transfer_exact rt deposit d ts (sta_deposit_vault accs) before (sta_protocol_fee_token accs)
      (tk_amount t) (sta_mint accs) mint (sta_token_program accs) fee = Inr (ts', after)"
    by (simp add: pay_protocol_def)
  from transfer_exact_drains [OF assms(1) c this] show ?thesis by simp
next
  case False
  with assms(3) have "ts' = ts" "after = before" "unat fee = 0"
    by (auto simp: pay_protocol_def word_gt_0_unat)
  with c show ?thesis by (auto simp: cached_def intro: drained_zero)
qed

lemma pay_manager_drains:
  assumes "token_laws rt" and c: "cached ts (sta_deposit_vault accs) before"
    and "pay_manager rt intent deposit d accs mint t fee ts before = Inr (ts', after)"
  shows "drained ts ts' (sta_deposit_vault accs) (unat fee) \<and> cached ts' (sta_deposit_vault accs) after"
proof (cases "0 < fee")
  case True
  with assms(3) obtain key and dst :: TokenAccount where "transfer_exact rt deposit d ts (sta_deposit_vault accs) before key
      (tk_amount dst) (sta_mint accs) mint (sta_token_program accs) fee = Inr (ts', after)"
    by (auto simp: pay_manager_def result_simps)
  from transfer_exact_drains [OF assms(1) c this] show ?thesis by simp
next
  case False
  with assms(3) have "ts' = ts" "after = before" "unat fee = 0"
    by (auto simp: pay_manager_def result_simps word_gt_0_unat)
  with c show ?thesis by (auto simp: cached_def intro: drained_zero)
qed

definition fee_of :: "u64 \<Rightarrow> u128 \<Rightarrow> nat" where
  "fee_of release rate = unat release * unat rate div 10 ^ 18"

definition referral_total :: "u64 \<Rightarrow> ReferralFee list \<Rightarrow> nat" where
  "referral_total release fees = sum_list (map (\<lambda>f. fee_of release (rf_fee f)) fees)"

lemma pay_referrals_drains:
  "pay_referrals rt deposit d accs mint release fees ts before sofar = Inr (ts', after, total_fees) \<Longrightarrow>
     token_laws rt \<Longrightarrow> cached ts (sta_deposit_vault accs) before \<Longrightarrow>
     drained ts ts' (sta_deposit_vault accs) (referral_total release (map fst fees)) \<and>
     cached ts' (sta_deposit_vault accs) after \<and>
     unat total_fees = unat sofar + referral_total release (map fst fees)"
proof (induction rt deposit d accs mint release fees ts before sofar rule: pay_referrals.induct)
  case (1 rt deposit d accs mint release ts before sofar)
  then show ?case by (auto simp: cached_def referral_total_def intro: drained_zero)
next
  case (2 rt deposit d accs mint release fee key rest ts before sofar)
  from 2(2) obtain amount subtotal dst ts1 after1 where amount: "precise_mul_floor release (rf_fee fee) = Inr amount"
      and sub: "checked_add sofar amount = Some subtotal"
      and dst: "ts key = Some dst" "tk_mint dst = sta_mint accs" "tk_owner dst = rf_recipient fee"
      and pay: "(if 0 < amount
           then transfer_exact rt deposit d ts (sta_deposit_vault accs) before key (tk_amount dst) (sta_mint accs)
                 mint (sta_token_program accs) amount
           else Inr (ts, before)) = Inr (ts1, after1)"
      and rest: "pay_referrals rt deposit d accs mint release rest ts1 after1 subtotal = Inr (ts', after, total_fees)"
    by (simp add: result_simps split_paired_Ex, elim exE conjE, blast)
  have a: "unat amount = fee_of release (rf_fee fee)" using amount by (simp add: precise_mul_floor_Inr fee_of_def)
  have one: "drained ts ts1 (sta_deposit_vault accs) (unat amount) \<and> cached ts1 (sta_deposit_vault accs) after1"
  proof (cases "0 < amount")
    case True
    with pay transfer_exact_drains(1,2) [OF 2(3,4), where a = amount] show ?thesis by fastforce
  next
    case False
    with pay 2(4) show ?thesis by (auto simp: cached_def word_gt_0_unat intro: drained_zero)
  qed
  have "drained ts1 ts' (sta_deposit_vault accs) (referral_total release (map fst rest)) \<and>
     cached ts' (sta_deposit_vault accs) after \<and>
     unat total_fees = unat subtotal + referral_total release (map fst rest)"
    using 2(1) [OF rest 2(3)] one by simp
  with one a sub show ?case
    by (auto simp: referral_total_def checked_simps intro: drained_trans)
qed

text \<open>The complete distribution.\<close>

lemma distribute_funds_moves:
  assumes laws: "token_laws rt"
    and run: "distribute_funds rt ls intent oc deposit d accs remaining_accounts release = Inr ts"
  defines "fees \<equiv> fee_of release (oc_protocol_fee oc) + fee_of release (i_manager_fee intent) +
      referral_total release (i_referral_fees intent)"
  shows "drained (tokens ls) ts (deposit_vault_key rt deposit) (unat release) \<and> fees < unat release \<and>
    (\<exists>t t'. tokens ls (sta_recipient_token accs) = Some t \<and> ts (sta_recipient_token accs) = Some t' \<and>
       tk_owner t = i_recipient intent \<and> tk_mint t = d_token_mint d \<and>
       unat (tk_amount t') + fees = unat (tk_amount t) + unat release)"
proof -
  let ?v = "deposit_vault_key rt deposit"
  from run obtain mint vault recipient proto mgr pf mf f0 ts1 v1 ts2 v2 ts3 v3 f net v4
    where load: "load_settlement_tokens rt ls accs = Inr (mint, vault, recipient, proto, mgr)"
      and pf: "precise_mul_floor release (oc_protocol_fee oc) = Inr pf"
      and mf: "precise_mul_floor release (i_manager_fee intent) = Inr mf"
      and f0: "checked_add pf mf = Some f0"
      and p1: "pay_protocol rt deposit d accs mint proto pf (tokens ls) (tk_amount vault) = Inr (ts1, v1)"
      and p2: "pay_manager rt intent deposit d accs mint mgr mf ts1 v1 = Inr (ts2, v2)"
      and p3: "pay_referrals rt deposit d accs mint release (zip (i_referral_fees intent) remaining_accounts)
          ts2 v2 f0 = Inr (ts3, v3, f)"
      and net: "checked_sub release f = Some net"
      and p4: "transfer_exact rt deposit d ts3 (sta_deposit_vault accs) v3 (sta_recipient_token accs)
          (tk_amount recipient) (sta_mint accs) mint (sta_token_program accs) net = Inr (ts, v4)"
      and checks: "length remaining_accounts = length (i_referral_fees intent)" "tk_owner recipient = i_recipient intent"
        "tk_mint recipient = sta_mint accs"
    by (simp add: distribute_funds_def check_settlement_tokens_def result_simps split_paired_Ex, elim exE conjE, blast)
  from run have same: "sta_mint accs = d_token_mint d" "sta_deposit_vault accs = ?v"
    by (auto simp: distribute_funds_def check_settlement_tokens_def result_simps)
  from load have vault: "cached (tokens ls) (sta_deposit_vault accs) (tk_amount vault)"
    and recipient: "tokens ls (sta_recipient_token accs) = Some recipient"
    by (auto simp: load_settlement_tokens_def result_simps cached_def)
  note d1 = pay_protocol_drains [OF laws vault p1]
  note d2 = pay_manager_drains [OF laws conjunct2 [OF d1] p2]
  note d3 = pay_referrals_drains [OF p3 laws conjunct2 [OF d2]]
  note d4 = transfer_exact_drains [OF laws conjunct1 [OF conjunct2 [OF d3]] p4]
  have f: "unat f = fees"
    using d3 f0 pf mf checks(1) by (simp add: fees_def fee_of_def precise_mul_floor_Inr checked_simps)
  have r: "referral_total release (map fst (zip (i_referral_fees intent) remaining_accounts)) =
      referral_total release (i_referral_fees intent)" using checks(1) by simp
  from net f have n: "unat release = fees + unat net" by (simp add: checked_simps)
  have "drained (tokens ls) ts ?v (unat pf + unat mf + referral_total release (i_referral_fees intent) + unat net)"
    using drained_trans [OF drained_trans [OF drained_trans [OF conjunct1 [OF d1] conjunct1 [OF d2]] conjunct1 [OF d3]] d4(1)]
    by (simp add: same r)
  moreover have "unat pf + unat mf + referral_total release (i_referral_fees intent) = fees"
    using pf mf by (simp add: fees_def fee_of_def precise_mul_floor_Inr)
  ultimately have "drained (tokens ls) ts ?v (unat release)" using n by simp
  moreover have "fees < unat release" using n d4(4) by simp
  ultimately show ?thesis using recipient checks same d4(5) n by auto
qed

end
