(* ===== verification/Escrow_Invariant.thy ===== *)
theory Escrow_Invariant
  imports Escrow_Books Distribution
begin

text \<open>
  The instructions of \<^verbatim>\<open>escrow.rs\<close>, \<^verbatim>\<open>orchestrator.rs\<close> and \<^verbatim>\<open>settlement.rs\<close> keep the books of the escrow: one lemma per
  handler. A signer whose token account pays is not the address of a deposit.
\<close>

subsection \<open>Token transfers seen by the custody accounts\<close>

lemma token_moved_identity:
  assumes "token_moved ts ts' from to a" and "ts k = Some t"
  shows "\<exists>b. ts' k = Some (t\<lparr>tk_amount := b\<rparr>)"
proof (cases "k = from \<or> k = to")
  case True
  with assms show ?thesis by (auto simp: token_moved_def split: if_splits intro: exI [of _ "tk_amount t"])
next
  case False
  with token_moved_other [OF assms(1)] assms(2) show ?thesis by (auto intro: exI [of _ "tk_amount t"])
qed

lemma custody_source:
  assumes "escrow_custody rt ds ts" and "ts from = Some f" and "ds (tk_owner f) = None" and "ds k = Some d"
  shows "from \<noteq> deposit_vault_key rt k"
  using custodyD [OF assms(1,4)] assms by (metis option.distinct(1) option.inject)

lemma custody_spend:
  assumes "escrow_custody rt ds ts" and "ts from = Some f" and "ds (tk_owner f) = None"
    and "token_moved ts ts' from to a"
  shows "escrow_custody rt ds ts'"
  using assms(1)
proof (rule custody_grows)
  fix k d assume "ds k = Some d"
  with custody_source [OF assms(1-3)] token_moved_grows [OF assms(4)]
  show "token_grows ts ts' (deposit_vault_key rt k)" by metis
qed

lemma custody_other_vault:
  assumes "escrow_custody rt ds ts" and "ds k = Some d" and "token_moved ts ts' (deposit_vault_key rt k) to a"
    and "j \<noteq> k" and "ds j = Some e"
  shows "token_grows ts ts' (deposit_vault_key rt j)"
  using custody_vault_inj [OF assms(1,2,5)] assms(4) token_moved_grows [OF assms(3)] by metis

text \<open>A payment \<open>a\<close> out of the custody account of \<open>k\<close>, with the liabilities reduced by as much.\<close>

lemma custody_pay:
  assumes c: "escrow_custody rt ds ts" and d: "ds k = Some d"
    and moved: "token_moved ts ts' (deposit_vault_key rt k) to a"
    and same: "d_id d' = d_id d" "d_escrow_config d' = d_escrow_config d"
      "d_depositor d' = d_depositor d" "d_token_mint d' = d_token_mint d"
    and less: "deposit_avail d' + deposit_held d' + unat a \<le> deposit_avail d + deposit_held d"
  shows "escrow_custody rt (ds(k \<mapsto> d')) ts'"
proof (rule custody_put [OF c])
  have "deposit_backed rt ts k d" using c d by (auto simp: escrow_custody_def)
  then show "deposit_backed rt ts' k d'" by (rule deposit_backed_out [OF _ moved same less])
  show "token_grows ts ts' (deposit_vault_key rt j)" if "j \<noteq> k" "ds j = Some e" for j e
    by (rule custody_other_vault [OF c d moved that])
qed

text \<open>A change of a deposit's configuration.\<close>

lemma custody_same:
  assumes "escrow_custody rt ds ts" and "ds k = Some d" and "d_id d' = d_id d" "d_escrow_config d' = d_escrow_config d"
    "d_depositor d' = d_depositor d" "d_token_mint d' = d_token_mint d"
    and "deposit_avail d' + deposit_held d' \<le> deposit_avail d + deposit_held d"
  shows "escrow_custody rt (ds(k \<mapsto> d')) ts"
proof (rule custody_put [OF assms(1)])
  have "deposit_backed rt ts k d" using assms(1,2) by (auto simp: escrow_custody_def)
  then show "deposit_backed rt ts k d'" by (rule deposit_backed_cong [OF _ assms(3-)])
qed simp

subsection \<open>Funding\<close>

lemma create_deposit_escrow_inv:
  assumes inv: "escrow_inv rt ls" and laws: "token_laws rt" and signer: "depositor \<noteq> 0" "deposits ls depositor = None"
    and run: "handle_create_deposit rt ls depositor source tp args = Inr ls'"
  shows "escrow_inv rt ls'"
proof -
  from run obtain e where e: "escrow_account rt ls = Inr e" by (auto simp: handle_create_deposit_def result_simps)
  define k where "k = pda rt (deposit_seeds (escrow_config_key rt) (ec_next_deposit_id e))"
  let ?v = "deposit_vault_key rt k" and ?d = "new_deposit rt e k depositor args"
  from run e obtain n ts0 ts f b0 b c and mint :: Mint
    where none: "deposits ls k = None" and f: "tokens ls source = Some f" "tk_owner f = depositor"
      and init: "initialize_account rt tp (tokens ls) ?v (ec_token_mint e) k = Inr ts0"
      and move: "transfer_checked rt tp ts0 source (ec_token_mint e) ?v depositor (cda_amount args)
          (mint_decimals mint) = Inr ts"
      and bal: "reload_amount ts0 ?v = Inr b0" "reload_amount ts ?v = Inr b" "checked_sub b b0 = Some (cda_amount args)"
      and ls': "ls' = ls\<lparr>deposits := (deposits ls)(k \<mapsto> ?d),
          payment_methods := (payment_methods ls)(payment_method_key rt k (cda_payment_method args) \<mapsto> new_payment_method rt k args),
          deposit_currencies := (deposit_currencies ls)
            (currency_key rt k (cda_payment_method args) (cda_currency args) \<mapsto> new_deposit_currency rt k args),
          escrow_config := Some (e\<lparr>ec_next_deposit_id := n\<rparr>), tokens := ts\<rparr>"
    by (simp add: handle_create_deposit_def create_deposit_at_def k_def [symmetric] Let_def
        and_then_Inr require_Inr init_Inr token_interface_Inr token_account_Inr ok_or_Inr,
        elim exE conjE, blast)
  have c: "escrow_custody rt (deposits ls) (tokens ls)" and books: "escrow_books (deposits ls) (intent_locks ls)"
    using inv by (simp_all add: escrow_inv_def)
  from initialize_fresh [OF laws init] have fresh: "tokens ls ?v = None"
    and ts0: "ts0 = (tokens ls)(?v \<mapsto> \<lparr>tk_program = tp, tk_mint = ec_token_mint e, tk_owner = k, tk_amount = 0\<rparr>)" by auto
  note m = transfer_moved [OF laws move]
  from token_moved_identity [OF m, of ?v] ts0 bal obtain v where v: "ts ?v = Some v" "tk_owner v = k"
      "tk_mint v = ec_token_mint e" "unat (tk_amount v) = unat (cda_amount args)"
    by (auto simp: result_simps checked_simps)
  with k_def signer have backed: "deposit_backed rt ts k ?d"
    by (simp add: deposit_backed_def new_deposit_def)
  have "escrow_custody rt (deposits ls) ts"
  proof (rule custody_grows [OF c])
    fix j d assume d: "deposits ls j = Some d"
    from custodyD [OF c d] obtain t where "tokens ls (deposit_vault_key rt j) = Some t" by metis
    with fresh have "deposit_vault_key rt j \<noteq> ?v" by auto
    then have "token_grows (tokens ls) ts0 (deposit_vault_key rt j)" by (simp add: ts0 token_grows_def)
    moreover have "token_grows ts0 ts (deposit_vault_key rt j)"
      using token_moved_grows [OF m] custody_source [OF c f(1) _ d] f(2) signer by metis
    ultimately show "token_grows (tokens ls) ts (deposit_vault_key rt j)" by (rule token_grows_trans)
  qed
  then have "escrow_custody rt ((deposits ls)(k \<mapsto> ?d)) ts" using backed by (rule custody_put) simp
  moreover have "escrow_books ((deposits ls)(k \<mapsto> ?d)) (intent_locks ls)"
    by (rule books_open [OF books none]) (simp_all add: new_deposit_def)
  ultimately show ?thesis using inv by (simp add: escrow_inv_def ls')
qed

lemma unpaused_deposit_Inr [result_simps]:
  "unpaused_deposit rt ls k = Inr (e, d) \<longleftrightarrow>
     escrow_account rt ls = Inr e \<and> \<not> ec_paused e \<and> deposits ls k = Some d \<and> d_escrow_config d = escrow_config_key rt"
  by (auto simp: unpaused_deposit_def result_simps)

lemma managed_deposit_Inr [result_simps]:
  "managed_deposit rt ls a k = Inr (e, d) \<longleftrightarrow>
     unpaused_deposit rt ls k = Inr (e, d) \<and> (d_depositor d = a \<or> d_delegate d = Some a)"
  by (auto simp: managed_deposit_def result_simps)

lemma transfer_from_deposit_Inr [result_simps]:
  "transfer_from_deposit rt ts k d dest m tp a = Inr ts' \<longleftrightarrow>
     pda rt (deposit_seeds (d_escrow_config d) (d_id d)) = k \<and>
     pda_bump rt (deposit_seeds (d_escrow_config d) (d_id d)) = d_bump d \<and>
     transfer_checked rt tp ts (deposit_vault_key rt k) (d_token_mint d) dest k a (mint_decimals m) = Inr ts'"
  by (simp add: transfer_from_deposit_def result_simps)

lemma escrow_inv_deposit:
  assumes "escrow_inv rt ls" and "escrow_custody rt ds ts" and "escrow_books ds (intent_locks ls)"
  shows "escrow_inv rt (ls\<lparr>deposits := ds, tokens := ts\<rparr>)" "ts = tokens ls \<Longrightarrow> escrow_inv rt (ls\<lparr>deposits := ds\<rparr>)"
  using assms by (simp_all add: escrow_inv_def)

lemma add_funds_escrow_inv:
  assumes inv: "escrow_inv rt ls" and laws: "token_laws rt" and signer: "deposits ls funder = None"
    and run: "handle_add_funds rt ls funder k source tp a = Inr ls'"
  shows "escrow_inv rt ls'"
proof -
  let ?v = "deposit_vault_key rt k"
  from run obtain d f t ts b r and mint :: Mint where d: "deposits ls k = Some d"
      and f: "tokens ls source = Some f" "tk_owner f = funder" and t: "tokens ls ?v = Some t"
      and move: "transfer_checked rt tp (tokens ls) source (d_token_mint d) ?v funder a (mint_decimals mint) = Inr ts"
      and b: "reload_amount ts ?v = Inr b" "checked_sub b (tk_amount t) = Some a"
      and r: "checked_add (d_remaining_deposits d) a = Some r"
      and ls': "ls' = ls\<lparr>deposits := (deposits ls)(k \<mapsto> d\<lparr>d_remaining_deposits := r\<rparr>), tokens := ts\<rparr>"
    by (simp add: handle_add_funds_def Let_def split_paired_Ex and_then_Inr require_Inr token_interface_Inr
        token_account_Inr account_Inr seeds_bump_Inr ok_or_Inr unpaused_deposit_Inr, elim exE conjE, blast)
  have c: "escrow_custody rt (deposits ls) (tokens ls)" and books: "escrow_books (deposits ls) (intent_locks ls)"
    using inv by (simp_all add: escrow_inv_def)
  note m = transfer_moved [OF laws move]
  from custodyD [OF c d] t have dep: "k = pda rt (deposit_seeds (escrow_config_key rt) (d_id d))"
      "d_escrow_config d = escrow_config_key rt" "d_depositor d \<noteq> 0" "tk_owner t = k" "tk_mint t = d_token_mint d"
      "deposit_avail d + deposit_held d \<le> unat (tk_amount t)" by (metis option.inject)+
  from token_moved_identity [OF m t] b obtain t' where t': "ts ?v = Some t'" "tk_owner t' = k" "tk_mint t' = d_token_mint d"
      "unat (tk_amount t') = unat (tk_amount t) + unat a"
    using dep by (auto simp: result_simps checked_simps)
  have "escrow_custody rt (deposits ls) ts" using custody_spend [OF c f(1) _ m] f(2) signer by simp
  moreover have "deposit_backed rt ts k (d\<lparr>d_remaining_deposits := r\<rparr>)"
    using dep t' r by (simp add: deposit_backed_def checked_simps)
  ultimately have "escrow_custody rt ((deposits ls)(k \<mapsto> d\<lparr>d_remaining_deposits := r\<rparr>)) ts" by (rule custody_put) simp
  moreover have "escrow_books ((deposits ls)(k \<mapsto> d\<lparr>d_remaining_deposits := r\<rparr>)) (intent_locks ls)"
    by (rule books_same [OF books d]) simp_all
  ultimately show ?thesis unfolding ls' by (rule escrow_inv_deposit(1) [OF inv])
qed

lemma remove_funds_escrow_inv:
  assumes inv: "escrow_inv rt ls" and laws: "token_laws rt"
    and run: "handle_remove_funds rt ls depositor k dest tp a = Inr ls'"
  shows "escrow_inv rt ls'"
proof -
  from run obtain d ts r and mint :: Mint where d: "deposits ls k = Some d"
      and r: "checked_sub (d_remaining_deposits d) a = Some r"
      and move: "transfer_checked rt tp (tokens ls) (deposit_vault_key rt k) (d_token_mint d) dest k a (mint_decimals mint) = Inr ts"
      and ls': "ls' = ls\<lparr>deposits := (deposits ls)(k \<mapsto> d\<lparr>d_remaining_deposits := r\<rparr>), tokens := ts\<rparr>"
    by (simp add: handle_remove_funds_def split_paired_Ex and_then_Inr require_Inr token_interface_Inr constraint_Inr
        token_account_Inr account_Inr seeds_bump_Inr ok_or_Inr unpaused_deposit_Inr transfer_from_deposit_Inr,
        elim exE conjE, blast)
  have c: "escrow_custody rt (deposits ls) (tokens ls)" and books: "escrow_books (deposits ls) (intent_locks ls)"
    using inv by (simp_all add: escrow_inv_def)
  have "escrow_custody rt ((deposits ls)(k \<mapsto> d\<lparr>d_remaining_deposits := r\<rparr>)) ts"
    by (rule custody_pay [OF c d transfer_moved [OF laws move]]) (use r in \<open>simp_all add: checked_simps\<close>)
  moreover have "escrow_books ((deposits ls)(k \<mapsto> d\<lparr>d_remaining_deposits := r\<rparr>)) (intent_locks ls)"
    by (rule books_same [OF books d]) simp_all
  ultimately show ?thesis unfolding ls' by (rule escrow_inv_deposit(1) [OF inv])
qed

lemma close_deposit_escrow_inv:
  assumes laws: "token_laws rt" and inv: "escrow_inv rt (ls\<lparr>deposits := (deposits ls)(k \<mapsto> d), tokens := ts\<rparr>)"
    and empty: "deposit_held d = 0" "active d = 0"
    and run: "close_deposit rt ls e k d mint tp dust ts = Inr ls'"
  shows "escrow_inv rt ls'"
proof -
  let ?ds = "(deposits ls)(k \<mapsto> d)" and ?v = "deposit_vault_key rt k"
  have c: "escrow_custody rt ?ds ts" and books: "escrow_books ?ds (intent_locks ls)"
    using inv by (simp_all add: escrow_inv_def)
  from run obtain residual where res: "reload_amount ts ?v = Inr residual" by (auto simp: close_deposit_def and_then_Inr)
  show ?thesis
  proof (cases "residual > ec_dust_threshold e")
    case True
    with run res have ls': "ls' = ls\<lparr>deposits := (deposits ls)(k \<mapsto> d\<lparr>d_retain_on_empty := True\<rparr>), tokens := ts\<rparr>"
      by (simp add: close_deposit_def)
    have "escrow_custody rt (?ds(k \<mapsto> d\<lparr>d_retain_on_empty := True\<rparr>)) ts" by (rule custody_same [OF c, of k d]) simp_all
    moreover have "escrow_books (?ds(k \<mapsto> d\<lparr>d_retain_on_empty := True\<rparr>)) (intent_locks ls)"
      by (rule books_same [OF books, of k d]) simp_all
    ultimately show ?thesis using inv by (simp add: ls' escrow_inv_def)
  next
    case False
    with run res obtain ts1 ts2 where pay: "ts1 = ts \<or> (\<exists>dest a. transfer_from_deposit rt ts k d dest mint tp a = Inr ts1)"
        and close: "close_account rt tp ts1 ?v (d_depositor d) k = Inr ts2"
        and ls': "ls' = ls\<lparr>deposits := (deposits ls)(k := None), tokens := ts2\<rparr>"
      by (auto simp: close_deposit_def result_simps simp del: transfer_from_deposit_Inr split: if_splits)
    have "escrow_custody rt (?ds(k := None)) ts2"
    proof (rule custody_drop [OF c])
      fix j x assume j: "j \<noteq> k" "?ds j = Some x"
      have "token_grows ts ts1 (deposit_vault_key rt j)"
        using pay custody_other_vault [OF c _ transfer_moved [OF laws] j] by (auto simp: transfer_from_deposit_Inr)
      moreover have "deposit_vault_key rt j \<noteq> ?v" using custody_vault_inj [OF c j(2), of k d] j(1) by auto
      then have "token_grows ts1 ts2 (deposit_vault_key rt j)"
        using close_empties [OF laws close] by (simp add: token_grows_def)
      ultimately show "token_grows ts ts2 (deposit_vault_key rt j)" by (rule token_grows_trans)
    qed
    moreover have "escrow_books (?ds(k := None)) (intent_locks ls)"
      by (rule books_close [OF books, of k d]) (use empty in simp_all)
    ultimately show ?thesis using inv by (simp add: ls' escrow_inv_def)
  qed
qed

lemma withdraw_deposit_escrow_inv:
  assumes inv: "escrow_inv rt ls" and laws: "token_laws rt"
    and run: "handle_withdraw_deposit rt ls depositor k dest tp dust = Inr ls'"
  shows "escrow_inv rt ls'"
proof -
  from run obtain e d ts and mint :: Mint where d: "deposits ls k = Some d"
      and pay: "(if d_remaining_deposits d > 0
          then transfer_from_deposit rt (tokens ls) k (d\<lparr>d_remaining_deposits := 0, d_accepting_intents := False\<rparr>)
            dest mint tp (d_remaining_deposits d) else Inr (tokens ls)) = Inr ts"
      and rest: "(if d_active_intents d = 0 \<and> d_outstanding_intent_amount d = 0 \<and> \<not> d_retain_on_empty d
          then close_deposit rt ls e k (d\<lparr>d_remaining_deposits := 0, d_accepting_intents := False\<rparr>) mint tp dust ts
          else Inr (ls\<lparr>deposits := (deposits ls)(k \<mapsto> d\<lparr>d_remaining_deposits := 0, d_accepting_intents := False\<rparr>),
            tokens := ts\<rparr>)) = Inr ls'"
    by (simp add: handle_withdraw_deposit_def Let_def and_then_Inr require_Inr token_interface_Inr constraint_Inr
        account_Inr seeds_bump_Inr, elim exE conjE, blast)
  let ?d = "d\<lparr>d_remaining_deposits := 0, d_accepting_intents := False\<rparr>"
  have c: "escrow_custody rt (deposits ls) (tokens ls)" and books: "escrow_books (deposits ls) (intent_locks ls)"
    using inv by (simp_all add: escrow_inv_def)
  have "escrow_custody rt ((deposits ls)(k \<mapsto> ?d)) ts"
  proof (cases "d_remaining_deposits d > 0")
    case True
    with pay have "transfer_checked rt tp (tokens ls) (deposit_vault_key rt k) (d_token_mint d) dest k
        (d_remaining_deposits d) (mint_decimals mint) = Inr ts" by (simp add: transfer_from_deposit_Inr)
    from custody_pay [OF c d transfer_moved [OF laws this], of ?d] show ?thesis by simp
  next
    case False
    with pay custody_same [OF c d, of ?d] show ?thesis by simp
  qed
  moreover have "escrow_books ((deposits ls)(k \<mapsto> ?d)) (intent_locks ls)" by (rule books_same [OF books d]) simp_all
  ultimately have mid: "escrow_inv rt (ls\<lparr>deposits := (deposits ls)(k \<mapsto> ?d), tokens := ts\<rparr>)"
    by (rule escrow_inv_deposit(1) [OF inv])
  show ?thesis
  proof (cases "d_active_intents d = 0 \<and> d_outstanding_intent_amount d = 0 \<and> \<not> d_retain_on_empty d")
    case True
    with rest close_deposit_escrow_inv [OF laws mid, of e mint tp dust ls'] show ?thesis by simp
  next
    case False
    with rest mid show ?thesis by auto
  qed
qed

subsection \<open>Configuration\<close>

definition deposit_reconfigured :: "Deposit \<Rightarrow> Deposit \<Rightarrow> bool" where
  "deposit_reconfigured d d' \<longleftrightarrow>
     d_id d' = d_id d \<and> d_escrow_config d' = d_escrow_config d \<and> d_depositor d' = d_depositor d \<and>
     d_token_mint d' = d_token_mint d \<and> d_remaining_deposits d' = d_remaining_deposits d \<and>
     d_outstanding_intent_amount d' = d_outstanding_intent_amount d \<and> d_active_intents d' = d_active_intents d"

lemma reconfigured_escrow_inv:
  assumes inv: "escrow_inv rt ls" and d: "deposits ls k = Some d" and same: "deposit_reconfigured d d'"
  shows "escrow_inv rt (ls\<lparr>deposits := (deposits ls)(k \<mapsto> d')\<rparr>)"
proof -
  have "escrow_custody rt ((deposits ls)(k \<mapsto> d')) (tokens ls)"
    by (rule custody_same [of rt "deposits ls" "tokens ls" k d, OF _ d]) (use inv same in \<open>simp_all add: escrow_inv_def deposit_reconfigured_def\<close>)
  moreover have "escrow_books ((deposits ls)(k \<mapsto> d')) (intent_locks ls)"
    by (rule books_same [of "deposits ls" "intent_locks ls" k d, OF _ d]) (use inv same in \<open>simp_all add: escrow_inv_def deposit_reconfigured_def\<close>)
  ultimately show ?thesis by (intro escrow_inv_deposit(2) [OF inv]) simp_all
qed

lemma if_some_reconfigured:
  assumes "if_some x f d = Inr d'" and "\<And>v. f v d = Inr d' \<Longrightarrow> deposit_reconfigured d d'"
  shows "deposit_reconfigured d d'"
proof (cases x)
  case None
  with assms(1) show ?thesis by (simp add: deposit_reconfigured_def)
next
  case (Some v)
  with assms show ?thesis by simp
qed

lemma reconfigured_trans: "deposit_reconfigured d d' \<Longrightarrow> deposit_reconfigured d' d'' \<Longrightarrow> deposit_reconfigured d d''"
  by (simp add: deposit_reconfigured_def)

lemma update_deposit_Inr:
  assumes "handle_update_deposit rt ls a k args = Inr ls'"
  shows "\<exists>d d'. deposits ls k = Some d \<and> (d_depositor d = a \<or> d_delegate d = Some a) \<and> deposit_reconfigured d d' \<and>
    ls' = ls\<lparr>deposits := (deposits ls)(k \<mapsto> d')\<rparr>"
proof -
  from assms obtain e d d1 d2 d3 d4 d5 where d: "deposits ls k = Some d" and a: "d_depositor d = a \<or> d_delegate d = Some a"
      and s1: "if_some (uda_delegate args) (\<lambda>delegate d.
         require (a = d_depositor d) Unauthorized (
         require (\<forall>key\<in>set_option delegate. key \<noteq> 0 \<and> key \<noteq> d_depositor d) ZeroAddress (
         Inr (d\<lparr>d_delegate := delegate\<rparr>)))) d = Inr d1"
      and s2: "if_some (uda_intent_guardian args) (\<lambda>guardian d.
         require (guardian \<noteq> Some 0) ZeroAddress (
         Inr (d\<lparr>d_intent_guardian := guardian\<rparr>))) d1 = Inr d2"
      and s3: "if_some (uda_intent_amount_range args) (\<lambda>range d.
         require (ar_min range > 0) ZeroValue (
         require (ar_min range \<le> ar_max range) InvalidRange (
         Inr (d\<lparr>d_intent_amount_range := range\<rparr>)))) d2 = Inr d3"
      and s4: "if_some (uda_accepting_intents args) (\<lambda>accepting d.
         require (d_accepting_intents d \<noteq> accepting) AlreadyInState (
         require (\<not> accepting \<or> d_remaining_deposits d \<ge> ar_min (d_intent_amount_range d)) InsufficientBalance (
         Inr (d\<lparr>d_accepting_intents := accepting\<rparr>)))) d3 = Inr d4"
      and s5: "if_some (uda_retain_on_empty args) (\<lambda>retain d.
         require (d_retain_on_empty d \<noteq> retain) AlreadyInState (
         Inr (d\<lparr>d_retain_on_empty := retain\<rparr>))) d4 = Inr d5"
      and ls': "ls' = ls\<lparr>deposits := (deposits ls)(k \<mapsto> d5)\<rparr>"
    by (simp add: handle_update_deposit_def split_paired_Ex and_then_Inr managed_deposit_Inr unpaused_deposit_Inr,
        elim exE conjE, blast)
  have "deposit_reconfigured d d1"
    by (rule if_some_reconfigured [OF s1]) (auto simp: require_Inr deposit_reconfigured_def)
  moreover have "deposit_reconfigured d1 d2"
    by (rule if_some_reconfigured [OF s2]) (auto simp: require_Inr deposit_reconfigured_def)
  moreover have "deposit_reconfigured d2 d3"
    by (rule if_some_reconfigured [OF s3]) (auto simp: require_Inr deposit_reconfigured_def)
  moreover have "deposit_reconfigured d3 d4"
    by (rule if_some_reconfigured [OF s4]) (auto simp: require_Inr deposit_reconfigured_def)
  moreover have "deposit_reconfigured d4 d5"
    by (rule if_some_reconfigured [OF s5]) (auto simp: require_Inr deposit_reconfigured_def)
  ultimately have "deposit_reconfigured d d5" by (metis reconfigured_trans)
  with d a ls' show ?thesis by blast
qed

lemma update_deposit_escrow_inv:
  "escrow_inv rt ls \<Longrightarrow> handle_update_deposit rt ls a k args = Inr ls' \<Longrightarrow> escrow_inv rt ls'"
  using update_deposit_Inr [of rt ls a k args ls'] reconfigured_escrow_inv by blast

lemma set_deposit_rate_manager_escrow_inv:
  assumes inv: "escrow_inv rt ls" and run: "handle_set_deposit_rate_manager rt ls a k r m = Inr ls'"
  shows "escrow_inv rt ls'"
proof -
  from run obtain d where d: "deposits ls k = Some d"
      and ls': "ls' = ls\<lparr>deposits := (deposits ls)(k \<mapsto> d\<lparr>d_rate_manager := m\<rparr>)\<rparr>"
    by (cases m) (auto simp: handle_set_deposit_rate_manager_def result_simps)
  show ?thesis unfolding ls' by (rule reconfigured_escrow_inv [OF inv d]) (simp add: deposit_reconfigured_def)
qed

lemma extend_intent_expiry_escrow_inv:
  assumes inv: "escrow_inv rt ls" and run: "handle_extend_intent_expiry rt ls g k h a = Inr ls'"
  shows "escrow_inv rt ls'"
proof -
  from run obtain l x where l: "intent_locks ls (intent_lock_key rt k h) = Some l"
      and ls': "ls' = ls\<lparr>intent_locks := (intent_locks ls)(intent_lock_key rt k h \<mapsto> l\<lparr>el_expiry_time := x\<rparr>)\<rparr>"
    by (auto simp: handle_extend_intent_expiry_def result_simps)
  have "escrow_books (deposits ls) ((intent_locks ls)(intent_lock_key rt k h \<mapsto> l\<lparr>el_expiry_time := x\<rparr>))"
    by (rule books_relabel [of "deposits ls" "intent_locks ls" "intent_lock_key rt k h" l, OF _ l]) (use inv in \<open>simp_all add: escrow_inv_def\<close>)
  moreover have "intents_locked rt (intents ls) ((intent_locks ls)(intent_lock_key rt k h \<mapsto> l\<lparr>el_expiry_time := x\<rparr>))"
    by (rule locked_relabel [of rt "intents ls" "intent_locks ls" "intent_lock_key rt k h" l, OF _ l]) (use inv in \<open>simp_all add: escrow_inv_def\<close>)
  ultimately show ?thesis using inv by (simp add: ls' escrow_inv_def)
qed

end
