(* ===== verification/Intent_Invariant.thy ===== *)
theory Intent_Invariant
  imports Escrow_Invariant
begin

text \<open>
  The instructions that open and end intents keep the books of the escrow: signalling, cancelling, pruning, and the two
  settlements. The inversion lemmas \<open>*_Inr\<close> say what a successful run of each step found and changed.
\<close>

subsection \<open>Intents\<close>

lemma signal_context_Inr:
  assumes "signal_context rt ls k args = Inr (oc, e, d, m, c)"
  shows "orchestrator_config ls = Some oc" "escrow_config ls = Some e" "deposits ls k = Some d"
    "d_escrow_config d = escrow_config_key rt"
    "payment_methods ls (payment_method_key rt k (sia_payment_method args)) = Some m" "pm_deposit m = k"
    "deposit_currencies ls (currency_key rt k (sia_payment_method args) (sia_fiat_currency args)) = Some c" "dc_deposit c = k"
  using assms by (auto simp: signal_context_def orchestrator_account_def escrow_account_def result_simps)

lemma signal_checks_Inr:
  assumes "signal_checks rt ls taker accs args oc e d m c tstate = Inr (h, rm, rw)"
  obtains quote entry floor adm where
    "opt_account (oracle_quotes ls) (ska_oracle_quote accs) = Inr quote"
    "opt_account (rate_managers ls) (ska_rate_manager accs) = Inr rm"
    "opt_account (rate_entries ls) (ska_rate_entry accs) = Inr entry"
    "\<not> oc_paused oc" "\<not> ec_paused e" "sia_recipient args \<noteq> 0" "pm_active m" "dc_listed c"
    "validate_referral_fees (sia_referral_fees args) = Inr ()"
    "validate_gating_signature rt (pm_gating_service m) oc (ska_deposit accs) taker args = Inr ()"
    "oc_allow_multiple_intents oc \<or> ts_active_intents tstate = 0"
    "effective_rate rt c quote (d_rate_manager d) rm entry (unix_timestamp rt) = Inr floor"
    "0 < floor" "floor \<le> sia_conversion_rate args"
    "signal_admission ls oc accs taker h args = Inr adm"
    "validate_lifecycle_admission rt adm = Inr ()" "rw = la_risk_window adm"
    "h = derive_intent_hash rt (orchestrator_config_key rt) (oc_next_intent_id oc)"
    "h = sia_expected_intent_hash args"
proof -
  from assms have "h = sia_expected_intent_hash args"
    by (auto simp: signal_checks_def Let_def and_then_Inr require_Inr)
  from assms this [symmetric] show thesis
    by (simp add: signal_checks_def Let_def and_then_Inr require_Inr, elim exE conjE, intro that) (assumption | simp)+
qed

text \<open>What a successful signal does: the intent and its lock are created with the same terms, the liquidity moves
  inside the deposit, the counters advance.\<close>

lemma signal_intent_Inr:
  assumes "handle_signal_intent rt ls taker accs args = Inr ls'"
  obtains oc e d m c h rm rw d' x n nid where
    "signal_context rt ls (ska_deposit accs) args = Inr (oc, e, d, m, c)"
    "signal_checks rt ls taker accs args oc e d m c
       (init_if_needed (taker_states ls (taker_state_key rt taker)) zero_taker_state) = Inr (h, rm, rw)"
    "intents ls (pda rt (intent_seeds rt (oc_next_intent_id oc))) = None"
    "intent_locks ls (intent_lock_key rt (ska_deposit accs) h) = None"
    "Deposit_lock d (sia_amount args) (ec_max_intents_per_deposit e) = Inr d'"
    "checked_sadd (unix_timestamp rt) (ec_intent_expiration_period e) = Some x"
    "checked_add (ts_active_intents (init_if_needed (taker_states ls (taker_state_key rt taker)) zero_taker_state)) 1 = Some n"
    "checked_add (oc_next_intent_id oc) 1 = Some nid"
    "snd (case rm of None \<Rightarrow> (None, 0) | Some (_, m) \<Rightarrow> (rm_fee_recipient m, rm_fee m)) \<le> MAX_FEE"
    "\<exists>t. ts_active_intents t = n \<and> ls' = ls\<lparr>deposits := (deposits ls)(ska_deposit accs \<mapsto> d'),
       intents := (intents ls)(pda rt (intent_seeds rt (oc_next_intent_id oc)) \<mapsto>
         new_intent rt oc taker (ska_deposit accs) m h
           (case rm of None \<Rightarrow> (None, 0) | Some (_, m) \<Rightarrow> (rm_fee_recipient m, rm_fee m))
           (case rw of None \<Rightarrow> False | Some (_, w) \<Rightarrow> sint (rw_seconds w) > 0) args),
       intent_locks := (intent_locks ls)(intent_lock_key rt (ska_deposit accs) h \<mapsto>
         new_intent_lock rt (ska_deposit accs) h (sia_amount args) x),
       taker_states := (taker_states ls)(taker_state_key rt taker \<mapsto> t),
       orchestrator_config := Some (oc\<lparr>oc_next_intent_id := nid\<rparr>)\<rparr>"
proof -
  let ?ts = "init_if_needed (taker_states ls (taker_state_key rt taker)) zero_taker_state"
  from assms obtain oc e d m c where ctx: "signal_context rt ls (ska_deposit accs) args = Inr (oc, e, d, m, c)"
    by (auto simp: handle_signal_intent_def and_then_Inr)
  from assms ctx obtain h rm rw where chk: "signal_checks rt ls taker accs args oc e d m c ?ts = Inr (h, rm, rw)"
    by (auto simp: handle_signal_intent_def Let_def and_then_Inr init_Inr)
  have h: "sia_expected_intent_hash args = h" by (rule signal_checks_Inr [OF chk]) simp
  have active: "ts_active_intents (if b then ?ts\<lparr>ts_orchestrator := o1, ts_taker := t1, ts_bump := b1\<rparr> else ?ts) =
      ts_active_intents ?ts" for b o1 t1 b1 by simp
  from assms show thesis
    by (simp add: handle_signal_intent_def Let_def and_then_Inr init_Inr ctx chk h require_Inr ok_or_Inr active
        del: if_split_asm, elim exE conjE, intro that [OF ctx chk]) (assumption | (rule exI, rule conjI [rotated], erule sym, simp))+
qed

lemma signal_intent_escrow_inv:
  assumes inv: "escrow_inv rt ls" and run: "handle_signal_intent rt ls taker accs args = Inr ls'"
  shows "escrow_inv rt ls'"
proof -
  let ?k = "ska_deposit accs" and ?ts = "init_if_needed (taker_states ls (taker_state_key rt taker)) zero_taker_state"
  from run obtain oc e d m c h rm rw d' x n nid t i where ctx: "signal_context rt ls ?k args = Inr (oc, e, d, m, c)"
      and none: "intents ls (pda rt (intent_seeds rt (oc_next_intent_id oc))) = None"
        "intent_locks ls (intent_lock_key rt ?k h) = None"
      and lock: "Deposit_lock d (sia_amount args) (ec_max_intents_per_deposit e) = Inr d'"
      and n: "checked_add (ts_active_intents ?ts) 1 = Some n" "ts_active_intents t = n"
      and i: "i_owner i = taker" "i_deposit i = ?k" "i_intent_hash i = h" "i_amount i = sia_amount args"
        "i_timestamp i = unix_timestamp rt"
      and ls': "ls' = ls\<lparr>deposits := (deposits ls)(?k \<mapsto> d'),
          intents := (intents ls)(pda rt (intent_seeds rt (oc_next_intent_id oc)) \<mapsto> i),
          intent_locks := (intent_locks ls)(intent_lock_key rt ?k h \<mapsto> new_intent_lock rt ?k h (sia_amount args) x),
          taker_states := (taker_states ls)(taker_state_key rt taker \<mapsto> t),
          orchestrator_config := Some (oc\<lparr>oc_next_intent_id := nid\<rparr>)\<rparr>"
    by (elim signal_intent_Inr exE conjE) (rule that, auto simp: new_intent_def)
  let ?l = "new_intent_lock rt ?k h (sia_amount args) x"
  note d = signal_context_Inr(3) [OF ctx] and moved = Deposit_lock_Inr(4-6,8) [OF lock]
  note same = deposit_moved_fields [OF moved(4)]
  have c: "escrow_custody rt (deposits ls) (tokens ls)" and books: "escrow_books (deposits ls) (intent_locks ls)"
    and locked: "intents_locked rt (intents ls) (intent_locks ls)" and counts: "taker_counts rt (intents ls) (taker_states ls)"
    using inv by (simp_all add: escrow_inv_def)
  have "escrow_custody rt ((deposits ls)(?k \<mapsto> d')) (tokens ls)"
    by (rule custody_same [OF c d]) (use same moved in simp_all)
  moreover have "escrow_books ((deposits ls)(?k \<mapsto> d')) ((intent_locks ls)(intent_lock_key rt ?k h \<mapsto> ?l))"
    using escrow_books_lock [OF books, of ?l d "intent_lock_key rt ?k h" d'] d none(2) moved
    by (simp add: new_intent_lock_def)
  moreover have "intents_locked rt ((intents ls)(pda rt (intent_seeds rt (oc_next_intent_id oc)) \<mapsto> i))
      ((intent_locks ls)(intent_lock_key rt ?k h \<mapsto> ?l))"
    using locked_open [OF locked none(1), of i ?l] none(2) i
    by (simp add: lock_addr_def locks_intent_def new_intent_lock_def)
  moreover have "taker_counts rt ((intents ls)(pda rt (intent_seeds rt (oc_next_intent_id oc)) \<mapsto> i))
      ((taker_states ls)(taker_state_key rt taker \<mapsto> t))"
  proof -
    have "unat (ts_active_intents t) = at (\<lambda>t. unat (ts_active_intents t)) (taker_states ls) (taker_state_key rt taker) + 1"
      using n by (cases "taker_states ls (taker_state_key rt taker)") (simp_all add: at_def checked_simps zero_taker_state_def)
    with counts_open [OF counts none(1), of t i] i(1) show ?thesis by simp
  qed
  ultimately show ?thesis by (simp add: ls' escrow_inv_def)
qed

lemma ending_context_Inr:
  assumes "ending_context rt ls ik = Inr (i, d, l, t)"
  shows "intents ls ik = Some i" "deposits ls (i_deposit i) = Some d" "intent_locks ls (lock_addr rt i) = Some l"
    "taker_states ls (taker_state_key rt (i_owner i)) = Some t"
  using assms by (auto simp: ending_context_def lock_addr_def orchestrator_account_def result_simps)

text \<open>Ending an intent, whether its liquidity returns to the deposit or is paid out.\<close>

lemma close_intent_inv:
  assumes inv: "escrow_inv rt ls" and i: "intents ls ik = Some i" and d: "deposits ls (i_deposit i) = Some d"
    and l: "intent_locks ls (lock_addr rt i) = Some l" and t: "taker_states ls (taker_state_key rt (i_owner i)) = Some t"
    and c: "escrow_custody rt ((deposits ls)(i_deposit i \<mapsto> d')) ts"
    and d': "deposit_held d = deposit_held d' + unat (el_amount l)" "active d = active d' + 1"
    and n: "checked_sub (ts_active_intents t) 1 = Some n"
  shows "escrow_inv rt (ls\<lparr>deposits := (deposits ls)(i_deposit i \<mapsto> d'),
      taker_states := (taker_states ls)(taker_state_key rt (i_owner i) \<mapsto> t\<lparr>ts_active_intents := n\<rparr>),
      intents := (intents ls)(ik := None), intent_locks := (intent_locks ls)(lock_addr rt i := None), tokens := ts\<rparr>)"
proof -
  have books: "escrow_books (deposits ls) (intent_locks ls)"
    and locked: "intents_locked rt (intents ls) (intent_locks ls)" and counts: "taker_counts rt (intents ls) (taker_states ls)"
    using inv by (simp_all add: escrow_inv_def)
  have el: "el_deposit l = i_deposit i" using lockedD [OF locked i l] by (simp add: locks_intent_def)
  have "escrow_books ((deposits ls)(i_deposit i \<mapsto> d')) ((intent_locks ls)(lock_addr rt i := None))"
    using escrow_books_unlock [OF books l, of d d'] d d' by (simp add: el)
  moreover have "taker_counts rt ((intents ls)(ik := None))
      ((taker_states ls)(taker_state_key rt (i_owner i) \<mapsto> t\<lparr>ts_active_intents := n\<rparr>))"
    by (rule counts_close [OF counts i t]) (use n in \<open>simp add: checked_simps\<close>)
  ultimately show ?thesis using locked_close [OF locked i] c by (simp add: escrow_inv_def)
qed

lemma end_intent_escrow_inv:
  assumes inv: "escrow_inv rt ls" and i: "intents ls ik = Some i" and d: "deposits ls (i_deposit i) = Some d"
    and l: "intent_locks ls (lock_addr rt i) = Some l" and t: "taker_states ls (taker_state_key rt (i_owner i)) = Some t"
    and run: "end_intent rt ls ik i d l t = Inr ls'"
  shows "escrow_inv rt ls'"
proof -
  from run obtain d' n where u: "Deposit_unlock d (el_amount l) = Inr d'" and n: "checked_sub (ts_active_intents t) 1 = Some n"
      and ls': "ls' = ls\<lparr>deposits := (deposits ls)(i_deposit i \<mapsto> d'),
      taker_states := (taker_states ls)(taker_state_key rt (i_owner i) \<mapsto> t\<lparr>ts_active_intents := n\<rparr>),
      intents := (intents ls)(ik := None), intent_locks := (intent_locks ls)(lock_addr rt i := None)\<rparr>"
    by (auto simp: end_intent_def lock_addr_def result_simps)
  note moved = Deposit_unlock_Inr [OF u]
  have "escrow_custody rt ((deposits ls)(i_deposit i \<mapsto> d')) (tokens ls)"
    by (rule custody_same [of rt "deposits ls" "tokens ls" "i_deposit i" d, OF _ d])
      (use inv moved deposit_moved_fields [OF moved(4)] in \<open>simp_all add: escrow_inv_def\<close>)
  from close_intent_inv [OF inv i d l t this moved(1,3) n] show ?thesis by (simp add: ls')
qed

lemma cancel_intent_escrow_inv:
  assumes inv: "escrow_inv rt ls" and run: "handle_cancel_intent rt ls owner ik dispute = Inr ls'"
  shows "escrow_inv rt ls'"
proof -
  from run obtain i d l t where ctx: "ending_context rt ls ik = Inr (i, d, l, t)"
      and e: "end_intent rt ls ik i d l t = Inr ls'"
    by (auto simp: handle_cancel_intent_def result_simps split: if_splits)
  from ending_context_Inr [OF ctx] e show ?thesis by (rule end_intent_escrow_inv [OF inv])
qed

text \<open>Releasing collateral first does not touch what the escrow's books read.\<close>

lemma escrow_inv_cong:
  assumes "deposits ls' = deposits ls" "intents ls' = intents ls" "intent_locks ls' = intent_locks ls"
    "taker_states ls' = taker_states ls" "tokens ls' = tokens ls"
  shows "escrow_inv rt ls' = escrow_inv rt ls"
  using assms by (simp add: escrow_inv_def)

lemma prune_dispute_Inr:
  assumes "prune_dispute rt ls h config di vault pos lk = Inr ls'"
  obtains dk d' pk p' lkey where
    "ls' = ls\<lparr>dispute_intents := (dispute_intents ls)(dk \<mapsto> d'), stake_positions := (stake_positions ls)(pk \<mapsto> p'),
       stake_locks := (stake_locks ls)(lkey := None)\<rparr>"
  using assms by (auto simp: prune_dispute_def result_simps)

lemma prune_expired_intent_escrow_inv:
  assumes inv: "escrow_inv rt ls" and run: "handle_prune_expired_intent rt ls ik accs = Inr ls'"
  shows "escrow_inv rt ls'"
proof -
  from run obtain i d l t ls1 config di vault pos lk where ctx: "ending_context rt ls ik = Inr (i, d, l, t)"
      and mid: "(if i_dispute_covered i then prune_dispute rt ls (i_intent_hash i) config di vault pos lk
               else require (config = None \<and> di = None \<and> vault = None \<and> pos = None \<and> lk = None) Unauthorized (Inr ls)) = Inr ls1"
      and e: "end_intent rt ls1 ik i d l t = Inr ls'"
    by (simp add: handle_prune_expired_intent_def split_paired_Ex and_then_Inr require_Inr, elim exE conjE, blast)
  have same: "deposits ls1 = deposits ls" "intents ls1 = intents ls" "intent_locks ls1 = intent_locks ls"
    "taker_states ls1 = taker_states ls" "tokens ls1 = tokens ls"
    using mid by (auto simp: require_Inr split: if_splits elim!: prune_dispute_Inr)
  note c = ending_context_Inr [OF ctx]
  have "escrow_inv rt ls1" using inv escrow_inv_cong [OF same] by simp
  from end_intent_escrow_inv [OF this _ _ _ _ e] c show ?thesis by (simp add: same)
qed

subsection \<open>Settlement\<close>

lemma custody_drained:
  assumes c: "escrow_custody rt ds ts" and d: "ds k = Some d" and dr: "drained ts ts' (deposit_vault_key rt k) a"
    and same: "d_id d' = d_id d" "d_escrow_config d' = d_escrow_config d"
      "d_depositor d' = d_depositor d" "d_token_mint d' = d_token_mint d"
    and less: "deposit_avail d' + deposit_held d' + a \<le> deposit_avail d + deposit_held d"
  shows "escrow_custody rt (ds(k \<mapsto> d')) ts'"
proof (rule custody_put [OF c])
  from custodyD [OF c d] obtain t where k: "k = pda rt (deposit_seeds (escrow_config_key rt) (d_id d))"
      "d_escrow_config d = escrow_config_key rt" "d_depositor d \<noteq> 0"
    and t: "ts (deposit_vault_key rt k) = Some t" "tk_owner t = k" "tk_mint t = d_token_mint d"
      "deposit_avail d + deposit_held d \<le> unat (tk_amount t)" .
  from drainedD [OF dr] t(1) obtain b where "ts' (deposit_vault_key rt k) = Some (t\<lparr>tk_amount := b\<rparr>)"
      "unat (tk_amount t) = unat b + a" by (metis option.inject)
  with k t same less show "deposit_backed rt ts' k d'" unfolding deposit_backed_def by simp
  show "token_grows ts ts' (deposit_vault_key rt j)" if "j \<noteq> k" "ds j = Some e" for j e
    using drained_grows [OF dr] custody_vault_inj [OF c d that(2)] that(1) by metis
qed

lemma settlement_context_Inr:
  assumes "settlement_context rt ls ik = Inr (oc, i, d, l, t)"
  shows "intents ls ik = Some i" "deposits ls (i_deposit i) = Some d" "intent_locks ls (lock_addr rt i) = Some l"
    "taker_states ls (taker_state_key rt (i_owner i)) = Some t" "orchestrator_config ls = Some oc"
  using assms by (auto simp: settlement_context_def lock_addr_def orchestrator_account_def result_simps)

lemma settle_dispute_uncovered:
  "settle_dispute_if_covered rt ls i accs a = Inr ls' \<Longrightarrow> \<not> i_dispute_covered i \<Longrightarrow> ls' = ls"
  by (auto simp: settle_dispute_if_covered_def result_simps)

lemma opt_account_Some [result_simps]: "opt_account m key = Inr (Some (k, v)) \<longleftrightarrow> key = Some k \<and> m k = Some v"
  by (cases key) (auto simp: opt_account_def result_simps)

lemma settle_dispute_covered:
  assumes run: "settle_dispute_if_covered rt ls i accs a = Inr ls'" and cov: "i_dispute_covered i"
  obtains dis v p l dis' m u p' where
    "dispute_intents ls (pda rt (dispute_intent_seeds (dispute_config_key rt) (i_intent_hash i))) = Some dis"
    "stake_vault_config ls = Some v"
    "stake_positions ls (position_key rt (di_stake_owner dis)) = Some p"
    "stake_locks ls (stake_lock_key rt (i_intent_hash i)) = Some l"
    "di_intent_hash dis = i_intent_hash i" "di_deposit dis = i_deposit i" "di_taker dis = i_owner i"
    "sl_stake_owner l = sp_owner p" "a \<le> sl_amount l"
    "DisputeIntent_settle dis a (unix_timestamp rt) = Inr (dis', m)"
    "checked_sub (sl_amount l) a = Some u" "(if u > 0 then StakePosition_unlock p u else Inr p) = Inr p'"
    "ls' = ls\<lparr>dispute_intents := (dispute_intents ls)
              (pda rt (dispute_intent_seeds (dispute_config_key rt) (i_intent_hash i)) \<mapsto> dis'),
            stake_positions := (stake_positions ls)(position_key rt (di_stake_owner dis) \<mapsto> p'),
            stake_locks := (stake_locks ls)(stake_lock_key rt (i_intent_hash i) \<mapsto>
              l\<lparr>sl_amount := a, sl_matures_at := m\<rparr>)\<rparr>"
proof -
  from run cov obtain dk dis v pk p lk l dis' m u p' where facts:
      "dispute_intents ls dk = Some dis" "stake_positions ls pk = Some p" "stake_locks ls lk = Some l"
      "opt_singleton (sdd_stake_vault accs) (account (stake_vault_config ls)) = Inr (Some v)"
      "di_dispute_config dis = dispute_config_key rt"
      "dk = pda rt (dispute_intent_seeds (di_dispute_config dis) (i_intent_hash i))"
      "pk = position_key rt (di_stake_owner dis)" "lk = stake_lock_key rt (i_intent_hash i)"
      "di_intent_hash dis = i_intent_hash i" "di_deposit dis = i_deposit i" "di_taker dis = i_owner i"
      "sl_stake_owner l = sp_owner p" "a \<le> sl_amount l"
      "DisputeIntent_settle dis a (unix_timestamp rt) = Inr (dis', m)"
      "checked_sub (sl_amount l) a = Some u" "(if u > 0 then StakePosition_unlock p u else Inr p) = Inr p'"
      "ls' = ls\<lparr>dispute_intents := (dispute_intents ls)(dk \<mapsto> dis'),
            stake_positions := (stake_positions ls)(pk \<mapsto> p'),
            stake_locks := (stake_locks ls)(lk \<mapsto> l\<lparr>sl_amount := a, sl_matures_at := m\<rparr>)\<rparr>"
    by (simp only: settle_dispute_if_covered_def if_False not_True_eq_False and_then_Inr require_Inr ok_or_Inr split_paired_Ex
        prod.case opt_account_Some) (elim exE conjE, simp only: option.inject prod.inject prod.case opt_account_Some require_Inr
        and_then_Inr ok_or_Inr split_paired_Ex, elim exE conjE, blast)
  from facts(4) have "stake_vault_config ls = Some v" by (auto simp: opt_singleton_def result_simps split: if_splits)
  with facts show thesis by (intro that) simp_all
qed

lemma settle_dispute_if_covered_frame:
  assumes run: "settle_dispute_if_covered rt ls i accs a = Inr ls'"
  shows "ls' = ls\<lparr>dispute_intents := dispute_intents ls', stake_positions := stake_positions ls', stake_locks := stake_locks ls'\<rparr>"
proof (cases "i_dispute_covered i")
  case True
  from run True show ?thesis by (rule settle_dispute_covered) simp
next
  case False
  from settle_dispute_uncovered [OF run False] show ?thesis by simp
qed

lemma settle_intent_Inr:
  assumes "settle_intent rt ls ik oc i d l t taccs daccs rem a = Inr ls'"
  obtains ls1 d' ts n where "settle_dispute_if_covered rt ls i daccs a = Inr ls1"
    "Deposit_settle d (el_amount l) a = Inr d'"
    "distribute_funds rt ls1 i oc (i_deposit i) d' taccs rem a = Inr ts" "checked_sub (ts_active_intents t) 1 = Some n"
    "ls' = ls1\<lparr>deposits := (deposits ls1)(i_deposit i \<mapsto> d'),
      taker_states := (taker_states ls1)(taker_state_key rt (i_owner i) \<mapsto> t\<lparr>ts_active_intents := n\<rparr>),
      intents := (intents ls1)(ik := None), intent_locks := (intent_locks ls1)(lock_addr rt i := None), tokens := ts\<rparr>"
  using assms by (auto simp: settle_intent_def lock_addr_def and_then_Inr ok_or_Inr)

lemma settle_intent_escrow_inv:
  assumes inv: "escrow_inv rt ls" and laws: "token_laws rt" and ctx: "settlement_context rt ls ik = Inr (oc, i, d, l, t)"
    and run: "settle_intent rt ls ik oc i d l t taccs daccs rem a = Inr ls'"
  shows "escrow_inv rt ls'"
proof -
  from run obtain ls1 d' ts n where dis: "settle_dispute_if_covered rt ls i daccs a = Inr ls1"
      and set: "Deposit_settle d (el_amount l) a = Inr d'"
      and fund: "distribute_funds rt ls1 i oc (i_deposit i) d' taccs rem a = Inr ts"
      and n: "checked_sub (ts_active_intents t) 1 = Some n"
      and ls': "ls' = ls1\<lparr>deposits := (deposits ls1)(i_deposit i \<mapsto> d'),
        taker_states := (taker_states ls1)(taker_state_key rt (i_owner i) \<mapsto> t\<lparr>ts_active_intents := n\<rparr>),
        intents := (intents ls1)(ik := None), intent_locks := (intent_locks ls1)(lock_addr rt i := None), tokens := ts\<rparr>"
    by (rule settle_intent_Inr)
  have same: "deposits ls1 = deposits ls" "intents ls1 = intents ls" "intent_locks ls1 = intent_locks ls"
    "taker_states ls1 = taker_states ls" "tokens ls1 = tokens ls"
    by (subst settle_dispute_if_covered_frame [OF dis], simp)+
  have inv1: "escrow_inv rt ls1" using inv escrow_inv_cong [OF same] by simp
  note moved = Deposit_settle_Inr [OF set] and c = settlement_context_Inr [OF ctx]
  have "escrow_custody rt ((deposits ls1)(i_deposit i \<mapsto> d')) ts"
  proof (rule custody_drained)
    show "escrow_custody rt (deposits ls1) (tokens ls1)" using inv1 by (simp add: escrow_inv_def)
    show "deposits ls1 (i_deposit i) = Some d" using c(2) by (simp add: same)
    show "drained (tokens ls1) ts (deposit_vault_key rt (i_deposit i)) (unat a)"
      using distribute_funds_moves [OF laws fund] by blast
    show "deposit_avail d' + deposit_held d' + unat a \<le> deposit_avail d + deposit_held d" using moved(3,4) by simp
  qed (use deposit_moved_fields [OF moved(6)] in simp_all)
  from close_intent_inv [OF inv1 _ _ _ _ this moved(3,5) n] c show ?thesis by (simp add: ls' same)
qed

text \<open>The two bindings that a fulfilment writes last.\<close>

abbreviation bind_payment :: "runtime \<Rightarrow> ledger \<Rightarrow> Intent \<Rightarrow> bytes32 \<Rightarrow> ledger" where
  "bind_payment rt ls i nullifier \<equiv> ls\<lparr>
     payment_bindings := (payment_bindings ls)(pda rt (payment_binding_seeds rt nullifier) \<mapsto>
       \<lparr>pb_verifier = verifier_config_key rt, pb_nullifier = nullifier, pb_intent_hash = i_intent_hash i,
        pb_bump = pda_bump rt (payment_binding_seeds rt nullifier)\<rparr>),
     intent_payment_bindings := (intent_payment_bindings ls)(pda rt (intent_payment_binding_seeds rt (i_intent_hash i)) \<mapsto>
       \<lparr>ib_verifier = verifier_config_key rt, ib_intent_hash = i_intent_hash i, ib_nullifier = nullifier,
        ib_bump = pda_bump rt (intent_payment_binding_seeds rt (i_intent_hash i))\<rparr>)\<rparr>"

lemma fulfill_intent_Inr:
  assumes "handle_fulfill_intent rt ls ik taccs daccs rem args = Inr ls'"
  obtains oc i d l t v nullifier ls1 where "settlement_context rt ls ik = Inr (oc, i, d, l, t)"
    "\<not> oc_paused oc" "verifier_config ls = Some v" "i_intent_hash i = pa_intent_hash (fia_attestation args)"
    "payment_bindings ls (pda rt (payment_binding_seeds rt nullifier)) = None"
    "intent_payment_bindings ls (pda rt (intent_payment_binding_seeds rt (i_intent_hash i))) = None"
    "verify_payment_attestation rt (verifier_config_key rt) v i (fia_attestation args) = Inr nullifier"
    "settle_intent rt ls ik oc i d l t taccs daccs rem (min (pa_release_amount (fia_attestation args)) (i_amount i)) = Inr ls1"
    "ls' = bind_payment rt ls1 i nullifier"
proof -
  from assms have n: "verify_payment_attestation rt (verifier_config_key rt) v i (fia_attestation args) = Inr n \<Longrightarrow>
      settlement_context rt ls ik = Inr (oc, i, d, l, t) \<Longrightarrow> verifier_config ls = Some v \<Longrightarrow>
      fia_expected_nullifier args = n" for oc i d l t v n
    by (auto simp: handle_fulfill_intent_def Let_def result_simps)
  from assms obtain oc i d l t where ctx: "settlement_context rt ls ik = Inr (oc, i, d, l, t)"
    by (auto simp: handle_fulfill_intent_def and_then_Inr)
  from assms ctx obtain v m where v: "verifier_config ls = Some v"
      "verify_payment_attestation rt (verifier_config_key rt) v i (fia_attestation args) = Inr m"
    by (auto simp: handle_fulfill_intent_def Let_def result_simps)
  note m = n [OF v(2) ctx v(1)]
  from assms ctx v m show thesis
    by (simp add: handle_fulfill_intent_def Let_def and_then_Inr require_Inr account_Inr seeds_bump_Inr init_Inr,
        elim exE conjE, intro that [OF ctx _ v(1) _ _ _ v(2)]) (assumption | simp)+
qed

lemma fulfill_intent_escrow_inv:
  assumes inv: "escrow_inv rt ls" and laws: "token_laws rt"
    and run: "handle_fulfill_intent rt ls ik taccs daccs rem args = Inr ls'"
  shows "escrow_inv rt ls'"
  using run
proof (rule fulfill_intent_Inr)
  fix oc i d l t v n ls1
  assume "settlement_context rt ls ik = Inr (oc, i, d, l, t)"
    and "settle_intent rt ls ik oc i d l t taccs daccs rem (min (pa_release_amount (fia_attestation args)) (i_amount i)) = Inr ls1"
  then have "escrow_inv rt ls1" by (rule settle_intent_escrow_inv [OF inv laws])
  moreover assume "ls' = bind_payment rt ls1 i n"
  ultimately show "escrow_inv rt ls'" by (simp add: escrow_inv_def)
qed

lemma manual_release_escrow_inv:
  assumes inv: "escrow_inv rt ls" and laws: "token_laws rt"
    and run: "handle_manual_release rt ls depositor ik taccs daccs rem = Inr ls'"
  shows "escrow_inv rt ls'"
proof -
  from run obtain oc i d l t where "settlement_context rt ls ik = Inr (oc, i, d, l, t)"
      and "settle_intent rt ls ik oc i d l t taccs daccs rem (i_amount i) = Inr ls'"
    by (auto simp: handle_manual_release_def result_simps)
  then show ?thesis by (rule settle_intent_escrow_inv [OF inv laws])
qed

end
