(* ===== verification/Dispute_Invariant.thy ===== *)
theory Dispute_Invariant
  imports Stake_Invariant Intent_Invariant
begin

text \<open>
  The instructions that move dispute collateral keep the books of the stake vault: preparing, cancelling, pruning,
  settling, releasing and resolving a dispute. Releasing is the one instruction whose context does not compare the owner
  of the lock with the owner recorded in the dispute, so its lemma needs that equality.
\<close>

lemma dispute_config_account_Inr [result_simps]:
  "dispute_config_account rt ls = Inr c \<longleftrightarrow> dispute_config ls = Some c \<and> dg_bump c = pda_bump rt [DISPUTE_CONFIG_SEED]"
  by (auto simp: dispute_config_account_def result_simps)

text \<open>A lock whose owner is the owner of a position belongs to that position.\<close>

lemma lock_position:
  assumes "stake_books rt v ps lks cs" and "ps k = Some p" and "sl_stake_owner l = sp_owner p"
  shows "position_key rt (sl_stake_owner l) = k"
  using assms by (auto simp: stake_books_def)

lemma stake_invE:
  assumes "stake_inv rt ls" and "stake_vault_config ls = Some v"
  obtains "stake_books rt v (stake_positions ls) (stake_locks ls) (claim_balances ls)" "vault_covered rt v (tokens ls)"
  using assms by (simp add: stake_inv_Some)

lemma lock_on_position:
  "stake_inv rt ls \<Longrightarrow> stake_vault_config ls = Some v \<Longrightarrow> stake_positions ls k = Some p \<Longrightarrow>
     sl_stake_owner l = sp_owner p \<Longrightarrow> position_key rt (sl_stake_owner l) = k"
  by (auto simp: stake_inv_Some stake_books_def)

lemma unlock_stake_inv:
  assumes inv: "stake_inv rt ls" and v: "stake_vault_config ls = Some v"
    and p: "stake_positions ls k = Some p" and l: "stake_locks ls j = Some l"
    and k: "position_key rt (sl_stake_owner l) = k" and u: "StakePosition_unlock p (sl_amount l) = Inr p'"
  shows "stake_inv rt (ls\<lparr>dispute_intents := di, stake_positions := (stake_positions ls)(k \<mapsto> p'),
    stake_locks := (stake_locks ls)(j := None)\<rparr>)"
  using inv v
proof (rule stake_invE)
  assume books: "stake_books rt v (stake_positions ls) (stake_locks ls) (claim_balances ls)"
    and cov: "vault_covered rt v (tokens ls)"
  from p have "stake_positions ls (position_key rt (sl_stake_owner l)) = Some p" by (simp add: k)
  from books_unlock [OF books this l u] cov v show ?thesis by (simp add: stake_inv_def k)
qed

subsection \<open>Preparing\<close>

lemma prepare_dispute_Inr:
  assumes "handle_prepare_dispute rt ls taker k setting sel so args = Inr ls'"
  obtains oc config d ds risk selected p p' v where
    "prepare_context rt ls taker k setting sel so args = Inr (oc, config, d, ds, risk, selected, p)"
    "stake_vault_config ls = Some v" "sv_controller v = dispute_config_key rt" "deposits ls k = Some d"
    "stake_positions ls (position_key rt so) = Some p" "sp_owner p = so"
    "stake_locks ls (stake_lock_key rt (pda_expected_intent_hash args)) = None"
    "dispute_intents ls (pda rt (dispute_intent_seeds (dispute_config_key rt) (pda_expected_intent_hash args))) = None"
    "StakePosition_lock p (pda_amount args) = Inr p'"
    "ls' = ls\<lparr>stake_positions := (stake_positions ls)(position_key rt so \<mapsto> p'),
       stake_locks := (stake_locks ls)(stake_lock_key rt (pda_expected_intent_hash args) \<mapsto>
         new_stake_lock rt (pda_expected_intent_hash args) so (pda_amount args) NEVER_MATURES),
       dispute_intents := (dispute_intents ls)
         (pda rt (dispute_intent_seeds (dispute_config_key rt) (pda_expected_intent_hash args)) \<mapsto>
           new_dispute_intent rt taker k d so (rw_seconds risk) args)\<rparr>"
proof -
  from assms obtain oc config d ds risk selected p
    where ctx: "prepare_context rt ls taker k setting sel so args = Inr (oc, config, d, ds, risk, selected, p)"
    by (auto simp: handle_prepare_dispute_def and_then_Inr)
  from ctx obtain v where v: "stake_vault_config ls = Some v" "sv_controller v = dispute_config_key rt"
      and d: "deposits ls k = Some d" "stake_positions ls (position_key rt so) = Some p" "sp_owner p = so"
    by (auto simp: prepare_context_def orchestrator_account_def result_simps)
  from assms have so: "(case Option.bind selected ss_selected_owner of None \<Rightarrow> taker | Some k \<Rightarrow> k) = so"
    by (simp add: handle_prepare_dispute_def Let_def and_then_Inr init_Inr require_Inr ctx)
  from assms show thesis
    by (simp add: handle_prepare_dispute_def Let_def and_then_Inr init_Inr require_Inr ctx so, elim exE conjE,
        intro that [OF ctx v d]) (assumption | simp)+
qed

lemma prepare_dispute_stake_inv:
  assumes inv: "stake_inv rt ls" and run: "handle_prepare_dispute rt ls taker k setting sel so args = Inr ls'"
  shows "stake_inv rt ls'"
  using run
proof (rule prepare_dispute_Inr)
  fix oc config d ds risk selected p p' v
  let ?l = "new_stake_lock rt (pda_expected_intent_hash args) so (pda_amount args) NEVER_MATURES"
  let ?j = "stake_lock_key rt (pda_expected_intent_hash args)"
  assume v: "stake_vault_config ls = Some v" and p: "stake_positions ls (position_key rt so) = Some p"
    and none: "stake_locks ls ?j = None" and lock: "StakePosition_lock p (pda_amount args) = Inr p'"
    and ls': "ls' = ls\<lparr>stake_positions := (stake_positions ls)(position_key rt so \<mapsto> p'),
       stake_locks := (stake_locks ls)(?j \<mapsto> ?l),
       dispute_intents := (dispute_intents ls)
         (pda rt (dispute_intent_seeds (dispute_config_key rt) (pda_expected_intent_hash args)) \<mapsto>
           new_dispute_intent rt taker k d so (rw_seconds risk) args)\<rparr>"
  from inv v show ?thesis
  proof (rule stake_invE)
    assume books: "stake_books rt v (stake_positions ls) (stake_locks ls) (claim_balances ls)"
      and cov: "vault_covered rt v (tokens ls)"
    have "stake_books rt v ((stake_positions ls)(position_key rt (sl_stake_owner ?l) \<mapsto> p')) ((stake_locks ls)(?j \<mapsto> ?l))
        (claim_balances ls)"
      by (rule books_lock [OF books _ lock]) (use p none in \<open>simp_all add: new_stake_lock_def at_def\<close>)
    with cov v show ?thesis by (simp add: ls' stake_inv_def new_stake_lock_def)
  qed
qed

subsection \<open>Cancelling and pruning\<close>

lemma cancel_dispute_Inr:
  assumes "handle_cancel_dispute rt ls owner ik dk = Inr ls'"
  obtains i v dis p l dis' p' where "intents ls ik = Some i" "owner = i_owner i" "stake_vault_config ls = Some v"
    "dispute_intents ls dk = Some dis" "stake_positions ls (position_key rt (di_stake_owner dis)) = Some p"
    "stake_locks ls (stake_lock_key rt (i_intent_hash i)) = Some l" "sl_stake_owner l = sp_owner p"
    "di_intent_hash dis = i_intent_hash i" "DisputeIntent_cancel dis = Inr dis'"
    "StakePosition_unlock p (sl_amount l) = Inr p'"
    "ls' = ls\<lparr>dispute_intents := (dispute_intents ls)(dk \<mapsto> dis'),
       stake_positions := (stake_positions ls)(position_key rt (di_stake_owner dis) \<mapsto> p'),
       stake_locks := (stake_locks ls)(stake_lock_key rt (i_intent_hash i) := None)\<rparr>"
  using assms by (simp add: handle_cancel_dispute_def and_then_Inr account_Inr vault_account_Inr constraint_Inr seeds_bump_Inr
      require_Inr, elim exE conjE, blast)

lemma cancel_dispute_stake_inv:
  assumes inv: "stake_inv rt ls" and run: "handle_cancel_dispute rt ls owner ik dk = Inr ls'"
  shows "stake_inv rt ls'"
  using run
proof (rule cancel_dispute_Inr)
  fix i v dis p l dis' p'
  assume v: "stake_vault_config ls = Some v" and p: "stake_positions ls (position_key rt (di_stake_owner dis)) = Some p"
    and l: "stake_locks ls (stake_lock_key rt (i_intent_hash i)) = Some l" and o: "sl_stake_owner l = sp_owner p"
    and u: "StakePosition_unlock p (sl_amount l) = Inr p'"
    and ls': "ls' = ls\<lparr>dispute_intents := (dispute_intents ls)(dk \<mapsto> dis'),
       stake_positions := (stake_positions ls)(position_key rt (di_stake_owner dis) \<mapsto> p'),
       stake_locks := (stake_locks ls)(stake_lock_key rt (i_intent_hash i) := None)\<rparr>"
  from inv v have "position_key rt (sl_stake_owner l) = position_key rt (di_stake_owner dis)"
    using p o by (rule lock_on_position)
  from unlock_stake_inv [OF inv v p l this u] show ?thesis unfolding ls' .
qed

lemma prune_dispute_full:
  assumes "prune_dispute rt ls h config di vault pos lk = Inr ls'"
  obtains dis p l dis' p' pk where "di = Some (pda rt (dispute_intent_seeds (dispute_config_key rt) h), dis)"
    "pos = Some (pk, p)" "pk = position_key rt (di_stake_owner dis)" "lk = Some (stake_lock_key rt h, l)"
    "sl_stake_owner l = sp_owner p" "DisputeIntent_cancel dis = Inr dis'" "StakePosition_unlock p (sl_amount l) = Inr p'"
    "vault \<noteq> None"
    "ls' = ls\<lparr>dispute_intents := (dispute_intents ls)(pda rt (dispute_intent_seeds (dispute_config_key rt) h) \<mapsto> dis'),
       stake_positions := (stake_positions ls)(pk \<mapsto> p'), stake_locks := (stake_locks ls)(stake_lock_key rt h := None)\<rparr>"
proof -
  from assms show thesis
    by (simp add: prune_dispute_def split_paired_Ex and_then_Inr require_Inr ok_or_Inr, elim exE conjE, intro that)
      (assumption | simp)+
qed

lemma opt_singleton_Some: "opt_singleton b r = Inr (Some v) \<longleftrightarrow> b \<and> r = Inr v"
  by (auto simp: opt_singleton_def result_simps)

lemma prune_expired_intent_Inr:
  assumes "handle_prune_expired_intent rt ls ik accs = Inr ls'"
  obtains i d l t ls1 config di vault pos lk where "ending_context rt ls ik = Inr (i, d, l, t)"
    "opt_account (dispute_intents ls) (pda_dispute_intent accs) = Inr di"
    "opt_singleton (pda_stake_vault accs) (vault_account rt ls) = Inr vault"
    "opt_account (stake_positions ls) (pda_stake_position accs) = Inr pos"
    "opt_account (stake_locks ls) (pda_stake_lock accs) = Inr lk"
    "sint (unix_timestamp rt) > sint (el_expiry_time l)"
    "(if i_dispute_covered i then prune_dispute rt ls (i_intent_hash i) config di vault pos lk
      else require (config = None \<and> di = None \<and> vault = None \<and> pos = None \<and> lk = None) Unauthorized (Inr ls)) = Inr ls1"
    "end_intent rt ls1 ik i d l t = Inr ls'"
  using assms by (simp add: handle_prune_expired_intent_def split_paired_Ex and_then_Inr require_Inr, elim exE conjE, blast)

lemma end_intent_frame:
  assumes "end_intent rt ls ik i d l t = Inr ls'"
  obtains ds tss ints lks where "ls' = ls\<lparr>deposits := ds, taker_states := tss, intents := ints, intent_locks := lks\<rparr>"
  using assms by (auto simp: end_intent_def result_simps)

lemma prune_expired_intent_stake_inv:
  assumes inv: "stake_inv rt ls" and run: "handle_prune_expired_intent rt ls ik accs = Inr ls'"
  shows "stake_inv rt ls'"
  using run
proof (rule prune_expired_intent_Inr)
  fix i d l t ls1 config di vault pos lk
  assume di: "opt_account (dispute_intents ls) (pda_dispute_intent accs) = Inr di"
    and vault: "opt_singleton (pda_stake_vault accs) (vault_account rt ls) = Inr vault"
    and pos: "opt_account (stake_positions ls) (pda_stake_position accs) = Inr pos"
    and lk: "opt_account (stake_locks ls) (pda_stake_lock accs) = Inr lk"
    and mid: "(if i_dispute_covered i then prune_dispute rt ls (i_intent_hash i) config di vault pos lk
      else require (config = None \<and> di = None \<and> vault = None \<and> pos = None \<and> lk = None) Unauthorized (Inr ls)) = Inr ls1"
    and e: "end_intent rt ls1 ik i d l t = Inr ls'"
  have "stake_inv rt ls1"
  proof (cases "i_dispute_covered i")
    case False
    with mid inv show ?thesis by (simp add: require_Inr)
  next
    case True
    with mid have "prune_dispute rt ls (i_intent_hash i) config di vault pos lk = Inr ls1" by simp
    then show ?thesis
    proof (rule prune_dispute_full)
      fix dis p l dis' p' pk
      assume "pos = Some (pk, p)" "lk = Some (stake_lock_key rt (i_intent_hash i), l)" "vault \<noteq> None"
        and o: "sl_stake_owner l = sp_owner p" and u: "StakePosition_unlock p (sl_amount l) = Inr p'"
        and ls1: "ls1 = ls\<lparr>dispute_intents := (dispute_intents ls)
            (pda rt (dispute_intent_seeds (dispute_config_key rt) (i_intent_hash i)) \<mapsto> dis'),
          stake_positions := (stake_positions ls)(pk \<mapsto> p'),
          stake_locks := (stake_locks ls)(stake_lock_key rt (i_intent_hash i) := None)\<rparr>"
      with vault pos lk obtain v where v: "stake_vault_config ls = Some v"
          and p: "stake_positions ls pk = Some p" and l: "stake_locks ls (stake_lock_key rt (i_intent_hash i)) = Some l"
        by (auto simp: opt_account_Some opt_singleton_Some result_simps)
      from inv v have "position_key rt (sl_stake_owner l) = pk" using p o by (rule lock_on_position)
      from unlock_stake_inv [OF inv v p l this u] show ?thesis unfolding ls1 .
    qed
  qed
  with e show ?thesis by (auto elim!: end_intent_frame simp: stake_inv_def)
qed

subsection \<open>Settling\<close>

lemma settle_dispute_stake_inv:
  assumes inv: "stake_inv rt ls" and run: "settle_dispute_if_covered rt ls i accs a = Inr ls'"
  shows "stake_inv rt ls'"
proof (cases "i_dispute_covered i")
  case False
  with settle_dispute_uncovered [OF run] inv show ?thesis by simp
next
  case True
  with run show ?thesis
  proof (rule settle_dispute_covered)
    fix dis v p l dis' m u p'
    assume v: "stake_vault_config ls = Some v" and p: "stake_positions ls (position_key rt (di_stake_owner dis)) = Some p"
      and l: "stake_locks ls (stake_lock_key rt (i_intent_hash i)) = Some l" and o: "sl_stake_owner l = sp_owner p"
      and u: "checked_sub (sl_amount l) a = Some u" "(if u > 0 then StakePosition_unlock p u else Inr p) = Inr p'"
      and ls': "ls' = ls\<lparr>dispute_intents := (dispute_intents ls)
              (pda rt (dispute_intent_seeds (dispute_config_key rt) (i_intent_hash i)) \<mapsto> dis'),
            stake_positions := (stake_positions ls)(position_key rt (di_stake_owner dis) \<mapsto> p'),
            stake_locks := (stake_locks ls)(stake_lock_key rt (i_intent_hash i) \<mapsto> l\<lparr>sl_amount := a, sl_matures_at := m\<rparr>)\<rparr>"
    from inv v show ?thesis
    proof (rule stake_invE)
      assume books: "stake_books rt v (stake_positions ls) (stake_locks ls) (claim_balances ls)"
        and cov: "vault_covered rt v (tokens ls)"
      have k: "position_key rt (sl_stake_owner l) = position_key rt (di_stake_owner dis)"
        by (rule lock_position [OF books p o])
      from u have "unat (sl_amount l) = unat a + unat u" "StakePosition_unlock p u = Inr p'"
        by (auto simp: checked_simps StakePosition_unlock_zero split: if_splits)
      with books_shrink [OF books _ l, of p "l\<lparr>sl_amount := a, sl_matures_at := m\<rparr>" u p'] p cov v show ?thesis
        by (simp add: ls' stake_inv_def k)
    qed
  qed
qed

subsection \<open>Releasing and resolving\<close>

lemma release_matured_dispute_Inr:
  assumes "handle_release_matured_dispute rt ls dk = Inr ls'"
  obtains v dis p l dis' a p' where "stake_vault_config ls = Some v" "dispute_intents ls dk = Some dis"
    "stake_positions ls (position_key rt (di_stake_owner dis)) = Some p"
    "stake_locks ls (stake_lock_key rt (di_intent_hash dis)) = Some l"
    "DisputeIntent_release dis (unix_timestamp rt) = Inr (dis', a)" "a = sl_amount l"
    "StakePosition_unlock p (sl_amount l) = Inr p'"
    "ls' = ls\<lparr>dispute_intents := (dispute_intents ls)(dk \<mapsto> dis'),
       stake_positions := (stake_positions ls)(position_key rt (di_stake_owner dis) \<mapsto> p'),
       stake_locks := (stake_locks ls)(stake_lock_key rt (di_intent_hash dis) := None)\<rparr>"
  using assms by (auto simp: handle_release_matured_dispute_def result_simps)

lemma release_matured_dispute_stake_inv:
  assumes inv: "stake_inv rt ls" and run: "handle_release_matured_dispute rt ls dk = Inr ls'"
    and owner: "\<And>dis l. dispute_intents ls dk = Some dis \<Longrightarrow>
      stake_locks ls (stake_lock_key rt (di_intent_hash dis)) = Some l \<Longrightarrow> sl_stake_owner l = di_stake_owner dis"
  shows "stake_inv rt ls'"
  using run
proof (rule release_matured_dispute_Inr)
  fix v dis p l dis' a p'
  assume v: "stake_vault_config ls = Some v" and dis: "dispute_intents ls dk = Some dis"
    and p: "stake_positions ls (position_key rt (di_stake_owner dis)) = Some p"
    and l: "stake_locks ls (stake_lock_key rt (di_intent_hash dis)) = Some l"
    and u: "StakePosition_unlock p (sl_amount l) = Inr p'"
    and ls': "ls' = ls\<lparr>dispute_intents := (dispute_intents ls)(dk \<mapsto> dis'),
       stake_positions := (stake_positions ls)(position_key rt (di_stake_owner dis) \<mapsto> p'),
       stake_locks := (stake_locks ls)(stake_lock_key rt (di_intent_hash dis) := None)\<rparr>"
  from owner [OF dis l] have "position_key rt (sl_stake_owner l) = position_key rt (di_stake_owner dis)" by simp
  from unlock_stake_inv [OF inv v p l this u] show ?thesis unfolding ls' .
qed

lemma submit_context_Inr:
  assumes "submit_context rt ls args = Inr (config, verifier, dis, b, r, v, p, l)"
  shows "dispute_config ls = Some config \<and> verifier_config ls = Some verifier \<and>
    dispute_intents ls (pda rt (dispute_intent_seeds (dispute_config_key rt) (da_intent_hash (sda_attestation args)))) = Some dis \<and>
    payment_bindings ls (pda rt (payment_binding_seeds rt (sda_expected_payment_nullifier args))) = Some b \<and>
    intent_payment_bindings ls (pda rt (intent_payment_binding_seeds rt (da_intent_hash (sda_attestation args)))) = Some r \<and>
    dispute_nullifiers ls (pda rt (dispute_nullifier_seeds rt (sda_expected_dispute_nullifier args))) = None \<and>
    stake_vault_config ls = Some v \<and> sv_controller v = dispute_config_key rt \<and>
    stake_positions ls (position_key rt (di_stake_owner dis)) = Some p \<and>
    stake_locks ls (stake_lock_key rt (da_intent_hash (sda_attestation args))) = Some l \<and>
    sl_stake_owner l = di_stake_owner dis"
  using assms
  by (simp add: submit_context_def Let_def and_then_Inr account_Inr seeds_bump_Inr require_Inr init_Inr vault_account_Inr
      dispute_config_account_Inr)

lemma prepared_claim_amount [simp]: "cb_amount (prepared_claim rt b c) = cb_amount c"
  by (simp add: prepared_claim_def)

lemma submit_dispute_Inr:
  assumes "handle_submit_dispute rt ls args = Inr ls'"
  obtains config verifier dis b r v p l dis' p' s t m where
    "submit_context rt ls args = Inr (config, verifier, dis, b, r, v, p, l)"
    "check_dispute_evidence rt config verifier dis b r args = Inr ()"
    "DisputeIntent_dispute dis = Inr (dis', sl_amount l)"
    "StakePosition_resolve p (sl_amount l) (sl_amount l) = Inr p'"
    "checked_sub (sv_total_staked v) (sl_amount l) = Some s" "checked_add (sv_total_claimable v) (sl_amount l) = Some t"
    "checked_add (cb_amount (init_if_needed (claim_balances ls (claim_key rt (di_depositor dis))) zero_claim)) (sl_amount l) = Some m"
    "ls' = ls\<lparr>dispute_intents := (dispute_intents ls)
          (pda rt (dispute_intent_seeds (dispute_config_key rt) (da_intent_hash (sda_attestation args))) \<mapsto> dis'),
        stake_positions := (stake_positions ls)(position_key rt (di_stake_owner dis) \<mapsto> p'),
        stake_locks := (stake_locks ls)(stake_lock_key rt (da_intent_hash (sda_attestation args)) := None),
        stake_vault_config := Some (v\<lparr>sv_total_staked := s, sv_total_claimable := t\<rparr>),
        claim_balances := (claim_balances ls)(claim_key rt (di_depositor dis) \<mapsto>
          (prepared_claim rt (di_depositor dis)
            (init_if_needed (claim_balances ls (claim_key rt (di_depositor dis))) zero_claim))\<lparr>cb_amount := m\<rparr>),
        dispute_nullifiers := (dispute_nullifiers ls)
          (pda rt (dispute_nullifier_seeds rt (sda_expected_dispute_nullifier args)) \<mapsto> new_dispute_nullifier rt args)\<rparr>"
proof -
  from assms obtain config verifier dis b r v p l where
      ctx: "submit_context rt ls args = Inr (config, verifier, dis, b, r, v, p, l)"
    by (auto simp: handle_submit_dispute_def and_then_Inr)
  from assms obtain dis' a where d: "DisputeIntent_dispute dis = Inr (dis', a)" and a: "a = sl_amount l"
    by (auto simp: handle_submit_dispute_def Let_def ctx and_then_Inr require_Inr split_paired_Ex)
  from d a have d: "DisputeIntent_dispute dis = Inr (dis', sl_amount l)" by simp
  from assms show thesis
    by (simp add: handle_submit_dispute_def Let_def ctx d and_then_Inr require_Inr ok_or_Inr, elim exE conjE,
        intro that [OF ctx _ d]) (assumption | erule sym)+
qed

lemma submit_dispute_stake_inv:
  assumes inv: "stake_inv rt ls" and run: "handle_submit_dispute rt ls args = Inr ls'"
  shows "stake_inv rt ls'"
  using run
proof (rule submit_dispute_Inr)
  fix config verifier and dis :: DisputeIntent and b r v p l dis' p' s t m
  let ?h = "da_intent_hash (sda_attestation args)" and ?ck = "claim_key rt (di_depositor dis)"
  let ?c = "init_if_needed (claim_balances ls ?ck) zero_claim"
  let ?cs = "(claim_balances ls)(?ck \<mapsto> (prepared_claim rt (di_depositor dis) ?c)\<lparr>cb_amount := m\<rparr>)"
  assume ctx: "submit_context rt ls args = Inr (config, verifier, dis, b, r, v, p, l)"
    and res: "StakePosition_resolve p (sl_amount l) (sl_amount l) = Inr p'"
    and st: "checked_sub (sv_total_staked v) (sl_amount l) = Some s" "checked_add (sv_total_claimable v) (sl_amount l) = Some t"
    and m: "checked_add (cb_amount ?c) (sl_amount l) = Some m"
    and ls': "ls' = ls\<lparr>dispute_intents := (dispute_intents ls)
          (pda rt (dispute_intent_seeds (dispute_config_key rt) ?h) \<mapsto> dis'),
        stake_positions := (stake_positions ls)(position_key rt (di_stake_owner dis) \<mapsto> p'),
        stake_locks := (stake_locks ls)(stake_lock_key rt ?h := None),
        stake_vault_config := Some (v\<lparr>sv_total_staked := s, sv_total_claimable := t\<rparr>), claim_balances := ?cs,
        dispute_nullifiers := (dispute_nullifiers ls)
          (pda rt (dispute_nullifier_seeds rt (sda_expected_dispute_nullifier args)) \<mapsto> new_dispute_nullifier rt args)\<rparr>"
  from submit_context_Inr [OF ctx] have v: "stake_vault_config ls = Some v"
    and l: "stake_locks ls (stake_lock_key rt ?h) = Some l" and o: "sl_stake_owner l = di_stake_owner dis"
    and p: "stake_positions ls (position_key rt (sl_stake_owner l)) = Some p" by simp_all
  from st have s: "unat (sv_total_staked v) = unat s + unat (sl_amount l)"
    and t: "unat t = unat (sv_total_claimable v) + unat (sl_amount l)" by (simp_all add: checked_simps)
  have "at claimed (claim_balances ls) ?ck = claimed ?c"
    by (cases "claim_balances ls ?ck") (simp_all add: at_def zero_claim_def)
  with m have "msum claimed ?cs = msum claimed (claim_balances ls) + unat (sl_amount l)"
    using msum_put [of claimed "claim_balances ls" ?ck "(prepared_claim rt (di_depositor dis) ?c)\<lparr>cb_amount := m\<rparr>"]
    by (simp add: checked_simps)
  from inv v show ?thesis
  proof (rule stake_invE)
    assume books: "stake_books rt v (stake_positions ls) (stake_locks ls) (claim_balances ls)"
      and cov: "vault_covered rt v (tokens ls)"
    from books_resolve [OF books p l res s t \<open>msum claimed ?cs = _\<close>] cov s t show ?thesis
      by (simp add: ls' o stake_inv_def vault_covered_def)
  qed
qed

end
