(* ===== verification/Program.thy ===== *)
theory Program
  imports Settlement Rate_Manager Governance Stake_Books
begin

text \<open>
  The entry point of the program, \<^verbatim>\<open>src/programs/zkp2p_solana/src/lib.rs\<close>: one constructor per
  instruction, grouped by the module that handles it, and the dispatch to the handlers. An
  instruction carries its signer, the addresses the transaction supplies and its arguments. \<open>in_env\<close>
  is the runtime at one moment: clock, position in the transaction and the resolver programs differ
  from one instruction to the next, the rest does not. \<open>execute\<close> processes one event of the chain's
  history: an instruction of this program, signed by keys outside the program, or a token transfer by
  anybody else.
\<close>

subsection \<open>Instructions\<close>

datatype governance_instruction =
    Initialize_protocol pubkey "pubkey option" "pubkey \<times> pubkey option" "u8 list" pubkey InitializeProtocolArgs
  | Propose_protocol_authority pubkey "pubkey option"
  | Accept_protocol_authority pubkey
  | Configure_orchestrator pubkey ConfigureOrchestratorArgs
  | Configure_escrow pubkey ConfigureEscrowArgs
  | Propose_stake_controller pubkey "pubkey option"
  | Accept_stake_controller pubkey

datatype stake_instruction =
    Initialize_stake_token_vault pubkey
  | Deposit_stake pubkey pubkey pubkey u64
  | Withdraw_stake pubkey pubkey pubkey u64
  | Claim_stake pubkey pubkey pubkey
  | Set_taker_authorization pubkey pubkey bool
  | Select_stake_owner pubkey pubkey
  | Clear_stake_owner pubkey
  | Controller_lock_stake pubkey pubkey ControllerLockArgs
  | Controller_fund_lock pubkey pubkey pubkey pubkey ControllerLockArgs
  | Increase_stake_lock pubkey bytes32 u64
  | Resize_stake_lock pubkey bytes32 u64 i64
  | Controller_unlock_stake pubkey bytes32
  | Initialize_claim_balance pubkey
  | Resolve_stake_lock pubkey "(pubkey \<times> bool) list" bytes32 "StakeClaim list"

datatype escrow_instruction =
    Create_deposit pubkey pubkey pubkey CreateDepositArgs
  | Update_oracle_quote pubkey bytes32 u128 bool
  | Add_funds pubkey pubkey pubkey pubkey u64
  | Remove_funds pubkey pubkey pubkey pubkey u64
  | Withdraw_deposit pubkey pubkey pubkey pubkey "pubkey option"
  | Update_deposit pubkey pubkey UpdateDepositArgs
  | Configure_payment_method pubkey pubkey ConfigurePaymentMethodArgs
  | Configure_currency pubkey pubkey ConfigureCurrencyArgs
  | Set_deposit_rate_manager pubkey pubkey "pubkey option" "pubkey option"
  | Extend_intent_expiry pubkey pubkey bytes32 i64

datatype intent_instruction =
    Signal_intent pubkey SignalIntentAccounts SignalIntentArgs
  | Cancel_intent pubkey pubkey "pubkey option"
  | Prune_expired_intent pubkey PruneDisputeAccounts
  | Fulfill_intent pubkey SettlementTokenAccounts SettlementDisputeAccounts "pubkey list" FulfillIntentArgs
  | Manual_release pubkey pubkey SettlementTokenAccounts SettlementDisputeAccounts "pubkey list"

datatype whitelist_instruction =
    Create_address_group pubkey string bool
  | Configure_address_group pubkey pubkey "(pubkey \<times> bool) option" "bool option" "pubkey option option" "pubkey option option"
  | Accept_group_curator pubkey pubkey
  | Set_group_member pubkey pubkey pubkey bool
  | Set_self_group_member pubkey pubkey bool
  | Initialize_deposit_whitelist pubkey pubkey bool
  | Set_whitelist_enabled pubkey pubkey bool
  | Set_deposit_allowed_group pubkey pubkey pubkey bool
  | Set_deposit_whitelist_member pubkey pubkey pubkey bool

datatype dispute_instruction =
    Set_risk_window pubkey bytes32 i64
  | Set_dispute_admissions_paused pubkey bool
  | Set_deposit_dispute_protection pubkey pubkey bool
  | Prepare_dispute pubkey pubkey "pubkey option" bool pubkey PrepareDisputeArgs
  | Cancel_dispute pubkey pubkey pubkey
  | Release_matured_dispute pubkey
  | Submit_dispute SubmitDisputeArgs

datatype verifier_instruction =
    Set_verifier_payment_method pubkey bytes32 bool
  | Set_verifier_witness pubkey eth_address bool
  | Set_required_signatures pubkey u8

datatype instruction =
    Governance governance_instruction
  | Stake stake_instruction
  | Rates rate_manager_request
  | Escrow escrow_instruction
  | Intents intent_instruction
  | Whitelists whitelist_instruction
  | Disputes dispute_instruction
  | Verification verifier_instruction

subsection \<open>Dispatch\<close>

fun governance_step :: "runtime \<Rightarrow> ledger \<Rightarrow> governance_instruction \<Rightarrow> ledger result" where
  "governance_step rt ls (Initialize_protocol a pd d sh m args) = handle_initialize_protocol rt ls a pd d sh m args"
| "governance_step rt ls (Propose_protocol_authority a p) = handle_propose_protocol_authority rt ls a p"
| "governance_step rt ls (Accept_protocol_authority k) = handle_accept_protocol_authority rt ls k"
| "governance_step rt ls (Configure_orchestrator a args) = handle_configure_orchestrator rt ls a args"
| "governance_step rt ls (Configure_escrow a args) = handle_configure_escrow rt ls a args"
| "governance_step rt ls (Propose_stake_controller a p) = handle_propose_stake_controller rt ls a p"
| "governance_step rt ls (Accept_stake_controller k) = handle_accept_stake_controller rt ls k"

fun stake_step :: "runtime \<Rightarrow> ledger \<Rightarrow> stake_instruction \<Rightarrow> ledger result" where
  "stake_step rt ls (Initialize_stake_token_vault tp) = handle_initialize_stake_token_vault rt ls tp"
| "stake_step rt ls (Deposit_stake s t tp a) = handle_deposit_stake rt ls s t tp a"
| "stake_step rt ls (Withdraw_stake s t tp a) = handle_withdraw_stake rt ls s t tp a"
| "stake_step rt ls (Claim_stake b t tp) = handle_claim_stake rt ls b t tp"
| "stake_step rt ls (Set_taker_authorization s t b) = handle_set_taker_authorization rt ls s t b"
| "stake_step rt ls (Select_stake_owner t s) = handle_select_stake_owner rt ls t s"
| "stake_step rt ls (Clear_stake_owner t) = handle_clear_stake_owner rt ls t"
| "stake_step rt ls (Controller_lock_stake c s args) = handle_controller_lock_stake rt ls c s args"
| "stake_step rt ls (Controller_fund_lock c s t tp args) = handle_controller_fund_lock rt ls c s t tp args"
| "stake_step rt ls (Increase_stake_lock c i a) = handle_increase_stake_lock rt ls c i a"
| "stake_step rt ls (Resize_stake_lock c i a m) = handle_resize_stake_lock rt ls c i a m"
| "stake_step rt ls (Controller_unlock_stake c i) = handle_controller_unlock_stake rt ls c i"
| "stake_step rt ls (Initialize_claim_balance b) = handle_initialize_claim_balance rt ls b"
| "stake_step rt ls (Resolve_stake_lock c accs i cl) = handle_resolve_stake_lock rt ls c accs i cl"

fun escrow_step :: "runtime \<Rightarrow> ledger \<Rightarrow> escrow_instruction \<Rightarrow> ledger result" where
  "escrow_step rt ls (Create_deposit s t tp args) = handle_create_deposit rt ls s t tp args"
| "escrow_step rt ls (Update_oracle_quote s q r v) = handle_update_oracle_quote rt ls s q r v"
| "escrow_step rt ls (Add_funds s k t tp a) = handle_add_funds rt ls s k t tp a"
| "escrow_step rt ls (Remove_funds s k t tp a) = handle_remove_funds rt ls s k t tp a"
| "escrow_step rt ls (Withdraw_deposit s k t tp d) = handle_withdraw_deposit rt ls s k t tp d"
| "escrow_step rt ls (Update_deposit s k args) = handle_update_deposit rt ls s k args"
| "escrow_step rt ls (Configure_payment_method s k args) = handle_configure_payment_method rt ls s k args"
| "escrow_step rt ls (Configure_currency s k args) = handle_configure_currency rt ls s k args"
| "escrow_step rt ls (Set_deposit_rate_manager s k r m) = handle_set_deposit_rate_manager rt ls s k r m"
| "escrow_step rt ls (Extend_intent_expiry s k h a) = handle_extend_intent_expiry rt ls s k h a"

fun intent_step :: "runtime \<Rightarrow> ledger \<Rightarrow> intent_instruction \<Rightarrow> ledger result" where
  "intent_step rt ls (Signal_intent t accs args) = handle_signal_intent rt ls t accs args"
| "intent_step rt ls (Cancel_intent s k d) = handle_cancel_intent rt ls s k d"
| "intent_step rt ls (Prune_expired_intent k accs) = handle_prune_expired_intent rt ls k accs"
| "intent_step rt ls (Fulfill_intent k ta da ra args) = handle_fulfill_intent rt ls k ta da ra args"
| "intent_step rt ls (Manual_release s k ta da ra) = handle_manual_release rt ls s k ta da ra"

fun whitelist_step :: "runtime \<Rightarrow> ledger \<Rightarrow> whitelist_instruction \<Rightarrow> ledger result" where
  "whitelist_step rt ls (Create_address_group s n p) = handle_create_address_group rt ls s n p"
| "whitelist_step rt ls (Configure_address_group s g rp p r c) = handle_configure_address_group rt ls s g rp p r c"
| "whitelist_step rt ls (Accept_group_curator s g) = handle_accept_group_curator rt ls s g"
| "whitelist_step rt ls (Set_group_member s g m b) = handle_set_group_member rt ls s g m b"
| "whitelist_step rt ls (Set_self_group_member s g b) = handle_set_self_group_member rt ls s g b"
| "whitelist_step rt ls (Initialize_deposit_whitelist s k b) = handle_initialize_deposit_whitelist rt ls s k b"
| "whitelist_step rt ls (Set_whitelist_enabled s k b) = handle_set_whitelist_enabled rt ls s k b"
| "whitelist_step rt ls (Set_deposit_allowed_group s k g b) = handle_set_deposit_allowed_group rt ls s k g b"
| "whitelist_step rt ls (Set_deposit_whitelist_member s k t b) = handle_set_deposit_whitelist_member rt ls s k t b"

fun dispute_instruction_step :: "runtime \<Rightarrow> ledger \<Rightarrow> dispute_instruction \<Rightarrow> ledger result" where
  "dispute_instruction_step rt ls (Set_risk_window s m w) = handle_set_risk_window rt ls s m w"
| "dispute_instruction_step rt ls (Set_dispute_admissions_paused s b) = handle_set_dispute_admissions_paused rt ls s b"
| "dispute_instruction_step rt ls (Set_deposit_dispute_protection s k b) = handle_set_deposit_dispute_protection rt ls s k b"
| "dispute_instruction_step rt ls (Prepare_dispute t k ds sel so args) = handle_prepare_dispute rt ls t k ds sel so args"
| "dispute_instruction_step rt ls (Cancel_dispute s i k) = handle_cancel_dispute rt ls s i k"
| "dispute_instruction_step rt ls (Release_matured_dispute k) = handle_release_matured_dispute rt ls k"
| "dispute_instruction_step rt ls (Submit_dispute args) = handle_submit_dispute rt ls args"

fun verifier_step :: "runtime \<Rightarrow> ledger \<Rightarrow> verifier_instruction \<Rightarrow> ledger result" where
  "verifier_step rt ls (Set_verifier_payment_method s m b) = handle_set_verifier_payment_method rt ls s m b"
| "verifier_step rt ls (Set_verifier_witness s w b) = handle_set_verifier_witness rt ls s w b"
| "verifier_step rt ls (Set_required_signatures s n) = handle_set_required_signatures rt ls s n"

fun dispatch :: "runtime \<Rightarrow> ledger \<Rightarrow> instruction \<Rightarrow> ledger result" where
  "dispatch rt ls (Governance i) = governance_step rt ls i"
| "dispatch rt ls (Stake i) = stake_step rt ls i"
| "dispatch rt ls (Rates i) = rate_manager_step rt ls i"
| "dispatch rt ls (Escrow i) = escrow_step rt ls i"
| "dispatch rt ls (Intents i) = intent_step rt ls i"
| "dispatch rt ls (Whitelists i) = whitelist_step rt ls i"
| "dispatch rt ls (Disputes i) = dispute_instruction_step rt ls i"
| "dispatch rt ls (Verification i) = verifier_step rt ls i"

subsection \<open>Events\<close>

record environment =
  env_timestamp :: i64
  env_current_index :: "nat option"
  env_instruction_at :: "nat \<Rightarrow> Instruction option"
  env_resolver :: "pubkey \<Rightarrow> AccountMeta list \<Rightarrow> u8 list \<Rightarrow> (pubkey \<times> u8 list) option option"

definition in_env :: "runtime \<Rightarrow> environment \<Rightarrow> runtime" where
  "in_env rt env = rt\<lparr>unix_timestamp := env_timestamp env, current_index := env_current_index env,
     instruction_at := env_instruction_at env, invoke_resolver := env_resolver env\<rparr>"

text \<open>
  The signer of an instruction that the program reads. The Solana runtime accepts a signature only
  from the holder of a private key, which a program-derived address does not have; the address zero is
  the system program.
\<close>

fun signer :: "instruction \<Rightarrow> pubkey option" where
  "signer (Governance (Initialize_protocol a pd d sh m args)) = Some a"
| "signer (Governance (Propose_protocol_authority a p)) = Some a"
| "signer (Governance (Accept_protocol_authority k)) = Some k"
| "signer (Governance (Configure_orchestrator a args)) = Some a"
| "signer (Governance (Configure_escrow a args)) = Some a"
| "signer (Governance (Propose_stake_controller a p)) = Some a"
| "signer (Governance (Accept_stake_controller k)) = Some k"
| "signer (Stake (Initialize_stake_token_vault tp)) = None"
| "signer (Stake (Deposit_stake s t tp a)) = Some s"
| "signer (Stake (Withdraw_stake s t tp a)) = Some s"
| "signer (Stake (Claim_stake b t tp)) = Some b"
| "signer (Stake (Set_taker_authorization s t b)) = Some s"
| "signer (Stake (Select_stake_owner t s)) = Some t"
| "signer (Stake (Clear_stake_owner t)) = Some t"
| "signer (Stake (Controller_lock_stake c s args)) = Some c"
| "signer (Stake (Controller_fund_lock c s t tp args)) = Some c"
| "signer (Stake (Increase_stake_lock c i a)) = Some c"
| "signer (Stake (Resize_stake_lock c i a m)) = Some c"
| "signer (Stake (Controller_unlock_stake c i)) = Some c"
| "signer (Stake (Initialize_claim_balance b)) = None"
| "signer (Stake (Resolve_stake_lock c accs i cl)) = Some c"
| "signer (Rates (CreateRateManager args)) = None"
| "signer (Rates (SetRateManagerConfig s k m r n u)) = Some s"
| "signer (Rates (SetManagerFee s k f)) = Some s"
| "signer (Rates (SetManagerMinLiquidity s k l)) = Some s"
| "signer (Rates (SetManagerRate s k p c r)) = Some s"
| "signer (Escrow (Create_deposit s t tp args)) = Some s"
| "signer (Escrow (Update_oracle_quote s q r v)) = Some s"
| "signer (Escrow (Add_funds s k t tp a)) = Some s"
| "signer (Escrow (Remove_funds s k t tp a)) = Some s"
| "signer (Escrow (Withdraw_deposit s k t tp d)) = Some s"
| "signer (Escrow (Update_deposit s k args)) = Some s"
| "signer (Escrow (Configure_payment_method s k args)) = Some s"
| "signer (Escrow (Configure_currency s k args)) = Some s"
| "signer (Escrow (Set_deposit_rate_manager s k r m)) = Some s"
| "signer (Escrow (Extend_intent_expiry s k h a)) = Some s"
| "signer (Intents (Signal_intent t accs args)) = Some t"
| "signer (Intents (Cancel_intent s k d)) = Some s"
| "signer (Intents (Prune_expired_intent k accs)) = None"
| "signer (Intents (Fulfill_intent k ta da ra args)) = None"
| "signer (Intents (Manual_release s k ta da ra)) = Some s"
| "signer (Whitelists (Create_address_group s n p)) = Some s"
| "signer (Whitelists (Configure_address_group s g rp p r c)) = Some s"
| "signer (Whitelists (Accept_group_curator s g)) = Some s"
| "signer (Whitelists (Set_group_member s g m b)) = Some s"
| "signer (Whitelists (Set_self_group_member s g b)) = Some s"
| "signer (Whitelists (Initialize_deposit_whitelist s k b)) = Some s"
| "signer (Whitelists (Set_whitelist_enabled s k b)) = Some s"
| "signer (Whitelists (Set_deposit_allowed_group s k g b)) = Some s"
| "signer (Whitelists (Set_deposit_whitelist_member s k t b)) = Some s"
| "signer (Disputes (Set_risk_window s m w)) = Some s"
| "signer (Disputes (Set_dispute_admissions_paused s b)) = Some s"
| "signer (Disputes (Set_deposit_dispute_protection s k b)) = Some s"
| "signer (Disputes (Prepare_dispute t k ds sel so args)) = Some t"
| "signer (Disputes (Cancel_dispute s i k)) = Some s"
| "signer (Disputes (Release_matured_dispute k)) = None"
| "signer (Disputes (Submit_dispute args)) = None"
| "signer (Verification (Set_verifier_payment_method s m b)) = Some s"
| "signer (Verification (Set_verifier_witness s w b)) = Some s"
| "signer (Verification (Set_required_signatures s n)) = Some s"

definition external_key :: "runtime \<Rightarrow> ledger \<Rightarrow> pubkey \<Rightarrow> bool" where
  "external_key rt ls k \<longleftrightarrow>
     k \<noteq> 0 \<and> k \<noteq> stake_vault_config_key rt \<and> k \<noteq> dispute_config_key rt \<and> deposits ls k = None"

text \<open>
  A history consists of calls of the program and of token operations by others, who can spend and close
  only accounts of an authority outside the program.
\<close>

datatype event =
    Call environment instruction
  | Token_transfer pubkey pubkey pubkey pubkey pubkey u64 u8
  | Token_open pubkey pubkey pubkey pubkey
  | Token_close pubkey pubkey pubkey pubkey

definition spends :: "runtime \<Rightarrow> ledger \<Rightarrow> pubkey \<Rightarrow> pubkey \<Rightarrow> bool" where
  "spends rt ls key auth \<longleftrightarrow>
     external_key rt ls auth \<and> (case tokens ls key of None \<Rightarrow> False | Some t \<Rightarrow> tk_owner t = auth)"

lemma pred_option_code [code]: "pred_option P x = (case x of None \<Rightarrow> True | Some y \<Rightarrow> P y)"
  by (cases x) auto

fun execute :: "runtime \<Rightarrow> ledger \<Rightarrow> event \<Rightarrow> ledger result" where
  "execute rt ls (Call env i) =
     (if pred_option (external_key rt ls) (signer i) then dispatch (in_env rt env) ls i else Inl PrivilegeEscalation)"
| "execute rt ls (Token_transfer tp from mint to auth amount decimals) =
     (if spends rt ls from auth
      then and_then (transfer_checked rt tp (tokens ls) from mint to auth amount decimals) (\<lambda>ts. Inr (ls\<lparr>tokens := ts\<rparr>))
      else Inl PrivilegeEscalation)"
| "execute rt ls (Token_open tp key mint auth) =
     and_then (initialize_account rt tp (tokens ls) key mint auth) (\<lambda>ts. Inr (ls\<lparr>tokens := ts\<rparr>))"
| "execute rt ls (Token_close tp key dest auth) =
     (if spends rt ls key auth
      then and_then (close_account rt tp (tokens ls) key dest auth) (\<lambda>ts. Inr (ls\<lparr>tokens := ts\<rparr>))
      else Inl PrivilegeEscalation)"

text \<open>The ledger before the protocol is initialised: token accounts and mints exist, nothing of the
  program does.\<close>

definition genesis :: "(pubkey \<rightharpoonup> Mint) \<Rightarrow> token_store \<Rightarrow> ledger" where
  "genesis ms ts = empty_ledger\<lparr>mints := ms, tokens := ts\<rparr>"

text \<open>The ledger that a history of events leads to; a failed event changes nothing.\<close>

definition reached :: "runtime \<Rightarrow> (pubkey \<rightharpoonup> Mint) \<Rightarrow> token_store \<Rightarrow> event list \<Rightarrow> ledger" where
  "reached rt ms ts es = run (execute rt) (genesis ms ts) es"

subsection \<open>Derived addresses do not depend on the environment\<close>

lemma in_env_selectors [simp]:
  "find_program_address (in_env rt env) = find_program_address rt"
  "transfer_checked (in_env rt env) = transfer_checked rt"
  "initialize_account (in_env rt env) = initialize_account rt"
  "close_account (in_env rt env) = close_account rt"
  "unix_timestamp (in_env rt env) = env_timestamp env"
  by (simp_all add: in_env_def)

lemma in_env_pda [simp]:
  "pda (in_env rt env) = pda rt" "pda_bump (in_env rt env) = pda_bump rt"
  by (simp_all add: pda_def pda_bump_def fun_eq_iff)

lemma in_env_keys [simp]:
  "stake_vault_config_key (in_env rt env) = stake_vault_config_key rt"
  "escrow_config_key (in_env rt env) = escrow_config_key rt"
  "orchestrator_config_key (in_env rt env) = orchestrator_config_key rt"
  "verifier_config_key (in_env rt env) = verifier_config_key rt"
  "dispute_config_key (in_env rt env) = dispute_config_key rt"
  by (simp_all add: stake_vault_config_key_def escrow_config_key_def orchestrator_config_key_def
      verifier_config_key_def dispute_config_key_def)

lemma in_env_derived [simp]:
  "stake_token_vault_key (in_env rt env) = stake_token_vault_key rt"
  "deposit_vault_key (in_env rt env) = deposit_vault_key rt"
  "intent_lock_key (in_env rt env) = intent_lock_key rt"
  "position_key (in_env rt env) = position_key rt"
  "stake_lock_key (in_env rt env) = stake_lock_key rt"
  "taker_state_key (in_env rt env) = taker_state_key rt"
  "claim_key (in_env rt env) = claim_key rt"
  by (simp_all add: fun_eq_iff stake_token_vault_key_def deposit_vault_key_def intent_lock_key_def
      position_key_def stake_lock_key_def taker_state_key_def claim_key_def position_seeds_def
      stake_lock_seeds_def taker_state_seeds_def claim_seeds_def)

lemma in_env_token_laws [simp]: "token_laws (in_env rt env) = token_laws rt"
  by (simp add: token_laws_def transfer_law_def initialize_law_def close_law_def)

end
