(* ===== verification/Frames.thy ===== *)
theory Frames
  imports Dispute_Invariant Program
begin

text \<open>
  Which stores of the ledger the instructions of each module can change. Every lemma has the form
  \<open>ls' = ls\<lparr>f := f ls', ...\<rparr>\<close>: after a successful instruction the ledger differs from the one before at most in the
  listed stores.
\<close>

lemma check_witnesses_Inr [result_simps]:
  "check_witnesses prior ws k = Inr y \<longleftrightarrow>
     distinct ws \<and> 0 \<notin> set ws \<and> set prior \<inter> set ws = {} \<and> k = Inr y"
  by (induction prior ws k rule: check_witnesses.induct) (auto simp: result_simps)

lemma governance_step_frame:
  assumes "governance_step rt ls i = Inr ls'"
  shows "ls' = ls\<lparr>protocol := protocol ls', escrow_config := escrow_config ls', verifier_config := verifier_config ls',
    orchestrator_config := orchestrator_config ls', stake_vault_config := stake_vault_config ls',
    rate_manager_config := rate_manager_config ls', whitelist_config := whitelist_config ls',
    dispute_config := dispute_config ls'\<rparr>"
  using assms
  by (cases i) (auto simp: handle_initialize_protocol_def check_initialize_args_def handle_propose_protocol_authority_def
      handle_accept_protocol_authority_def handle_configure_orchestrator_def handle_configure_escrow_def
      handle_propose_stake_controller_def handle_accept_stake_controller_def result_simps Let_def split: option.splits)

lemma stake_step_frame:
  assumes "stake_step rt ls i = Inr ls'"
  shows "ls' = ls\<lparr>stake_vault_config := stake_vault_config ls', stake_positions := stake_positions ls',
    taker_authorizations := taker_authorizations ls', stake_selections := stake_selections ls',
    stake_locks := stake_locks ls', claim_balances := claim_balances ls', tokens := tokens ls'\<rparr>"
  using assms
  by (cases i) (auto simp: handle_initialize_stake_token_vault_def handle_deposit_stake_def handle_withdraw_stake_def
      handle_claim_stake_def handle_set_taker_authorization_def handle_select_stake_owner_def handle_clear_stake_owner_def
      handle_controller_lock_stake_def handle_controller_fund_lock_def handle_increase_stake_lock_def
      handle_resize_stake_lock_def handle_controller_unlock_stake_def handle_initialize_claim_balance_def
      handle_resolve_stake_lock_def result_simps Let_def)

lemma rate_manager_step_frame:
  assumes "rate_manager_step rt ls i = Inr ls'"
  shows "ls' = ls\<lparr>rate_manager_config := rate_manager_config ls', rate_managers := rate_managers ls',
    rate_entries := rate_entries ls'\<rparr>"
  using assms by (cases i) (auto simp: rate_manager_handler_defs result_simps Let_def)

lemma close_deposit_frame:
  assumes "close_deposit rt ls e k d mint tp dust ts = Inr ls'"
  obtains ds ts' where "ls' = ls\<lparr>deposits := ds, tokens := ts'\<rparr>"
  using assms by (auto simp: close_deposit_def and_then_Inr ok_or_Inr signed_by_Inr split: if_splits)

lemma withdraw_deposit_frame:
  assumes "handle_withdraw_deposit rt ls s k t tp dust = Inr ls'"
  obtains ds ts where "ls' = ls\<lparr>deposits := ds, tokens := ts\<rparr>"
proof -
  from assms obtain e d ts and mint :: Mint and b where b: "(if b
      then close_deposit rt ls e k (d\<lparr>d_remaining_deposits := 0, d_accepting_intents := False\<rparr>) mint tp dust ts
      else Inr (ls\<lparr>deposits := (deposits ls)(k \<mapsto> d\<lparr>d_remaining_deposits := 0, d_accepting_intents := False\<rparr>),
        tokens := ts\<rparr>)) = Inr ls'"
    by (simp add: handle_withdraw_deposit_def Let_def and_then_Inr require_Inr token_interface_Inr constraint_Inr
        account_Inr seeds_bump_Inr, elim exE conjE, blast)
  show thesis
  proof (cases b)
    case True
    with b show thesis by (auto elim!: close_deposit_frame intro: that)
  next
    case False
    with b show thesis by (auto intro: that)
  qed
qed

lemma escrow_step_frame:
  assumes "escrow_step rt ls i = Inr ls'"
  shows "ls' = ls\<lparr>escrow_config := escrow_config ls', deposits := deposits ls', payment_methods := payment_methods ls',
    deposit_currencies := deposit_currencies ls', oracle_quotes := oracle_quotes ls', intent_locks := intent_locks ls',
    tokens := tokens ls'\<rparr>"
proof (cases i)
  case (Withdraw_deposit s k t tp dust)
  with assms have "handle_withdraw_deposit rt ls s k t tp dust = Inr ls'" by simp
  then show ?thesis by (rule withdraw_deposit_frame) simp
next
  case (Update_deposit s k args)
  with assms update_deposit_Inr [of rt ls s k args ls'] show ?thesis by auto
next
  case (Set_deposit_rate_manager s k r m)
  with assms show ?thesis
    by (auto simp: handle_set_deposit_rate_manager_def result_simps split: option.splits)
qed (use assms in \<open>auto simp: handle_create_deposit_def create_deposit_at_def handle_update_oracle_quote_def handle_add_funds_def
      handle_remove_funds_def handle_configure_payment_method_def handle_configure_currency_def
      handle_extend_intent_expiry_def result_simps Let_def\<close>)

lemma whitelist_step_frame:
  assumes "whitelist_step rt ls i = Inr ls'"
  shows "ls' = ls\<lparr>whitelist_config := whitelist_config ls', address_groups := address_groups ls',
    group_members := group_members ls', deposit_whitelists := deposit_whitelists ls',
    whitelist_members := whitelist_members ls'\<rparr>"
  using assms
  by (cases i) (auto simp: handle_create_address_group_def handle_configure_address_group_def handle_accept_group_curator_def
      handle_set_group_member_def handle_set_self_group_member_def handle_initialize_deposit_whitelist_def
      handle_set_whitelist_enabled_def handle_set_deposit_allowed_group_def handle_set_deposit_whitelist_member_def
      result_simps Let_def)

lemma verifier_step_frame:
  assumes "verifier_step rt ls i = Inr ls'"
  shows "ls' = ls\<lparr>verifier_config := verifier_config ls'\<rparr>"
  using assms
  by (cases i) (auto simp: handle_set_verifier_payment_method_def handle_set_verifier_witness_def
      handle_set_required_signatures_def result_simps)

lemma settle_intent_frame:
  assumes "settle_intent rt ls ik oc i d l t taccs daccs rem a = Inr ls'"
  obtains ds ints lks tss dis ps sls ts where "ls' = ls\<lparr>dispute_intents := dis, stake_positions := ps, stake_locks := sls,
    deposits := ds, taker_states := tss, intents := ints, intent_locks := lks, tokens := ts\<rparr>"
  using assms
proof (rule settle_intent_Inr)
  fix ls1 d' ts n
  assume "settle_dispute_if_covered rt ls i daccs a = Inr ls1"
  from settle_dispute_if_covered_frame [OF this] obtain dis ps sls
    where ls1: "ls1 = ls\<lparr>dispute_intents := dis, stake_positions := ps, stake_locks := sls\<rparr>" by blast
  assume "ls' = ls1\<lparr>deposits := (deposits ls1)(i_deposit i \<mapsto> d'),
      taker_states := (taker_states ls1)(taker_state_key rt (i_owner i) \<mapsto> t\<lparr>ts_active_intents := n\<rparr>),
      intents := (intents ls1)(ik := None), intent_locks := (intent_locks ls1)(lock_addr rt i := None), tokens := ts\<rparr>"
  then show thesis unfolding ls1 by (rule that)
qed

lemma intent_step_frame:
  assumes "intent_step rt ls i = Inr ls'"
  shows "ls' = ls\<lparr>orchestrator_config := orchestrator_config ls', deposits := deposits ls', intents := intents ls',
    intent_locks := intent_locks ls', taker_states := taker_states ls', dispute_intents := dispute_intents ls',
    stake_positions := stake_positions ls', stake_locks := stake_locks ls', tokens := tokens ls',
    payment_bindings := payment_bindings ls', intent_payment_bindings := intent_payment_bindings ls'\<rparr>"
proof (cases i)
  case (Signal_intent t accs args)
  with assms have "handle_signal_intent rt ls t accs args = Inr ls'" by simp
  then show ?thesis by (rule signal_intent_Inr) auto
next
  case (Cancel_intent s k d)
  with assms obtain i d l t where "end_intent rt ls k i d l t = Inr ls'"
    by (auto simp: handle_cancel_intent_def result_simps split: if_splits)
  then show ?thesis by (rule end_intent_frame) auto
next
  case (Prune_expired_intent k accs)
  with assms have "handle_prune_expired_intent rt ls k accs = Inr ls'" by simp
  then show ?thesis
    by (rule prune_expired_intent_Inr)
      (auto simp: require_Inr split: if_splits elim!: end_intent_frame prune_dispute_Inr)
next
  case (Fulfill_intent k ta da ra args)
  with assms have "handle_fulfill_intent rt ls k ta da ra args = Inr ls'" by simp
  then show ?thesis by (rule fulfill_intent_Inr) (auto elim!: settle_intent_frame)
next
  case (Manual_release s k ta da ra)
  with assms show ?thesis by (auto simp: handle_manual_release_def result_simps elim!: settle_intent_frame)
qed

lemma dispute_instruction_step_frame:
  assumes "dispute_instruction_step rt ls i = Inr ls'"
  shows "ls' = ls\<lparr>dispute_config := dispute_config ls', risk_windows := risk_windows ls', dispute_settings := dispute_settings ls',
    dispute_intents := dispute_intents ls', stake_positions := stake_positions ls', stake_locks := stake_locks ls',
    stake_vault_config := stake_vault_config ls', claim_balances := claim_balances ls',
    dispute_nullifiers := dispute_nullifiers ls'\<rparr>"
proof (cases i)
  case (Prepare_dispute t k ds sel so args)
  with assms have "handle_prepare_dispute rt ls t k ds sel so args = Inr ls'" by simp
  then show ?thesis by (rule prepare_dispute_Inr) (simp add: ledger.equality)
next
  case (Cancel_dispute s ik k)
  with assms have "handle_cancel_dispute rt ls s ik k = Inr ls'" by simp
  then show ?thesis by (rule cancel_dispute_Inr) (simp add: ledger.equality)
next
  case (Release_matured_dispute k)
  with assms have "handle_release_matured_dispute rt ls k = Inr ls'" by simp
  then show ?thesis by (rule release_matured_dispute_Inr) (simp add: ledger.equality)
next
  case (Submit_dispute args)
  with assms have "handle_submit_dispute rt ls args = Inr ls'" by simp
  then show ?thesis by (rule submit_dispute_Inr) (simp add: ledger.equality)
qed (use assms in \<open>auto simp: handle_set_risk_window_def handle_set_dispute_admissions_paused_def
    handle_set_deposit_dispute_protection_def result_simps\<close>)

end
