(* ===== verification/Custody.thy ===== *)
theory Custody
  imports Frames
begin

text \<open>
  Which custody accounts an instruction can debit. \<open>others_grow\<close> says that a change of the token store debits accounts of
  one authority only; every instruction of the program has such an authority (its signer, the stake vault or a
  deposit), so the books of the escrow survive the stake instructions and the books of the stake vault survive the
  escrow instructions. \<open>vault_inv\<close> joins to the books of the stake vault that its custody account belongs to the vault
  as long as anything is owed, and that every claim has a beneficiary.
\<close>

definition others_grow :: "pubkey \<Rightarrow> token_store \<Rightarrow> token_store \<Rightarrow> bool" where
  "others_grow auth ts ts' \<longleftrightarrow> (\<forall>k t. ts k = Some t \<longrightarrow> tk_owner t \<noteq> auth \<longrightarrow> token_grows ts ts' k)"

lemma others_grow_refl [simp]: "others_grow auth ts ts"
  by (simp add: others_grow_def)

lemma others_grow_trans:
  assumes "others_grow auth ts ts'" and "others_grow auth ts' ts''"
  shows "others_grow auth ts ts''"
  unfolding others_grow_def
proof (intro allI impI)
  fix k t assume t: "ts k = Some t" "tk_owner t \<noteq> auth"
  with assms(1) have g: "token_grows ts ts' k" by (auto simp: others_grow_def)
  with t(1) obtain t' where t': "ts' k = Some t'" "t' = t\<lparr>tk_amount := tk_amount t'\<rparr>" by (auto simp: token_grows_def)
  then have "tk_owner t' = tk_owner t" by (metis TokenAccount.select_convs(3) TokenAccount.surjective TokenAccount.update_convs(4))
  with assms(2) t t' have "token_grows ts' ts'' k" by (auto simp: others_grow_def)
  with g show "token_grows ts ts'' k" by (rule token_grows_trans)
qed

lemma others_grow_transfer:
  assumes "token_laws rt" and "transfer_checked rt tp ts src mint to a amount dec = Inr ts'"
    and "ts src = Some f" and "tk_owner f = auth"
  shows "others_grow auth ts ts'"
  using token_moved_grows [OF transfer_moved [OF assms(1,2)]] assms(3,4) unfolding others_grow_def
  by (metis option.inject)

lemma others_grow_initialize:
  "token_laws rt \<Longrightarrow> initialize_account rt tp ts key mint a = Inr ts' \<Longrightarrow> others_grow auth ts ts'"
  by (drule (1) initialize_fresh) (auto simp: others_grow_def token_grows_def)

lemma others_grow_close:
  "token_laws rt \<Longrightarrow> close_account rt tp ts key dest a = Inr ts' \<Longrightarrow> ts key = Some t \<Longrightarrow> tk_owner t = auth \<Longrightarrow>
     others_grow auth ts ts'"
  by (drule (1) close_empties) (auto simp: others_grow_def token_grows_def)

lemma others_grow_drained:
  "drained ts ts' v a \<Longrightarrow> ts v = Some t \<Longrightarrow> tk_owner t = auth \<Longrightarrow> others_grow auth ts ts'"
  unfolding others_grow_def using drained_grows by (metis option.inject)

subsection \<open>The books of the escrow from outside\<close>

definition same_escrow :: "ledger \<Rightarrow> ledger \<Rightarrow> bool" where
  "same_escrow ls ls' \<longleftrightarrow> deposits ls' = deposits ls \<and> intents ls' = intents ls \<and>
     intent_locks ls' = intent_locks ls \<and> taker_states ls' = taker_states ls"

lemma escrow_inv_outside:
  assumes inv: "escrow_inv rt ls" and same: "same_escrow ls ls'"
    and grow: "others_grow auth (tokens ls) (tokens ls')" and auth: "deposits ls auth = None"
  shows "escrow_inv rt ls'"
proof -
  have c: "escrow_custody rt (deposits ls) (tokens ls)" using inv by (simp add: escrow_inv_def)
  have "escrow_custody rt (deposits ls) (tokens ls')"
  proof (rule custody_grows [OF c])
    fix k d assume d: "deposits ls k = Some d"
    from custodyD [OF c d] obtain t where "tokens ls (deposit_vault_key rt k) = Some t" "tk_owner t = k" by metis
    with grow d auth show "token_grows (tokens ls) (tokens ls') (deposit_vault_key rt k)"
      unfolding others_grow_def by (metis option.distinct(1))
  qed
  with inv same show ?thesis by (simp add: escrow_inv_def same_escrow_def)
qed

subsection \<open>The stake vault with its custody account\<close>

definition vault_owned :: "runtime \<Rightarrow> StakeVaultConfig \<Rightarrow> token_store \<Rightarrow> bool" where
  "vault_owned rt v ts \<longleftrightarrow>
     (0 < unat (sv_total_staked v) + unat (sv_total_claimable v) \<longrightarrow>
        (\<exists>t. ts (stake_token_vault_key rt) = Some t \<and> tk_owner t = stake_vault_config_key rt))"

definition claims_named :: "(pubkey \<rightharpoonup> ClaimBalance) \<Rightarrow> bool" where
  "claims_named cs \<longleftrightarrow> (\<forall>k c. cs k = Some c \<longrightarrow> cb_beneficiary c \<noteq> 0)"

lemma claims_named_put: "claims_named cs \<Longrightarrow> cb_beneficiary c \<noteq> 0 \<Longrightarrow> claims_named (cs(k \<mapsto> c))"
  by (simp add: claims_named_def)

definition vault_inv :: "runtime \<Rightarrow> ledger \<Rightarrow> bool" where
  "vault_inv rt ls \<longleftrightarrow> stake_inv rt ls \<and>
     (\<forall>v. stake_vault_config ls = Some v \<longrightarrow> vault_owned rt v (tokens ls)) \<and>
     claims_named (claim_balances ls)"

definition same_stake :: "ledger \<Rightarrow> ledger \<Rightarrow> bool" where
  "same_stake ls ls' \<longleftrightarrow> stake_vault_config ls' = stake_vault_config ls \<and> stake_positions ls' = stake_positions ls \<and>
     stake_locks ls' = stake_locks ls \<and> claim_balances ls' = claim_balances ls"

lemma vault_owned_grows:
  assumes "vault_owned rt v ts" and "others_grow auth ts ts'" and "auth \<noteq> stake_vault_config_key rt"
  shows "vault_owned rt v ts'" and "vault_covered rt v ts \<Longrightarrow> vault_covered rt v ts'"
proof -
  have grows: "token_grows ts ts' (stake_token_vault_key rt)"
    if "0 < unat (sv_total_staked v) + unat (sv_total_claimable v)"
    using assms that by (auto simp: vault_owned_def others_grow_def)
  show "vault_owned rt v ts'"
    unfolding vault_owned_def
  proof (intro impI)
    assume pos: "0 < unat (sv_total_staked v) + unat (sv_total_claimable v)"
    with assms(1) obtain t where t: "ts (stake_token_vault_key rt) = Some t" "tk_owner t = stake_vault_config_key rt"
      by (auto simp: vault_owned_def)
    with grows [OF pos] obtain t' where t': "ts' (stake_token_vault_key rt) = Some t'" "t' = t\<lparr>tk_amount := tk_amount t'\<rparr>"
      by (auto simp: token_grows_def)
    have "tk_owner t' = tk_owner t" by (subst t'(2)) simp
    with t t' show "\<exists>t. ts' (stake_token_vault_key rt) = Some t \<and> tk_owner t = stake_vault_config_key rt" by simp
  qed
  show "vault_covered rt v ts'" if "vault_covered rt v ts"
    using that vault_covered_moves [OF that grows]
    by (cases "unat (sv_total_staked v) + unat (sv_total_claimable v)") (simp_all add: vault_covered_def)
qed

lemma vault_inv_outside:
  assumes inv: "vault_inv rt ls" and same: "same_stake ls ls'"
    and grow: "others_grow auth (tokens ls) (tokens ls')" and auth: "auth \<noteq> stake_vault_config_key rt"
  shows "vault_inv rt ls'"
  using assms vault_owned_grows [OF _ grow auth] by (auto simp: vault_inv_def stake_inv_def same_stake_def)

lemma vault_owned_moved:
  assumes "token_moved ts ts' src to a" and "ts (stake_token_vault_key rt) = Some t" and "tk_owner t = stake_vault_config_key rt"
  shows "vault_owned rt v ts'"
  using token_moved_identity [OF assms(1,2)] assms(3) by (auto simp: vault_owned_def)

lemma vault_owned_less:
  "vault_owned rt v ts \<Longrightarrow>
     unat (sv_total_staked v') + unat (sv_total_claimable v') \<le> unat (sv_total_staked v) + unat (sv_total_claimable v) \<Longrightarrow>
     vault_owned rt v' ts"
  by (auto simp: vault_owned_def)

subsection \<open>Stake instructions\<close>

text \<open>The stake instructions leave the escrow and the disputes alone and debit only accounts of their signer or of the
  vault.\<close>

lemma stake_step_same: "stake_step rt ls i = Inr ls' \<Longrightarrow> same_escrow ls ls'"
  unfolding same_escrow_def by (drule stake_step_frame, erule ssubst, simp)

lemma stake_step_debits:
  assumes "token_laws rt" and "stake_step rt ls i = Inr ls'"
  shows "others_grow (stake_vault_config_key rt) (tokens ls) (tokens ls') \<or>
     (\<exists>auth. signer (Stake i) = Some auth \<and> others_grow auth (tokens ls) (tokens ls'))"
proof (cases i)
  case (Initialize_stake_token_vault tp)
  with assms show ?thesis
    by (auto simp: handle_initialize_stake_token_vault_def result_simps intro: others_grow_initialize)
next
  case (Deposit_stake s t tp a)
  with assms show ?thesis
    by (auto simp: handle_deposit_stake_def result_simps Let_def intro: others_grow_transfer)
next
  case (Withdraw_stake s t tp a)
  with assms show ?thesis
    by (auto simp: handle_withdraw_stake_def result_simps intro: others_grow_transfer)
next
  case (Claim_stake b t tp)
  with assms show ?thesis
    by (auto simp: handle_claim_stake_def result_simps Let_def intro: others_grow_transfer)
next
  case (Controller_fund_lock c s t tp args)
  with assms show ?thesis
    by (auto simp: handle_controller_fund_lock_def result_simps Let_def intro: others_grow_transfer)
qed (use assms in \<open>auto simp: handle_set_taker_authorization_def handle_select_stake_owner_def
      handle_clear_stake_owner_def handle_controller_lock_stake_def handle_increase_stake_lock_def
      handle_resize_stake_lock_def handle_controller_unlock_stake_def handle_initialize_claim_balance_def
      handle_resolve_stake_lock_def result_simps Let_def\<close>)

lemma stake_step_stake_inv:
  assumes inv: "vault_inv rt ls" and laws: "token_laws rt" and run: "stake_step rt ls i = Inr ls'"
  shows "stake_inv rt ls'"
proof -
  have inv': "stake_inv rt ls" and named: "\<And>k c. claim_balances ls k = Some c \<Longrightarrow> cb_beneficiary c = 0 \<Longrightarrow> cb_amount c = 0"
    using inv by (auto simp: vault_inv_def claims_named_def)
  note handlers = deposit_stake_stake_inv set_taker_authorization_stake_inv select_stake_owner_stake_inv
    clear_stake_owner_stake_inv controller_lock_stake_stake_inv controller_fund_lock_stake_inv
    increase_stake_lock_stake_inv resize_stake_lock_stake_inv controller_unlock_stake_stake_inv resolve_stake_lock_stake_inv
  note transfers = initialize_stake_token_vault_stake_inv withdraw_stake_stake_inv claim_stake_stake_inv
  show ?thesis
  proof (cases "\<exists>b. i = Initialize_claim_balance b")
    case True
    then obtain b where "i = Initialize_claim_balance b" ..
    with run initialize_claim_balance_stake_inv [OF inv' _ named] show ?thesis by auto
  next
    case False
    with run show ?thesis by (cases i) (auto dest: handlers [OF inv'] transfers [OF inv' laws])
  qed
qed

text \<open>No stake instruction lets a claim lose its beneficiary.\<close>

lemma credit_claims_named: "credit_claims rt cs xs = Inr cs' \<Longrightarrow> claims_named cs \<Longrightarrow> claims_named cs'"
proof (induction rt cs xs rule: credit_claims.induct)
  case (1 rt cs)
  then show ?case by simp
next
  case (2 rt cs a key w rest)
  from 2(2) obtain c b where c: "cs key = Some c" and rest: "credit_claims rt (cs(key \<mapsto> c\<lparr>cb_amount := b\<rparr>)) rest = Inr cs'"
      "w" "key = claim_key rt (sc_beneficiary a)" "cb_vault c = stake_vault_config_key rt"
      "cb_beneficiary c = sc_beneficiary a" "checked_add (cb_amount c) (sc_amount a) = Some b"
    by (auto simp: result_simps)
  moreover from c 2(3) have "claims_named (cs(key \<mapsto> c\<lparr>cb_amount := b\<rparr>))" by (simp add: claims_named_def)
  ultimately show ?case using 2(1) [OF rest(1)] by blast
qed

lemma stake_step_named:
  assumes named: "claims_named (claim_balances ls)" and run: "stake_step rt ls i = Inr ls'"
  shows "claims_named (claim_balances ls')"
proof -
  have other: "claim_balances ls' = claim_balances ls"
    if "\<And>b t tp. i \<noteq> Claim_stake b t tp" "\<And>b. i \<noteq> Initialize_claim_balance b" "\<And>c accs j cl. i \<noteq> Resolve_stake_lock c accs j cl"
    using run that
    by (cases i) (auto simp: handle_initialize_stake_token_vault_def handle_deposit_stake_def handle_withdraw_stake_def
        handle_set_taker_authorization_def handle_select_stake_owner_def handle_clear_stake_owner_def
        handle_controller_lock_stake_def handle_controller_fund_lock_def handle_increase_stake_lock_def
        handle_resize_stake_lock_def handle_controller_unlock_stake_def result_simps Let_def)
  show ?thesis
  proof (cases i)
    case (Claim_stake b t tp)
    with run obtain c where "claim_balances ls (claim_key rt b) = Some c"
      "claim_balances ls' = (claim_balances ls)(claim_key rt b \<mapsto> c\<lparr>cb_amount := 0\<rparr>)"
      by (auto simp: handle_claim_stake_def result_simps Let_def)
    with named show ?thesis by (simp add: claims_named_def)
  next
    case (Initialize_claim_balance b)
    let ?c = "init_if_needed (claim_balances ls (claim_key rt b)) zero_claim"
    let ?c' = "if cb_beneficiary ?c = 0 then \<lparr>cb_vault = stake_vault_config_key rt, cb_beneficiary = b, cb_amount = 0,
        cb_bump = pda_bump rt (claim_seeds rt b)\<rparr> else ?c"
    from Initialize_claim_balance run have "claim_balances ls' = (claim_balances ls)(claim_key rt b \<mapsto> ?c')" "b \<noteq> 0"
      by (auto simp: handle_initialize_claim_balance_def result_simps Let_def)
    with claims_named_put [OF named, of ?c'] show ?thesis by simp
  next
    case (Resolve_stake_lock c accs j cl)
    with run obtain cs where "credit_claims rt (claim_balances ls) (zip cl accs) = Inr cs" "claim_balances ls' = cs"
      by (auto simp: handle_resolve_stake_lock_def result_simps)
    with named show ?thesis by (auto dest: credit_claims_named)
  qed (use other named in simp_all)
qed

text \<open>The custody account belongs to the vault whenever the totals are not zero.\<close>

lemma stake_step_owned:
  assumes owned: "\<And>v. stake_vault_config ls = Some v \<Longrightarrow> vault_owned rt v (tokens ls)" and laws: "token_laws rt"
    and run: "stake_step rt ls i = Inr ls'" and v': "stake_vault_config ls' = Some v'"
  shows "vault_owned rt v' (tokens ls')"
proof -
  have move: "vault_owned rt w ts'" if "transfer_checked rt tp (tokens ls) src mint to a amount dec = Inr ts'"
    "tokens ls (stake_token_vault_key rt) = Some t" "tk_owner t = stake_vault_config_key rt" for w tp src mint to a amount dec ts' t
    using transfer_moved [OF laws that(1)] that(2,3) by (rule vault_owned_moved)
  show ?thesis
  proof (cases i)
    case (Initialize_stake_token_vault tp)
    with run v' initialize_fresh [OF laws] owned show ?thesis
      by (fastforce simp: handle_initialize_stake_token_vault_def result_simps vault_owned_def)
  next
    case (Deposit_stake s t tp a)
    with run v' show ?thesis
      by (auto simp: handle_deposit_stake_def result_simps Let_def intro: move)
  next
    case (Withdraw_stake s t tp a)
    with run v' show ?thesis by (auto simp: handle_withdraw_stake_def result_simps intro: move)
  next
    case (Claim_stake b t tp)
    with run v' show ?thesis by (auto simp: handle_claim_stake_def result_simps Let_def intro: move)
  next
    case (Controller_fund_lock c s t tp args)
    with run v' show ?thesis
      by (auto simp: handle_controller_fund_lock_def result_simps Let_def intro: move)
  next
    case (Resolve_stake_lock c accs j cl)
    with run obtain v s t a where v: "stake_vault_config ls = Some v" "tokens ls' = tokens ls"
        "stake_vault_config ls' = Some (v\<lparr>sv_total_staked := s, sv_total_claimable := t\<rparr>)"
        and st: "checked_sub (sv_total_staked v) a = Some s" "checked_add (sv_total_claimable v) a = Some t"
      by (auto simp: handle_resolve_stake_lock_def result_simps)
    from st have "unat s + unat t = unat (sv_total_staked v) + unat (sv_total_claimable v)"
      by (simp add: checked_simps)
    with vault_owned_less [OF owned [OF v(1)], of v'] v v' show ?thesis by simp
  qed (use run v' owned in \<open>auto simp: handle_set_taker_authorization_def handle_select_stake_owner_def
      handle_clear_stake_owner_def handle_controller_lock_stake_def handle_increase_stake_lock_def
      handle_resize_stake_lock_def handle_controller_unlock_stake_def handle_initialize_claim_balance_def
      result_simps Let_def\<close>)
qed

lemma stake_step_vault_inv:
  assumes "vault_inv rt ls" and "token_laws rt" and "stake_step rt ls i = Inr ls'"
  shows "vault_inv rt ls'"
  using stake_step_stake_inv [OF assms] stake_step_named [OF _ assms(3)] stake_step_owned [OF _ assms(2,3)] assms(1)
  by (auto simp: vault_inv_def)

subsection \<open>Escrow instructions\<close>

lemma escrow_step_same: "escrow_step rt ls i = Inr ls' \<Longrightarrow> same_stake ls ls'"
  unfolding same_stake_def by (drule escrow_step_frame, erule ssubst, simp)

lemma deposit_vault_owner:
  "escrow_inv rt ls \<Longrightarrow> deposits ls k = Some d \<Longrightarrow> \<exists>t. tokens ls (deposit_vault_key rt k) = Some t \<and> tk_owner t = k"
  by (auto simp: escrow_inv_def elim!: custodyD)

lemma transfer_from_deposit_debits:
  assumes "token_laws rt" and "transfer_from_deposit rt ts k d dest mint tp a = Inr ts'"
    and "ts (deposit_vault_key rt k) = Some t" and "tk_owner t = k"
  shows "others_grow k ts ts' \<and> (\<exists>t'. ts' (deposit_vault_key rt k) = Some t' \<and> tk_owner t' = k)"
proof -
  from assms(2) have tr: "transfer_checked rt tp ts (deposit_vault_key rt k) (d_token_mint d) dest k a (mint_decimals mint) = Inr ts'"
    by (simp add: transfer_from_deposit_Inr)
  from token_moved_identity [OF transfer_moved [OF assms(1) tr] assms(3)] assms(4)
  show ?thesis using others_grow_transfer [OF assms(1) tr assms(3,4)] by auto
qed

lemma optional_transfer_debits:
  assumes "token_laws rt" and "ts' = ts \<or> (\<exists>d dest a. transfer_from_deposit rt ts k d dest mint tp a = Inr ts')"
    and "ts (deposit_vault_key rt k) = Some t" and "tk_owner t = k"
  obtains t' where "others_grow k ts ts'" "ts' (deposit_vault_key rt k) = Some t'" "tk_owner t' = k"
  using assms transfer_from_deposit_debits [of rt ts k] by (metis others_grow_refl)

lemma close_deposit_debits:
  assumes laws: "token_laws rt" and run: "close_deposit rt ls e k d mint tp dust ts = Inr ls'"
    and t: "ts (deposit_vault_key rt k) = Some t" "tk_owner t = k"
  shows "others_grow k ts (tokens ls')"
proof -
  from run obtain residual where res: "reload_amount ts (deposit_vault_key rt k) = Inr residual"
    by (auto simp: close_deposit_def and_then_Inr)
  show ?thesis
  proof (cases "residual > ec_dust_threshold e")
    case True
    with run res show ?thesis by (auto simp: close_deposit_def)
  next
    case False
    with run res obtain ts1 ts2 where pay: "ts1 = ts \<or> (\<exists>dest a. transfer_from_deposit rt ts k d dest mint tp a = Inr ts1)"
        and close: "close_account rt tp ts1 (deposit_vault_key rt k) (d_depositor d) k = Inr ts2"
        and ls': "ls' = ls\<lparr>deposits := (deposits ls)(k := None), tokens := ts2\<rparr>"
      by (auto simp: close_deposit_def result_simps simp del: transfer_from_deposit_Inr split: if_splits)
    from pay have "ts1 = ts \<or> (\<exists>d dest a. transfer_from_deposit rt ts k d dest mint tp a = Inr ts1)" by blast
    from optional_transfer_debits [of rt ts1 ts, OF laws this t] obtain t1 where "others_grow k ts ts1"
        "ts1 (deposit_vault_key rt k) = Some t1" "tk_owner t1 = k" .
    with others_grow_close [OF laws close] ls' show ?thesis using others_grow_trans [of k ts ts1 ts2] by simp
  qed
qed

lemma withdraw_deposit_debits:
  assumes inv: "escrow_inv rt ls" and laws: "token_laws rt"
    and run: "handle_withdraw_deposit rt ls depositor k dest tp dust = Inr ls'"
  shows "deposits ls k \<noteq> None \<and> others_grow k (tokens ls) (tokens ls')"
proof -
  from run obtain e d ts b and mint :: Mint where d: "deposits ls k = Some d"
      and pay: "(if d_remaining_deposits d > 0
          then transfer_from_deposit rt (tokens ls) k (d\<lparr>d_remaining_deposits := 0, d_accepting_intents := False\<rparr>)
            dest mint tp (d_remaining_deposits d) else Inr (tokens ls)) = Inr ts"
      and rest: "(if b then close_deposit rt ls e k (d\<lparr>d_remaining_deposits := 0, d_accepting_intents := False\<rparr>) mint tp dust ts
          else Inr (ls\<lparr>deposits := (deposits ls)(k \<mapsto> d\<lparr>d_remaining_deposits := 0, d_accepting_intents := False\<rparr>),
            tokens := ts\<rparr>)) = Inr ls'"
    by (simp add: handle_withdraw_deposit_def Let_def and_then_Inr require_Inr token_interface_Inr constraint_Inr
        account_Inr seeds_bump_Inr, elim exE conjE, blast)
  from deposit_vault_owner [OF inv d] obtain t where t: "tokens ls (deposit_vault_key rt k) = Some t" "tk_owner t = k" by blast
  from pay have "ts = tokens ls \<or> (\<exists>d dest a. transfer_from_deposit rt (tokens ls) k d dest mint tp a = Inr ts)"
    by (auto simp del: transfer_from_deposit_Inr split: if_splits)
  from optional_transfer_debits [of rt ts "tokens ls", OF laws this t] obtain t1 where 1: "others_grow k (tokens ls) ts"
      "ts (deposit_vault_key rt k) = Some t1" "tk_owner t1 = k" .
  moreover have "others_grow k ts (tokens ls')"
    using rest close_deposit_debits [of rt _ _ k _ _ _ _ ts, OF laws _ 1(2,3)] by (auto split: if_splits)
  ultimately show ?thesis using d by (blast intro: others_grow_trans)
qed

lemma create_deposit_debits:
  assumes laws: "token_laws rt" and run: "handle_create_deposit rt ls depositor source tp args = Inr ls'"
  shows "others_grow depositor (tokens ls) (tokens ls')"
proof -
  from run obtain v mint k ts0 f dec where init: "initialize_account rt tp (tokens ls) v mint k = Inr ts0"
      and f: "tokens ls source = Some f" "tk_owner f = depositor"
      and move: "transfer_checked rt tp ts0 source mint v depositor (cda_amount args) dec = Inr (tokens ls')"
    by (auto simp: handle_create_deposit_def create_deposit_at_def Let_def result_simps)
  from initialize_fresh [OF laws init] f have "ts0 source = Some f" by auto
  from others_grow_transfer [OF laws move this f(2)] others_grow_initialize [OF laws init] show ?thesis
    by (rule others_grow_trans [rotated])
qed

text \<open>An escrow instruction debits accounts of its signer or of one deposit.\<close>

lemma escrow_step_debits:
  assumes inv: "escrow_inv rt ls" and laws: "token_laws rt" and run: "escrow_step rt ls i = Inr ls'"
  shows "\<exists>auth. (signer (Escrow i) = Some auth \<or> deposits ls auth \<noteq> None) \<and> others_grow auth (tokens ls) (tokens ls')"
proof (cases i)
  case (Create_deposit s t tp args)
  with run create_deposit_debits [OF laws] show ?thesis by auto
next
  case (Add_funds s k t tp a)
  with run others_grow_transfer [OF laws] show ?thesis
    by (auto simp: handle_add_funds_def result_simps Let_def)
next
  case (Remove_funds s k t tp a)
  with run obtain d ts mint where d: "deposits ls k = Some d"
      and pay: "transfer_from_deposit rt (tokens ls) k d t mint tp a = Inr ts" and "tokens ls' = ts"
    by (auto simp: handle_remove_funds_def and_then_Inr require_Inr constraint_Inr account_Inr seeds_bump_Inr
        token_interface_Inr ok_or_Inr unpaused_deposit_Inr)
  with deposit_vault_owner [OF inv d] transfer_from_deposit_debits [OF laws pay] show ?thesis by auto
next
  case (Withdraw_deposit s k t tp d)
  with run have "handle_withdraw_deposit rt ls s k t tp d = Inr ls'" by simp
  from withdraw_deposit_debits [OF inv laws this] show ?thesis by blast
next
  case (Update_deposit s k args)
  with run update_deposit_Inr [of rt ls s k args ls'] show ?thesis by auto
next
  case (Set_deposit_rate_manager s k r m)
  with run have "tokens ls' = tokens ls"
    by (auto simp: handle_set_deposit_rate_manager_def result_simps split: option.splits)
  with Set_deposit_rate_manager show ?thesis by auto
qed (use run in \<open>auto simp: handle_update_oracle_quote_def handle_configure_payment_method_def handle_configure_currency_def
      handle_extend_intent_expiry_def result_simps Let_def\<close>)

end
