(* ===== verification/Dispute_Backing.thy ===== *)
theory Dispute_Backing
  imports Custody
begin

text \<open>
  While the dispute program controls the stake vault, stake locks and live disputes correspond one to one: a live dispute
  (pending or settled) owns the lock at the address of its intent hash, with its own stake owner and exactly the amount
  the dispute still secures, and every lock belongs to a live dispute. \<open>H\<close> is a set of intent hashes that contains the
  hashes of all disputes and intents; the addresses derived from them are assumed not to collide.
\<close>

abbreviation dispute_addr :: "runtime \<Rightarrow> bytes32 \<Rightarrow> pubkey" where
  "dispute_addr rt h \<equiv> pda rt (dispute_intent_seeds (dispute_config_key rt) h)"

definition live :: "DisputeIntent \<Rightarrow> bool" where
  "live d \<longleftrightarrow> di_status d = Pending \<or> di_status d = Settled"

definition collateral :: "DisputeIntent \<Rightarrow> u64" where
  "collateral d = (if di_status d = Pending then di_locked_amount d else di_release_amount d)"

definition secures :: "DisputeIntent \<Rightarrow> StakeLock \<Rightarrow> bool" where
  "secures d l \<longleftrightarrow> sl_stake_owner l = di_stake_owner d \<and> sl_amount l = collateral d"

definition dispute_backing ::
  "runtime \<Rightarrow> bytes32 set \<Rightarrow> (pubkey \<rightharpoonup> DisputeIntent) \<Rightarrow> (pubkey \<rightharpoonup> StakeLock) \<Rightarrow> bool" where
  "dispute_backing rt H dis lks \<longleftrightarrow>
     (\<forall>k d. dis k = Some d \<longrightarrow> k = dispute_addr rt (di_intent_hash d) \<and> di_intent_hash d \<in> H \<and> di_depositor d \<noteq> 0) \<and>
     (\<forall>k d. dis k = Some d \<longrightarrow> live d \<longrightarrow> (\<exists>l. lks (stake_lock_key rt (di_intent_hash d)) = Some l \<and> secures d l)) \<and>
     (\<forall>k k' d d'. dis k = Some d \<longrightarrow> dis k' = Some d' \<longrightarrow> live d \<longrightarrow> live d' \<longrightarrow>
        stake_lock_key rt (di_intent_hash d) = stake_lock_key rt (di_intent_hash d') \<longrightarrow> k = k') \<and>
     (\<forall>j l. lks j = Some l \<longrightarrow> (\<exists>k d. dis k = Some d \<and> live d \<and> stake_lock_key rt (di_intent_hash d) = j))"

lemma dispute_backingI:
  assumes "\<And>k d. dis k = Some d \<Longrightarrow> k = dispute_addr rt (di_intent_hash d) \<and> di_intent_hash d \<in> H \<and> di_depositor d \<noteq> 0"
    and "\<And>k d. dis k = Some d \<Longrightarrow> live d \<Longrightarrow> \<exists>l. lks (stake_lock_key rt (di_intent_hash d)) = Some l \<and> secures d l"
    and "\<And>k k' d d'. dis k = Some d \<Longrightarrow> dis k' = Some d' \<Longrightarrow> live d \<Longrightarrow> live d' \<Longrightarrow>
      stake_lock_key rt (di_intent_hash d) = stake_lock_key rt (di_intent_hash d') \<Longrightarrow> k = k'"
    and "\<And>j l. lks j = Some l \<Longrightarrow> \<exists>k d. dis k = Some d \<and> live d \<and> stake_lock_key rt (di_intent_hash d) = j"
  shows "dispute_backing rt H dis lks"
  using assms unfolding dispute_backing_def by blast

lemma backing_identity:
  "dispute_backing rt H dis lks \<Longrightarrow> dis k = Some d \<Longrightarrow>
     k = dispute_addr rt (di_intent_hash d) \<and> di_intent_hash d \<in> H \<and> di_depositor d \<noteq> 0"
  unfolding dispute_backing_def by blast

lemma backing_lock:
  "dispute_backing rt H dis lks \<Longrightarrow> dis k = Some d \<Longrightarrow> live d \<Longrightarrow>
     \<exists>l. lks (stake_lock_key rt (di_intent_hash d)) = Some l \<and> secures d l"
  unfolding dispute_backing_def by blast

lemma backing_inj:
  "dispute_backing rt H dis lks \<Longrightarrow> dis k = Some d \<Longrightarrow> dis k' = Some d' \<Longrightarrow> live d \<Longrightarrow> live d' \<Longrightarrow>
     stake_lock_key rt (di_intent_hash d) = stake_lock_key rt (di_intent_hash d') \<Longrightarrow> k = k'"
  unfolding dispute_backing_def by blast

lemma backing_dispute:
  "dispute_backing rt H dis lks \<Longrightarrow> lks j = Some l \<Longrightarrow> \<exists>k d. dis k = Some d \<and> live d \<and> stake_lock_key rt (di_intent_hash d) = j"
  unfolding dispute_backing_def by blast

lemma backing_hash:
  assumes "dispute_backing rt H dis lks" and "inj_on (dispute_addr rt) H" and "h \<in> H" and "dis (dispute_addr rt h) = Some d"
  shows "di_intent_hash d = h"
  using backing_identity [OF assms(1,4)] assms(2,3) by (auto dest: inj_onD)

subsection \<open>Shapes of change\<close>

lemma backing_open:
  assumes b: "dispute_backing rt H dis lks" and k: "k = dispute_addr rt (di_intent_hash d)" "dis k = None"
    and d: "di_intent_hash d \<in> H" "di_depositor d \<noteq> 0" "live d" "secures d l"
    and j: "j = stake_lock_key rt (di_intent_hash d)" "lks j = None"
  shows "dispute_backing rt H (dis(k \<mapsto> d)) (lks(j \<mapsto> l))"
proof -
  have apart: "stake_lock_key rt (di_intent_hash e) \<noteq> j" if "dis m = Some e" "live e" for m e
    using backing_lock [OF b that] j(2) by auto
  show ?thesis
  proof (rule dispute_backingI)
    fix m e assume "(dis(k \<mapsto> d)) m = Some e"
    then show "m = dispute_addr rt (di_intent_hash e) \<and> di_intent_hash e \<in> H \<and> di_depositor e \<noteq> 0"
      using backing_identity [OF b] k d by (auto split: if_splits)
  next
    fix m e assume "(dis(k \<mapsto> d)) m = Some e" "live e"
    then show "\<exists>l'. (lks(j \<mapsto> l)) (stake_lock_key rt (di_intent_hash e)) = Some l' \<and> secures e l'"
      using backing_lock [OF b, of m e] apart [of m e] d j by (auto split: if_splits)
  next
    fix m m' e e' assume "(dis(k \<mapsto> d)) m = Some e" "(dis(k \<mapsto> d)) m' = Some e'" "live e" "live e'"
      "stake_lock_key rt (di_intent_hash e) = stake_lock_key rt (di_intent_hash e')"
    then show "m = m'" using backing_inj [OF b, of m e m' e'] apart [of m e] apart [of m' e'] j
      by (auto split: if_splits)
  next
    fix i l' assume "(lks(j \<mapsto> l)) i = Some l'"
    then show "\<exists>m e. (dis(k \<mapsto> d)) m = Some e \<and> live e \<and> stake_lock_key rt (di_intent_hash e) = i"
      using backing_dispute [OF b, of i l'] d j k by (cases "i = j") (auto, metis option.distinct(1))
  qed
qed

lemma backing_close:
  assumes b: "dispute_backing rt H dis lks" and k: "dis k = Some d" "live d"
    and d': "di_intent_hash d' = di_intent_hash d" "di_depositor d' = di_depositor d" "\<not> live d'"
    and j: "j = stake_lock_key rt (di_intent_hash d)"
  shows "dispute_backing rt H (dis(k \<mapsto> d')) (lks(j := None))"
proof -
  have apart: "stake_lock_key rt (di_intent_hash e) \<noteq> j" if "dis m = Some e" "live e" "m \<noteq> k" for m e
    using backing_inj [OF b that(1) k(1) that(2) k(2)] that(3) j by auto
  show ?thesis
  proof (rule dispute_backingI)
    fix m e assume "(dis(k \<mapsto> d')) m = Some e"
    then show "m = dispute_addr rt (di_intent_hash e) \<and> di_intent_hash e \<in> H \<and> di_depositor e \<noteq> 0"
      using backing_identity [OF b] k d' by (auto split: if_splits)
  next
    fix m e assume "(dis(k \<mapsto> d')) m = Some e" "live e"
    then show "\<exists>l'. (lks(j := None)) (stake_lock_key rt (di_intent_hash e)) = Some l' \<and> secures e l'"
      using backing_lock [OF b, of m e] apart [of m e] d' by (auto split: if_splits)
  next
    fix m m' e e' assume "(dis(k \<mapsto> d')) m = Some e" "(dis(k \<mapsto> d')) m' = Some e'" "live e" "live e'"
      "stake_lock_key rt (di_intent_hash e) = stake_lock_key rt (di_intent_hash e')"
    then show "m = m'" using backing_inj [OF b, of m e m' e'] d' by (auto split: if_splits)
  next
    fix i l' assume "(lks(j := None)) i = Some l'"
    then obtain m e where "dis m = Some e" "live e" "stake_lock_key rt (di_intent_hash e) = i" "i \<noteq> j"
      using backing_dispute [OF b, of i l'] by (auto split: if_splits)
    then show "\<exists>m e. (dis(k \<mapsto> d')) m = Some e \<and> live e \<and> stake_lock_key rt (di_intent_hash e) = i"
      using j k by (intro exI [of _ m] exI [of _ e]) auto
  qed
qed

lemma backing_resize:
  assumes b: "dispute_backing rt H dis lks" and k: "dis k = Some d" "live d"
    and d': "di_intent_hash d' = di_intent_hash d" "di_depositor d' = di_depositor d" "live d'" "secures d' l'"
    and j: "j = stake_lock_key rt (di_intent_hash d)"
  shows "dispute_backing rt H (dis(k \<mapsto> d')) (lks(j \<mapsto> l'))"
proof -
  have apart: "stake_lock_key rt (di_intent_hash e) \<noteq> j" if "dis m = Some e" "live e" "m \<noteq> k" for m e
    using backing_inj [OF b that(1) k(1) that(2) k(2)] that(3) j by auto
  show ?thesis
  proof (rule dispute_backingI)
    fix m e assume "(dis(k \<mapsto> d')) m = Some e"
    then show "m = dispute_addr rt (di_intent_hash e) \<and> di_intent_hash e \<in> H \<and> di_depositor e \<noteq> 0"
      using backing_identity [OF b] k d' by (auto split: if_splits)
  next
    fix m e assume "(dis(k \<mapsto> d')) m = Some e" "live e"
    then show "\<exists>l. (lks(j \<mapsto> l')) (stake_lock_key rt (di_intent_hash e)) = Some l \<and> secures e l"
      using backing_lock [OF b, of m e] apart [of m e] d' j by (auto split: if_splits)
  next
    fix m m' e e' assume e: "(dis(k \<mapsto> d')) m = Some e" "(dis(k \<mapsto> d')) m' = Some e'" "live e" "live e'"
      and same: "stake_lock_key rt (di_intent_hash e) = stake_lock_key rt (di_intent_hash e')"
    have old: "\<exists>f. dis n = Some f \<and> live f \<and> di_intent_hash f = di_intent_hash g"
      if "(dis(k \<mapsto> d')) n = Some g" "live g" for n g using that k d'(1) by (auto split: if_splits)
    from old [OF e(1,3)] old [OF e(2,4)] obtain f f' where "dis m = Some f" "live f" "di_intent_hash f = di_intent_hash e"
      "dis m' = Some f'" "live f'" "di_intent_hash f' = di_intent_hash e'" by blast
    with backing_inj [OF b, of m f m' f'] same show "m = m'" by simp
  next
    fix i l assume "(lks(j \<mapsto> l')) i = Some l"
    then obtain m e where "dis m = Some e" "live e" "stake_lock_key rt (di_intent_hash e) = i"
      using backing_dispute [OF b, of i l] j k by (cases "i = j") auto
    then show "\<exists>m e. (dis(k \<mapsto> d')) m = Some e \<and> live e \<and> stake_lock_key rt (di_intent_hash e) = i"
      using d' k by (intro exI [of _ m] exI [of _ "if m = k then d' else e"]) auto
  qed
qed

subsection \<open>Instructions\<close>

definition dispute_inv :: "runtime \<Rightarrow> bytes32 set \<Rightarrow> ledger \<Rightarrow> bool" where
  "dispute_inv rt H ls \<longleftrightarrow> dispute_backing rt H (dispute_intents ls) (stake_locks ls) \<and>
     (\<forall>k i. intents ls k = Some i \<longrightarrow> i_intent_hash i \<in> H) \<and>
     (\<forall>v. stake_vault_config ls = Some v \<longrightarrow> sv_controller v = dispute_config_key rt)"

lemma cancel_closes:
  "DisputeIntent_cancel d = Inr d' \<Longrightarrow> live d \<and> \<not> live d' \<and> di_intent_hash d' = di_intent_hash d \<and> di_depositor d' = di_depositor d"
  by (auto simp: DisputeIntent_cancel_def result_simps live_def)

lemma release_closes:
  "DisputeIntent_release d now = Inr (d', a) \<Longrightarrow>
     live d \<and> \<not> live d' \<and> di_intent_hash d' = di_intent_hash d \<and> di_depositor d' = di_depositor d \<and> a = collateral d"
  by (auto simp: DisputeIntent_release_def result_simps live_def collateral_def)

lemma dispute_closes:
  "DisputeIntent_dispute d = Inr (d', a) \<Longrightarrow>
     live d \<and> \<not> live d' \<and> di_intent_hash d' = di_intent_hash d \<and> di_depositor d' = di_depositor d \<and> a = collateral d"
  by (auto simp: DisputeIntent_dispute_def result_simps live_def collateral_def)

lemma settle_keeps:
  "DisputeIntent_settle d a now = Inr (d', t) \<Longrightarrow>
     live d \<and> live d' \<and> di_intent_hash d' = di_intent_hash d \<and> di_depositor d' = di_depositor d \<and>
     di_stake_owner d' = di_stake_owner d \<and> collateral d' = a"
  by (auto simp: DisputeIntent_settle_def result_simps live_def collateral_def)

lemma prepare_dispute_backing:
  assumes b: "dispute_backing rt H (dispute_intents ls) (stake_locks ls)" and inv: "escrow_inv rt ls"
    and h: "pda_expected_intent_hash args \<in> H" and run: "handle_prepare_dispute rt ls taker k setting sel so args = Inr ls'"
  shows "dispute_backing rt H (dispute_intents ls') (stake_locks ls')"
  using run
proof (rule prepare_dispute_Inr)
  fix oc config d ds risk selected p p' v
  let ?h = "pda_expected_intent_hash args"
  let ?d = "new_dispute_intent rt taker k d so (rw_seconds risk) args" and ?l = "new_stake_lock rt ?h so (pda_amount args) NEVER_MATURES"
  assume d: "deposits ls k = Some d" and none: "stake_locks ls (stake_lock_key rt ?h) = None" "dispute_intents ls (dispute_addr rt ?h) = None"
    and ls': "ls' = ls\<lparr>stake_positions := (stake_positions ls)(position_key rt so \<mapsto> p'),
       stake_locks := (stake_locks ls)(stake_lock_key rt ?h \<mapsto> ?l),
       dispute_intents := (dispute_intents ls)(dispute_addr rt ?h \<mapsto> ?d)\<rparr>"
  from inv d have "d_depositor d \<noteq> 0" by (auto simp: escrow_inv_def elim!: custodyD)
  then have "dispute_backing rt H ((dispute_intents ls)(dispute_addr rt ?h \<mapsto> ?d)) ((stake_locks ls)(stake_lock_key rt ?h \<mapsto> ?l))"
    by (intro backing_open [OF b])
      (use none h in \<open>simp_all add: new_dispute_intent_def new_stake_lock_def live_def secures_def collateral_def\<close>)
  then show ?thesis by (simp add: ls')
qed

lemma cancel_dispute_backing:
  assumes b: "dispute_backing rt H (dispute_intents ls) (stake_locks ls)" and run: "handle_cancel_dispute rt ls owner ik dk = Inr ls'"
  shows "dispute_backing rt H (dispute_intents ls') (stake_locks ls')"
  using run
proof (rule cancel_dispute_Inr)
  fix i v dis p l dis' p'
  assume dis: "dispute_intents ls dk = Some dis" and h: "di_intent_hash dis = i_intent_hash i" and c: "DisputeIntent_cancel dis = Inr dis'"
    and ls': "ls' = ls\<lparr>dispute_intents := (dispute_intents ls)(dk \<mapsto> dis'),
       stake_positions := (stake_positions ls)(position_key rt (di_stake_owner dis) \<mapsto> p'),
       stake_locks := (stake_locks ls)(stake_lock_key rt (i_intent_hash i) := None)\<rparr>"
  from backing_close [OF b dis, of dis'] cancel_closes [OF c] h show ?thesis by (simp add: ls')
qed

lemma release_matured_dispute_backing:
  assumes b: "dispute_backing rt H (dispute_intents ls) (stake_locks ls)" and run: "handle_release_matured_dispute rt ls dk = Inr ls'"
  shows "dispute_backing rt H (dispute_intents ls') (stake_locks ls')"
  using run
proof (rule release_matured_dispute_Inr)
  fix v dis p l dis' a p'
  assume dis: "dispute_intents ls dk = Some dis" and c: "DisputeIntent_release dis (unix_timestamp rt) = Inr (dis', a)"
    and ls': "ls' = ls\<lparr>dispute_intents := (dispute_intents ls)(dk \<mapsto> dis'),
       stake_positions := (stake_positions ls)(position_key rt (di_stake_owner dis) \<mapsto> p'),
       stake_locks := (stake_locks ls)(stake_lock_key rt (di_intent_hash dis) := None)\<rparr>"
  from backing_close [OF b dis, of dis'] release_closes [OF c] show ?thesis by (simp add: ls')
qed

lemma release_matured_dispute_owner:
  assumes "dispute_backing rt H (dispute_intents ls) (stake_locks ls)" and "handle_release_matured_dispute rt ls dk = Inr ls'"
    and "dispute_intents ls dk = Some dis" and "stake_locks ls (stake_lock_key rt (di_intent_hash dis)) = Some l"
  shows "sl_stake_owner l = di_stake_owner dis"
proof -
  from assms(2,3) have "live dis" by (elim release_matured_dispute_Inr) (auto dest: release_closes)
  from backing_lock [OF assms(1,3) this] assms(4) show ?thesis by (auto simp: secures_def)
qed

lemma prune_dispute_backing:
  assumes b: "dispute_backing rt H (dispute_intents ls) (stake_locks ls)" and inj: "inj_on (dispute_addr rt) H" and h: "h \<in> H"
    and di: "opt_account (dispute_intents ls) key = Inr di" and run: "prune_dispute rt ls h config di vault pos lk = Inr ls'"
  shows "dispute_backing rt H (dispute_intents ls') (stake_locks ls')"
  using run
proof (rule prune_dispute_full)
  fix dis p l dis' p' pk
  assume "di = Some (dispute_addr rt h, dis)" and c: "DisputeIntent_cancel dis = Inr dis'"
    and ls': "ls' = ls\<lparr>dispute_intents := (dispute_intents ls)(dispute_addr rt h \<mapsto> dis'),
       stake_positions := (stake_positions ls)(pk \<mapsto> p'), stake_locks := (stake_locks ls)(stake_lock_key rt h := None)\<rparr>"
  with di have dis: "dispute_intents ls (dispute_addr rt h) = Some dis" by (simp add: opt_account_Some)
  from backing_close [OF b dis, of dis'] cancel_closes [OF c] backing_hash [OF b inj h dis] show ?thesis by (simp add: ls')
qed

lemma settle_dispute_backing:
  assumes b: "dispute_backing rt H (dispute_intents ls) (stake_locks ls)"
    and run: "settle_dispute_if_covered rt ls i accs a = Inr ls'"
  shows "dispute_backing rt H (dispute_intents ls') (stake_locks ls')"
proof (cases "i_dispute_covered i")
  case False
  with settle_dispute_uncovered [OF run] b show ?thesis by simp
next
  case True
  with run show ?thesis
  proof (rule settle_dispute_covered)
    fix dis v p l dis' m u p'
    assume dis: "dispute_intents ls (dispute_addr rt (i_intent_hash i)) = Some dis"
      and l: "stake_locks ls (stake_lock_key rt (i_intent_hash i)) = Some l" and h: "di_intent_hash dis = i_intent_hash i"
      and c: "DisputeIntent_settle dis a (unix_timestamp rt) = Inr (dis', m)"
      and ls': "ls' = ls\<lparr>dispute_intents := (dispute_intents ls)(dispute_addr rt (i_intent_hash i) \<mapsto> dis'),
            stake_positions := (stake_positions ls)(position_key rt (di_stake_owner dis) \<mapsto> p'),
            stake_locks := (stake_locks ls)(stake_lock_key rt (i_intent_hash i) \<mapsto> l\<lparr>sl_amount := a, sl_matures_at := m\<rparr>)\<rparr>"
    note s = settle_keeps [OF c]
    then have "live dis" by simp
    from backing_lock [OF b dis this] l have "sl_stake_owner l = di_stake_owner dis" by (simp add: secures_def h)
    with s have "secures dis' (l\<lparr>sl_amount := a, sl_matures_at := m\<rparr>)" by (simp add: secures_def)
    with backing_resize [OF b dis, of dis' "l\<lparr>sl_amount := a, sl_matures_at := m\<rparr>"] s h show ?thesis by (simp add: ls')
  qed
qed

lemma submit_dispute_backing:
  assumes b: "dispute_backing rt H (dispute_intents ls) (stake_locks ls)" and inj: "inj_on (dispute_addr rt) H"
    and h: "da_intent_hash (sda_attestation args) \<in> H" and run: "handle_submit_dispute rt ls args = Inr ls'"
  shows "dispute_backing rt H (dispute_intents ls') (stake_locks ls')"
proof -
  let ?h = "da_intent_hash (sda_attestation args)"
  from run obtain dis dis' a where dis: "dispute_intents ls (dispute_addr rt ?h) = Some dis"
      and c: "DisputeIntent_dispute dis = Inr (dis', a)"
      and ls': "dispute_intents ls' = (dispute_intents ls)(dispute_addr rt ?h \<mapsto> dis')"
        "stake_locks ls' = (stake_locks ls)(stake_lock_key rt ?h := None)"
    by (elim submit_dispute_Inr) (auto dest!: submit_context_Inr)
  from backing_close [OF b dis, of dis'] dispute_closes [OF c] backing_hash [OF b inj h dis] show ?thesis by (simp add: ls')
qed

end
