(* ===== verification/Program_Invariant.thy ===== *)
theory Program_Invariant
  imports Dispute_Backing
begin

text \<open>
  The invariant of the whole program over any history: the books of the stake vault, the books of the escrow and the
  correspondence of disputes and stake locks. \<open>vault_apart\<close> and injectivity on the hashes in use are what is assumed of
  address derivation, \<open>token_laws\<close> what is assumed of the token program. A history is ordinary when the control of the
  stake vault is never handed over and its intent hashes lie in \<open>H\<close>.
\<close>

definition vault_apart :: "runtime \<Rightarrow> bool" where
  "vault_apart rt \<longleftrightarrow> (\<forall>n. pda rt (deposit_seeds (escrow_config_key rt) n) \<noteq> stake_vault_config_key rt)"

definition protocol_inv :: "runtime \<Rightarrow> bytes32 set \<Rightarrow> ledger \<Rightarrow> bool" where
  "protocol_inv rt H ls \<longleftrightarrow> vault_inv rt ls \<and> escrow_inv rt ls \<and> dispute_inv rt H ls"

fun instruction_hashes :: "instruction \<Rightarrow> bytes32 set" where
  "instruction_hashes (Intents (Signal_intent t accs args)) = {sia_expected_intent_hash args}"
| "instruction_hashes (Disputes (Prepare_dispute t k ds sel so args)) = {pda_expected_intent_hash args}"
| "instruction_hashes (Disputes (Submit_dispute args)) = {da_intent_hash (sda_attestation args)}"
| "instruction_hashes _ = {}"

fun hands_over_vault :: "instruction \<Rightarrow> bool" where
  "hands_over_vault (Governance (Accept_stake_controller k)) = True"
| "hands_over_vault _ = False"

fun ordinary :: "bytes32 set \<Rightarrow> event \<Rightarrow> bool" where
  "ordinary H (Call env i) \<longleftrightarrow> instruction_hashes i \<subseteq> H \<and> \<not> hands_over_vault i"
| "ordinary H _ \<longleftrightarrow> True"

lemma deposit_apart:
  "escrow_inv rt ls \<Longrightarrow> vault_apart rt \<Longrightarrow> deposits ls (stake_vault_config_key rt) = None"
proof (rule ccontr)
  assume inv: "escrow_inv rt ls" and apart: "vault_apart rt" and "deposits ls (stake_vault_config_key rt) \<noteq> None"
  then obtain d where "deposits ls (stake_vault_config_key rt) = Some d" by blast
  with inv have "stake_vault_config_key rt = pda rt (deposit_seeds (escrow_config_key rt) (d_id d))"
    by (auto simp: escrow_inv_def escrow_custody_def deposit_backed_def)
  with apart show False unfolding vault_apart_def by metis
qed

subsection \<open>Invariants that an instruction leaves alone\<close>

lemma vault_inv_same: "vault_inv rt ls \<Longrightarrow> same_stake ls ls' \<Longrightarrow> tokens ls' = tokens ls \<Longrightarrow> vault_inv rt ls'"
  by (simp add: vault_inv_def stake_inv_def same_stake_def)

lemma escrow_inv_same: "escrow_inv rt ls \<Longrightarrow> same_escrow ls ls' \<Longrightarrow> tokens ls' = tokens ls \<Longrightarrow> escrow_inv rt ls'"
  by (simp add: escrow_inv_def same_escrow_def)

lemma dispute_inv_same:
  "dispute_inv rt H ls \<Longrightarrow> dispute_intents ls' = dispute_intents ls \<Longrightarrow> stake_locks ls' = stake_locks ls \<Longrightarrow>
     intents ls' = intents ls \<Longrightarrow> stake_vault_config ls' = stake_vault_config ls \<Longrightarrow> dispute_inv rt H ls'"
  by (simp add: dispute_inv_def)

lemma protocol_inv_same:
  assumes "protocol_inv rt H ls" and "stake_vault_config ls' = stake_vault_config ls"
    "stake_positions ls' = stake_positions ls" "stake_locks ls' = stake_locks ls" "claim_balances ls' = claim_balances ls"
    "deposits ls' = deposits ls" "intents ls' = intents ls" "intent_locks ls' = intent_locks ls"
    "taker_states ls' = taker_states ls" "dispute_intents ls' = dispute_intents ls" "tokens ls' = tokens ls"
  shows "protocol_inv rt H ls'"
  using assms vault_inv_same escrow_inv_same dispute_inv_same [of rt H ls ls']
  by (auto simp: protocol_inv_def same_stake_def same_escrow_def)

lemma rate_manager_step_protocol_inv:
  assumes "protocol_inv rt H ls" and "rate_manager_step rt ls i = Inr ls'"
  shows "protocol_inv rt H ls'"
  by (rule protocol_inv_same [OF assms(1)]) (subst rate_manager_step_frame [OF assms(2)], simp)+

lemma whitelist_step_protocol_inv:
  assumes "protocol_inv rt H ls" and "whitelist_step rt ls i = Inr ls'"
  shows "protocol_inv rt H ls'"
  by (rule protocol_inv_same [OF assms(1)]) (subst whitelist_step_frame [OF assms(2)], simp)+

lemma verifier_step_protocol_inv:
  assumes "protocol_inv rt H ls" and "verifier_step rt ls i = Inr ls'"
  shows "protocol_inv rt H ls'"
  by (rule protocol_inv_same [OF assms(1)]) (subst verifier_step_frame [OF assms(2)], simp)+

subsection \<open>Governance\<close>

text \<open>Governance creates the vault with empty books, and changes of it keep the totals and the controller.\<close>

lemma governance_step_vault:
  assumes "governance_step rt ls i = Inr ls'" and "\<not> hands_over_vault (Governance i)"
    and "stake_vault_config ls' = Some v'"
  shows "sv_total_staked v' = 0 \<and> sv_total_claimable v' = 0 \<and> sv_controller v' = dispute_config_key rt \<and> stake_vault_config ls = None \<or>
    (\<exists>v. stake_vault_config ls = Some v \<and> sv_total_staked v' = sv_total_staked v \<and>
      sv_total_claimable v' = sv_total_claimable v \<and> sv_controller v' = sv_controller v)"
proof (cases i)
  case (Initialize_protocol a pd d sh m args)
  with assms show ?thesis
    by (auto simp: handle_initialize_protocol_def check_initialize_args_def result_simps Let_def)
qed (use assms in \<open>auto simp: handle_propose_protocol_authority_def handle_accept_protocol_authority_def
    handle_configure_orchestrator_def handle_configure_escrow_def handle_propose_stake_controller_def
    result_simps Let_def split: option.splits\<close>)

lemma governance_step_keeps_vault:
  assumes "governance_step rt ls i = Inr ls'" and "stake_vault_config ls = Some v"
  shows "stake_vault_config ls' \<noteq> None"
  using assms
  by (cases i) (auto simp: handle_initialize_protocol_def check_initialize_args_def handle_propose_protocol_authority_def
    handle_accept_protocol_authority_def handle_configure_orchestrator_def handle_configure_escrow_def
    handle_propose_stake_controller_def handle_accept_stake_controller_def result_simps Let_def split: option.splits)

lemma governance_step_protocol_inv:
  assumes inv: "protocol_inv rt H ls" and run: "governance_step rt ls i = Inr ls'" and ho: "\<not> hands_over_vault (Governance i)"
  shows "protocol_inv rt H ls'"
proof -
  have same: "stake_positions ls' = stake_positions ls" "stake_locks ls' = stake_locks ls" "claim_balances ls' = claim_balances ls"
    "tokens ls' = tokens ls" "deposits ls' = deposits ls" "intents ls' = intents ls" "intent_locks ls' = intent_locks ls"
    "taker_states ls' = taker_states ls" "dispute_intents ls' = dispute_intents ls"
    by (subst governance_step_frame [OF run], simp)+
  have v: "vault_inv rt ls" "dispute_inv rt H ls" using inv by (auto simp: protocol_inv_def)
  have "escrow_inv rt ls'" using inv same by (simp add: protocol_inv_def escrow_inv_def)
  moreover have "vault_inv rt ls'"
  proof (cases "stake_vault_config ls'")
    case None
    with governance_step_keeps_vault [OF run] have "stake_vault_config ls = None"
      by (cases "stake_vault_config ls") auto
    with v None same show ?thesis by (simp add: vault_inv_def stake_inv_def claims_named_def)
  next
    case (Some v')
    from governance_step_vault [OF run ho Some] v(1) same Some show ?thesis
      by (auto simp: vault_inv_def stake_inv_def stake_books_def vault_covered_def vault_owned_def locks_on_def at_def)
  qed
  moreover have "dispute_inv rt H ls'"
    using v(2) same governance_step_vault [OF run ho] by (auto simp: dispute_inv_def)
  ultimately show ?thesis by (simp add: protocol_inv_def)
qed

subsection \<open>Stake\<close>

text \<open>As long as the controller is the address of the dispute configuration, nobody can sign the instructions that touch
  locks.\<close>

lemma stake_step_locks:
  assumes run: "stake_step rt ls i = Inr ls'" and signer: "signer (Stake i) \<noteq> Some (dispute_config_key rt)"
    and ctrl: "\<And>v. stake_vault_config ls = Some v \<Longrightarrow> sv_controller v = dispute_config_key rt"
  shows "stake_locks ls' = stake_locks ls \<and>
    (\<forall>v. stake_vault_config ls' = Some v \<longrightarrow> sv_controller v = dispute_config_key rt)"
  using run signer ctrl
  by (cases i) (auto simp: handle_initialize_stake_token_vault_def handle_deposit_stake_def handle_withdraw_stake_def
      handle_claim_stake_def handle_set_taker_authorization_def handle_select_stake_owner_def handle_clear_stake_owner_def
      handle_controller_lock_stake_def handle_controller_fund_lock_def handle_increase_stake_lock_def
      handle_resize_stake_lock_def handle_controller_unlock_stake_def handle_initialize_claim_balance_def
      handle_resolve_stake_lock_def manage_stake_lock_def result_simps Let_def)

lemma stake_step_protocol_inv:
  assumes inv: "protocol_inv rt H ls" and laws: "token_laws rt" "vault_apart rt" and run: "stake_step rt ls i = Inr ls'"
    and signer: "pred_option (external_key rt ls) (signer (Stake i))"
  shows "protocol_inv rt H ls'"
proof -
  have v: "vault_inv rt ls" "escrow_inv rt ls" "dispute_inv rt H ls" using inv by (simp_all add: protocol_inv_def)
  from stake_step_debits [OF laws(1) run] signer deposit_apart [OF v(2) laws(2)] obtain auth
    where "deposits ls auth = None" "others_grow auth (tokens ls) (tokens ls')"
    by (auto simp: external_key_def)
  then have "escrow_inv rt ls'" using escrow_inv_outside [OF v(2) stake_step_same [OF run]] by blast
  moreover have "signer (Stake i) \<noteq> Some (dispute_config_key rt)" using signer by (auto simp: external_key_def)
  from stake_step_locks [OF run this] v(3) have "stake_locks ls' = stake_locks ls"
    "\<forall>v. stake_vault_config ls' = Some v \<longrightarrow> sv_controller v = dispute_config_key rt" by (auto simp: dispute_inv_def)
  moreover have "dispute_intents ls' = dispute_intents ls" "intents ls' = intents ls"
    by (subst stake_step_frame [OF run], simp)+
  ultimately show ?thesis using stake_step_vault_inv [OF v(1) laws(1) run] v(3) by (simp add: protocol_inv_def dispute_inv_def)
qed

subsection \<open>Escrow\<close>

lemma escrow_step_escrow_inv:
  assumes inv: "escrow_inv rt ls" and laws: "token_laws rt" and run: "escrow_step rt ls i = Inr ls'"
    and signer: "pred_option (external_key rt ls) (signer (Escrow i))"
  shows "escrow_inv rt ls'"
proof (cases i)
  case (Create_deposit s t tp args)
  with signer run create_deposit_escrow_inv [OF inv laws] show ?thesis by (auto simp: external_key_def)
next
  case (Add_funds s k t tp a)
  with signer run add_funds_escrow_inv [OF inv laws] show ?thesis by (auto simp: external_key_def)
next
  case (Remove_funds s k t tp a)
  with run remove_funds_escrow_inv [OF inv laws] show ?thesis by simp
next
  case (Withdraw_deposit s k t tp d)
  with run withdraw_deposit_escrow_inv [OF inv laws] show ?thesis by simp
next
  case (Update_deposit s k args)
  with run update_deposit_escrow_inv [OF inv] show ?thesis by simp
next
  case (Set_deposit_rate_manager s k r m)
  with run set_deposit_rate_manager_escrow_inv [OF inv] show ?thesis by simp
next
  case (Extend_intent_expiry s k h a)
  with run extend_intent_expiry_escrow_inv [OF inv] show ?thesis by simp
qed (use run inv in \<open>auto simp: handle_update_oracle_quote_def handle_configure_payment_method_def
    handle_configure_currency_def result_simps Let_def escrow_inv_def\<close>)

lemma escrow_step_protocol_inv:
  assumes inv: "protocol_inv rt H ls" and laws: "token_laws rt" "vault_apart rt" and run: "escrow_step rt ls i = Inr ls'"
    and signer: "pred_option (external_key rt ls) (signer (Escrow i))"
  shows "protocol_inv rt H ls'"
proof -
  have v: "vault_inv rt ls" "escrow_inv rt ls" "dispute_inv rt H ls" using inv by (simp_all add: protocol_inv_def)
  from escrow_step_debits [OF v(2) laws(1) run] signer deposit_apart [OF v(2) laws(2)] obtain auth
    where "auth \<noteq> stake_vault_config_key rt" "others_grow auth (tokens ls) (tokens ls')"
    by (auto simp: external_key_def, metis option.distinct(1))
  then have "vault_inv rt ls'" using vault_inv_outside [OF v(1) escrow_step_same [OF run]] by blast
  moreover have "dispute_inv rt H ls'"
    by (rule dispute_inv_same [OF v(3)]) (subst escrow_step_frame [OF run], simp)+
  ultimately show ?thesis using escrow_step_escrow_inv [OF v(2) laws(1) run signer] by (simp add: protocol_inv_def)
qed

subsection \<open>Intents\<close>

lemma intent_step_escrow_inv:
  assumes inv: "escrow_inv rt ls" and laws: "token_laws rt" and run: "intent_step rt ls i = Inr ls'"
  shows "escrow_inv rt ls'"
  using run signal_intent_escrow_inv [OF inv] cancel_intent_escrow_inv [OF inv] prune_expired_intent_escrow_inv [OF inv]
    fulfill_intent_escrow_inv [OF inv laws] manual_release_escrow_inv [OF inv laws]
  by (cases i) auto

lemma fulfill_intent_settles:
  assumes "handle_fulfill_intent rt ls k ta da ra args = Inr ls'"
  obtains oc i d l t a ls1 bs ibs where "settlement_context rt ls k = Inr (oc, i, d, l, t)"
    "settle_intent rt ls k oc i d l t ta da ra a = Inr ls1"
    "ls' = ls1\<lparr>payment_bindings := bs, intent_payment_bindings := ibs\<rparr>"
  using assms by (rule fulfill_intent_Inr) (rule that)

lemma settle_intent_vault_inv:
  assumes v: "vault_inv rt ls" and e: "escrow_inv rt ls" and laws: "token_laws rt" "vault_apart rt"
    and ctx: "settlement_context rt ls ik = Inr (oc, i, d, l, t)"
    and run: "settle_intent rt ls ik oc i d l t taccs daccs rem a = Inr ls'"
  shows "vault_inv rt ls'"
  using run
proof (rule settle_intent_Inr)
  fix ls1 d' ts n
  assume dis: "settle_dispute_if_covered rt ls i daccs a = Inr ls1"
    and fund: "distribute_funds rt ls1 i oc (i_deposit i) d' taccs rem a = Inr ts"
    and ls': "ls' = ls1\<lparr>deposits := (deposits ls1)(i_deposit i \<mapsto> d'),
      taker_states := (taker_states ls1)(taker_state_key rt (i_owner i) \<mapsto> t\<lparr>ts_active_intents := n\<rparr>),
      intents := (intents ls1)(ik := None), intent_locks := (intent_locks ls1)(lock_addr rt i := None), tokens := ts\<rparr>"
  have same: "tokens ls1 = tokens ls" "stake_vault_config ls1 = stake_vault_config ls" "claim_balances ls1 = claim_balances ls"
    by (subst settle_dispute_if_covered_frame [OF dis], simp)+
  with settle_dispute_stake_inv [OF _ dis] v have v1: "vault_inv rt ls1" by (auto simp: vault_inv_def)
  note d = settlement_context_Inr(2) [OF ctx]
  from deposit_vault_owner [OF e d] obtain f where f: "tokens ls1 (deposit_vault_key rt (i_deposit i)) = Some f" "tk_owner f = i_deposit i"
    by (auto simp: same)
  have "drained (tokens ls1) ts (deposit_vault_key rt (i_deposit i)) (unat a)"
    using distribute_funds_moves [OF laws(1) fund] by blast
  from others_grow_drained [OF this f] have "others_grow (i_deposit i) (tokens ls1) (tokens ls')" by (simp add: ls')
  moreover have "i_deposit i \<noteq> stake_vault_config_key rt" using deposit_apart [OF e laws(2)] d by auto
  ultimately show ?thesis using vault_inv_outside [OF v1, of ls'] by (simp add: ls' same_stake_def)
qed

lemma intent_step_vault_inv:
  assumes v: "vault_inv rt ls" and e: "escrow_inv rt ls" and laws: "token_laws rt" "vault_apart rt"
    and run: "intent_step rt ls i = Inr ls'"
  shows "vault_inv rt ls'"
proof (cases i)
  case (Signal_intent t accs args)
  with run have "handle_signal_intent rt ls t accs args = Inr ls'" by simp
  then show ?thesis
    by (rule signal_intent_Inr) (use vault_inv_same [OF v] in \<open>auto simp: same_stake_def\<close>)
next
  case (Cancel_intent s k d)
  with run obtain i d l t where "end_intent rt ls k i d l t = Inr ls'"
    by (auto simp: handle_cancel_intent_def result_simps split: if_splits)
  then show ?thesis by (rule end_intent_frame) (use vault_inv_same [OF v] in \<open>auto simp: same_stake_def\<close>)
next
  case (Prune_expired_intent k accs)
  with run have p: "handle_prune_expired_intent rt ls k accs = Inr ls'" by simp
  then have "tokens ls' = tokens ls \<and> claim_balances ls' = claim_balances ls \<and> stake_vault_config ls' = stake_vault_config ls"
    by (rule prune_expired_intent_Inr)
      (auto simp: require_Inr split: if_splits elim!: end_intent_frame prune_dispute_Inr)
  with prune_expired_intent_stake_inv [OF _ p] v show ?thesis by (auto simp: vault_inv_def)
next
  case (Fulfill_intent k ta da ra args)
  with run have "handle_fulfill_intent rt ls k ta da ra args = Inr ls'" by simp
  then show ?thesis
  proof (rule fulfill_intent_settles)
    fix oc i d l t a ls1 bs ibs
    assume "settlement_context rt ls k = Inr (oc, i, d, l, t)" "settle_intent rt ls k oc i d l t ta da ra a = Inr ls1"
    then have "vault_inv rt ls1" by (rule settle_intent_vault_inv [OF v e laws])
    moreover assume "ls' = ls1\<lparr>payment_bindings := bs, intent_payment_bindings := ibs\<rparr>"
    ultimately show ?thesis using vault_inv_same [of rt ls1 ls'] by (simp add: same_stake_def)
  qed
next
  case (Manual_release s k ta da ra)
  with run obtain oc i d l t where "settlement_context rt ls k = Inr (oc, i, d, l, t)"
      "settle_intent rt ls k oc i d l t ta da ra (i_amount i) = Inr ls'"
    by (auto simp: handle_manual_release_def result_simps)
  then show ?thesis by (rule settle_intent_vault_inv [OF v e laws])
qed

lemma settle_intent_dispute_inv:
  assumes inv: "dispute_inv rt H ls" and run: "settle_intent rt ls ik oc i d l t taccs daccs rem a = Inr ls'"
  shows "dispute_inv rt H ls'"
  using run
proof (rule settle_intent_Inr)
  fix ls1 d' ts n
  assume dis: "settle_dispute_if_covered rt ls i daccs a = Inr ls1"
    and ls': "ls' = ls1\<lparr>deposits := (deposits ls1)(i_deposit i \<mapsto> d'),
      taker_states := (taker_states ls1)(taker_state_key rt (i_owner i) \<mapsto> t\<lparr>ts_active_intents := n\<rparr>),
      intents := (intents ls1)(ik := None), intent_locks := (intent_locks ls1)(lock_addr rt i := None), tokens := ts\<rparr>"
  have same: "intents ls1 = intents ls" "stake_vault_config ls1 = stake_vault_config ls"
    by (subst settle_dispute_if_covered_frame [OF dis], simp)+
  with inv settle_dispute_backing [OF _ dis, of H] show ?thesis by (auto simp: dispute_inv_def ls')
qed

lemma signal_intent_adds:
  assumes "handle_signal_intent rt ls t accs args = Inr ls'"
  shows "\<exists>k j. i_intent_hash j = sia_expected_intent_hash args \<and> intents ls' = (intents ls)(k \<mapsto> j)"
  using assms
proof (rule signal_intent_Inr)
  fix oc e d m c h rm rw d' x n nid
  assume chk: "signal_checks rt ls t accs args oc e d m c
       (init_if_needed (taker_states ls (taker_state_key rt t)) zero_taker_state) = Inr (h, rm, rw)"
    and "\<exists>u. ts_active_intents u = n \<and> ls' = ls\<lparr>deposits := (deposits ls)(ska_deposit accs \<mapsto> d'),
       intents := (intents ls)(pda rt (intent_seeds rt (oc_next_intent_id oc)) \<mapsto>
         new_intent rt oc t (ska_deposit accs) m h
           (case rm of None \<Rightarrow> (None, 0) | Some (_, m) \<Rightarrow> (rm_fee_recipient m, rm_fee m))
           (case rw of None \<Rightarrow> False | Some (_, w) \<Rightarrow> sint (rw_seconds w) > 0) args),
       intent_locks := (intent_locks ls)(intent_lock_key rt (ska_deposit accs) h \<mapsto>
         new_intent_lock rt (ska_deposit accs) h (sia_amount args) x),
       taker_states := (taker_states ls)(taker_state_key rt t \<mapsto> u),
       orchestrator_config := Some (oc\<lparr>oc_next_intent_id := nid\<rparr>)\<rparr>"
  then have "intents ls' = (intents ls)(pda rt (intent_seeds rt (oc_next_intent_id oc)) \<mapsto>
         new_intent rt oc t (ska_deposit accs) m h
           (case rm of None \<Rightarrow> (None, 0) | Some (_, m) \<Rightarrow> (rm_fee_recipient m, rm_fee m))
           (case rw of None \<Rightarrow> False | Some (_, w) \<Rightarrow> sint (rw_seconds w) > 0) args)" by auto
  moreover have "sia_expected_intent_hash args = h" by (rule signal_checks_Inr [OF chk]) simp
  ultimately show ?thesis by (intro exI conjI) (simp_all add: new_intent_def)
qed

lemma end_intent_dispute_inv:
  assumes "dispute_inv rt H ls" and "end_intent rt ls ik i d l t = Inr ls'"
  shows "dispute_inv rt H ls'"
  using assms by (auto simp: end_intent_def result_simps dispute_inv_def split: if_splits)

lemma intent_step_dispute_inv:
  assumes inv: "dispute_inv rt H ls" and inj: "inj_on (dispute_addr rt) H" and h: "instruction_hashes (Intents i) \<subseteq> H"
    and run: "intent_step rt ls i = Inr ls'"
  shows "dispute_inv rt H ls'"
proof (cases i)
  case (Signal_intent t accs args)
  with run have "handle_signal_intent rt ls t accs args = Inr ls'" by simp
  then have "\<exists>k j. i_intent_hash j = sia_expected_intent_hash args \<and> intents ls' = (intents ls)(k \<mapsto> j)" by (rule signal_intent_adds)
  moreover from \<open>handle_signal_intent rt ls t accs args = Inr ls'\<close>
  have "dispute_intents ls' = dispute_intents ls" "stake_locks ls' = stake_locks ls" "stake_vault_config ls' = stake_vault_config ls"
    by (rule signal_intent_Inr; auto)+
  ultimately show ?thesis using inv h Signal_intent by (auto simp: dispute_inv_def split: if_splits)
next
  case (Cancel_intent s k d)
  with run obtain i d l t where "end_intent rt ls k i d l t = Inr ls'"
    by (auto simp: handle_cancel_intent_def result_simps split: if_splits)
  with inv show ?thesis by (rule end_intent_dispute_inv)
next
  case (Prune_expired_intent k accs)
  with run have "handle_prune_expired_intent rt ls k accs = Inr ls'" by simp
  then show ?thesis
  proof (rule prune_expired_intent_Inr)
    fix i d l t ls1 config di vault pos lk
    assume ctx: "ending_context rt ls k = Inr (i, d, l, t)" and di: "opt_account (dispute_intents ls) (pda_dispute_intent accs) = Inr di"
      and mid: "(if i_dispute_covered i then prune_dispute rt ls (i_intent_hash i) config di vault pos lk
        else require (config = None \<and> di = None \<and> vault = None \<and> pos = None \<and> lk = None) Unauthorized (Inr ls)) = Inr ls1"
      and e: "end_intent rt ls1 k i d l t = Inr ls'"
    have "i_intent_hash i \<in> H" using ending_context_Inr(1) [OF ctx] inv by (auto simp: dispute_inv_def)
    with prune_dispute_backing [OF _ inj _ di] mid inv have "dispute_backing rt H (dispute_intents ls1) (stake_locks ls1)"
      by (auto simp: dispute_inv_def require_Inr split: if_splits)
    moreover have "intents ls1 = intents ls" "stake_vault_config ls1 = stake_vault_config ls"
      using mid by (auto simp: require_Inr split: if_splits elim!: prune_dispute_Inr)
    ultimately have "dispute_inv rt H ls1" using inv by (simp add: dispute_inv_def)
    with e show ?thesis by (blast intro: end_intent_dispute_inv)
  qed
next
  case (Fulfill_intent k ta da ra args)
  with run have "handle_fulfill_intent rt ls k ta da ra args = Inr ls'" by simp
  then show ?thesis
    by (rule fulfill_intent_settles) (use settle_intent_dispute_inv [OF inv] in \<open>auto simp: dispute_inv_def\<close>)
next
  case (Manual_release s k ta da ra)
  with run settle_intent_dispute_inv [OF inv] show ?thesis by (auto simp: handle_manual_release_def result_simps)
qed

subsection \<open>Disputes\<close>

lemma submit_dispute_named:
  assumes "claims_named (claim_balances ls)" and "dispute_inv rt H ls" and "handle_submit_dispute rt ls args = Inr ls'"
  shows "claims_named (claim_balances ls')"
proof -
  from assms(3) obtain k dis m where "dispute_intents ls k = Some dis"
      and cs: "claim_balances ls' = (claim_balances ls)(claim_key rt (di_depositor dis) \<mapsto>
        (prepared_claim rt (di_depositor dis) (init_if_needed (claim_balances ls (claim_key rt (di_depositor dis))) zero_claim))
          \<lparr>cb_amount := m\<rparr>)"
    by (elim submit_dispute_Inr) (auto dest!: submit_context_Inr)
  with assms(2) have "di_depositor dis \<noteq> 0" by (auto simp: dispute_inv_def dest: backing_identity)
  then have "cb_beneficiary (prepared_claim rt (di_depositor dis) c) \<noteq> 0" for c by (simp add: prepared_claim_def)
  with claims_named_put [OF assms(1)] show ?thesis unfolding cs by simp
qed

lemma submit_dispute_owned:
  assumes "\<And>v. stake_vault_config ls = Some v \<Longrightarrow> vault_owned rt v (tokens ls)" and "handle_submit_dispute rt ls args = Inr ls'"
    and "stake_vault_config ls' = Some v'"
  shows "vault_owned rt v' (tokens ls') \<and> sv_controller v' = dispute_config_key rt"
proof -
  from assms(2) obtain v s t a where v: "stake_vault_config ls = Some v" "sv_controller v = dispute_config_key rt" "tokens ls' = tokens ls"
      "stake_vault_config ls' = Some (v\<lparr>sv_total_staked := s, sv_total_claimable := t\<rparr>)"
      and st: "checked_sub (sv_total_staked v) a = Some s" "checked_add (sv_total_claimable v) a = Some t"
    by (elim submit_dispute_Inr) (auto dest!: submit_context_Inr)
  from st have "unat s + unat t = unat (sv_total_staked v) + unat (sv_total_claimable v)" by (simp add: checked_simps)
  with vault_owned_less [OF assms(1) [OF v(1)], of v'] v assms(3) show ?thesis by auto
qed

lemma dispute_instruction_step_stake_inv:
  assumes v: "stake_inv rt ls" and b: "dispute_inv rt H ls" and run: "dispute_instruction_step rt ls i = Inr ls'"
  shows "stake_inv rt ls'"
proof (cases i)
  case (Prepare_dispute t k ds sel so args)
  with run prepare_dispute_stake_inv [OF v] show ?thesis by simp
next
  case (Cancel_dispute s ik k)
  with run cancel_dispute_stake_inv [OF v] show ?thesis by simp
next
  case (Release_matured_dispute k)
  with run have r: "handle_release_matured_dispute rt ls k = Inr ls'" by simp
  from v r show ?thesis
    by (rule release_matured_dispute_stake_inv)
      (use b release_matured_dispute_owner [OF _ r] in \<open>auto simp: dispute_inv_def\<close>)
next
  case (Submit_dispute args)
  with run submit_dispute_stake_inv [OF v] show ?thesis by simp
qed (use run v in \<open>auto simp: handle_set_risk_window_def handle_set_dispute_admissions_paused_def
    handle_set_deposit_dispute_protection_def result_simps stake_inv_def\<close>)

lemma dispute_instruction_step_claims:
  assumes "dispute_instruction_step rt ls i = Inr ls'" and "\<And>args. i \<noteq> Submit_dispute args"
  shows "claim_balances ls' = claim_balances ls \<and> stake_vault_config ls' = stake_vault_config ls \<and> tokens ls' = tokens ls \<and>
    intents ls' = intents ls"
proof (cases i)
  case (Prepare_dispute t k ds sel so args)
  with assms(1) have "handle_prepare_dispute rt ls t k ds sel so args = Inr ls'" by simp
  then show ?thesis by (rule prepare_dispute_Inr) simp
next
  case (Cancel_dispute s ik k)
  with assms(1) have "handle_cancel_dispute rt ls s ik k = Inr ls'" by simp
  then show ?thesis by (rule cancel_dispute_Inr) simp
next
  case (Release_matured_dispute k)
  with assms(1) have "handle_release_matured_dispute rt ls k = Inr ls'" by simp
  then show ?thesis by (rule release_matured_dispute_Inr) simp
qed (use assms in \<open>auto simp: handle_set_risk_window_def handle_set_dispute_admissions_paused_def
    handle_set_deposit_dispute_protection_def result_simps\<close>)

lemma dispute_instruction_step_vault_inv:
  assumes v: "vault_inv rt ls" and b: "dispute_inv rt H ls" and run: "dispute_instruction_step rt ls i = Inr ls'"
  shows "vault_inv rt ls'"
proof (cases "\<exists>args. i = Submit_dispute args")
  case True
  then obtain args where "handle_submit_dispute rt ls args = Inr ls'" using run by auto
  with submit_dispute_named [OF _ b] submit_dispute_owned [of ls rt args ls'] v dispute_instruction_step_stake_inv [OF _ b run]
  show ?thesis by (simp add: vault_inv_def)
next
  case False
  with dispute_instruction_step_claims [OF run] dispute_instruction_step_stake_inv [OF _ b run] v
  show ?thesis by (auto simp: vault_inv_def)
qed

lemma dispute_instruction_step_backing:
  assumes e: "escrow_inv rt ls" and b: "dispute_inv rt H ls" and inj: "inj_on (dispute_addr rt) H"
    and h: "instruction_hashes (Disputes i) \<subseteq> H" and run: "dispute_instruction_step rt ls i = Inr ls'"
  shows "dispute_backing rt H (dispute_intents ls') (stake_locks ls')"
proof -
  have b': "dispute_backing rt H (dispute_intents ls) (stake_locks ls)" using b by (simp add: dispute_inv_def)
  show ?thesis
    using run h prepare_dispute_backing [OF b' e] cancel_dispute_backing [OF b'] release_matured_dispute_backing [OF b']
      submit_dispute_backing [OF b' inj] b'
    by (cases i) (auto simp: handle_set_risk_window_def handle_set_dispute_admissions_paused_def
      handle_set_deposit_dispute_protection_def result_simps)
qed

lemma dispute_instruction_step_protocol_inv:
  assumes inv: "protocol_inv rt H ls" and inj: "inj_on (dispute_addr rt) H"
    and h: "instruction_hashes (Disputes i) \<subseteq> H" and run: "dispute_instruction_step rt ls i = Inr ls'"
  shows "protocol_inv rt H ls'"
proof -
  have v: "vault_inv rt ls" "escrow_inv rt ls" "dispute_inv rt H ls" using inv by (simp_all add: protocol_inv_def)
  have "escrow_inv rt ls'"
    by (rule escrow_inv_same [OF v(2)], unfold same_escrow_def)
      (subst dispute_instruction_step_frame [OF run], simp)+
  moreover have "dispute_inv rt H ls'"
  proof -
    have "intents ls' = intents ls" by (subst dispute_instruction_step_frame [OF run], simp)
    moreover have "\<forall>v. stake_vault_config ls' = Some v \<longrightarrow> sv_controller v = dispute_config_key rt"
    proof (cases "\<exists>args. i = Submit_dispute args")
      case True
      with run v(1) submit_dispute_owned [of ls rt _ ls'] show ?thesis by (auto simp: vault_inv_def)
    next
      case False
      with dispute_instruction_step_claims [OF run] v(3) show ?thesis by (auto simp: dispute_inv_def)
    qed
    ultimately show ?thesis using dispute_instruction_step_backing [OF v(2,3) inj h run] v(3) by (simp add: dispute_inv_def)
  qed
  ultimately show ?thesis using dispute_instruction_step_vault_inv [OF v(1,3) run] by (simp add: protocol_inv_def)
qed

subsection \<open>Any instruction, any event, any history\<close>

lemma dispatch_protocol_inv:
  assumes inv: "protocol_inv rt H ls" and laws: "token_laws rt" "vault_apart rt" and inj: "inj_on (dispute_addr rt) H"
    and signer: "pred_option (external_key rt ls) (signer i)" and h: "instruction_hashes i \<subseteq> H" and ho: "\<not> hands_over_vault i"
    and run: "dispatch rt ls i = Inr ls'"
  shows "protocol_inv rt H ls'"
proof (cases i)
  case (Governance j)
  with run ho governance_step_protocol_inv [OF inv] show ?thesis by simp
next
  case (Stake j)
  with run signer stake_step_protocol_inv [OF inv laws] show ?thesis by simp
next
  case (Rates j)
  with run rate_manager_step_protocol_inv [OF inv] show ?thesis by simp
next
  case (Escrow j)
  with run signer escrow_step_protocol_inv [OF inv laws] show ?thesis by simp
next
  case (Intents j)
  with run have r: "intent_step rt ls j = Inr ls'" by simp
  from Intents h have h': "instruction_hashes (Intents j) \<subseteq> H" by simp
  from inv intent_step_escrow_inv [OF _ laws(1) r] intent_step_vault_inv [OF _ _ laws r] intent_step_dispute_inv [OF _ inj h' r]
  show ?thesis by (simp add: protocol_inv_def)
next
  case (Whitelists j)
  with run whitelist_step_protocol_inv [OF inv] show ?thesis by simp
next
  case (Disputes j)
  with run h dispute_instruction_step_protocol_inv [OF inv inj] show ?thesis by simp
next
  case (Verification j)
  with run verifier_step_protocol_inv [OF inv] show ?thesis by simp
qed

lemma in_env_invariants [simp]:
  "protocol_inv (in_env rt env) H = protocol_inv rt H" "vault_apart (in_env rt env) = vault_apart rt"
  "external_key (in_env rt env) = external_key rt"
  by (simp_all add: fun_eq_iff protocol_inv_def vault_inv_def stake_inv_def stake_books_def locks_on_def vault_covered_def
      vault_owned_def escrow_inv_def escrow_custody_def deposit_backed_def intents_locked_def lock_addr_def taker_counts_def
      dispute_inv_def dispute_backing_def vault_apart_def external_key_def)

text \<open>Token operations by others debit accounts of external authorities only.\<close>

lemma external_tokens_protocol_inv:
  assumes "protocol_inv rt H ls" and "others_grow auth (tokens ls) ts" and "external_key rt ls auth"
  shows "protocol_inv rt H (ls\<lparr>tokens := ts\<rparr>)"
  using assms vault_inv_outside [of rt ls "ls\<lparr>tokens := ts\<rparr>" auth] escrow_inv_outside [of rt ls "ls\<lparr>tokens := ts\<rparr>" auth]
    dispute_inv_same [of rt H ls "ls\<lparr>tokens := ts\<rparr>"]
  by (auto simp: protocol_inv_def external_key_def same_stake_def same_escrow_def)

lemma execute_protocol_inv:
  assumes inv: "protocol_inv rt H ls" and laws: "token_laws rt" "vault_apart rt" and inj: "inj_on (dispute_addr rt) H"
    and ok: "ordinary H e" and run: "execute rt ls e = Inr ls'"
  shows "protocol_inv rt H ls'"
proof (cases e)
  case (Call env i)
  with run have "dispatch (in_env rt env) ls i = Inr ls'" "pred_option (external_key rt ls) (signer i)"
    by (auto split: if_splits)
  with Call ok inv laws inj dispatch_protocol_inv [of "in_env rt env" H ls i ls'] show ?thesis by simp
next
  case (Token_transfer tp src mint to auth amount decimals)
  with run others_grow_transfer [OF laws(1)] external_tokens_protocol_inv [OF inv] show ?thesis
    by (fastforce simp: spends_def result_simps split: if_splits option.splits)
next
  case (Token_open tp key mint auth)
  with run obtain ts where ts: "initialize_account rt tp (tokens ls) key mint auth = Inr ts" and ls': "ls' = ls\<lparr>tokens := ts\<rparr>"
    by (auto simp: result_simps)
  have g: "others_grow a (tokens ls) (tokens ls')" for a using others_grow_initialize [OF laws(1) ts] by (simp add: ls')
  have v: "vault_inv rt ls" "escrow_inv rt ls" "dispute_inv rt H ls" using inv by (simp_all add: protocol_inv_def)
  obtain a b where "a \<noteq> stake_vault_config_key rt" "deposits ls b = None"
    using deposit_apart [OF v(2) laws(2)] by (metis add.commute add_cancel_right_left one_neq_zero)
  then have "vault_inv rt ls'" "escrow_inv rt ls'"
    using vault_inv_outside [OF v(1) _ g [of a]] escrow_inv_outside [OF v(2) _ g [of b]]
    by (simp_all add: ls' same_stake_def same_escrow_def)
  with v(3) show ?thesis by (simp add: ls' protocol_inv_def dispute_inv_def)
next
  case (Token_close tp key dest auth)
  with run others_grow_close [OF laws(1)] external_tokens_protocol_inv [OF inv] show ?thesis
    by (fastforce simp: spends_def result_simps split: if_splits option.splits)
qed

lemma genesis_protocol_inv: "protocol_inv rt H (genesis ms ts)"
  by (simp add: genesis_def empty_ledger_def protocol_inv_def vault_inv_def stake_inv_def claims_named_def escrow_inv_def
      escrow_custody_def escrow_books_def held_on_def held_count_def intents_locked_def taker_counts_def dispute_inv_def
      dispute_backing_def at_def)

text \<open>The machine whose states are ledgers and whose requests are ordinary events.\<close>

definition sound_runtime :: "runtime \<Rightarrow> bytes32 set \<Rightarrow> bool" where
  "sound_runtime rt H \<longleftrightarrow> token_laws rt \<and> vault_apart rt \<and> inj_on (dispute_addr rt) H"

interpretation history: monitored_machine "execute rt" "ordinary H" "\<lambda>ls. sound_runtime rt H \<and> protocol_inv rt H ls" for rt H
  by unfold_locales (auto simp: sound_runtime_def intro: execute_protocol_inv)

lemma run_protocol_inv:
  "sound_runtime rt H \<Longrightarrow> list_all (ordinary H) es \<Longrightarrow> protocol_inv rt H (reached rt ms ts es)"
  unfolding reached_def using history.run_inv [of rt H "genesis ms ts" es] genesis_protocol_inv by blast

end
