(* ===== verification/Authority.thy ===== *)
theory Authority
  imports Program_Invariant
begin

text \<open>
  Who can take tokens out of escrow, and who can take stake. \<open>releases\<close> lists the instructions that may debit the vault
  of a deposit, with the authorisation each of them needs: a withdrawal of the depositor, a release of the depositor, or
  a payment attestation that the verifier accepts for an intent on that deposit. \<open>takes_stake\<close> does the same for the
  balance of a stake position.
\<close>

fun releases :: "runtime \<Rightarrow> ledger \<Rightarrow> pubkey \<Rightarrow> Deposit \<Rightarrow> instruction \<Rightarrow> bool" where
  "releases rt ls k d (Escrow (Remove_funds s k' t tp a)) \<longleftrightarrow> k' = k \<and> s = d_depositor d"
| "releases rt ls k d (Escrow (Withdraw_deposit s k' t tp dust)) \<longleftrightarrow> k' = k \<and> s = d_depositor d"
| "releases rt ls k d (Intents (Manual_release s ik ta da ra)) \<longleftrightarrow>
     (\<exists>i. intents ls ik = Some i \<and> i_deposit i = k) \<and> s = d_depositor d"
| "releases rt ls k d (Intents (Fulfill_intent ik ta da ra args)) \<longleftrightarrow>
     (\<exists>i v n. intents ls ik = Some i \<and> i_deposit i = k \<and> verifier_config ls = Some v \<and>
        verify_payment_attestation rt (verifier_config_key rt) v i (fia_attestation args) = Inr n)"
| "releases rt ls k d _ \<longleftrightarrow> False"

lemma others_growD:
  "others_grow auth ts ts' \<Longrightarrow> ts v = Some t \<Longrightarrow> tk_owner t \<noteq> auth \<Longrightarrow> token_grows ts ts' v"
  by (simp add: others_grow_def)

lemma escrow_step_releases:
  assumes inv: "escrow_inv rt ls" and laws: "token_laws rt" and run: "escrow_step rt ls i = Inr ls'"
    and signer: "pred_option (external_key rt ls) (signer (Escrow i))"
    and d: "deposits ls k = Some d" and t: "tokens ls v = Some t" "tk_owner t = k"
  shows "token_grows (tokens ls) (tokens ls') v \<or> releases rt ls k d (Escrow i)"
proof (cases i)
  case (Remove_funds s k' t' tp a)
  with run obtain d' ts mint where d': "deposits ls k' = Some d'" "s = d_depositor d'"
      and pay: "transfer_from_deposit rt (tokens ls) k' d' t' mint tp a = Inr ts" and ts: "tokens ls' = ts"
    by (auto simp: handle_remove_funds_def and_then_Inr require_Inr constraint_Inr account_Inr seeds_bump_Inr
        token_interface_Inr ok_or_Inr unpaused_deposit_Inr)
  with deposit_vault_owner [OF inv d'(1)] transfer_from_deposit_debits [OF laws pay]
  have "others_grow k' (tokens ls) (tokens ls')" by auto
  from others_growD [OF this t(1)] t(2) d d' Remove_funds show ?thesis by (cases "k' = k") auto
next
  case (Withdraw_deposit s k' t' tp dust)
  with run have w: "handle_withdraw_deposit rt ls s k' t' tp dust = Inr ls'" by simp
  then obtain d' where d': "deposits ls k' = Some d'" "s = d_depositor d'"
    by (auto simp: handle_withdraw_deposit_def and_then_Inr account_Inr constraint_Inr)
  from withdraw_deposit_debits [OF inv laws w] have "others_grow k' (tokens ls) (tokens ls')" by blast
  from others_growD [OF this t(1)] t(2) d d' Withdraw_deposit show ?thesis by (cases "k' = k") auto
next
  case (Create_deposit s t' tp args)
  with run create_deposit_debits [OF laws] have "others_grow s (tokens ls) (tokens ls')" by auto
  moreover have "tk_owner t \<noteq> s" using t(2) d signer Create_deposit by (auto simp: external_key_def)
  ultimately show ?thesis using others_growD t(1) by blast
next
  case (Add_funds s k' t' tp a)
  with run others_grow_transfer [OF laws] have "others_grow s (tokens ls) (tokens ls')"
    by (auto simp: handle_add_funds_def result_simps Let_def)
  moreover have "tk_owner t \<noteq> s" using t(2) d signer Add_funds by (auto simp: external_key_def)
  ultimately show ?thesis using others_growD t(1) by blast
next
  case (Update_deposit s k' args)
  with run update_deposit_Inr [of rt ls s k' args ls'] show ?thesis by auto
next
  case (Set_deposit_rate_manager s k' r m)
  with run have "tokens ls' = tokens ls"
    by (auto simp: handle_set_deposit_rate_manager_def result_simps split: option.splits)
  then show ?thesis by simp
qed (use run in \<open>auto simp: handle_update_oracle_quote_def handle_configure_payment_method_def handle_configure_currency_def
      handle_extend_intent_expiry_def result_simps Let_def\<close>)

lemma settle_intent_debits:
  assumes inv: "escrow_inv rt ls" and laws: "token_laws rt" and ctx: "settlement_context rt ls ik = Inr (oc, i, d, l, t)"
    and run: "settle_intent rt ls ik oc i d l t taccs daccs rem a = Inr ls'"
  shows "others_grow (i_deposit i) (tokens ls) (tokens ls')"
  using run
proof (rule settle_intent_Inr)
  fix ls1 d' ts n
  assume dis: "settle_dispute_if_covered rt ls i daccs a = Inr ls1"
    and fund: "distribute_funds rt ls1 i oc (i_deposit i) d' taccs rem a = Inr ts"
    and ls': "ls' = ls1\<lparr>deposits := (deposits ls1)(i_deposit i \<mapsto> d'),
      taker_states := (taker_states ls1)(taker_state_key rt (i_owner i) \<mapsto> t\<lparr>ts_active_intents := n\<rparr>),
      intents := (intents ls1)(ik := None), intent_locks := (intent_locks ls1)(lock_addr rt i := None), tokens := ts\<rparr>"
  have same: "tokens ls1 = tokens ls" by (subst settle_dispute_if_covered_frame [OF dis], simp)
  from deposit_vault_owner [OF inv settlement_context_Inr(2) [OF ctx]] obtain f
    where f: "tokens ls1 (deposit_vault_key rt (i_deposit i)) = Some f" "tk_owner f = i_deposit i" by (auto simp: same)
  have "drained (tokens ls1) ts (deposit_vault_key rt (i_deposit i)) (unat a)"
    using distribute_funds_moves [OF laws fund] by blast
  from others_grow_drained [OF this f] show ?thesis by (simp add: ls' same)
qed

lemma intent_step_releases:
  assumes inv: "escrow_inv rt ls" and laws: "token_laws rt" and run: "intent_step rt ls i = Inr ls'"
    and d: "deposits ls k = Some d" and t: "tokens ls v = Some t" "tk_owner t = k"
  shows "token_grows (tokens ls) (tokens ls') v \<or> releases rt ls k d (Intents i)"
proof (cases i)
  case (Manual_release s ik ta da ra)
  with run obtain oc j dj l ts where ctx: "settlement_context rt ls ik = Inr (oc, j, dj, l, ts)" and s: "s = d_depositor dj"
      and set: "settle_intent rt ls ik oc j dj l ts ta da ra (i_amount j) = Inr ls'"
    by (auto simp: handle_manual_release_def result_simps)
  note c = settlement_context_Inr [OF ctx]
  from others_growD [OF settle_intent_debits [OF inv laws ctx set] t(1)] t(2) c(1,2) d s Manual_release
  show ?thesis by (cases "i_deposit j = k") auto
next
  case (Fulfill_intent ik ta da ra args)
  with run have "handle_fulfill_intent rt ls ik ta da ra args = Inr ls'" by simp
  then show ?thesis
  proof (rule fulfill_intent_Inr)
    fix oc and j :: Intent and dj l ts vc n ls1
    let ?a = "min (pa_release_amount (fia_attestation args)) (i_amount j)"
    assume ctx: "settlement_context rt ls ik = Inr (oc, j, dj, l, ts)" and vc: "verifier_config ls = Some vc"
      and ver: "verify_payment_attestation rt (verifier_config_key rt) vc j (fia_attestation args) = Inr n"
      and set: "settle_intent rt ls ik oc j dj l ts ta da ra ?a = Inr ls1"
      and ls': "ls' = bind_payment rt ls1 j n"
    have "tokens ls' = tokens ls1" by (simp add: ls')
    with others_growD [OF settle_intent_debits [OF inv laws ctx set] t(1)] t(2) settlement_context_Inr(1) [OF ctx] vc ver
    show ?thesis by (cases "i_deposit j = k") (auto simp: Fulfill_intent)
  qed
next
  case (Signal_intent t accs args)
  with run have "handle_signal_intent rt ls t accs args = Inr ls'" by simp
  then show ?thesis by (rule signal_intent_Inr) auto
next
  case (Cancel_intent s k d)
  with run obtain i d l t where "end_intent rt ls k i d l t = Inr ls'"
    by (auto simp: handle_cancel_intent_def result_simps split: if_splits)
  then show ?thesis by (rule end_intent_frame) simp
next
  case (Prune_expired_intent k accs)
  with run have "handle_prune_expired_intent rt ls k accs = Inr ls'" by simp
  then have "tokens ls' = tokens ls"
    by (rule prune_expired_intent_Inr)
      (auto simp: require_Inr split: if_splits elim!: end_intent_frame prune_dispute_Inr)
  then show ?thesis by simp
qed

subsection \<open>Every event\<close>

lemma dispatch_releases:
  assumes inv: "protocol_inv rt H ls" and laws: "token_laws rt" "vault_apart rt" and run: "dispatch rt ls i = Inr ls'"
    and signer: "pred_option (external_key rt ls) (signer i)"
    and d: "deposits ls k = Some d" and t: "tokens ls v = Some t" "tk_owner t = k"
  shows "token_grows (tokens ls) (tokens ls') v \<or> releases rt ls k d i"
proof -
  have e: "escrow_inv rt ls" using inv by (simp add: protocol_inv_def)
  have kept: "token_grows (tokens ls) (tokens ls') v" if "tokens ls' = tokens ls" using that by simp
  show ?thesis
  proof (cases i)
    case (Escrow j)
    with run signer escrow_step_releases [OF e laws(1) _ _ d t] show ?thesis by simp
  next
    case (Intents j)
    with run intent_step_releases [OF e laws(1) _ d t] show ?thesis by simp
  next
    case (Stake j)
    with run have st: "stake_step rt ls j = Inr ls'" by simp
    from stake_step_debits [OF laws(1) st] signer Stake deposit_apart [OF e laws(2)] obtain auth
      where "deposits ls auth = None" "others_grow auth (tokens ls) (tokens ls')" by (auto simp: external_key_def)
    with d t others_growD show ?thesis by (metis option.distinct(1))
  next
    case (Disputes j)
    with run have "dispute_instruction_step rt ls j = Inr ls'" by simp
    from arg_cong [OF dispute_instruction_step_frame [OF this], of tokens] kept show ?thesis by simp
  next
    case (Governance j)
    with run have "governance_step rt ls j = Inr ls'" by simp
    from arg_cong [OF governance_step_frame [OF this], of tokens] kept show ?thesis by simp
  next
    case (Rates j)
    with run have "rate_manager_step rt ls j = Inr ls'" by simp
    from arg_cong [OF rate_manager_step_frame [OF this], of tokens] kept show ?thesis by simp
  next
    case (Whitelists j)
    with run have "whitelist_step rt ls j = Inr ls'" by simp
    from arg_cong [OF whitelist_step_frame [OF this], of tokens] kept show ?thesis by simp
  next
    case (Verification j)
    with run have "verifier_step rt ls j = Inr ls'" by simp
    from arg_cong [OF verifier_step_frame [OF this], of tokens] kept show ?thesis by simp
  qed
qed

lemma execute_releases:
  assumes inv: "protocol_inv rt H ls" and laws: "token_laws rt" "vault_apart rt" and run: "execute rt ls e = Inr ls'"
    and d: "deposits ls k = Some d" and t: "tokens ls v = Some t" "tk_owner t = k"
  shows "token_grows (tokens ls) (tokens ls') v \<or> (\<exists>env i. e = Call env i \<and> releases (in_env rt env) ls k d i)"
proof (cases e)
  case (Call env i)
  with run have "dispatch (in_env rt env) ls i = Inr ls'" "pred_option (external_key rt ls) (signer i)"
    by (auto split: if_splits)
  with Call dispatch_releases [of "in_env rt env" H ls i ls', OF _ _ _ _ _ d t] inv laws show ?thesis by simp
next
  case (Token_transfer tp src mint to auth amount decimals)
  with run obtain f where f: "tokens ls src = Some f" "tk_owner f = auth" and x: "external_key rt ls auth"
      and tr: "transfer_checked rt tp (tokens ls) src mint to auth amount decimals = Inr (tokens ls')"
    by (auto simp: spends_def result_simps split: if_splits option.splits)
  have "tk_owner t \<noteq> auth" using t(2) d x by (auto simp: external_key_def)
  from others_growD [OF others_grow_transfer [OF laws(1) tr f] t(1) this] show ?thesis ..
next
  case (Token_open tp key mint auth)
  with run have "initialize_account rt tp (tokens ls) key mint auth = Inr (tokens ls')" by (auto simp: result_simps)
  from initialize_fresh [OF laws(1) this] t(1) show ?thesis by (auto simp: token_grows_def)
next
  case (Token_close tp key dest auth)
  with run obtain f where f: "tokens ls key = Some f" "tk_owner f = auth" and x: "external_key rt ls auth"
      and tr: "close_account rt tp (tokens ls) key dest auth = Inr (tokens ls')"
    by (auto simp: spends_def result_simps split: if_splits option.splits)
  have "tk_owner t \<noteq> auth" using t(2) d x by (auto simp: external_key_def)
  from others_growD [OF others_grow_close [OF laws(1) tr f] t(1) this] show ?thesis ..
qed

subsection \<open>Stake\<close>

fun takes_stake :: "runtime \<Rightarrow> ledger \<Rightarrow> pubkey \<Rightarrow> StakePosition \<Rightarrow> instruction \<Rightarrow> bool" where
  "takes_stake rt ls k p (Stake (Withdraw_stake s t tp a)) \<longleftrightarrow> s = sp_owner p"
| "takes_stake rt ls k p (Stake (Resolve_stake_lock c accs j claims)) \<longleftrightarrow>
     (\<exists>v. stake_vault_config ls = Some v \<and> c = sv_controller v)"
| "takes_stake rt ls k p (Disputes (Submit_dispute args)) \<longleftrightarrow>
     (\<exists>config verifier dis b r v l. submit_context rt ls args = Inr (config, verifier, dis, b, r, v, p, l) \<and>
        check_dispute_evidence rt config verifier dis b r args = Inr () \<and> di_status dis = Settled \<and>
        position_key rt (di_stake_owner dis) = k)"
| "takes_stake rt ls k p _ \<longleftrightarrow> False"

definition stake_kept :: "(pubkey \<rightharpoonup> StakePosition) \<Rightarrow> (pubkey \<rightharpoonup> StakePosition) \<Rightarrow> pubkey \<Rightarrow> bool" where
  "stake_kept ps ps' k \<longleftrightarrow> at balance ps k \<le> at balance ps' k"

lemma stake_kept_refl [simp]: "stake_kept ps ps k"
  by (simp add: stake_kept_def)

lemma stake_kept_put: "ps j = Some q \<Longrightarrow> balance q \<le> balance q' \<Longrightarrow> stake_kept ps (ps(j \<mapsto> q')) k"
  by (simp add: stake_kept_def at_def)

lemma lock_balance: "StakePosition_lock q a = Inr q' \<Longrightarrow> sp_balance q' = sp_balance q"
  by (auto simp: StakePosition_lock_def result_simps)

lemma unlock_balance: "StakePosition_unlock q a = Inr q' \<Longrightarrow> sp_balance q' = sp_balance q"
  by (auto simp: StakePosition_unlock_def result_simps)

lemma stake_step_keeps:
  assumes "stake_step rt ls i = Inr ls'" and "stake_positions ls k = Some p"
  shows "stake_kept (stake_positions ls) (stake_positions ls') k \<or> takes_stake rt ls k p (Stake i)"
proof (cases i)
  case (Deposit_stake s t tp a)
  with assms show ?thesis
    by (auto simp: handle_deposit_stake_def result_simps Let_def stake_kept_def at_def init_if_needed_def checked_simps
        split: option.splits if_splits)
next
  case (Withdraw_stake s t tp a)
  with assms show ?thesis
    by (cases "position_key rt s = k") (auto simp: handle_withdraw_stake_def result_simps stake_kept_def at_def)
next
  case (Controller_lock_stake c s args)
  with assms show ?thesis
    by (auto simp: handle_controller_lock_stake_def result_simps dest!: lock_balance intro!: stake_kept_put)
next
  case (Controller_fund_lock c s t tp args)
  with assms show ?thesis
    by (auto simp: handle_controller_fund_lock_def result_simps Let_def stake_kept_def at_def init_if_needed_def checked_simps
        split: option.splits if_splits dest!: lock_balance)
next
  case (Increase_stake_lock c j a)
  with assms show ?thesis
    by (auto simp: handle_increase_stake_lock_def manage_stake_lock_def result_simps
        dest!: lock_balance intro!: stake_kept_put)
next
  case (Resize_stake_lock c j a m)
  with assms(1) obtain q l u q' where q: "stake_positions ls (position_key rt (sl_stake_owner l)) = Some q"
      and raw: "(if u > 0 then StakePosition_unlock q u else Inr q) = Inr q'"
      and ls': "ls' = ls\<lparr>stake_positions := (stake_positions ls)(position_key rt (sl_stake_owner l) \<mapsto> q'),
          stake_locks := (stake_locks ls)(stake_lock_key rt j \<mapsto> l\<lparr>sl_amount := a, sl_matures_at := m\<rparr>)\<rparr>"
    by (auto simp: handle_resize_stake_lock_def manage_stake_lock_Inr result_simps Let_def)
  from raw have "sp_balance q' = sp_balance q" by (auto split: if_splits dest: unlock_balance)
  with stake_kept_put [of "stake_positions ls", OF q, of q' k] show ?thesis by (simp add: ls')
next
  case (Controller_unlock_stake c j)
  with assms show ?thesis
    by (auto simp: handle_controller_unlock_stake_def manage_stake_lock_def result_simps
        dest!: unlock_balance intro!: stake_kept_put)
next
  case (Resolve_stake_lock c accs j claims)
  with assms show ?thesis by (auto simp: handle_resolve_stake_lock_def manage_stake_lock_def result_simps)
qed (use assms in \<open>auto simp: handle_initialize_stake_token_vault_def handle_claim_stake_def handle_set_taker_authorization_def
      handle_select_stake_owner_def handle_clear_stake_owner_def handle_initialize_claim_balance_def result_simps Let_def\<close>)

lemma dispute_instruction_step_keeps:
  assumes "dispute_instruction_step rt ls i = Inr ls'" and "stake_positions ls k = Some p"
  shows "stake_kept (stake_positions ls) (stake_positions ls') k \<or> takes_stake rt ls k p (Disputes i)"
proof (cases i)
  case (Prepare_dispute t j ds sel so args)
  with assms(1) have "handle_prepare_dispute rt ls t j ds sel so args = Inr ls'" by simp
  then show ?thesis by (rule prepare_dispute_Inr) (auto dest: lock_balance intro!: stake_kept_put)
next
  case (Cancel_dispute s ik dk)
  with assms(1) have "handle_cancel_dispute rt ls s ik dk = Inr ls'" by simp
  then show ?thesis by (rule cancel_dispute_Inr) (auto dest: unlock_balance intro!: stake_kept_put)
next
  case (Release_matured_dispute dk)
  with assms(1) have "handle_release_matured_dispute rt ls dk = Inr ls'" by simp
  then show ?thesis by (rule release_matured_dispute_Inr) (auto dest: unlock_balance intro!: stake_kept_put)
next
  case (Submit_dispute args)
  with assms(1) have "handle_submit_dispute rt ls args = Inr ls'" by simp
  then show ?thesis
  proof (rule submit_dispute_Inr)
    fix config verifier and dis :: DisputeIntent and b r v q l dis' q' s t m
    assume ctx: "submit_context rt ls args = Inr (config, verifier, dis, b, r, v, q, l)"
      and ev: "check_dispute_evidence rt config verifier dis b r args = Inr ()"
      and st: "DisputeIntent_dispute dis = Inr (dis', sl_amount l)"
      and "ls' = ls\<lparr>dispute_intents := (dispute_intents ls)
          (pda rt (dispute_intent_seeds (dispute_config_key rt) (da_intent_hash (sda_attestation args))) \<mapsto> dis'),
        stake_positions := (stake_positions ls)(position_key rt (di_stake_owner dis) \<mapsto> q'),
        stake_locks := (stake_locks ls)(stake_lock_key rt (da_intent_hash (sda_attestation args)) := None),
        stake_vault_config := Some (v\<lparr>sv_total_staked := s, sv_total_claimable := t\<rparr>),
        claim_balances := (claim_balances ls)(claim_key rt (di_depositor dis) \<mapsto>
          (prepared_claim rt (di_depositor dis)
            (init_if_needed (claim_balances ls (claim_key rt (di_depositor dis))) zero_claim))\<lparr>cb_amount := m\<rparr>),
        dispute_nullifiers := (dispute_nullifiers ls)
          (pda rt (dispute_nullifier_seeds rt (sda_expected_dispute_nullifier args)) \<mapsto> new_dispute_nullifier rt args)\<rparr>"
    then have ps: "stake_positions ls' = (stake_positions ls)(position_key rt (di_stake_owner dis) \<mapsto> q')" by simp
    show ?thesis
    proof (cases "position_key rt (di_stake_owner dis) = k")
      case True
      with assms(2) submit_context_Inr [OF ctx] have "q = p" by simp
      with ctx ev st True show ?thesis by (auto simp: Submit_dispute DisputeIntent_dispute_def result_simps)
    next
      case False
      then show ?thesis by (simp add: ps stake_kept_def)
    qed
  qed
qed (use assms in \<open>auto simp: handle_set_risk_window_def handle_set_dispute_admissions_paused_def
      handle_set_deposit_dispute_protection_def result_simps Let_def\<close>)

lemma settle_intent_keeps_stake:
  assumes "settle_intent rt ls ik oc i d l t taccs daccs rem a = Inr ls'"
  shows "stake_kept (stake_positions ls) (stake_positions ls') k"
  using assms
proof (rule settle_intent_Inr)
  fix ls1 d' ts n
  assume dis: "settle_dispute_if_covered rt ls i daccs a = Inr ls1"
    and "ls' = ls1\<lparr>deposits := (deposits ls1)(i_deposit i \<mapsto> d'),
      taker_states := (taker_states ls1)(taker_state_key rt (i_owner i) \<mapsto> t\<lparr>ts_active_intents := n\<rparr>),
      intents := (intents ls1)(ik := None), intent_locks := (intent_locks ls1)(lock_addr rt i := None), tokens := ts\<rparr>"
  then have ps: "stake_positions ls' = stake_positions ls1" by simp
  show ?thesis
  proof (cases "i_dispute_covered i")
    case True
    with dis show ?thesis
      by (rule settle_dispute_covered) (auto simp: ps split: if_splits dest: unlock_balance intro!: stake_kept_put)
  next
    case False
    with settle_dispute_uncovered [OF dis] ps show ?thesis by simp
  qed
qed

lemma intent_step_keeps_stake:
  assumes "intent_step rt ls i = Inr ls'"
  shows "stake_kept (stake_positions ls) (stake_positions ls') k"
proof (cases i)
  case (Signal_intent t accs args)
  with assms have "handle_signal_intent rt ls t accs args = Inr ls'" by simp
  then show ?thesis by (rule signal_intent_Inr) auto
next
  case (Cancel_intent s j d)
  with assms obtain i d l t where "end_intent rt ls j i d l t = Inr ls'"
    by (auto simp: handle_cancel_intent_def result_simps split: if_splits)
  then show ?thesis by (rule end_intent_frame) simp
next
  case (Prune_expired_intent j accs)
  with assms have "handle_prune_expired_intent rt ls j accs = Inr ls'" by simp
  then show ?thesis
  proof (rule prune_expired_intent_Inr)
    fix i d l t ls1 config di vault pos lk
    assume pos: "opt_account (stake_positions ls) (pda_stake_position accs) = Inr pos"
      and mid: "(if i_dispute_covered i then prune_dispute rt ls (i_intent_hash i) config di vault pos lk
        else require (config = None \<and> di = None \<and> vault = None \<and> pos = None \<and> lk = None) Unauthorized (Inr ls)) = Inr ls1"
      and e: "end_intent rt ls1 j i d l t = Inr ls'"
    have "stake_kept (stake_positions ls) (stake_positions ls1) k"
    proof (cases "i_dispute_covered i")
      case True
      with mid have "prune_dispute rt ls (i_intent_hash i) config di vault pos lk = Inr ls1" by simp
      then show ?thesis
        by (rule prune_dispute_full) (use pos in \<open>auto simp: opt_account_Some dest: unlock_balance intro!: stake_kept_put\<close>)
    next
      case False
      with mid show ?thesis by (simp add: require_Inr)
    qed
    with e show ?thesis by (elim end_intent_frame) simp
  qed
next
  case (Fulfill_intent j ta da ra args)
  with assms have "handle_fulfill_intent rt ls j ta da ra args = Inr ls'" by simp
  then show ?thesis by (rule fulfill_intent_settles) (auto dest: settle_intent_keeps_stake)
next
  case (Manual_release s j ta da ra)
  with assms show ?thesis by (auto simp: handle_manual_release_def result_simps dest: settle_intent_keeps_stake)
qed

text \<open>While the dispute module is the controller nobody can sign a resolution, so only two instructions are left.\<close>

lemma dispatch_takes_stake:
  assumes run: "dispatch rt ls i = Inr ls'" and p: "stake_positions ls k = Some p"
  shows "stake_kept (stake_positions ls) (stake_positions ls') k \<or> takes_stake rt ls k p i"
proof -
  have kept: "stake_kept (stake_positions ls) (stake_positions ls') k" if "stake_positions ls' = stake_positions ls"
    using that by simp
  show ?thesis
  proof (cases i)
    case (Stake j)
    with run stake_step_keeps [OF _ p] show ?thesis by simp
  next
    case (Disputes j)
    with run dispute_instruction_step_keeps [OF _ p] show ?thesis by simp
  next
    case (Intents j)
    with run intent_step_keeps_stake show ?thesis by auto
  next
    case (Escrow j)
    with run have "escrow_step rt ls j = Inr ls'" by simp
    from arg_cong [OF escrow_step_frame [OF this], of stake_positions] kept show ?thesis by simp
  next
    case (Governance j)
    with run have "governance_step rt ls j = Inr ls'" by simp
    from arg_cong [OF governance_step_frame [OF this], of stake_positions] kept show ?thesis by simp
  next
    case (Rates j)
    with run have "rate_manager_step rt ls j = Inr ls'" by simp
    from arg_cong [OF rate_manager_step_frame [OF this], of stake_positions] kept show ?thesis by simp
  next
    case (Whitelists j)
    with run have "whitelist_step rt ls j = Inr ls'" by simp
    from arg_cong [OF whitelist_step_frame [OF this], of stake_positions] kept show ?thesis by simp
  next
    case (Verification j)
    with run have "verifier_step rt ls j = Inr ls'" by simp
    from arg_cong [OF verifier_step_frame [OF this], of stake_positions] kept show ?thesis by simp
  qed
qed

lemma execute_takes_stake:
  assumes inv: "protocol_inv rt H ls" and run: "execute rt ls e = Inr ls'" and p: "stake_positions ls k = Some p"
  shows "stake_kept (stake_positions ls) (stake_positions ls') k \<or>
    (\<exists>env i. e = Call env i \<and> takes_stake (in_env rt env) ls k p i \<and> (\<forall>c accs j cl. i \<noteq> Stake (Resolve_stake_lock c accs j cl)))"
proof (cases e)
  case (Call env i)
  with run have d: "dispatch (in_env rt env) ls i = Inr ls'" and x: "pred_option (external_key rt ls) (signer i)"
    by (auto split: if_splits)
  have "i \<noteq> Stake (Resolve_stake_lock c accs j cl)" for c accs j cl
  proof
    assume i: "i = Stake (Resolve_stake_lock c accs j cl)"
    with d obtain v where "stake_vault_config ls = Some v" "c = sv_controller v"
      by (auto simp: handle_resolve_stake_lock_def result_simps)
    with inv x i show False by (auto simp: protocol_inv_def dispute_inv_def external_key_def)
  qed
  with dispatch_takes_stake [OF d p] Call show ?thesis by blast
next
  case (Token_transfer tp src mint to auth amount decimals)
  with run show ?thesis by (auto simp: result_simps split: if_splits)
next
  case (Token_open tp key mint auth)
  with run show ?thesis by (auto simp: result_simps split: if_splits)
next
  case (Token_close tp key dest auth)
  with run show ?thesis by (auto simp: result_simps split: if_splits)
qed

end
