(* ===== verification/History.thy ===== *)
theory History
  imports Frames
begin

text \<open>
  What holds over every history without any assumption on the runtime: the verifier's witness set stays well formed, the
  fees of rate managers stay below their ceilings, whitelists stay bounded; payment bindings are permanent and pair each
  payment with one intent. \<open>execute_cases\<close> and \<open>dispatch_stores\<close> lift a fact about the responsible module to every event
  through the frames of the other modules.
\<close>

lemma execute_cases:
  assumes "execute rt ls e = Inr ls'"
  obtains (call) env i where "e = Call env i" "dispatch (in_env rt env) ls i = Inr ls'" "pred_option (external_key rt ls) (signer i)"
  | (tokens) ts where "ls' = ls\<lparr>tokens := ts\<rparr>"
proof (cases e)
  case (Call env i)
  with assms show ?thesis by (intro call) (auto split: if_splits)
next
  case (Token_transfer tp src mint to auth amount decimals)
  with assms show ?thesis by (auto simp: result_simps split: if_splits intro: tokens)
next
  case (Token_open tp key mint auth)
  with assms show ?thesis by (auto simp: result_simps intro: tokens)
next
  case (Token_close tp key dest auth)
  with assms show ?thesis by (auto simp: result_simps split: if_splits intro: tokens)
qed

lemmas step_frames = governance_step_frame stake_step_frame rate_manager_step_frame escrow_step_frame intent_step_frame
  whitelist_step_frame dispute_instruction_step_frame verifier_step_frame

lemma dispatch_stores:
  assumes run: "dispatch rt ls i = Inr ls'"
  shows "(\<forall>j. i \<noteq> Governance j) \<Longrightarrow> (\<forall>j. i \<noteq> Verification j) \<Longrightarrow> verifier_config ls' = verifier_config ls"
    and "(\<forall>j. i \<noteq> Rates j) \<Longrightarrow> rate_managers ls' = rate_managers ls"
    and "(\<forall>j. i \<noteq> Whitelists j) \<Longrightarrow> deposit_whitelists ls' = deposit_whitelists ls"
    and "(\<forall>j. i \<noteq> Intents j) \<Longrightarrow> payment_bindings ls' = payment_bindings ls"
    and "(\<forall>j. i \<noteq> Intents j) \<Longrightarrow> intent_payment_bindings ls' = intent_payment_bindings ls"
    and "(\<forall>j. i \<noteq> Intents j) \<Longrightarrow> (\<forall>j. i \<noteq> Disputes j) \<Longrightarrow> dispute_intents ls' = dispute_intents ls"
    and "(\<forall>j. i \<noteq> Intents j) \<Longrightarrow> (\<forall>j. i \<noteq> Escrow j) \<Longrightarrow> intent_locks ls' = intent_locks ls"
    and "(\<forall>j. i \<noteq> Governance j) \<Longrightarrow> (\<forall>j. i \<noteq> Escrow j) \<Longrightarrow> escrow_config ls' = escrow_config ls"
    and "(\<forall>j. i \<noteq> Governance j) \<Longrightarrow> protocol ls' = protocol ls"
    and "(\<forall>j. i \<noteq> Disputes j) \<Longrightarrow> dispute_nullifiers ls' = dispute_nullifiers ls"
proof -
  show "verifier_config ls' = verifier_config ls" if "\<forall>j. i \<noteq> Governance j" "\<forall>j. i \<noteq> Verification j"
    using run that by (cases i) (simp_all, (drule step_frames, drule arg_cong [where f = verifier_config], simp)+)
  show "rate_managers ls' = rate_managers ls" if "\<forall>j. i \<noteq> Rates j"
    using run that by (cases i) (simp_all, (drule step_frames, drule arg_cong [where f = rate_managers], simp)+)
  show "deposit_whitelists ls' = deposit_whitelists ls" if "\<forall>j. i \<noteq> Whitelists j"
    using run that by (cases i) (simp_all, (drule step_frames, drule arg_cong [where f = deposit_whitelists], simp)+)
  show "payment_bindings ls' = payment_bindings ls" if "\<forall>j. i \<noteq> Intents j"
    using run that by (cases i) (simp_all, (drule step_frames, drule arg_cong [where f = payment_bindings], simp)+)
  show "intent_payment_bindings ls' = intent_payment_bindings ls" if "\<forall>j. i \<noteq> Intents j"
    using run that by (cases i) (simp_all, (drule step_frames, drule arg_cong [where f = intent_payment_bindings], simp)+)
  show "dispute_intents ls' = dispute_intents ls" if "\<forall>j. i \<noteq> Intents j" "\<forall>j. i \<noteq> Disputes j"
    using run that by (cases i) (simp_all, (drule step_frames, drule arg_cong [where f = dispute_intents], simp)+)
  show "intent_locks ls' = intent_locks ls" if "\<forall>j. i \<noteq> Intents j" "\<forall>j. i \<noteq> Escrow j"
    using run that by (cases i) (simp_all, (drule step_frames, drule arg_cong [where f = intent_locks], simp)+)
  show "escrow_config ls' = escrow_config ls" if "\<forall>j. i \<noteq> Governance j" "\<forall>j. i \<noteq> Escrow j"
    using run that by (cases i) (simp_all, (drule step_frames, drule arg_cong [where f = escrow_config], simp)+)
  show "protocol ls' = protocol ls" if "\<forall>j. i \<noteq> Governance j"
    using run that by (cases i) (simp_all, (drule step_frames, drule arg_cong [where f = protocol], simp)+)
  show "dispute_nullifiers ls' = dispute_nullifiers ls" if "\<forall>j. i \<noteq> Disputes j"
    using run that by (cases i) (simp_all, (drule step_frames, drule arg_cong [where f = dispute_nullifiers], simp)+)
qed

subsection \<open>The verifier\<close>

definition verifier_inv :: "ledger \<Rightarrow> bool" where
  "verifier_inv ls \<longleftrightarrow> (\<forall>v. verifier_config ls = Some v \<longrightarrow> verifier_ok v)"

lemma verifier_step_ok:
  assumes "verifier_inv ls" and "verifier_step rt ls i = Inr ls'"
  shows "verifier_inv ls'"
proof (cases i)
  case (Set_verifier_payment_method s m b)
  with assms show ?thesis
    by (auto simp: handle_set_verifier_payment_method_def configure_verifier_def result_simps verifier_inv_def
        intro: set_payment_method_ok)
next
  case (Set_verifier_witness s w b)
  with assms show ?thesis
    by (auto simp: handle_set_verifier_witness_def configure_verifier_def result_simps verifier_inv_def intro: set_witness_ok)
next
  case (Set_required_signatures s n)
  with assms show ?thesis
    by (auto simp: handle_set_required_signatures_def configure_verifier_def result_simps verifier_inv_def verifier_ok_def)
qed

lemma governance_step_verifier:
  assumes "verifier_inv ls" and "governance_step rt ls i = Inr ls'"
  shows "verifier_inv ls'"
proof (cases i)
  case (Initialize_protocol a pd d sh m args)
  with assms show ?thesis
    by (auto simp: handle_initialize_protocol_def check_initialize_args_def result_simps Let_def verifier_inv_def verifier_ok_def)
qed (use assms in \<open>auto simp: handle_propose_protocol_authority_def
      handle_accept_protocol_authority_def handle_configure_orchestrator_def handle_configure_escrow_def
      handle_propose_stake_controller_def handle_accept_stake_controller_def result_simps Let_def verifier_inv_def
      split: option.splits\<close>)

lemma dispatch_verifier:
  assumes inv: "verifier_inv ls" and run: "dispatch rt ls i = Inr ls'"
  shows "verifier_inv ls'"
proof (cases "(\<exists>j. i = Governance j) \<or> (\<exists>j. i = Verification j)")
  case True
  with run governance_step_verifier [OF inv] verifier_step_ok [OF inv] show ?thesis by auto
next
  case False
  with dispatch_stores(1) [OF run] inv show ?thesis by (simp add: verifier_inv_def)
qed

interpretation verifier_history: guarded_machine "execute rt" verifier_inv for rt
proof unfold_locales
  fix ls ls' and e :: event
  assume inv: "verifier_inv ls" and "execute rt ls e = Inr ls'"
  from this(2) show "verifier_inv ls'"
    by (cases rule: execute_cases) (use inv dispatch_verifier [OF inv] in \<open>auto simp: verifier_inv_def\<close>)
qed

subsection \<open>Rate managers\<close>

interpretation rate_manager_history: guarded_machine "execute rt" rate_managers_ok for rt
proof unfold_locales
  fix ls ls' and e :: event
  assume inv: "rate_managers_ok ls" and "execute rt ls e = Inr ls'"
  from this(2) show "rate_managers_ok ls'"
  proof (cases rule: execute_cases)
    case (call env i)
    then show ?thesis
    proof (cases "\<exists>j. i = Rates j")
      case True
      with call rate_manager_step_ok [OF inv] show ?thesis by auto
    next
      case False
      with dispatch_stores(2) [OF call(2)] inv show ?thesis by (simp add: rate_managers_ok_def)
    qed
  qed (use inv in \<open>simp add: rate_managers_ok_def\<close>)
qed

text \<open>A manager keeps its identity and its ceiling.\<close>

definition manager_kept :: "ledger \<Rightarrow> ledger \<Rightarrow> bool" where
  "manager_kept ls ls' \<longleftrightarrow> (\<forall>k m. rate_managers ls k = Some m \<longrightarrow>
     (\<exists>m'. rate_managers ls' k = Some m' \<and> rm_max_fee m' = rm_max_fee m \<and> rm_id m' = rm_id m \<and>
       rm_config m' = rm_config m \<and> rm_nonce m' = rm_nonce m))"

interpretation ceiling_history: climbing_machine "execute rt" manager_kept for rt
proof unfold_locales
  show "manager_kept ls ls" for ls by (simp add: manager_kept_def)
  show "manager_kept ls ls'' " if "manager_kept ls ls'" "manager_kept ls' ls''" for ls ls' ls''
    using that unfolding manager_kept_def by metis
  fix ls ls' and e :: event
  assume "execute rt ls e = Inr ls'"
  then show "manager_kept ls ls'"
  proof (cases rule: execute_cases)
    case (call env i)
    then show ?thesis
    proof (cases "\<exists>j. i = Rates j")
      case True
      with call show ?thesis unfolding manager_kept_def by (auto dest: rate_manager_step_ceiling)
    next
      case False
      with dispatch_stores(2) [OF call(2)] show ?thesis by (simp add: manager_kept_def)
    qed
  qed (simp add: manager_kept_def)
qed

subsection \<open>Whitelists\<close>

lemma whitelist_step_ok:
  assumes "whitelists_ok ls" and "whitelist_step rt ls i = Inr ls'"
  shows "whitelists_ok ls'"
proof (cases i)
  case (Configure_address_group s g rp p r c)
  with assms(2) have "deposit_whitelists ls' = deposit_whitelists ls"
    by (auto dest!: configure_address_group_Inr)
  with assms(1) show ?thesis by (simp add: whitelists_ok_def)
next
  case (Initialize_deposit_whitelist s k b)
  with assms show ?thesis by (auto intro: initialize_deposit_whitelist_ok)
next
  case (Set_whitelist_enabled s k b)
  with assms show ?thesis by (auto intro: set_whitelist_enabled_ok)
next
  case (Set_deposit_allowed_group s k g b)
  with assms show ?thesis by (auto intro: set_deposit_allowed_group_ok)
qed (use assms in \<open>auto simp: handle_create_address_group_def handle_accept_group_curator_def
      handle_set_group_member_def handle_set_self_group_member_def handle_set_deposit_whitelist_member_def
      result_simps Let_def whitelists_ok_def\<close>)

interpretation whitelist_history: guarded_machine "execute rt" whitelists_ok for rt
proof unfold_locales
  fix ls ls' and e :: event
  assume inv: "whitelists_ok ls" and "execute rt ls e = Inr ls'"
  from this(2) show "whitelists_ok ls'"
  proof (cases rule: execute_cases)
    case (call env i)
    then show ?thesis
    proof (cases "\<exists>j. i = Whitelists j")
      case True
      with call whitelist_step_ok [OF inv] show ?thesis by auto
    next
      case False
      with dispatch_stores(3) [OF call(2)] inv show ?thesis by (simp add: whitelists_ok_def)
    qed
  qed (use inv in \<open>simp add: whitelists_ok_def\<close>)
qed

subsection \<open>Payment bindings\<close>

text \<open>The two records of a fulfilment. A payment is bound to its intent and the intent to its payment, for good.\<close>

definition bindings_kept :: "ledger \<Rightarrow> ledger \<Rightarrow> bool" where
  "bindings_kept ls ls' \<longleftrightarrow> payment_bindings ls \<subseteq>\<^sub>m payment_bindings ls' \<and>
     intent_payment_bindings ls \<subseteq>\<^sub>m intent_payment_bindings ls' \<and> dispute_nullifiers ls \<subseteq>\<^sub>m dispute_nullifiers ls'"

lemma map_le_fresh: "m k = None \<Longrightarrow> m \<subseteq>\<^sub>m m(k \<mapsto> v)"
  by (auto simp: map_le_def)

lemma settle_intent_bindings:
  assumes "settle_intent rt ls ik oc i d l t taccs daccs rem a = Inr ls'"
  shows "payment_bindings ls' = payment_bindings ls \<and> intent_payment_bindings ls' = intent_payment_bindings ls \<and>
    dispute_nullifiers ls' = dispute_nullifiers ls"
  using assms by (rule settle_intent_frame) simp

text \<open>Only a fulfilment binds a payment.\<close>

lemma intent_step_unbound:
  assumes run: "intent_step rt ls i = Inr ls'" and "\<nexists>k ta da ra args. i = Fulfill_intent k ta da ra args"
  shows "payment_bindings ls' = payment_bindings ls \<and> intent_payment_bindings ls' = intent_payment_bindings ls \<and>
    dispute_nullifiers ls' = dispute_nullifiers ls"
proof (cases i)
  case (Signal_intent t accs args)
  with run have "handle_signal_intent rt ls t accs args = Inr ls'" by simp
  then show ?thesis by (rule signal_intent_Inr) auto
next
  case (Cancel_intent s k d)
  with run obtain i d l t where "end_intent rt ls k i d l t = Inr ls'"
    by (auto simp: handle_cancel_intent_def result_simps split: if_splits)
  then show ?thesis by (rule end_intent_frame) simp
next
  case (Prune_expired_intent k accs)
  with run have "handle_prune_expired_intent rt ls k accs = Inr ls'" by simp
  then show ?thesis
    by (rule prune_expired_intent_Inr)
      (auto simp: require_Inr split: if_splits elim!: end_intent_frame prune_dispute_Inr)
next
  case (Manual_release s k ta da ra)
  with run show ?thesis by (auto simp: handle_manual_release_def result_simps dest!: settle_intent_bindings)
qed (use assms(2) in simp)

lemma intent_step_bindings:
  assumes "intent_step rt ls i = Inr ls'"
  shows "bindings_kept ls ls'"
proof (cases "\<exists>k ta da ra args. i = Fulfill_intent k ta da ra args")
  case True
  with assms obtain k ta da ra args where "handle_fulfill_intent rt ls k ta da ra args = Inr ls'" by auto
  then show ?thesis
    by (rule fulfill_intent_Inr) (auto dest!: settle_intent_bindings simp: bindings_kept_def map_le_fresh)
next
  case False
  with intent_step_unbound [OF assms] show ?thesis by (simp add: bindings_kept_def)
qed

lemma dispute_step_nullifiers:
  assumes "dispute_instruction_step rt ls i = Inr ls'"
  shows "dispute_nullifiers ls \<subseteq>\<^sub>m dispute_nullifiers ls'"
proof (cases i)
  case (Prepare_dispute t k ds sel so args)
  with assms have "handle_prepare_dispute rt ls t k ds sel so args = Inr ls'" by simp
  then show ?thesis by (rule prepare_dispute_Inr) simp
next
  case (Cancel_dispute s ik k)
  with assms have "handle_cancel_dispute rt ls s ik k = Inr ls'" by simp
  then show ?thesis by (rule cancel_dispute_Inr) simp
next
  case (Release_matured_dispute k)
  with assms have "handle_release_matured_dispute rt ls k = Inr ls'" by simp
  then show ?thesis by (rule release_matured_dispute_Inr) simp
next
  case (Submit_dispute args)
  with assms have "handle_submit_dispute rt ls args = Inr ls'" by simp
  then show ?thesis by (rule submit_dispute_Inr) (auto dest!: submit_context_Inr simp: map_le_fresh)
qed (use assms in \<open>auto simp: handle_set_risk_window_def handle_set_dispute_admissions_paused_def
    handle_set_deposit_dispute_protection_def result_simps\<close>)

interpretation binding_history: climbing_machine "execute rt" bindings_kept for rt
proof unfold_locales
  show "bindings_kept ls ls" for ls by (simp add: bindings_kept_def)
  show "bindings_kept ls ls''" if "bindings_kept ls ls'" "bindings_kept ls' ls''" for ls ls' ls''
    using that by (auto simp: bindings_kept_def intro: map_le_trans)
  fix ls ls' and e :: event
  assume "execute rt ls e = Inr ls'"
  then show "bindings_kept ls ls'"
  proof (cases rule: execute_cases)
    case (call env i)
    then show ?thesis
    proof (cases "(\<exists>j. i = Intents j) \<or> (\<exists>j. i = Disputes j)")
      case True
      with call show ?thesis
        using dispatch_stores(4,5) [OF call(2)] dispute_step_nullifiers intent_step_bindings
        by (fastforce simp: bindings_kept_def)
    next
      case False
      with dispatch_stores(4,5,10) [OF call(2)] show ?thesis by (simp add: bindings_kept_def)
    qed
  qed (simp add: bindings_kept_def)
qed

subsection \<open>One payment, one intent\<close>

definition bindings_paired :: "runtime \<Rightarrow> ledger \<Rightarrow> bool" where
  "bindings_paired rt ls \<longleftrightarrow>
     (\<forall>k b. payment_bindings ls k = Some b \<longrightarrow> k = pda rt (payment_binding_seeds rt (pb_nullifier b)) \<and>
        (\<exists>r. intent_payment_bindings ls (pda rt (intent_payment_binding_seeds rt (pb_intent_hash b))) = Some r \<and>
           ib_intent_hash r = pb_intent_hash b \<and> ib_nullifier r = pb_nullifier b)) \<and>
     (\<forall>k r. intent_payment_bindings ls k = Some r \<longrightarrow> k = pda rt (intent_payment_binding_seeds rt (ib_intent_hash r)) \<and>
        (\<exists>b. payment_bindings ls (pda rt (payment_binding_seeds rt (ib_nullifier r))) = Some b \<and>
           pb_nullifier b = ib_nullifier r \<and> pb_intent_hash b = ib_intent_hash r))"

lemma bindings_paired_same:
  "bindings_paired rt ls \<Longrightarrow> payment_bindings ls' = payment_bindings ls \<Longrightarrow>
     intent_payment_bindings ls' = intent_payment_bindings ls \<Longrightarrow> bindings_paired rt ls'"
  by (simp add: bindings_paired_def)

lemma bindings_paired_put:
  assumes inv: "bindings_paired rt ls" and k: "k = pda rt (payment_binding_seeds rt (pb_nullifier b))"
    and j: "j = pda rt (intent_payment_binding_seeds rt (ib_intent_hash r))"
    and br: "pb_intent_hash b = ib_intent_hash r" "pb_nullifier b = ib_nullifier r"
    and none: "payment_bindings ls k = None" "intent_payment_bindings ls j = None"
    and ls': "payment_bindings ls' = (payment_bindings ls)(k \<mapsto> b)"
      "intent_payment_bindings ls' = (intent_payment_bindings ls)(j \<mapsto> r)"
  shows "bindings_paired rt ls'"
proof -
  have old: "m = pda rt (payment_binding_seeds rt (pb_nullifier c)) \<and>
      (\<exists>q. intent_payment_bindings ls (pda rt (intent_payment_binding_seeds rt (pb_intent_hash c))) = Some q \<and>
         ib_intent_hash q = pb_intent_hash c \<and> ib_nullifier q = pb_nullifier c)" if "payment_bindings ls m = Some c" for m c
    using inv that by (simp add: bindings_paired_def)
  have old': "m = pda rt (intent_payment_binding_seeds rt (ib_intent_hash q)) \<and>
      (\<exists>c. payment_bindings ls (pda rt (payment_binding_seeds rt (ib_nullifier q))) = Some c \<and>
         pb_nullifier c = ib_nullifier q \<and> pb_intent_hash c = ib_intent_hash q)" if "intent_payment_bindings ls m = Some q" for m q
    using inv that by (simp add: bindings_paired_def)
  show ?thesis
    unfolding bindings_paired_def
  proof (intro conjI allI impI)
    fix m c assume c: "payment_bindings ls' m = Some c"
    show "m = pda rt (payment_binding_seeds rt (pb_nullifier c))" using c k old by (auto simp: ls' split: if_splits)
    show "\<exists>q. intent_payment_bindings ls' (pda rt (intent_payment_binding_seeds rt (pb_intent_hash c))) = Some q \<and>
        ib_intent_hash q = pb_intent_hash c \<and> ib_nullifier q = pb_nullifier c"
    proof (cases "m = k")
      case True
      with c j br show ?thesis by (simp add: ls')
    next
      case False
      with c have "payment_bindings ls m = Some c" by (simp add: ls')
      from old [OF this] obtain q where q: "intent_payment_bindings ls (pda rt (intent_payment_binding_seeds rt (pb_intent_hash c))) = Some q"
        "ib_intent_hash q = pb_intent_hash c" "ib_nullifier q = pb_nullifier c" by blast
      with none(2) have "pda rt (intent_payment_binding_seeds rt (pb_intent_hash c)) \<noteq> j" by (metis option.distinct(1))
      with q show ?thesis by (simp add: ls')
    qed
  next
    fix m q assume q: "intent_payment_bindings ls' m = Some q"
    show "m = pda rt (intent_payment_binding_seeds rt (ib_intent_hash q))" using q j old' by (auto simp: ls' split: if_splits)
    show "\<exists>c. payment_bindings ls' (pda rt (payment_binding_seeds rt (ib_nullifier q))) = Some c \<and>
        pb_nullifier c = ib_nullifier q \<and> pb_intent_hash c = ib_intent_hash q"
    proof (cases "m = j")
      case True
      with q k br show ?thesis by (simp add: ls')
    next
      case False
      with q have "intent_payment_bindings ls m = Some q" by (simp add: ls')
      from old' [OF this] obtain c where c: "payment_bindings ls (pda rt (payment_binding_seeds rt (ib_nullifier q))) = Some c"
        "pb_nullifier c = ib_nullifier q" "pb_intent_hash c = ib_intent_hash q" by blast
      with none(1) have "pda rt (payment_binding_seeds rt (ib_nullifier q)) \<noteq> k" by (metis option.distinct(1))
      with c show ?thesis by (simp add: ls')
    qed
  qed
qed

lemma intent_step_paired:
  assumes inv: "bindings_paired rt ls" and run: "intent_step rt ls i = Inr ls'"
  shows "bindings_paired rt ls'"
proof (cases "\<exists>k ta da ra args. i = Fulfill_intent k ta da ra args")
  case True
  then obtain k ta da ra args where "handle_fulfill_intent rt ls k ta da ra args = Inr ls'" using run by auto
  then show ?thesis
  proof (rule fulfill_intent_Inr)
    fix oc and i :: Intent and d l t v n ls1
    let ?b = "\<lparr>pb_verifier = verifier_config_key rt, pb_nullifier = n, pb_intent_hash = i_intent_hash i,
        pb_bump = pda_bump rt (payment_binding_seeds rt n)\<rparr>"
    let ?r = "\<lparr>ib_verifier = verifier_config_key rt, ib_intent_hash = i_intent_hash i, ib_nullifier = n,
        ib_bump = pda_bump rt (intent_payment_binding_seeds rt (i_intent_hash i))\<rparr>"
    assume none: "payment_bindings ls (pda rt (payment_binding_seeds rt n)) = None"
        "intent_payment_bindings ls (pda rt (intent_payment_binding_seeds rt (i_intent_hash i))) = None"
      and s: "settle_intent rt ls k oc i d l t ta da ra (min (pa_release_amount (fia_attestation args)) (i_amount i)) = Inr ls1"
      and ls': "ls' = ls1\<lparr>payment_bindings := (payment_bindings ls1)(pda rt (payment_binding_seeds rt n) \<mapsto> ?b),
        intent_payment_bindings := (intent_payment_bindings ls1)
          (pda rt (intent_payment_binding_seeds rt (i_intent_hash i)) \<mapsto> ?r)\<rparr>"
    show ?thesis
      by (rule bindings_paired_put [OF inv, of _ ?b _ ?r]) (use none settle_intent_bindings [OF s] in \<open>simp_all add: ls'\<close>)
  qed
next
  case False
  with bindings_paired_same [OF inv] intent_step_unbound [OF run] show ?thesis by simp
qed

lemma in_env_paired [simp]: "bindings_paired (in_env rt env) = bindings_paired rt"
  by (simp add: fun_eq_iff bindings_paired_def payment_binding_seeds_def intent_payment_binding_seeds_def)

interpretation pairing_history: guarded_machine "execute rt" "bindings_paired rt" for rt
proof unfold_locales
  fix ls ls' and e :: event
  assume inv: "bindings_paired rt ls" and "execute rt ls e = Inr ls'"
  from this(2) show "bindings_paired rt ls'"
  proof (cases rule: execute_cases)
    case (call env i)
    then show ?thesis
    proof (cases "\<exists>j. i = Intents j")
      case True
      with call intent_step_paired [of "in_env rt env" ls _ ls'] inv show ?thesis by auto
    next
      case False
      with dispatch_stores(4,5) [OF call(2)] bindings_paired_same [OF inv] show ?thesis by simp
    qed
  qed (use inv in \<open>simp add: bindings_paired_def\<close>)
qed

end
