(* ===== verification/Dispute_Life.thy ===== *)
theory Dispute_Life
  imports Dispute_Backing History
begin

text \<open>
  The state machine of a dispute account over the instructions of the program. \<open>dispute_edge\<close> lists its transitions, each
  with the one instruction that makes it and the facts of the ledger that allow it; \<open>dispatch_edges\<close> shows that the program
  makes no other change to a dispute account.
\<close>

text \<open>
  \<open>dispute_edge rt ls i k before after\<close>: in the ledger \<open>ls\<close>, at the time of \<open>rt\<close>, the instruction \<open>i\<close> changes the dispute account
  at \<open>k\<close>. An account is opened as pending by the preparation for its own intent hash; a pending dispute is cancelled by the
  taker of the intent or by pruning an intent whose lock has expired, and is settled with the amount that is paid out, to
  be released one risk window later; a settled dispute is released once its time has come, or disputed by evidence
  about its intent hash.
\<close>

inductive dispute_edge ::
  "runtime \<Rightarrow> ledger \<Rightarrow> instruction \<Rightarrow> pubkey \<Rightarrow> DisputeIntent option \<Rightarrow> DisputeIntent \<Rightarrow> bool" for rt ls where
  edge_prepare:
  "\<lbrakk>k = dispute_addr rt (pda_expected_intent_hash args); di_status d = Pending; di_intent_hash d = pda_expected_intent_hash args;
    di_taker d = taker; di_deposit d = deposit; di_stake_owner d = so; di_locked_amount d = pda_amount args\<rbrakk> \<Longrightarrow>
   dispute_edge rt ls (Disputes (Prepare_dispute taker deposit setting sel so args)) k None d"
| edge_cancel:
  "\<lbrakk>di_status d = Pending; intents ls ik = Some i; i_intent_hash i = di_intent_hash d\<rbrakk> \<Longrightarrow>
   dispute_edge rt ls (Disputes (Cancel_dispute (i_owner i) ik k)) k (Some d) (d\<lparr>di_status := Cancelled\<rparr>)"
| edge_prune:
  "\<lbrakk>di_status d = Pending; intents ls ik = Some i; i_dispute_covered i; k = dispute_addr rt (i_intent_hash i);
    intent_locks ls (lock_addr rt i) = Some l; sint (el_expiry_time l) < sint (unix_timestamp rt)\<rbrakk> \<Longrightarrow>
   dispute_edge rt ls (Intents (Prune_expired_intent ik accs)) k (Some d) (d\<lparr>di_status := Cancelled\<rparr>)"
| edge_fulfill:
  "\<lbrakk>di_status d = Pending; intents ls ik = Some i; i_dispute_covered i; i_intent_hash i = di_intent_hash d;
    k = dispute_addr rt (i_intent_hash i); a = min (pa_release_amount (fia_attestation args)) (i_amount i); 0 < a;
    sint t = sint (unix_timestamp rt) + sint (di_risk_window d)\<rbrakk> \<Longrightarrow>
   dispute_edge rt ls (Intents (Fulfill_intent ik taccs daccs rem args)) k (Some d)
     (d\<lparr>di_release_amount := a, di_release_eligible_at := t, di_status := Settled\<rparr>)"
| edge_manual_release:
  "\<lbrakk>di_status d = Pending; intents ls ik = Some i; i_dispute_covered i; i_intent_hash i = di_intent_hash d;
    k = dispute_addr rt (i_intent_hash i); deposits ls (i_deposit i) = Some dep; 0 < i_amount i;
    sint t = sint (unix_timestamp rt) + sint (di_risk_window d)\<rbrakk> \<Longrightarrow>
   dispute_edge rt ls (Intents (Manual_release (d_depositor dep) ik taccs daccs rem)) k (Some d)
     (d\<lparr>di_release_amount := i_amount i, di_release_eligible_at := t, di_status := Settled\<rparr>)"
| edge_release:
  "\<lbrakk>di_status d = Settled; sint (di_release_eligible_at d) \<le> sint (unix_timestamp rt)\<rbrakk> \<Longrightarrow>
   dispute_edge rt ls (Disputes (Release_matured_dispute k)) k (Some d) (d\<lparr>di_status := Released\<rparr>)"
| edge_dispute:
  "\<lbrakk>di_status d = Settled; k = dispute_addr rt (da_intent_hash (sda_attestation args))\<rbrakk> \<Longrightarrow>
   dispute_edge rt ls (Disputes (Submit_dispute args)) k (Some d) (d\<lparr>di_status := Disputed\<rparr>)"

inductive_cases dispute_edge_SomeE: "dispute_edge rt ls i k (Some d) d'"

lemma dispute_edge_terms: "dispute_edge rt ls i k (Some d) d' \<Longrightarrow> dispute_terms d' = dispute_terms d"
  by (erule dispute_edge_SomeE) (simp_all add: dispute_terms_def)

text \<open>The dispute accounts after an instruction.\<close>

definition disputes_follow :: "runtime \<Rightarrow> ledger \<Rightarrow> instruction \<Rightarrow> ledger \<Rightarrow> bool" where
  "disputes_follow rt ls i ls' \<longleftrightarrow> (\<forall>k. dispute_intents ls' k = dispute_intents ls k \<or>
     (\<exists>d'. dispute_intents ls' k = Some d' \<and> dispute_edge rt ls i k (dispute_intents ls k) d'))"

lemma disputes_follow_same: "dispute_intents ls' = dispute_intents ls \<Longrightarrow> disputes_follow rt ls i ls'"
  by (simp add: disputes_follow_def)

lemma disputes_follow_put:
  "dispute_edge rt ls i k (dispute_intents ls k) d' \<Longrightarrow> dispute_intents ls' = (dispute_intents ls)(k \<mapsto> d') \<Longrightarrow>
     disputes_follow rt ls i ls'"
  by (simp add: disputes_follow_def)

text \<open>The methods of the account give the changes.\<close>

lemma dispute_method_effects:
  shows "DisputeIntent_cancel d = Inr d' \<Longrightarrow> di_status d = Pending \<and> d' = d\<lparr>di_status := Cancelled\<rparr>"
    and "DisputeIntent_settle d a now = Inr (d', t) \<Longrightarrow> di_status d = Pending \<and> 0 < a \<and>
      sint t = sint now + sint (di_risk_window d) \<and>
      d' = d\<lparr>di_release_amount := a, di_release_eligible_at := t, di_status := Settled\<rparr>"
    and "DisputeIntent_release d now = Inr (d', r) \<Longrightarrow> di_status d = Settled \<and>
      sint (di_release_eligible_at d) \<le> sint now \<and> d' = d\<lparr>di_status := Released\<rparr>"
    and "DisputeIntent_dispute d = Inr (d', r) \<Longrightarrow> di_status d = Settled \<and> d' = d\<lparr>di_status := Disputed\<rparr>"
  by (auto simp: dispute_method_defs result_simps checked_simps)

subsection \<open>Settlement and pruning\<close>

lemma settle_intent_follows:
  assumes run: "settle_intent rt ls ik oc i d l t taccs daccs rem a = Inr ls'"
    and edge: "\<And>dis t. \<lbrakk>i_dispute_covered i; di_status dis = Pending; i_intent_hash i = di_intent_hash dis; 0 < a;
      sint t = sint (unix_timestamp rt) + sint (di_risk_window dis)\<rbrakk> \<Longrightarrow>
      dispute_edge rt ls j (dispute_addr rt (i_intent_hash i)) (Some dis)
        (dis\<lparr>di_release_amount := a, di_release_eligible_at := t, di_status := Settled\<rparr>)"
  shows "disputes_follow rt ls j ls'"
  using run
proof (rule settle_intent_Inr)
  fix ls1 d' ts n
  assume dis: "settle_dispute_if_covered rt ls i daccs a = Inr ls1"
    and ls': "ls' = ls1\<lparr>deposits := (deposits ls1)(i_deposit i \<mapsto> d'),
      taker_states := (taker_states ls1)(taker_state_key rt (i_owner i) \<mapsto> t\<lparr>ts_active_intents := n\<rparr>),
      intents := (intents ls1)(ik := None), intent_locks := (intent_locks ls1)(lock_addr rt i := None), tokens := ts\<rparr>"
  show ?thesis
  proof (cases "i_dispute_covered i")
    case False
    with settle_dispute_uncovered [OF dis] show ?thesis by (simp add: ls' disputes_follow_same)
  next
    case True
    from dis True obtain dis dis' m ps sls where d: "dispute_intents ls (dispute_addr rt (i_intent_hash i)) = Some dis"
        and h: "i_intent_hash i = di_intent_hash dis" and s: "DisputeIntent_settle dis a (unix_timestamp rt) = Inr (dis', m)"
        and ls1: "ls1 = ls\<lparr>dispute_intents := (dispute_intents ls)(dispute_addr rt (i_intent_hash i) \<mapsto> dis'),
          stake_positions := ps, stake_locks := sls\<rparr>"
      by (rule settle_dispute_covered) (rule that, assumption, rule sym, assumption+)
    from dispute_method_effects(2) [OF s] edge [OF True _ h] d
    have "dispute_edge rt ls j (dispute_addr rt (i_intent_hash i)) (dispute_intents ls (dispute_addr rt (i_intent_hash i))) dis'"
      by simp
    then show ?thesis by (rule disputes_follow_put) (simp add: ls' ls1)
  qed
qed

lemma prune_expired_intent_follows:
  assumes "handle_prune_expired_intent rt ls ik accs = Inr ls'"
  shows "disputes_follow rt ls (Intents (Prune_expired_intent ik accs)) ls'"
  using assms
proof (rule prune_expired_intent_Inr)
  fix i d l t ls1 config di vault pos lk
  assume ctx: "ending_context rt ls ik = Inr (i, d, l, t)" and late: "sint (unix_timestamp rt) > sint (el_expiry_time l)"
    and di: "opt_account (dispute_intents ls) (pda_dispute_intent accs) = Inr di"
    and mid: "(if i_dispute_covered i then prune_dispute rt ls (i_intent_hash i) config di vault pos lk
      else require (config = None \<and> di = None \<and> vault = None \<and> pos = None \<and> lk = None) Unauthorized (Inr ls)) = Inr ls1"
    and e: "end_intent rt ls1 ik i d l t = Inr ls'"
  have same: "dispute_intents ls' = dispute_intents ls1" using e by (rule end_intent_frame) simp
  note c = ending_context_Inr [OF ctx]
  show ?thesis
  proof (cases "i_dispute_covered i")
    case False
    with mid same show ?thesis by (auto simp: require_Inr intro: disputes_follow_same)
  next
    case True
    with mid have "prune_dispute rt ls (i_intent_hash i) config di vault pos lk = Inr ls1" by simp
    then show ?thesis
      by (rule prune_dispute_full, intro disputes_follow_put)
        (use di c True late in \<open>auto simp: opt_account_Some same dest!: dispute_method_effects(1) intro: edge_prune\<close>)
  qed
qed

lemma intent_step_follows:
  assumes "intent_step rt ls i = Inr ls'"
  shows "disputes_follow rt ls (Intents i) ls'"
proof (cases i)
  case (Signal_intent t accs args)
  with assms have "handle_signal_intent rt ls t accs args = Inr ls'" by simp
  then show ?thesis by (rule signal_intent_Inr) (auto intro: disputes_follow_same)
next
  case (Cancel_intent s k d)
  with assms obtain i d l t where "end_intent rt ls k i d l t = Inr ls'"
    by (auto simp: handle_cancel_intent_def result_simps split: if_splits)
  then show ?thesis by (rule end_intent_frame) (simp add: disputes_follow_same)
next
  case (Prune_expired_intent k accs)
  with assms prune_expired_intent_follows show ?thesis by simp
next
  case (Fulfill_intent k ta da ra args)
  with assms have "handle_fulfill_intent rt ls k ta da ra args = Inr ls'" by simp
  then show ?thesis
  proof (rule fulfill_intent_Inr)
    fix oc j d l t v n ls1
    assume ctx: "settlement_context rt ls k = Inr (oc, j, d, l, t)" and ls': "ls' = bind_payment rt ls1 j n"
      and set: "settle_intent rt ls k oc j d l t ta da ra (min (pa_release_amount (fia_attestation args)) (i_amount j)) = Inr ls1"
    from set have "disputes_follow rt ls (Intents i) ls1"
      by (rule settle_intent_follows) (use settlement_context_Inr [OF ctx] Fulfill_intent in \<open>auto intro: edge_fulfill\<close>)
    then show ?thesis by (simp add: ls' disputes_follow_def)
  qed
next
  case (Manual_release s k ta da ra)
  with assms obtain oc j d l t where ctx: "settlement_context rt ls k = Inr (oc, j, d, l, t)" and s: "s = d_depositor d"
      and set: "settle_intent rt ls k oc j d l t ta da ra (i_amount j) = Inr ls'"
    by (auto simp: handle_manual_release_def result_simps)
  from set show ?thesis
    by (rule settle_intent_follows)
      (use settlement_context_Inr [OF ctx] Manual_release s in \<open>auto intro: edge_manual_release\<close>)
qed

subsection \<open>The dispute instructions\<close>

lemma dispute_instruction_step_follows:
  assumes "dispute_instruction_step rt ls i = Inr ls'"
  shows "disputes_follow rt ls (Disputes i) ls'"
proof (cases i)
  case (Prepare_dispute t k ds sel so args)
  with assms have "handle_prepare_dispute rt ls t k ds sel so args = Inr ls'" by simp
  then show ?thesis
    by (rule prepare_dispute_Inr, intro disputes_follow_put)
      (auto simp: Prepare_dispute new_dispute_intent_def intro!: edge_prepare)
next
  case (Cancel_dispute s ik k)
  with assms have "handle_cancel_dispute rt ls s ik k = Inr ls'" by simp
  then show ?thesis
    by (rule cancel_dispute_Inr, intro disputes_follow_put)
      (auto simp: Cancel_dispute dest!: dispute_method_effects(1) intro: edge_cancel)
next
  case (Release_matured_dispute k)
  with assms have "handle_release_matured_dispute rt ls k = Inr ls'" by simp
  then show ?thesis
    by (rule release_matured_dispute_Inr, intro disputes_follow_put)
      (auto simp: Release_matured_dispute dest!: dispute_method_effects(3) intro: edge_release)
next
  case (Submit_dispute args)
  with assms have "handle_submit_dispute rt ls args = Inr ls'" by simp
  then show ?thesis
    by (rule submit_dispute_Inr, intro disputes_follow_put)
      (auto simp: Submit_dispute dest!: submit_context_Inr dispute_method_effects(4) intro: edge_dispute)
qed (use assms in \<open>auto simp: handle_set_risk_window_def handle_set_dispute_admissions_paused_def
    handle_set_deposit_dispute_protection_def result_simps disputes_follow_def\<close>)

lemma dispatch_edges:
  assumes "dispatch rt ls i = Inr ls'"
  shows "disputes_follow rt ls i ls'"
proof (cases "(\<exists>j. i = Intents j) \<or> (\<exists>j. i = Disputes j)")
  case True
  with assms intent_step_follows dispute_instruction_step_follows show ?thesis by auto
next
  case False
  with dispatch_stores(6) [OF assms] show ?thesis by (simp add: disputes_follow_same)
qed

subsection \<open>Histories\<close>

lemma event_edges:
  "dispute_intents (run (execute rt) ls [e]) k = dispute_intents ls k \<or>
   (\<exists>env i d. e = Call env i \<and> dispute_intents (run (execute rt) ls [e]) k = Some d \<and>
      dispute_edge (in_env rt env) ls i k (dispute_intents ls k) d)"
proof (cases "execute rt ls e")
  case (Inr ls')
  then have run: "run (execute rt) ls [e] = ls'" by simp
  from Inr show ?thesis
  proof (cases rule: execute_cases)
    case (call env i)
    from dispatch_edges [OF call(2)] show ?thesis unfolding run disputes_follow_def using call(1) by blast
  next
    case (tokens ts)
    then show ?thesis unfolding run by simp
  qed
qed simp

text \<open>An account, once opened, stays with its terms.\<close>

definition disputes_kept :: "ledger \<Rightarrow> ledger \<Rightarrow> bool" where
  "disputes_kept ls ls' \<longleftrightarrow> (\<forall>k d. dispute_intents ls k = Some d \<longrightarrow>
     (\<exists>d'. dispute_intents ls' k = Some d' \<and> dispute_terms d' = dispute_terms d))"

interpretation dispute_history: climbing_machine "execute rt" disputes_kept for rt
proof unfold_locales
  show "disputes_kept ls ls" for ls by (simp add: disputes_kept_def)
  show "disputes_kept ls ls''" if "disputes_kept ls ls'" "disputes_kept ls' ls''" for ls ls' ls''
    using that unfolding disputes_kept_def by metis
  fix ls ls' and e :: event
  assume "execute rt ls e = Inr ls'"
  then have "run (execute rt) ls [e] = ls'" by simp
  with event_edges [of rt ls e] show "disputes_kept ls ls'" unfolding disputes_kept_def by (metis dispute_edge_terms)
qed

end
