(* ===== verification/Limits.thy ===== *)
theory Limits
  imports History Distribution
begin

text \<open>
  The limits that hold in every reachable ledger: the configured fee and expiry period, the lifetime of each escrow lock
  and the fees agreed in each intent. From them follows that the fees of a settlement stay below the released amount.
\<close>

subsection \<open>Referral fees\<close>

definition referrals_ok :: "ReferralFee list \<Rightarrow> bool" where
  "referrals_ok fees \<longleftrightarrow> length fees \<le> 10 \<and> distinct (map rf_recipient fees) \<and>
     (\<forall>f\<in>set fees. rf_recipient f \<noteq> 0 \<and> 0 < unat (rf_fee f)) \<and>
     sum_list (map (\<lambda>f. unat (rf_fee f)) fees) \<le> 5 * 10 ^ 17"

lemma sum_referral_fees_Inr:
  "sum_referral_fees sofar fees = Inr s \<longleftrightarrow>
     (\<forall>f\<in>set fees. rf_recipient f \<noteq> 0 \<and> 0 < unat (rf_fee f)) \<and> distinct (map rf_recipient fees) \<and>
     unat s = unat sofar + sum_list (map (\<lambda>f. unat (rf_fee f)) fees)"
proof (induction sofar fees rule: sum_referral_fees.induct)
  case (1 sofar)
  then show ?case by (auto simp: word_unat_eq_iff)
next
  case (2 sofar fee rest)
  show ?case
  proof (cases "checked_add sofar (rf_fee fee)")
    case None
    then have "2 ^ 128 \<le> unat sofar + unat (rf_fee fee)"
      using checked_add_ex [of sofar "rf_fee fee"] by (cases "unat sofar + unat (rf_fee fee) < 2 ^ 128") auto
    with None unat_bound [of s] show ?thesis by (auto simp: result_simps)
  next
    case (Some t)
    then have t: "unat t = unat sofar + unat (rf_fee fee)" by (simp add: checked_simps)
    have "(\<forall>x\<in>set rest. rf_recipient x \<noteq> rf_recipient fee) \<longleftrightarrow> rf_recipient fee \<notin> rf_recipient ` set rest"
      unfolding image_iff by metis
    then show ?thesis using 2 [of t] by (auto simp: result_simps Some t word_greater_zero_iff unat_gt_0)
  qed
qed

lemma validate_referral_fees_Inr: "validate_referral_fees fees = Inr () \<longleftrightarrow> referrals_ok fees"
proof -
  have "(\<exists>s. sum_referral_fees 0 fees = Inr s \<and> s \<le> MAX_REFERRAL_FEE) \<longleftrightarrow>
      (\<forall>f\<in>set fees. rf_recipient f \<noteq> 0 \<and> 0 < unat (rf_fee f)) \<and> distinct (map rf_recipient fees) \<and>
      sum_list (map (\<lambda>f. unat (rf_fee f)) fees) \<le> 5 * 10 ^ 17" (is "?l \<longleftrightarrow> ?r")
  proof
    assume ?l
    then show ?r by (auto simp: sum_referral_fees_Inr word_le_nat_alt checked_simps)
  next
    assume r: ?r
    let ?n = "sum_list (map (\<lambda>f. unat (rf_fee f)) fees)"
    from r have "?n < 2 ^ 128" by simp
    then have "unat (of_nat ?n :: u128) = ?n" by (simp add: unat_of_nat)
    with r show ?l
      by (intro exI [of _ "of_nat ?n"]) (simp add: sum_referral_fees_Inr word_le_nat_alt checked_simps)
  qed
  then show ?thesis by (auto simp: validate_referral_fees_def referrals_ok_def result_simps)
qed

subsection \<open>The limits\<close>

definition orchestrator_ok :: "OrchestratorConfig \<Rightarrow> bool" where
  "orchestrator_ok oc \<longleftrightarrow> unat (oc_protocol_fee oc) \<le> 5 * 10 ^ 16"

definition period_ok :: "EscrowConfig \<Rightarrow> bool" where
  "period_ok e \<longleftrightarrow> 0 < sint (ec_intent_expiration_period e) \<and> sint (ec_intent_expiration_period e) \<le> 432000"

definition lock_ok :: "EscrowIntentLock \<Rightarrow> bool" where
  "lock_ok l \<longleftrightarrow> sint (el_timestamp l) < sint (el_expiry_time l) \<and> sint (el_expiry_time l) \<le> sint (el_timestamp l) + 432000"

definition intent_fees_ok :: "Intent \<Rightarrow> bool" where
  "intent_fees_ok i \<longleftrightarrow> unat (i_manager_fee i) \<le> 5 * 10 ^ 16 \<and> referrals_ok (i_referral_fees i) \<and> i_recipient i \<noteq> 0"

definition limits_inv :: "ledger \<Rightarrow> bool" where
  "limits_inv ls \<longleftrightarrow>
     pred_option orchestrator_ok (orchestrator_config ls) \<and> pred_option period_ok (escrow_config ls) \<and>
     (\<forall>k l. intent_locks ls k = Some l \<longrightarrow> lock_ok l) \<and> (\<forall>k i. intents ls k = Some i \<longrightarrow> intent_fees_ok i)"

lemma map_le_Some: "m \<subseteq>\<^sub>m m' \<Longrightarrow> m k = Some v \<Longrightarrow> m' k = Some v"
  by (auto simp: map_le_def dom_def)

lemma map_le_drop: "m(k := None) \<subseteq>\<^sub>m m"
  by (auto simp: map_le_def)

lemma limits_shrink:
  assumes "limits_inv ls" and "orchestrator_config ls' = orchestrator_config ls" and "escrow_config ls' = escrow_config ls"
    and "intent_locks ls' \<subseteq>\<^sub>m intent_locks ls" and "intents ls' \<subseteq>\<^sub>m intents ls"
  shows "limits_inv ls'"
  using assms map_le_Some unfolding limits_inv_def by metis

lemma settle_intent_shrinks:
  assumes "settle_intent rt ls ik oc i d l t taccs daccs rem a = Inr ls'"
  shows "orchestrator_config ls' = orchestrator_config ls \<and> escrow_config ls' = escrow_config ls \<and>
    intent_locks ls' \<subseteq>\<^sub>m intent_locks ls \<and> intents ls' \<subseteq>\<^sub>m intents ls"
  using assms
proof (rule settle_intent_Inr)
  fix ls1 d' ts n
  assume "settle_dispute_if_covered rt ls i daccs a = Inr ls1"
  from settle_dispute_if_covered_frame [OF this] obtain dis ps sls
    where ls1: "ls1 = ls\<lparr>dispute_intents := dis, stake_positions := ps, stake_locks := sls\<rparr>" by blast
  assume "ls' = ls1\<lparr>deposits := (deposits ls1)(i_deposit i \<mapsto> d'),
      taker_states := (taker_states ls1)(taker_state_key rt (i_owner i) \<mapsto> t\<lparr>ts_active_intents := n\<rparr>),
      intents := (intents ls1)(ik := None), intent_locks := (intent_locks ls1)(lock_addr rt i := None), tokens := ts\<rparr>"
  then show ?thesis by (simp add: ls1 map_le_drop)
qed

lemma end_intent_shrinks:
  assumes "end_intent rt ls ik i d l t = Inr ls'"
  shows "orchestrator_config ls' = orchestrator_config ls \<and> escrow_config ls' = escrow_config ls \<and>
    intent_locks ls' \<subseteq>\<^sub>m intent_locks ls \<and> intents ls' \<subseteq>\<^sub>m intents ls"
  using assms by (auto simp: end_intent_def result_simps map_le_drop)

text \<open>The effect of a signal, store by store: the terms of the rate manager and the coverage enter the new intent.\<close>

abbreviation manager_terms :: "RateManager supplied \<Rightarrow> pubkey option \<times> u128" where
  "manager_terms rm \<equiv> (case rm of None \<Rightarrow> (None, 0) | Some (_, m) \<Rightarrow> (rm_fee_recipient m, rm_fee m))"

abbreviation covers :: "RiskWindow supplied \<Rightarrow> bool" where
  "covers rw \<equiv> (case rw of None \<Rightarrow> False | Some (_, w) \<Rightarrow> sint (rw_seconds w) > 0)"

lemma signal_intent_effect:
  assumes "handle_signal_intent rt ls taker accs args = Inr ls'"
  obtains oc e d m c h rm rw d' x nid where
    "signal_context rt ls (ska_deposit accs) args = Inr (oc, e, d, m, c)"
    "signal_checks rt ls taker accs args oc e d m c
       (init_if_needed (taker_states ls (taker_state_key rt taker)) zero_taker_state) = Inr (h, rm, rw)"
    "Deposit_lock d (sia_amount args) (ec_max_intents_per_deposit e) = Inr d'"
    "checked_sadd (unix_timestamp rt) (ec_intent_expiration_period e) = Some x" "snd (manager_terms rm) \<le> MAX_FEE"
    "deposits ls' = (deposits ls)(ska_deposit accs \<mapsto> d')"
    "intents ls' = (intents ls)(pda rt (intent_seeds rt (oc_next_intent_id oc)) \<mapsto>
       new_intent rt oc taker (ska_deposit accs) m h (manager_terms rm) (covers rw) args)"
    "intent_locks ls' = (intent_locks ls)(intent_lock_key rt (ska_deposit accs) h \<mapsto>
       new_intent_lock rt (ska_deposit accs) h (sia_amount args) x)"
    "orchestrator_config ls' = Some (oc\<lparr>oc_next_intent_id := nid\<rparr>)" "escrow_config ls' = escrow_config ls"
    "dispute_intents ls' = dispute_intents ls" "stake_locks ls' = stake_locks ls"
  using assms
proof (rule signal_intent_Inr)
  fix oc e d m c h rm rw d' x n nid
  assume facts: "signal_context rt ls (ska_deposit accs) args = Inr (oc, e, d, m, c)"
    "signal_checks rt ls taker accs args oc e d m c
       (init_if_needed (taker_states ls (taker_state_key rt taker)) zero_taker_state) = Inr (h, rm, rw)"
    "Deposit_lock d (sia_amount args) (ec_max_intents_per_deposit e) = Inr d'"
    "checked_sadd (unix_timestamp rt) (ec_intent_expiration_period e) = Some x" "snd (manager_terms rm) \<le> MAX_FEE"
  assume "\<exists>t. ts_active_intents t = n \<and> ls' = ls\<lparr>deposits := (deposits ls)(ska_deposit accs \<mapsto> d'),
       intents := (intents ls)(pda rt (intent_seeds rt (oc_next_intent_id oc)) \<mapsto>
         new_intent rt oc taker (ska_deposit accs) m h (manager_terms rm) (covers rw) args),
       intent_locks := (intent_locks ls)(intent_lock_key rt (ska_deposit accs) h \<mapsto>
         new_intent_lock rt (ska_deposit accs) h (sia_amount args) x),
       taker_states := (taker_states ls)(taker_state_key rt taker \<mapsto> t),
       orchestrator_config := Some (oc\<lparr>oc_next_intent_id := nid\<rparr>)\<rparr>"
  then obtain t where ls': "ls' = ls\<lparr>deposits := (deposits ls)(ska_deposit accs \<mapsto> d'),
       intents := (intents ls)(pda rt (intent_seeds rt (oc_next_intent_id oc)) \<mapsto>
         new_intent rt oc taker (ska_deposit accs) m h (manager_terms rm) (covers rw) args),
       intent_locks := (intent_locks ls)(intent_lock_key rt (ska_deposit accs) h \<mapsto>
         new_intent_lock rt (ska_deposit accs) h (sia_amount args) x),
       taker_states := (taker_states ls)(taker_state_key rt taker \<mapsto> t),
       orchestrator_config := Some (oc\<lparr>oc_next_intent_id := nid\<rparr>)\<rparr>" by (elim exE conjE)
  show thesis by (rule that [OF facts, where nid = nid]) (simp_all add: ls')
qed

lemma signal_intent_limits:
  assumes inv: "limits_inv ls" and run: "handle_signal_intent rt ls taker accs args = Inr ls'"
  shows "limits_inv ls'"
  using run
proof (rule signal_intent_effect)
  fix oc e d m c h rm rw d' x nid
  assume ctx: "signal_context rt ls (ska_deposit accs) args = Inr (oc, e, d, m, c)"
    and chk: "signal_checks rt ls taker accs args oc e d m c
       (init_if_needed (taker_states ls (taker_state_key rt taker)) zero_taker_state) = Inr (h, rm, rw)"
    and x: "checked_sadd (unix_timestamp rt) (ec_intent_expiration_period e) = Some x"
    and fee: "snd (manager_terms rm) \<le> MAX_FEE"
    and ls': "intents ls' = (intents ls)(pda rt (intent_seeds rt (oc_next_intent_id oc)) \<mapsto>
        new_intent rt oc taker (ska_deposit accs) m h (manager_terms rm) (covers rw) args)"
      "intent_locks ls' = (intent_locks ls)(intent_lock_key rt (ska_deposit accs) h \<mapsto>
        new_intent_lock rt (ska_deposit accs) h (sia_amount args) x)"
      "orchestrator_config ls' = Some (oc\<lparr>oc_next_intent_id := nid\<rparr>)" "escrow_config ls' = escrow_config ls"
  note c = signal_context_Inr [OF ctx]
  have "referrals_ok (sia_referral_fees args) \<and> sia_recipient args \<noteq> 0"
    using chk by (rule signal_checks_Inr) (simp add: validate_referral_fees_Inr)
  then have i: "intent_fees_ok (new_intent rt oc taker (ska_deposit accs) m h (manager_terms rm) b args)" for b
    using fee by (simp add: intent_fees_ok_def new_intent_def word_le_nat_alt checked_simps)
  have "lock_ok (new_intent_lock rt (ska_deposit accs) h (sia_amount args) x)"
    using x inv c(2) by (auto simp: lock_ok_def new_intent_lock_def limits_inv_def period_ok_def checked_simps)
  with i inv ls' c(1) show ?thesis by (auto simp: limits_inv_def orchestrator_ok_def split: if_splits)
qed

lemma intent_step_limits:
  assumes inv: "limits_inv ls" and run: "intent_step rt ls i = Inr ls'"
  shows "limits_inv ls'"
proof (cases i)
  case (Signal_intent t accs args)
  with run signal_intent_limits [OF inv] show ?thesis by simp
next
  case (Cancel_intent s k d)
  with run obtain i d l t where "end_intent rt ls k i d l t = Inr ls'"
    by (auto simp: handle_cancel_intent_def result_simps split: if_splits)
  from end_intent_shrinks [OF this] limits_shrink [OF inv] show ?thesis by blast
next
  case (Prune_expired_intent k accs)
  with run have "handle_prune_expired_intent rt ls k accs = Inr ls'" by simp
  then show ?thesis
  proof (rule prune_expired_intent_Inr)
    fix i d l t ls1 config di vault pos lk
    assume mid: "(if i_dispute_covered i then prune_dispute rt ls (i_intent_hash i) config di vault pos lk
        else require (config = None \<and> di = None \<and> vault = None \<and> pos = None \<and> lk = None) Unauthorized (Inr ls)) = Inr ls1"
      and e: "end_intent rt ls1 k i d l t = Inr ls'"
    have "limits_inv ls1"
      using mid inv by (auto simp: require_Inr limits_inv_def split: if_splits elim!: prune_dispute_Inr)
    from limits_shrink [OF this] end_intent_shrinks [OF e] show ?thesis by blast
  qed
next
  case (Fulfill_intent k ta da ra args)
  with run have "handle_fulfill_intent rt ls k ta da ra args = Inr ls'" by simp
  then show ?thesis
    by (rule fulfill_intent_Inr) (drule settle_intent_shrinks, rule limits_shrink [OF inv], auto)
next
  case (Manual_release s k ta da ra)
  with run show ?thesis
    using limits_shrink [OF inv] by (auto simp: handle_manual_release_def result_simps dest!: settle_intent_shrinks)
qed

lemma extend_intent_expiry_limits:
  assumes inv: "limits_inv ls" and run: "handle_extend_intent_expiry rt ls g k h a = Inr ls'"
  shows "limits_inv ls'"
proof -
  from run obtain l x y where l: "intent_locks ls (intent_lock_key rt k h) = Some l" and a: "0 < sint a"
      and x: "checked_sadd (el_expiry_time l) a = Some x"
      and y: "checked_sadd (el_timestamp l) MAX_INTENT_LIFETIME_SECONDS = Some y" "sint x \<le> sint y"
      and ls': "ls' = ls\<lparr>intent_locks := (intent_locks ls)(intent_lock_key rt k h \<mapsto> l\<lparr>el_expiry_time := x\<rparr>)\<rparr>"
    by (auto simp: handle_extend_intent_expiry_def result_simps)
  have "lock_ok l" using inv l by (auto simp: limits_inv_def)
  then have "lock_ok (l\<lparr>el_expiry_time := x\<rparr>)" using a x y by (auto simp: lock_ok_def checked_simps)
  with inv show ?thesis by (auto simp: limits_inv_def ls' split: if_splits)
qed

lemma escrow_step_limits:
  assumes inv: "limits_inv ls" and run: "escrow_step rt ls i = Inr ls'"
  shows "limits_inv ls'"
proof (cases "\<exists>s k h a. i = Extend_intent_expiry s k h a")
  case True
  with run extend_intent_expiry_limits [OF inv] show ?thesis by auto
next
  case False
  have "intent_locks ls' = intent_locks ls \<and>
      map_option ec_intent_expiration_period (escrow_config ls') = map_option ec_intent_expiration_period (escrow_config ls)"
  proof (cases i)
    case (Withdraw_deposit s k t tp dust)
    with run have "handle_withdraw_deposit rt ls s k t tp dust = Inr ls'" by simp
    then show ?thesis by (rule withdraw_deposit_frame) simp
  next
    case (Update_deposit s k args)
    with run update_deposit_Inr [of rt ls s k args ls'] show ?thesis by auto
  qed (use run False in \<open>auto simp: handle_create_deposit_def create_deposit_at_def handle_update_oracle_quote_def
      handle_add_funds_def handle_remove_funds_def handle_configure_payment_method_def handle_configure_currency_def
      handle_set_deposit_rate_manager_def escrow_account_def result_simps Let_def split: option.splits\<close>)
  moreover have "orchestrator_config ls' = orchestrator_config ls" "intents ls' = intents ls"
    by (subst escrow_step_frame [OF run], simp)+
  ultimately show ?thesis
    using inv by (cases "escrow_config ls"; cases "escrow_config ls'") (auto simp: limits_inv_def period_ok_def)
qed

text \<open>An optional update keeps what the update itself keeps.\<close>

lemma if_some_keeps:
  "if_some x f s = Inr s' \<Longrightarrow> P s \<Longrightarrow> (\<And>v t. P s \<Longrightarrow> f v s = Inr t \<Longrightarrow> P t) \<Longrightarrow> P s'"
  by (auto simp: if_some_def split: option.splits)

text \<open>What the individual updates of a configuration keep, the configuring instruction keeps.\<close>

lemma configure_orchestrator_keeps:
  assumes run: "handle_configure_orchestrator rt ls a args = Inr ls'" and ok: "\<And>c. orchestrator_config ls = Some c \<Longrightarrow> P c"
    and fee: "\<And>c f. P c \<Longrightarrow> f \<le> MAX_FEE \<Longrightarrow> P (c\<lparr>oc_protocol_fee := f\<rparr>)"
    and recipient: "\<And>c r. P c \<Longrightarrow> r \<noteq> 0 \<Longrightarrow> P (c\<lparr>oc_protocol_fee_recipient := r\<rparr>)"
    and rest: "\<And>c l. P c \<Longrightarrow> P (c\<lparr>oc_lifecycle_policy := l\<rparr>)" "\<And>c m. P c \<Longrightarrow> P (c\<lparr>oc_allow_multiple_intents := m\<rparr>)"
      "\<And>c p. P c \<Longrightarrow> P (c\<lparr>oc_paused := p\<rparr>)"
  shows "\<exists>c. ls' = ls\<lparr>orchestrator_config := Some c\<rparr> \<and> P c"
proof -
  from run obtain c0 c1 c2 c3 c4 c5 where c0: "orchestrator_config ls = Some c0"
      and 1: "if_some (coa_protocol_fee args) (\<lambda>fee oc.
        require (fee \<le> MAX_FEE) FeeExceedsMaximum (Inr (oc\<lparr>oc_protocol_fee := fee\<rparr>))) c0 = Inr c1"
      and 2: "if_some (coa_protocol_fee_recipient args) (\<lambda>recipient oc.
        require (recipient \<noteq> 0) ZeroAddress (Inr (oc\<lparr>oc_protocol_fee_recipient := recipient\<rparr>))) c1 = Inr c2"
      and 3: "if_some (coa_lifecycle_policy args) (\<lambda>policy oc. Inr (oc\<lparr>oc_lifecycle_policy := policy\<rparr>)) c2 = Inr c3"
      and 4: "if_some (coa_allow_multiple_intents args) (\<lambda>allow oc. Inr (oc\<lparr>oc_allow_multiple_intents := allow\<rparr>)) c3 = Inr c4"
      and 5: "if_some (coa_paused args) (\<lambda>paused oc. Inr (oc\<lparr>oc_paused := paused\<rparr>)) c4 = Inr c5"
      and ls': "ls' = ls\<lparr>orchestrator_config := Some c5\<rparr>"
    by (simp add: handle_configure_orchestrator_def and_then_Inr require_Inr account_Inr seeds_bump_Inr, elim exE conjE, simp)
  have "P c1" by (rule if_some_keeps [where P = P, OF 1 ok [OF c0]]) (auto simp: require_Inr intro: fee)
  then have "P c2" by (rule if_some_keeps [where P = P, OF 2]) (auto simp: require_Inr intro: recipient)
  then have "P c3" by (rule if_some_keeps [where P = P, OF 3]) (auto intro: rest)
  then have "P c4" by (rule if_some_keeps [where P = P, OF 4]) (auto intro: rest)
  then have "P c5" by (rule if_some_keeps [where P = P, OF 5]) (auto intro: rest)
  with ls' show ?thesis by blast
qed

lemma configure_escrow_keeps:
  assumes run: "handle_configure_escrow rt ls a args = Inr ls'" and ok: "\<And>c. escrow_config ls = Some c \<Longrightarrow> P c"
    and recipient: "\<And>c r. P c \<Longrightarrow> r \<noteq> 0 \<Longrightarrow> P (c\<lparr>ec_dust_recipient := r\<rparr>)"
    and maximum: "\<And>c m. P c \<Longrightarrow> 0 < m \<Longrightarrow> P (c\<lparr>ec_max_intents_per_deposit := m\<rparr>)"
    and period: "\<And>c x. P c \<Longrightarrow> 0 < sint x \<Longrightarrow> sint x \<le> sint MAX_INTENT_LIFETIME_SECONDS \<Longrightarrow>
      P (c\<lparr>ec_intent_expiration_period := x\<rparr>)"
    and rest: "\<And>c t. P c \<Longrightarrow> P (c\<lparr>ec_dust_threshold := t\<rparr>)" "\<And>c p. P c \<Longrightarrow> P (c\<lparr>ec_paused := p\<rparr>)"
  shows "\<exists>c. ls' = ls\<lparr>escrow_config := Some c\<rparr> \<and> P c"
proof -
  from run obtain c0 c1 c2 c3 c4 c5 where c0: "escrow_config ls = Some c0"
      and 1: "if_some (cea_dust_recipient args) (\<lambda>recipient ec.
        require (recipient \<noteq> 0) ZeroAddress (Inr (ec\<lparr>ec_dust_recipient := recipient\<rparr>))) c0 = Inr c1"
      and 2: "if_some (cea_dust_threshold args) (\<lambda>threshold ec. Inr (ec\<lparr>ec_dust_threshold := threshold\<rparr>)) c1 = Inr c2"
      and 3: "if_some (cea_max_intents_per_deposit args) (\<lambda>maximum ec.
        require (maximum > 0) ZeroValue (Inr (ec\<lparr>ec_max_intents_per_deposit := maximum\<rparr>))) c2 = Inr c3"
      and 4: "if_some (cea_intent_expiration_period args) (\<lambda>expiry ec.
        require (sint expiry > 0) ZeroValue (
        require (sint expiry \<le> sint MAX_INTENT_LIFETIME_SECONDS) AmountAboveMaximum (
        Inr (ec\<lparr>ec_intent_expiration_period := expiry\<rparr>)))) c3 = Inr c4"
      and 5: "if_some (cea_paused args) (\<lambda>paused ec. Inr (ec\<lparr>ec_paused := paused\<rparr>)) c4 = Inr c5"
      and ls': "ls' = ls\<lparr>escrow_config := Some c5\<rparr>"
    by (simp add: handle_configure_escrow_def escrow_account_def and_then_Inr require_Inr account_Inr seeds_bump_Inr,
        elim exE conjE, simp)
  have "P c1" by (rule if_some_keeps [where P = P, OF 1 ok [OF c0]]) (auto simp: require_Inr intro: recipient)
  then have "P c2" by (rule if_some_keeps [where P = P, OF 2]) (auto intro: rest)
  then have "P c3" by (rule if_some_keeps [where P = P, OF 3]) (auto simp: require_Inr intro: maximum)
  then have "P c4" by (rule if_some_keeps [where P = P, OF 4]) (auto simp: require_Inr intro: period)
  then have "P c5" by (rule if_some_keeps [where P = P, OF 5]) (auto intro: rest)
  with ls' show ?thesis by blast
qed

lemma configure_orchestrator_limits:
  assumes "handle_configure_orchestrator rt ls a args = Inr ls'" and "pred_option orchestrator_ok (orchestrator_config ls)"
  shows "pred_option orchestrator_ok (orchestrator_config ls') \<and> escrow_config ls' = escrow_config ls"
proof -
  have "\<exists>c. ls' = ls\<lparr>orchestrator_config := Some c\<rparr> \<and> orchestrator_ok c"
    by (rule configure_orchestrator_keeps [OF assms(1)])
      (use assms(2) in \<open>auto simp: orchestrator_ok_def word_le_nat_alt checked_simps\<close>)
  then show ?thesis by auto
qed

lemma configure_escrow_limits:
  assumes "handle_configure_escrow rt ls a args = Inr ls'" and "pred_option period_ok (escrow_config ls)"
  shows "pred_option period_ok (escrow_config ls') \<and> orchestrator_config ls' = orchestrator_config ls"
proof -
  have "\<exists>c. ls' = ls\<lparr>escrow_config := Some c\<rparr> \<and> period_ok c"
    by (rule configure_escrow_keeps [OF assms(1)]) (use assms(2) in \<open>auto simp: period_ok_def checked_simps\<close>)
  then show ?thesis by auto
qed

lemma governance_step_limits:
  assumes inv: "limits_inv ls" and run: "governance_step rt ls i = Inr ls'"
  shows "limits_inv ls'"
proof -
  have same: "intent_locks ls' = intent_locks ls" "intents ls' = intents ls"
    by (subst governance_step_frame [OF run], simp)+
  have "pred_option orchestrator_ok (orchestrator_config ls') \<and> pred_option period_ok (escrow_config ls')"
  proof (cases i)
    case (Initialize_protocol a pd d sh m args)
    with run show ?thesis
      by (auto simp: handle_initialize_protocol_def check_initialize_args_def result_simps Let_def orchestrator_ok_def
          period_ok_def word_le_nat_alt checked_simps)
  next
    case (Configure_orchestrator a args)
    with run inv configure_orchestrator_limits [of rt ls a args ls'] show ?thesis by (simp add: limits_inv_def)
  next
    case (Configure_escrow a args)
    with run inv configure_escrow_limits [of rt ls a args ls'] show ?thesis by (simp add: limits_inv_def)
  qed (use run inv in \<open>auto simp: handle_propose_protocol_authority_def handle_accept_protocol_authority_def
      handle_propose_stake_controller_def handle_accept_stake_controller_def limits_inv_def result_simps Let_def
      split: option.splits\<close>)
  with inv same show ?thesis by (simp add: limits_inv_def)
qed

lemma dispatch_limits:
  assumes inv: "limits_inv ls" and run: "dispatch rt ls i = Inr ls'"
  shows "limits_inv ls'"
proof (cases "(\<exists>j. i = Governance j) \<or> (\<exists>j. i = Escrow j) \<or> (\<exists>j. i = Intents j)")
  case True
  with run governance_step_limits [OF inv] escrow_step_limits [OF inv] intent_step_limits [OF inv] show ?thesis by auto
next
  case False
  have "orchestrator_config ls' = orchestrator_config ls"
    using run False by (cases i) (simp_all, (drule step_frames, drule arg_cong [where f = orchestrator_config], simp)+)
  moreover have "intents ls' = intents ls"
    using run False by (cases i) (simp_all, (drule step_frames, drule arg_cong [where f = intents], simp)+)
  moreover note dispatch_stores(7,8) [OF run]
  ultimately show ?thesis using False limits_shrink [OF inv, of ls'] by auto
qed

interpretation limits_history: guarded_machine "execute rt" limits_inv for rt
proof unfold_locales
  fix ls ls' and e :: event
  assume inv: "limits_inv ls" and "execute rt ls e = Inr ls'"
  from this(2) show "limits_inv ls'"
    by (cases rule: execute_cases) (use inv dispatch_limits [OF inv] in \<open>auto simp: limits_inv_def\<close>)
qed

subsection \<open>Fees stay below the release\<close>

lemma referral_total_le: "10 ^ 18 * referral_total release fees \<le> unat release * sum_list (map (\<lambda>f. unat (rf_fee f)) fees)"
proof (induction fees)
  case Nil
  then show ?case by (simp add: referral_total_def)
next
  case (Cons f fees)
  have "10 ^ 18 * fee_of release (rf_fee f) \<le> unat release * unat (rf_fee f)" by (simp add: fee_of_def)
  with Cons show ?case by (simp add: referral_total_def algebra_simps)
qed

lemma fees_below_release:
  assumes "orchestrator_ok oc" and "intent_fees_ok i"
  shows "10 * (fee_of release (oc_protocol_fee oc) + fee_of release (i_manager_fee i) +
    referral_total release (i_referral_fees i)) \<le> 6 * unat release"
proof -
  let ?r = "unat release" and ?s = "sum_list (map (\<lambda>f. unat (rf_fee f)) (i_referral_fees i))"
  have fee: "10 ^ 18 * fee_of release f \<le> 5 * 10 ^ 16 * ?r" if "unat f \<le> 5 * 10 ^ 16" for f
  proof -
    have "10 ^ 18 * fee_of release f \<le> unat f * ?r" by (simp add: fee_of_def mult.commute)
    also have "\<dots> \<le> 5 * 10 ^ 16 * ?r" by (rule mult_le_mono1 [OF that])
    finally show ?thesis .
  qed
  have "10 ^ 18 * referral_total release (i_referral_fees i) \<le> ?s * ?r"
    using referral_total_le [of release "i_referral_fees i"] by (subst (2) mult.commute)
  also have "?s * ?r \<le> 5 * 10 ^ 17 * ?r"
    by (rule mult_le_mono1) (use assms in \<open>simp add: intent_fees_ok_def referrals_ok_def\<close>)
  finally have "10 ^ 18 * referral_total release (i_referral_fees i) \<le> 5 * 10 ^ 17 * ?r" .
  moreover have "10 ^ 18 * fee_of release (oc_protocol_fee oc) \<le> 5 * 10 ^ 16 * ?r"
      "10 ^ 18 * fee_of release (i_manager_fee i) \<le> 5 * 10 ^ 16 * ?r"
    by (rule fee, use assms in \<open>simp add: orchestrator_ok_def intent_fees_ok_def\<close>)+
  ultimately show ?thesis by simp
qed

end
