(* ===== verification/Gating.thy ===== *)
theory Gating
  imports Limits
begin

text \<open>
  The gating signature of a payment method. The program does not verify the signature itself: it looks for an earlier
  instruction of the transaction that calls the Ed25519 program of the runtime, and matches the data of that instruction.
  The first part says which data \<open>ed25519_instruction_matches\<close> accepts, over all byte strings; the second part states what
  the Ed25519 program is documented to do, signatures, keys and messages in other instructions included, and concludes
  that an accepted instruction means a signature of the gating service over the message.
\<close>

subsection \<open>Two-byte numbers\<close>

lemma le_bytes_2: "le_bytes 2 n = [of_nat (n mod 256), of_nat (n div 256 mod 256)]"
  by (simp add: numeral_2_eq_2)

lemma le_nat_2: "le_nat [a, b] = n \<longleftrightarrow> n < 65536 \<and> [a, b] = le_bytes 2 n"
proof
  assume "le_nat [a, b] = n"
  then show "n < 65536 \<and> [a, b] = le_bytes 2 n"
    using le_nat_bound [of "[a, b]"] by (auto intro!: le_nat_inject simp: le_nat_le_bytes)
next
  assume "n < 65536 \<and> [a, b] = le_bytes 2 n"
  then show "le_nat [a, b] = n" by (simp only:) (simp add: le_nat_le_bytes)
qed

lemma read_u16_pair:
  "start + 2 \<le> length data \<Longrightarrow> read_u16 data start = Some (le_nat [data ! start, data ! Suc start])"
  by (simp add: read_u16_def slice_get_def take_Suc_conv_app_nth numeral_2_eq_2)

lemma read_u16_bound: "read_u16 data start = Some n \<Longrightarrow> start + 2 \<le> length data"
  by (auto simp: read_u16_def slice_get_def split: if_splits)

subsection \<open>The instruction data that is accepted\<close>

text \<open>The header of an instruction with one signature whose three indices say that everything is in this instruction.\<close>

definition local_header :: "u8 \<Rightarrow> u8 list \<Rightarrow> nat \<Rightarrow> nat \<Rightarrow> nat \<Rightarrow> u8 list" where
  "local_header padding signature_offset key_offset message_offset message_size =
     [1, padding] @ signature_offset @ [0xff, 0xff] @ le_bytes 2 key_offset @ [0xff, 0xff] @
     le_bytes 2 message_offset @ le_bytes 2 message_size @ [0xff, 0xff]"

text \<open>\<open>slice\<close> of a range that lies inside the data.\<close>

lemma slice_get_Some: "slice_get xs a (a + n) = Some ys \<longleftrightarrow> a + n \<le> length xs \<and> take n (drop a xs) = ys"
  by (auto simp: slice_get_def)

lemma split_header:
  assumes "16 \<le> length data"
  obtains a0 a1 a2 a3 a4 a5 a6 a7 a8 a9 a10 a11 a12 a13 a14 a15 rest
  where "data = a0 # a1 # a2 # a3 # a4 # a5 # a6 # a7 # a8 # a9 # a10 # a11 # a12 # a13 # a14 # a15 # rest"
  using assms by (auto simp: numeral_eq_Suc Suc_le_length_iff)

text \<open>The checks of the matcher, byte by byte.\<close>

lemma matches_bytes:
  assumes d: "data = a0 # a1 # a2 # a3 # a4 # a5 # a6 # a7 # a8 # a9 # a10 # a11 # a12 # a13 # a14 # a15 # rest"
  shows "ed25519_instruction_matches data key message \<longleftrightarrow>
    a0 = 1 \<and> [a4, a5] = [0xff, 0xff] \<and> [a8, a9] = [0xff, 0xff] \<and> [a14, a15] = [0xff, 0xff] \<and>
    le_nat [a12, a13] = length message \<and>
    slice_get data (le_nat [a6, a7]) (le_nat [a6, a7] + 32) = Some (key_bytes key) \<and>
    slice_get data (le_nat [a10, a11]) (le_nat [a10, a11] + length message) = Some message"
proof -
  have r: "read_u16 data 4 = Some (le_nat [a4, a5])" "read_u16 data 6 = Some (le_nat [a6, a7])"
      "read_u16 data 8 = Some (le_nat [a8, a9])" "read_u16 data 10 = Some (le_nat [a10, a11])"
      "read_u16 data 12 = Some (le_nat [a12, a13])" "read_u16 data 14 = Some (le_nat [a14, a15])"
    by (simp_all add: d read_u16_def slice_get_def del: le_nat.simps)
  have ff: "le_nat [a, b] = 0xffff \<longleftrightarrow> [a, b] = [0xff, 0xff]" for a b
    using le_nat_2 [of a b "0xffff"] by (simp add: le_bytes_2 del: le_nat.simps)
  show ?thesis
    unfolding ed25519_instruction_matches_def r else_false_def option.case ff by (auto simp: d)
qed

lemma ed25519_instruction_matches_iff:
  "ed25519_instruction_matches data key message \<longleftrightarrow>
     (\<exists>padding signature_offset key_offset message_offset rest.
        data = local_header padding signature_offset key_offset message_offset (length message) @ rest \<and>
        length signature_offset = 2 \<and> key_offset < 65536 \<and> message_offset < 65536 \<and> length message < 65536 \<and>
        key_offset + 32 \<le> length data \<and> take 32 (drop key_offset data) = key_bytes key \<and>
        message_offset + length message \<le> length data \<and> take (length message) (drop message_offset data) = message)"
  (is "?matches \<longleftrightarrow> ?layout")
proof
  assume m: ?matches
  then have "16 \<le> length data"
    using read_u16_bound [of data 14] by (auto simp: ed25519_instruction_matches_def else_false_def split: option.splits if_splits)
  then obtain a0 a1 a2 a3 a4 a5 a6 a7 a8 a9 a10 a11 a12 a13 a14 a15 rest
    where d: "data = a0 # a1 # a2 # a3 # a4 # a5 # a6 # a7 # a8 # a9 # a10 # a11 # a12 # a13 # a14 # a15 # rest"
    by (rule split_header)
  note l = m [unfolded matches_bytes [OF d] slice_get_Some]
  note u16 = le_nat_2 [of a6 a7 "le_nat [a6, a7]"] le_nat_2 [of a10 a11 "le_nat [a10, a11]"]
    le_nat_2 [of a12 a13 "length message"]
  from l u16 have "data = local_header a1 [a2, a3] (le_nat [a6, a7]) (le_nat [a10, a11]) (length message) @ rest"
    by (auto simp: d local_header_def simp del: le_nat.simps)
  with l u16 show ?layout
    by (intro exI [of _ a1] exI [of _ "[a2, a3]"] exI [of _ "le_nat [a6, a7]"] exI [of _ "le_nat [a10, a11]"] exI [of _ rest])
      (simp del: le_nat.simps)
next
  assume ?layout
  then obtain padding so ko mo rest where
    l: "data = local_header padding so ko mo (length message) @ rest" "length so = 2"
      "ko < 65536" "mo < 65536" "length message < 65536"
      "ko + 32 \<le> length data" "take 32 (drop ko data) = key_bytes key"
      "mo + length message \<le> length data" "take (length message) (drop mo data) = message" by blast
  from l(2) obtain s0 s1 where so: "so = [s0, s1]" by (auto simp: numeral_2_eq_2 length_Suc_conv)
  have u16: "le_nat [of_nat (n mod 256), of_nat (n div 256 mod 256)] = n" if "n < 65536" for n
    using that le_nat_2 [of "of_nat (n mod 256)" "of_nat (n div 256 mod 256)" n] by (simp add: le_bytes_2 del: le_nat.simps)
  from l(1) have "data = 1 # padding # s0 # s1 # 0xff # 0xff # of_nat (ko mod 256) # of_nat (ko div 256 mod 256) #
      0xff # 0xff # of_nat (mo mod 256) # of_nat (mo div 256 mod 256) # of_nat (length message mod 256) #
      of_nat (length message div 256 mod 256) # 0xff # 0xff # rest"
    by (simp add: local_header_def so le_bytes_2)
  note bytes = matches_bytes [OF this, of key message, unfolded u16 [OF l(3)] u16 [OF l(4)] u16 [OF l(5)] slice_get_Some]
  show ?matches unfolding bytes using l(6-9) by simp
qed

subsection \<open>What the Ed25519 program verifies\<close>

text \<open>
  The documented behaviour of the Ed25519 program, for a given notion \<open>sig_ok key signature message\<close> of a valid signature:
  the first byte of the data counts the signatures, each of which has seven two-byte numbers, starting at byte 2: offset of
  the signature and index of the instruction that holds it, offset and index of the key, offset, size and index of the
  message, where the index \<open>0xffff\<close> is the instruction itself. All of them are verified, or the transaction fails.
\<close>

definition instruction_data :: "(nat \<Rightarrow> Instruction option) \<Rightarrow> u8 list \<Rightarrow> nat \<Rightarrow> u8 list option" where
  "instruction_data instructions own index =
     (if index = 0xffff then Some own else map_option ix_data (instructions index))"

definition ed25519_slice :: "(nat \<Rightarrow> Instruction option) \<Rightarrow> u8 list \<Rightarrow> nat \<Rightarrow> nat \<Rightarrow> nat \<Rightarrow> u8 list option" where
  "ed25519_slice instructions own index start len =
     Option.bind (instruction_data instructions own index) (\<lambda>data. slice_get data start (start + len))"

definition ed25519_entry ::
  "(u8 list \<Rightarrow> u8 list \<Rightarrow> u8 list \<Rightarrow> bool) \<Rightarrow> (nat \<Rightarrow> Instruction option) \<Rightarrow> u8 list \<Rightarrow> nat \<Rightarrow> bool" where
  "ed25519_entry sig_ok instructions data start =
     else_false (read_u16 data start) (\<lambda>signature_offset.
     else_false (read_u16 data (start + 2)) (\<lambda>signature_index.
     else_false (read_u16 data (start + 4)) (\<lambda>key_offset.
     else_false (read_u16 data (start + 6)) (\<lambda>key_index.
     else_false (read_u16 data (start + 8)) (\<lambda>message_offset.
     else_false (read_u16 data (start + 10)) (\<lambda>message_size.
     else_false (read_u16 data (start + 12)) (\<lambda>message_index.
     else_false (ed25519_slice instructions data signature_index signature_offset 64) (\<lambda>signature.
     else_false (ed25519_slice instructions data key_index key_offset 32) (\<lambda>key.
     else_false (ed25519_slice instructions data message_index message_offset message_size) (\<lambda>message.
     sig_ok key signature message))))))))))"

definition ed25519_verified ::
  "(u8 list \<Rightarrow> u8 list \<Rightarrow> u8 list \<Rightarrow> bool) \<Rightarrow> (nat \<Rightarrow> Instruction option) \<Rightarrow> u8 list \<Rightarrow> bool" where
  "ed25519_verified sig_ok instructions data \<longleftrightarrow>
     data \<noteq> [] \<and> list_all (\<lambda>j. ed25519_entry sig_ok instructions data (2 + 14 * j)) [0..<unat (hd data)]"

text \<open>Every instruction of the running transaction that calls the Ed25519 program is verified.\<close>

definition ed25519_precompile :: "(u8 list \<Rightarrow> u8 list \<Rightarrow> u8 list \<Rightarrow> bool) \<Rightarrow> runtime \<Rightarrow> bool" where
  "ed25519_precompile sig_ok rt \<longleftrightarrow>
     (\<forall>index instruction. instruction_at rt index = Some instruction \<and> ix_program_id instruction = ed25519_program_ID rt \<longrightarrow>
        ed25519_verified sig_ok (instruction_at rt) (ix_data instruction))"

lemma ed25519_match_signed:
  assumes "ed25519_instruction_matches data key message" and "ed25519_verified sig_ok instructions data"
  shows "\<exists>signature. length signature = 64 \<and> sig_ok (key_bytes key) signature message"
proof -
  from assms(1) have one: "hd data = 1" by (auto simp: ed25519_instruction_matches_def split: if_splits)
  from assms(2) have "ed25519_entry sig_ok instructions data 2" by (simp add: ed25519_verified_def one numeral_2_eq_2)
  moreover have "slice_get data a (a + 64) = Some signature \<Longrightarrow> length signature = 64" for a and signature :: "u8 list"
    using slice_get_length [of data a "a + 64" signature] by simp
  ultimately show ?thesis using assms(1)
    by (fastforce simp: ed25519_entry_def ed25519_instruction_matches_def ed25519_slice_def instruction_data_def else_false_def
        split: option.splits if_splits)
qed

lemma find_ed25519_Inr:
  "find_ed25519 rt service digest is = Inr () \<Longrightarrow>
     \<exists>index\<in>set is. \<exists>ix. instruction_at rt index = Some ix \<and> ix_program_id ix = ed25519_program_ID rt \<and>
       ed25519_instruction_matches (ix_data ix) service digest"
  by (induction "is") (auto simp: result_simps split: if_splits)

lemma gating_signature_valid:
  assumes "ed25519_precompile sig_ok rt" and "validate_gating_signature rt (Some service) oc deposit taker args = Inr ()"
  shows "sint (unix_timestamp rt) \<le> sint (sia_gating_signature_expiration args)"
    and "\<exists>signature. length signature = 64 \<and>
      sig_ok (key_bytes service) signature (key_bytes (keccak256 rt (gating_message rt oc deposit taker args)))"
proof -
  from assms(2) obtain current where time: "sint (unix_timestamp rt) \<le> sint (sia_gating_signature_expiration args)"
      and found: "find_ed25519 rt service (key_bytes (keccak256 rt (gating_message rt oc deposit taker args))) [0..<current] = Inr ()"
    by (auto simp: validate_gating_signature_def Let_def result_simps)
  from find_ed25519_Inr [OF found] assms(1) ed25519_match_signed
  show "\<exists>signature. length signature = 64 \<and>
      sig_ok (key_bytes service) signature (key_bytes (keccak256 rt (gating_message rt oc deposit taker args)))"
    unfolding ed25519_precompile_def by blast
  show "sint (unix_timestamp rt) \<le> sint (sia_gating_signature_expiration args)" by (rule time)
qed

subsection \<open>What is signed\<close>

lemma referral_fees_bytes_inject:
  assumes "length fs = length gs" and "concat (map referral_fee_bytes fs) @ r = concat (map referral_fee_bytes gs) @ t"
  shows "fs = gs \<and> r = t"
  using assms by (induction fs gs rule: list_induct2) (simp_all add: referral_fee_bytes_def to_le_bytes_inject)

text \<open>The message determines the terms of the signal; only the expected intent hash is not part of it.\<close>

lemma gating_message_inject:
  assumes "gating_message rt oc deposit taker args = gating_message rt oc' deposit' taker' args'"
    and "length (sia_referral_fees args) < 2 ^ 32" and "length (sia_referral_fees args') < 2 ^ 32"
  shows "deposit' = deposit \<and> taker' = taker \<and> oc_domain_chain_id oc' = oc_domain_chain_id oc \<and>
    args' = args\<lparr>sia_expected_intent_hash := sia_expected_intent_hash args'\<rparr>"
proof -
  from assms(1) have fixed: "deposit' = deposit" "taker' = taker" "sia_amount args' = sia_amount args"
      "sia_recipient args' = sia_recipient args" "sia_payment_method args' = sia_payment_method args"
      "sia_fiat_currency args' = sia_fiat_currency args" "sia_conversion_rate args' = sia_conversion_rate args"
    and "le_bytes 4 (length (sia_referral_fees args)) = le_bytes 4 (length (sia_referral_fees args'))"
    and rest: "concat (map referral_fee_bytes (sia_referral_fees args)) @ to_le_bytes (sia_gating_signature_expiration args) @
        key_bytes (oc_domain_chain_id oc) @ key_bytes crate_ID =
      concat (map referral_fee_bytes (sia_referral_fees args')) @ to_le_bytes (sia_gating_signature_expiration args') @
        key_bytes (oc_domain_chain_id oc') @ key_bytes crate_ID"
    by (simp_all add: gating_message_def to_le_bytes_inject)
  then have "le_nat (le_bytes 4 (length (sia_referral_fees args))) = le_nat (le_bytes 4 (length (sia_referral_fees args')))"
    by simp
  with assms(2,3) have "length (sia_referral_fees args) = length (sia_referral_fees args')" by (simp add: le_nat_le_bytes)
  from referral_fees_bytes_inject [OF this rest] have "sia_referral_fees args' = sia_referral_fees args"
      "sia_gating_signature_expiration args' = sia_gating_signature_expiration args"
      "oc_domain_chain_id oc' = oc_domain_chain_id oc"
    by (simp_all add: to_le_bytes_inject)
  with fixed show ?thesis by simp
qed

end
