(* ===== verification/Pools.thy ===== *)
theory Pools
  imports Accounting
begin

text \<open>
  The abstract account of principal that a deposit and a stake position implement: a pair of free and reserved natural
  numbers with three partial operations. The methods of \<^verbatim>\<open>Deposit\<close> and \<^verbatim>\<open>StakePosition\<close> on machine integers
  refine it exactly: on well-formed records they succeed when the abstract operation is defined and their own guards hold,
  and their result is the abstract result.
\<close>

type_synonym pool = "nat \<times> nat"

definition pool_reserve :: "nat \<Rightarrow> pool \<Rightarrow> pool option" where
  "pool_reserve a p = (if a \<le> fst p then Some (fst p - a, snd p + a) else None)"

definition pool_release :: "nat \<Rightarrow> pool \<Rightarrow> pool option" where
  "pool_release a p = (if a \<le> snd p then Some (fst p + a, snd p - a) else None)"

definition pool_consume :: "nat \<Rightarrow> nat \<Rightarrow> pool \<Rightarrow> pool option" where
  "pool_consume l u p = (if u \<le> l \<and> l \<le> snd p then Some (fst p + (l - u), snd p - l) else None)"

definition succeeded :: "'a result \<Rightarrow> 'a option" where
  "succeeded r = (case r of Inl _ \<Rightarrow> None | Inr x \<Rightarrow> Some x)"

lemma succeeded_Some [simp]: "succeeded r = Some x \<longleftrightarrow> r = Inr x"
  by (simp add: succeeded_def split: sum.split)

lemma succeeded_eqI:
  assumes "\<And>x. r = Inr x \<Longrightarrow> b \<and> y = Some (f x)" and "b \<Longrightarrow> y \<noteq> None \<Longrightarrow> \<exists>x. r = Inr x"
  shows "map_option f (succeeded r) = (if b then y else None)"
proof (cases r)
  case (Inl e)
  with assms(2) have "\<not> b \<or> y = None" by blast
  with Inl show ?thesis by (auto simp: succeeded_def)
next
  case (Inr x)
  with assms(1) [of x] show ?thesis by (simp add: succeeded_def)
qed

definition deposit_pool_of :: "Deposit \<Rightarrow> pool" where
  "deposit_pool_of d = (unat (d_remaining_deposits d), unat (d_outstanding_intent_amount d))"

definition position_pool_of :: "StakePosition \<Rightarrow> pool" where
  "position_pool_of p = (unat (sp_balance p) - unat (sp_locked p), unat (sp_locked p))"

subsection \<open>Deposit\<close>

lemma Deposit_lock_succeeds:
  assumes "deposit_ok d" and "d_accepting_intents d" and "ar_min (d_intent_amount_range d) \<le> a"
    and "a \<le> ar_max (d_intent_amount_range d)" and "unat (d_active_intents d) < unat m" and "unat a \<le> deposit_avail d"
  shows "\<exists>d'. Deposit_lock d a m = Inr d'"
proof -
  have "unat (d_active_intents d) + unat (1 :: u16) < 2 ^ 16" using assms(5) unat_bound [of m] by simp
  then obtain n where n: "checked_add (d_active_intents d) 1 = Some n" "unat n = unat (d_active_intents d) + 1"
    using checked_add_ex [of "d_active_intents d" 1] by auto
  obtain r where r: "checked_sub (d_remaining_deposits d) a = Some r" using checked_sub_ex [OF assms(6)] by blast
  obtain h where h: "checked_add (d_outstanding_intent_amount d) a = Some h"
    using checked_add_ex [of "d_outstanding_intent_amount d" a] assms(1,6) by (auto simp: deposit_ok_def)
  have "a \<le> d_remaining_deposits d" "n \<le> m" using assms(5,6) n(2) by (simp_all add: word_le_nat_alt)
  with assms n r h show ?thesis by (simp add: Deposit_lock_def require_def)
qed

lemma Deposit_lock_refines:
  assumes "deposit_ok d"
  shows "map_option deposit_pool_of (succeeded (Deposit_lock d a m)) =
    (if d_accepting_intents d \<and> ar_min (d_intent_amount_range d) \<le> a \<and> a \<le> ar_max (d_intent_amount_range d) \<and>
        unat (d_active_intents d) < unat m
     then pool_reserve (unat a) (deposit_pool_of d) else None)"
proof (rule succeeded_eqI)
  fix d'
  assume run: "Deposit_lock d a m = Inr d'"
  note r = Deposit_lock_Inr [OF run]
  have "unat (d_active_intents d) < unat m" using r(6,7) by (simp add: word_le_nat_alt)
  with r show "(d_accepting_intents d \<and> ar_min (d_intent_amount_range d) \<le> a \<and> a \<le> ar_max (d_intent_amount_range d) \<and>
        unat (d_active_intents d) < unat m) \<and> pool_reserve (unat a) (deposit_pool_of d) = Some (deposit_pool_of d')"
    by (simp add: pool_reserve_def deposit_pool_of_def)
next
  assume "d_accepting_intents d \<and> ar_min (d_intent_amount_range d) \<le> a \<and> a \<le> ar_max (d_intent_amount_range d) \<and>
      unat (d_active_intents d) < unat m" and "pool_reserve (unat a) (deposit_pool_of d) \<noteq> None"
  then show "\<exists>d'. Deposit_lock d a m = Inr d'"
    using Deposit_lock_succeeds [OF assms] by (auto simp: pool_reserve_def deposit_pool_of_def split: if_splits)
qed

lemma Deposit_unlock_refines:
  assumes "deposit_ok d"
  shows "map_option deposit_pool_of (succeeded (Deposit_unlock d a)) =
    (if 0 < unat (d_active_intents d) then pool_release (unat a) (deposit_pool_of d) else None)"
proof (rule succeeded_eqI)
  fix d'
  assume "Deposit_unlock d a = Inr d'"
  from Deposit_unlock_Inr [OF this]
  show "0 < unat (d_active_intents d) \<and> pool_release (unat a) (deposit_pool_of d) = Some (deposit_pool_of d')"
    by (simp add: pool_release_def deposit_pool_of_def)
next
  assume "0 < unat (d_active_intents d)" "pool_release (unat a) (deposit_pool_of d) \<noteq> None"
  then show "\<exists>d'. Deposit_unlock d a = Inr d'"
    using Deposit_unlock_succeeds [OF assms] by (auto simp: pool_release_def deposit_pool_of_def split: if_splits)
qed

lemma Deposit_settle_refines:
  assumes "deposit_ok d"
  shows "map_option deposit_pool_of (succeeded (Deposit_settle d l u)) =
    (if 0 < unat (d_active_intents d) \<and> 0 < u then pool_consume (unat l) (unat u) (deposit_pool_of d) else None)"
proof (rule succeeded_eqI)
  fix d'
  assume "Deposit_settle d l u = Inr d'"
  from Deposit_settle_Inr [OF this]
  show "(0 < unat (d_active_intents d) \<and> 0 < u) \<and>
      pool_consume (unat l) (unat u) (deposit_pool_of d) = Some (deposit_pool_of d')"
    by (simp add: pool_consume_def deposit_pool_of_def word_greater_zero_iff unat_gt_0)
next
  assume "0 < unat (d_active_intents d) \<and> 0 < u" "pool_consume (unat l) (unat u) (deposit_pool_of d) \<noteq> None"
  then show "\<exists>d'. Deposit_settle d l u = Inr d'"
    using Deposit_settle_succeeds [OF assms, of l u]
    by (auto simp: pool_consume_def deposit_pool_of_def word_le_nat_alt split: if_splits)
qed

subsection \<open>StakePosition\<close>

lemma StakePosition_lock_succeeds:
  assumes "position_ok p" and "0 < a" and "unat a \<le> position_avail p"
  shows "\<exists>p'. StakePosition_lock p a = Inr p'"
proof -
  obtain f where f: "checked_sub (sp_balance p) (sp_locked p) = Some f" "unat f = position_avail p"
    using checked_sub_ex assms(1) unfolding position_ok_def by blast
  have "unat (sp_locked p) + unat a < 2 ^ 64" using assms(1,3) unat_bound [of "sp_balance p"] by (simp add: position_ok_def)
  then obtain l where l: "checked_add (sp_locked p) a = Some l" using checked_add_ex [of "sp_locked p" a] by auto
  have "a \<le> f" using assms(3) f(2) by (simp add: word_le_nat_alt)
  with f l assms(2) show ?thesis by (simp add: StakePosition_lock_def StakePosition_free_def require_def)
qed

lemma StakePosition_lock_refines:
  assumes "position_ok p"
  shows "map_option position_pool_of (succeeded (StakePosition_lock p a)) =
    (if 0 < a then pool_reserve (unat a) (position_pool_of p) else None)"
proof (rule succeeded_eqI)
  fix p'
  assume run: "StakePosition_lock p a = Inr p'"
  have "sp_balance p' = sp_balance p" by (subst StakePosition_lock_Inr(4) [OF run]) simp
  with StakePosition_lock_Inr(1-3) [OF run]
  show "0 < a \<and> pool_reserve (unat a) (position_pool_of p) = Some (position_pool_of p')"
    by (simp add: pool_reserve_def position_pool_of_def position_ok_def word_greater_zero_iff unat_gt_0)
next
  assume "0 < a" "pool_reserve (unat a) (position_pool_of p) \<noteq> None"
  then show "\<exists>p'. StakePosition_lock p a = Inr p'"
    using StakePosition_lock_succeeds [OF assms] by (auto simp: pool_reserve_def position_pool_of_def split: if_splits)
qed

lemma StakePosition_unlock_refines:
  assumes "position_ok p"
  shows "map_option position_pool_of (succeeded (StakePosition_unlock p a)) = pool_release (unat a) (position_pool_of p)"
proof -
  have "map_option position_pool_of (succeeded (StakePosition_unlock p a)) =
      (if True then pool_release (unat a) (position_pool_of p) else None)"
  proof (rule succeeded_eqI)
    fix p'
    assume run: "StakePosition_unlock p a = Inr p'"
    have "sp_balance p' = sp_balance p" by (subst StakePosition_unlock_Inr(2) [OF run]) simp
    with StakePosition_unlock_Inr(1) [OF run] assms
    show "True \<and> pool_release (unat a) (position_pool_of p) = Some (position_pool_of p')"
      by (simp add: pool_release_def position_pool_of_def position_ok_def)
  next
    assume "pool_release (unat a) (position_pool_of p) \<noteq> None"
    then show "\<exists>p'. StakePosition_unlock p a = Inr p'"
      using checked_sub_ex [of a "sp_locked p"]
      by (auto simp: pool_release_def position_pool_of_def StakePosition_unlock_def split: if_splits)
  qed
  then show ?thesis by simp
qed

lemma StakePosition_resolve_refines:
  assumes "position_ok p"
  shows "map_option position_pool_of (succeeded (StakePosition_resolve p l c)) = pool_consume (unat l) (unat c) (position_pool_of p)"
proof -
  have "map_option position_pool_of (succeeded (StakePosition_resolve p l c)) =
      (if True then pool_consume (unat l) (unat c) (position_pool_of p) else None)"
  proof (rule succeeded_eqI)
    fix p'
    assume "StakePosition_resolve p l c = Inr p'"
    from StakePosition_resolve_Inr(1-3) [OF this] assms
    show "True \<and> pool_consume (unat l) (unat c) (position_pool_of p) = Some (position_pool_of p')"
      by (simp add: pool_consume_def position_pool_of_def position_ok_def)
  next
    assume "pool_consume (unat l) (unat c) (position_pool_of p) \<noteq> None"
    then have b: "unat c \<le> unat l" "unat l \<le> unat (sp_locked p)"
      by (auto simp: pool_consume_def position_pool_of_def split: if_splits)
    moreover from this assms have "unat c \<le> unat (sp_balance p)" by (simp add: position_ok_def)
    ultimately obtain x y where "checked_sub (sp_locked p) l = Some x" "checked_sub (sp_balance p) c = Some y"
      using checked_sub_ex by blast
    with b(1) show "\<exists>p'. StakePosition_resolve p l c = Inr p'"
      by (simp add: StakePosition_resolve_def StakePosition_unlock_def require_def word_le_nat_alt)
  qed
  then show ?thesis by simp
qed

end
