(* ===== verification/Scenario.thy ===== *)
theory Scenario
  imports Program_Invariant
begin

text \<open>
  A concrete runtime and a concrete history, on which the properties with hypotheses are evaluated. The runtime is a
  small executable instance of the parameters: a token program that checks authority and balance, an address derivation
  that reads the number of seeds and the length of the first, a constant hash, a signature
  recovery that always answers and a decoder that knows one text. The history runs
  the whole protocol once: initialisation, staking, a deposit, an intent with dispute collateral, its fulfilment by an
  attestation and a dispute that pays the collateral to the depositor.
\<close>

subsection \<open>Runtime\<close>

fun demo_transfer ::
  "pubkey \<Rightarrow> token_store \<Rightarrow> pubkey \<Rightarrow> pubkey \<Rightarrow> pubkey \<Rightarrow> pubkey \<Rightarrow> u64 \<Rightarrow> u8 \<Rightarrow> token_store result" where
  "demo_transfer tp ts src mint to auth amount dec =
     (case (ts src, ts to) of
        (Some f, Some t) \<Rightarrow>
          if tk_owner f \<noteq> auth \<or> tk_mint f \<noteq> mint \<or> tk_mint t \<noteq> mint then Inl TokenProgram
          else if src = to then Inr ts
          else case (checked_sub (tk_amount f) amount, checked_add (tk_amount t) amount) of
            (Some a, Some b) \<Rightarrow> Inr (ts(src \<mapsto> f\<lparr>tk_amount := a\<rparr>, to \<mapsto> t\<lparr>tk_amount := b\<rparr>))
          | _ \<Rightarrow> Inl TokenProgram
      | _ \<Rightarrow> Inl TokenProgram)"

fun demo_initialize :: "pubkey \<Rightarrow> token_store \<Rightarrow> pubkey \<Rightarrow> pubkey \<Rightarrow> pubkey \<Rightarrow> token_store result" where
  "demo_initialize tp ts key mint auth =
     (case ts key of None \<Rightarrow> Inr (ts(key \<mapsto> \<lparr>tk_program = tp, tk_mint = mint, tk_owner = auth, tk_amount = 0\<rparr>))
      | Some _ \<Rightarrow> Inl TokenProgram)"

fun demo_close :: "pubkey \<Rightarrow> token_store \<Rightarrow> pubkey \<Rightarrow> pubkey \<Rightarrow> pubkey \<Rightarrow> token_store result" where
  "demo_close tp ts key dest auth =
     (case ts key of None \<Rightarrow> Inl TokenProgram
      | Some t \<Rightarrow> if tk_amount t = 0 \<and> tk_owner t = auth then Inr (ts(key := None)) else Inl TokenProgram)"

definition demo_address :: "u8 list list \<Rightarrow> pubkey \<times> u8" where
  "demo_address seeds = (of_nat (200 + 64 * length seeds + length (hd seeds)), 255)"

definition signal_args :: SignalIntentArgs where
  "signal_args = \<lparr>sia_expected_intent_hash = 9, sia_amount = 200, sia_recipient = 4, sia_payment_method = 21,
     sia_fiat_currency = 23, sia_conversion_rate = 1000, sia_referral_fees = [], sia_gating_signature_expiration = 0\<rparr>"

definition demo_runtime :: runtime where
  "demo_runtime = \<lparr>unix_timestamp = 1000, find_program_address = demo_address, keccak256 = (\<lambda>_. 9),
     secp256k1_recover = (\<lambda>_ _ _. Some []), spl_token_ID = 100, token_2022_ID = 101, ed25519_program_ID = 102,
     initialize_account = demo_initialize, transfer_checked = demo_transfer, close_account = demo_close,
     current_index = Some 0, instruction_at = Map.empty, signal_intent_discriminator = [7],
     cancel_intent_discriminator = [8],
     signal_args_try_from_slice = (\<lambda>bs. if bs = [1] then Some signal_args else None), invoke_resolver = (\<lambda>_ _ _. None)\<rparr>"

subsection \<open>Accounts\<close>

text \<open>1 is the authority, 2 the mint, 3 the depositor, 4 the taker and staker, 5 the fee recipient; 13, 14 and 15 are
  token accounts of 3, 4 and 5.\<close>

definition demo_token :: "pubkey \<Rightarrow> u64 \<Rightarrow> TokenAccount" where
  "demo_token auth amount = \<lparr>tk_program = 100, tk_mint = 2, tk_owner = auth, tk_amount = amount\<rparr>"

definition demo_mints :: "pubkey \<rightharpoonup> Mint" where
  "demo_mints = [2 \<mapsto> \<lparr>mint_program = 100, mint_decimals = 6\<rparr>]"

definition demo_tokens :: token_store where
  "demo_tokens = [13 \<mapsto> demo_token 3 1000, 14 \<mapsto> demo_token 4 1000, 15 \<mapsto> demo_token 5 0]"

definition demo_genesis :: ledger where
  "demo_genesis = genesis demo_mints demo_tokens"

definition at_time :: "i64 \<Rightarrow> environment" where
  "at_time t = \<lparr>env_timestamp = t, env_current_index = Some 0, env_instruction_at = Map.empty,
     env_resolver = (\<lambda>_ _ _. None)\<rparr>"

abbreviation "demo_deposit \<equiv> pda demo_runtime (deposit_seeds (escrow_config_key demo_runtime) 0)"

abbreviation "demo_intent \<equiv> pda demo_runtime (intent_seeds demo_runtime 0)"

abbreviation "demo_dispute \<equiv> dispute_addr demo_runtime 9"

subsection \<open>Instructions\<close>

definition init_args :: InitializeProtocolArgs where
  "init_args = \<lparr>ipa_protocol_fee = 10000000000000000, ipa_protocol_fee_recipient = 5, ipa_intent_expiration_period = 3600,
     ipa_max_intents_per_deposit = 5, ipa_controller_change_delay = 86400, ipa_initial_witnesses = [9],
     ipa_required_signatures = 1\<rparr>"

definition slot_hashes :: "u8 list" where
  "slot_hashes = to_le_bytes (1 :: u64) @ to_le_bytes (77 :: u64) @ key_bytes 9"

definition deposit_args :: CreateDepositArgs where
  "deposit_args = \<lparr>cda_amount = 500, cda_intent_amount_range = \<lparr>ar_min = 10, ar_max = 400\<rparr>, cda_delegate = None,
     cda_intent_guardian = None, cda_retain_on_empty = False, cda_payment_method = 21, cda_payee_details = 22,
     cda_gating_service = None, cda_currency = 23, cda_fixed_min_rate = 1000, cda_oracle_quote = None,
     cda_spread_bps = 0, cda_max_staleness = 0\<rparr>"

definition signal_accounts :: SignalIntentAccounts where
  "signal_accounts = \<lparr>ska_deposit = demo_deposit, ska_oracle_quote = None, ska_rate_manager = None, ska_rate_entry = None,
     ska_deposit_whitelist = None, ska_direct_whitelist_member = None, ska_allowed_group = None, ska_group_member = None,
     ska_resolver_program = None, ska_dispute_intent = Some demo_dispute, ska_deposit_dispute_setting = None,
     ska_risk_window = Some (pda demo_runtime (risk_window_seeds (dispute_config_key demo_runtime) 21)),
     ska_remaining_accounts = []\<rparr>"

definition meta :: "pubkey \<Rightarrow> AccountMeta" where
  "meta k = \<lparr>am_pubkey = k, am_is_signer = True, am_is_writable = True\<rparr>"

definition signal_instruction :: Instruction where
  "signal_instruction = \<lparr>ix_program_id = crate_ID,
     ix_accounts = [meta 4, meta (orchestrator_config_key demo_runtime), meta 0, meta demo_deposit] @ replicate 10 (meta 0) @
       [meta demo_dispute],
     ix_data = [7, 1]\<rparr>"

definition before_signal :: environment where
  "before_signal = (at_time 1000)\<lparr>env_instruction_at := [1 \<mapsto> signal_instruction]\<rparr>"

definition prepare_args :: PrepareDisputeArgs where
  "prepare_args = \<lparr>pda_expected_intent_hash = 9, pda_payment_method = 21, pda_amount = 200\<rparr>"

definition token_accounts :: SettlementTokenAccounts where
  "token_accounts = \<lparr>sta_mint = 2, sta_deposit_vault = deposit_vault_key demo_runtime demo_deposit, sta_recipient_token = 14,
     sta_protocol_fee_token = 15, sta_manager_fee_token = None, sta_token_program = 100\<rparr>"

definition dispute_accounts :: SettlementDisputeAccounts where
  "dispute_accounts = \<lparr>sdd_dispute_intent = Some demo_dispute, sdd_stake_vault = True,
     sdd_stake_position = Some (position_key demo_runtime 4), sdd_stake_lock = Some (stake_lock_key demo_runtime 9)\<rparr>"

definition demo_signature :: "u8 list" where
  "demo_signature = replicate 64 0 @ [27]"

definition fulfill_args :: FulfillIntentArgs where
  "fulfill_args = \<lparr>fia_attestation = \<lparr>pa_intent_hash = 9, pa_release_amount = 150, pa_data_hash = 9,
       pa_signatures = [demo_signature],
       pa_payment = \<lparr>pd_method = 21, pd_payee_id = 22, pd_amount = 77, pd_currency = 23, pd_timestamp_ms = 1, pd_payment_id = 31\<rparr>,
       pa_snapshot = \<lparr>sn_intent_hash = 9, sn_amount = 200, sn_payment_method = 21, sn_fiat_currency = 23,
         sn_payee_details = 22, sn_conversion_rate = 1000, sn_signal_timestamp = 1000, sn_timestamp_buffer_ms = 0\<rparr>\<rparr>,
     fia_expected_nullifier = 9\<rparr>"

definition dispute_args :: SubmitDisputeArgs where
  "dispute_args = \<lparr>sda_attestation = \<lparr>da_intent_hash = 9, da_data_hash = 9, da_signatures = [demo_signature],
       da_details = \<lparr>dd_payment_method = 21, dd_original_payment_id = 31, dd_dispute_id = 32, dd_payment_amount = 77,
         dd_payment_currency = 23\<rparr>\<rparr>,
     sda_expected_payment_nullifier = 9, sda_expected_dispute_nullifier = 9\<rparr>"

definition setup_events :: "event list" where
  "setup_events =
     [Call (at_time 0) (Governance (Initialize_protocol 1 (Some 50) (50, Some 1) slot_hashes 2 init_args)),
      Call (at_time 0) (Stake (Initialize_stake_token_vault 100)),
      Call (at_time 0) (Stake (Deposit_stake 4 14 100 300)),
      Call (at_time 0) (Escrow (Create_deposit 3 13 100 deposit_args)),
      Call (at_time 0) (Disputes (Set_risk_window 1 21 600)),
      Call (at_time 0) (Verification (Set_verifier_payment_method 1 21 True))]"

definition trade_events :: "event list" where
  "trade_events =
     [Call before_signal (Disputes (Prepare_dispute 4 demo_deposit None False 4 prepare_args)),
      Call (at_time 1000) (Intents (Signal_intent 4 signal_accounts signal_args)),
      Call (at_time 2000) (Intents (Fulfill_intent demo_intent token_accounts dispute_accounts [] fulfill_args))]"

definition dispute_events :: "event list" where
  "dispute_events =
     [Call (at_time 2100) (Disputes (Submit_dispute dispute_args)),
      Call (at_time 2200) (Stake (Claim_stake 3 13 100))]"

abbreviation demo_reached :: "event list \<Rightarrow> ledger" where
  "demo_reached es \<equiv> reached demo_runtime demo_mints demo_tokens es"

abbreviation "signal_history \<equiv> setup_events @ take 2 trade_events"

abbreviation "settled_history \<equiv> setup_events @ trade_events"

abbreviation "demo_history \<equiv> setup_events @ trade_events @ dispute_events"

subsection \<open>Addresses of the demo runtime\<close>

lemma demo_pda [simp]:
  "pda demo_runtime (s # rest) = of_nat (264 + 64 * length rest + length s)" "pda_bump demo_runtime seeds = 255"
  by (simp_all add: pda_def pda_bump_def demo_runtime_def demo_address_def)

lemma seed_lengths [simp]:
  "length PROTOCOL_SEED = 8"
  "length ESCROW_CONFIG_SEED = 13"
  "length ORCHESTRATOR_CONFIG_SEED = 19"
  "length STAKE_VAULT_CONFIG_SEED = 18"
  "length VERIFIER_CONFIG_SEED = 15"
  "length WHITELIST_CONFIG_SEED = 16"
  "length DISPUTE_CONFIG_SEED = 14"
  "length RATE_MANAGER_CONFIG_SEED = 19"
  "length STAKE_POSITION_SEED = 14"
  "length STAKE_TOKEN_VAULT_SEED = 17"
  "length TAKER_AUTHORIZATION_SEED = 19"
  "length STAKE_SELECTION_SEED = 15"
  "length CLAIM_BALANCE_SEED = 13"
  "length RATE_MANAGER_SEED = 12"
  "length RATE_ENTRY_SEED = 10"
  "length DEPOSIT_SEED = 7"
  "length DEPOSIT_VAULT_SEED = 13"
  "length PAYMENT_METHOD_SEED = 14"
  "length DEPOSIT_CURRENCY_SEED = 16"
  "length ORACLE_QUOTE_SEED = 12"
  "length ESCROW_INTENT_LOCK_SEED = 18"
  "length INTENT_SEED = 6"
  "length TAKER_INTENT_STATE_SEED = 18"
  "length PAYMENT_BINDING_SEED = 15"
  "length INTENT_PAYMENT_BINDING_SEED = 22"
  "length ADDRESS_GROUP_SEED = 13"
  "length GROUP_MEMBER_SEED = 12"
  "length DEPOSIT_WHITELIST_SEED = 17"
  "length DEPOSIT_WHITELIST_MEMBER_SEED = 24"
  "length STAKE_LOCK_SEED = 10"
  "length RISK_WINDOW_SEED = 11"
  "length DEPOSIT_DISPUTE_SETTING_SEED = 23"
  "length DISPUTE_INTENT_SEED = 14"
  "length DISPUTE_NULLIFIER_SEED = 17"
    by (simp_all add: ascii_def PROTOCOL_SEED_def ESCROW_CONFIG_SEED_def ORCHESTRATOR_CONFIG_SEED_def
      STAKE_VAULT_CONFIG_SEED_def VERIFIER_CONFIG_SEED_def WHITELIST_CONFIG_SEED_def DISPUTE_CONFIG_SEED_def
      RATE_MANAGER_CONFIG_SEED_def STAKE_POSITION_SEED_def STAKE_TOKEN_VAULT_SEED_def TAKER_AUTHORIZATION_SEED_def
      STAKE_SELECTION_SEED_def CLAIM_BALANCE_SEED_def RATE_MANAGER_SEED_def RATE_ENTRY_SEED_def DEPOSIT_SEED_def
      DEPOSIT_VAULT_SEED_def PAYMENT_METHOD_SEED_def DEPOSIT_CURRENCY_SEED_def ORACLE_QUOTE_SEED_def
      ESCROW_INTENT_LOCK_SEED_def INTENT_SEED_def TAKER_INTENT_STATE_SEED_def PAYMENT_BINDING_SEED_def
      INTENT_PAYMENT_BINDING_SEED_def ADDRESS_GROUP_SEED_def GROUP_MEMBER_SEED_def DEPOSIT_WHITELIST_SEED_def
      DEPOSIT_WHITELIST_MEMBER_SEED_def STAKE_LOCK_SEED_def RISK_WINDOW_SEED_def DEPOSIT_DISPUTE_SETTING_SEED_def
      DISPUTE_INTENT_SEED_def DISPUTE_NULLIFIER_SEED_def)

lemmas demo_key_defs = protocol_key_def escrow_config_key_def orchestrator_config_key_def stake_vault_config_key_def
  verifier_config_key_def whitelist_config_key_def dispute_config_key_def rate_manager_config_key_def
  position_key_def position_seeds_def stake_token_vault_key_def claim_key_def claim_seeds_def stake_lock_key_def
  stake_lock_seeds_def deposit_vault_key_def deposit_vault_seeds_def deposit_seeds_def payment_method_key_def
  payment_method_seeds_def currency_key_def currency_seeds_def intent_lock_key_def intent_lock_seeds_def intent_seeds_def
  taker_state_key_def taker_state_seeds_def

subsection \<open>The demo runtime keeps the laws\<close>

lemma demo_transfer_moves:
  assumes "demo_transfer tp ts src mint to auth amount dec = Inr ts'"
  shows "token_moved ts ts' src to amount"
proof -
  from assms obtain f t where ft: "ts src = Some f" "ts to = Some t" by (auto split: option.splits)
  show ?thesis
  proof (cases "src = to")
    case True
    with assms ft show ?thesis by (auto simp: token_moved_def split: if_splits)
  next
    case False
    with assms ft obtain a b where "checked_sub (tk_amount f) amount = Some a" "checked_add (tk_amount t) amount = Some b"
      and "ts' = ts(src \<mapsto> f\<lparr>tk_amount := a\<rparr>, to \<mapsto> t\<lparr>tk_amount := b\<rparr>)"
      by (auto split: if_splits option.splits)
    with False ft show ?thesis
      by (simp add: token_moved_def checked_simps, intro exI [of _ a] exI [of _ b]) simp
  qed
qed

lemma demo_sound: "sound_runtime demo_runtime {9}"
proof -
  have "transfer_law demo_runtime"
    using demo_transfer_moves unfolding transfer_law_def by (simp add: demo_runtime_def)
  moreover have "initialize_law demo_runtime" "close_law demo_runtime"
    by (auto simp: initialize_law_def close_law_def demo_runtime_def split: option.splits if_splits)
  moreover have "vault_apart demo_runtime" by (simp add: vault_apart_def demo_key_defs)
  ultimately show ?thesis by (simp add: sound_runtime_def token_laws_def)
qed

lemma demo_ordinary:
  "list_all (ordinary {9}) demo_history" "list_all (ordinary {9}) settled_history" "list_all (ordinary {9}) signal_history"
  by (simp_all add: setup_events_def trade_events_def dispute_events_def prepare_args_def signal_args_def dispute_args_def)

end
