(* ===== verification/Demo_Run.thy ===== *)
theory Demo_Run
  imports Scenario
begin

text \<open>
  The demo history evaluated in the logic: the setup, the preparation of collateral, the signalled intent, its fulfilment,
  the dispute and the claim all succeed, and the ledger after each of them is given explicitly. The properties with
  hypotheses are applied to these ledgers.
\<close>

subsection \<open>Evaluation rules\<close>

lemma demo_genesis_fields:
  "protocol demo_genesis = None" "escrow_config demo_genesis = None" "orchestrator_config demo_genesis = None"
  "stake_vault_config demo_genesis = None" "verifier_config demo_genesis = None" "rate_manager_config demo_genesis = None"
  "whitelist_config demo_genesis = None" "dispute_config demo_genesis = None" "deposits demo_genesis = Map.empty"
  "payment_methods demo_genesis = Map.empty" "deposit_currencies demo_genesis = Map.empty"
  "oracle_quotes demo_genesis = Map.empty" "intent_locks demo_genesis = Map.empty" "intents demo_genesis = Map.empty"
  "taker_states demo_genesis = Map.empty" "rate_managers demo_genesis = Map.empty" "rate_entries demo_genesis = Map.empty"
  "stake_positions demo_genesis = Map.empty" "stake_selections demo_genesis = Map.empty"
  "taker_authorizations demo_genesis = Map.empty" "stake_locks demo_genesis = Map.empty"
  "claim_balances demo_genesis = Map.empty" "payment_bindings demo_genesis = Map.empty"
  "intent_payment_bindings demo_genesis = Map.empty" "address_groups demo_genesis = Map.empty"
  "group_members demo_genesis = Map.empty" "deposit_whitelists demo_genesis = Map.empty"
  "whitelist_members demo_genesis = Map.empty" "dispute_intents demo_genesis = Map.empty"
  "risk_windows demo_genesis = Map.empty" "dispute_settings demo_genesis = Map.empty"
  "dispute_nullifiers demo_genesis = Map.empty"
  "mints demo_genesis = [2 \<mapsto> \<lparr>mint_program = 100, mint_decimals = 6\<rparr>]"
  "tokens demo_genesis = [13 \<mapsto> demo_token 3 1000, 14 \<mapsto> demo_token 4 1000, 15 \<mapsto> demo_token 5 0]"
  by (simp_all add: demo_genesis_def genesis_def empty_ledger_def demo_mints_def demo_tokens_def)

lemma demo_selectors [simp]:
  "spl_token_ID demo_runtime = 100" "token_2022_ID demo_runtime = 101" "ed25519_program_ID demo_runtime = 102"
  "keccak256 demo_runtime x = 9" "secp256k1_recover demo_runtime d r s = Some []"
  "signal_intent_discriminator demo_runtime = [7]" "cancel_intent_discriminator demo_runtime = [8]"
  "transfer_checked demo_runtime = demo_transfer" "initialize_account demo_runtime = demo_initialize"
  "close_account demo_runtime = demo_close"
  "signal_args_try_from_slice demo_runtime [1] = Some signal_args"
  by (simp_all add: demo_runtime_def fun_eq_iff)

lemma in_env_parameters [simp]:
  "spl_token_ID (in_env rt e) = spl_token_ID rt" "token_2022_ID (in_env rt e) = token_2022_ID rt"
  "ed25519_program_ID (in_env rt e) = ed25519_program_ID rt" "keccak256 (in_env rt e) = keccak256 rt"
  "secp256k1_recover (in_env rt e) = secp256k1_recover rt"
  "signal_intent_discriminator (in_env rt e) = signal_intent_discriminator rt"
  "cancel_intent_discriminator (in_env rt e) = cancel_intent_discriminator rt"
  "signal_args_try_from_slice (in_env rt e) = signal_args_try_from_slice rt"
  "current_index (in_env rt e) = env_current_index e" "instruction_at (in_env rt e) = env_instruction_at e"
  by (simp_all add: in_env_def)

lemma at_time_fields [simp]:
  "env_timestamp (at_time t) = t" "env_current_index (at_time t) = Some 0" "env_instruction_at (at_time t) = Map.empty"
  by (simp_all add: at_time_def)

lemma demo_slot: "newest_slot_hash slot_hashes = Inr (77, 9)"
  unfolding slot_hashes_def using newest_slot_hash_layout [of 1 9 "[]" 77] by (simp add: MAX_ENTRIES_def)

lemmas demo_eval = seeds_bump_def init_def init_if_needed_def is_token_program_def token_interface_def token_account_def mint_account_def
  signed_by_def if_some_def reload_amount_def position_seeds_def position_key_def stake_token_vault_key_def
  claim_seeds_def claim_key_def authorization_seeds_def authorization_key_def selection_seeds_def selection_key_def
  stake_lock_seeds_def stake_lock_key_def vault_account_def zero_position_def zero_authorization_def
  zero_selection_def zero_claim_def handle_initialize_stake_token_vault_def handle_deposit_stake_def
  handle_withdraw_stake_def handle_claim_stake_def handle_set_taker_authorization_def handle_select_stake_owner_def
  handle_clear_stake_owner_def new_stake_lock_def handle_controller_lock_stake_def handle_controller_fund_lock_def
  manage_stake_lock_def handle_increase_stake_lock_def handle_resize_stake_lock_def handle_controller_unlock_stake_def
  handle_initialize_claim_balance_def handle_resolve_stake_lock_def Deposit_total_liquidity_def Deposit_lock_def
  Deposit_unlock_def Deposit_settle_def StakePosition_free_def StakePosition_lock_def StakePosition_unlock_def
  StakePosition_resolve_def DepositCurrency_escrow_floor_def DisputeIntent_cancel_def DisputeIntent_settle_def
  DisputeIntent_release_def DisputeIntent_dispute_def deposit_seeds_def deposit_vault_seeds_def deposit_vault_key_def
  payment_method_seeds_def payment_method_key_def currency_seeds_def currency_key_def oracle_quote_seeds_def
  oracle_quote_key_def intent_lock_seeds_def intent_lock_key_def escrow_account_def unpaused_deposit_def
  managed_deposit_def zero_quote_def handle_update_oracle_quote_def check_create_deposit_args_def new_deposit_def
  new_payment_method_def new_deposit_currency_def create_deposit_at_def handle_create_deposit_def handle_add_funds_def
  transfer_from_deposit_def handle_remove_funds_def close_deposit_def handle_withdraw_deposit_def
  handle_update_deposit_def handle_configure_payment_method_def handle_configure_currency_def rate_manager_seeds_def
  handle_set_deposit_rate_manager_def handle_lock_funds_def handle_unlock_funds_def handle_extend_intent_expiry_def
  derive_deployment_domain_def check_initialize_args_def handle_initialize_protocol_def protocol_account_def
  governed_by_def handle_propose_protocol_authority_def handle_accept_protocol_authority_def
  handle_configure_orchestrator_def handle_configure_escrow_def handle_propose_stake_controller_def
  handle_accept_stake_controller_def protocol_authority_def protocol_pending_def stake_controller_def
  pending_stake_controller_def configure_verifier_def set_payment_method_def handle_set_verifier_payment_method_def
  set_witness_def handle_set_verifier_witness_def handle_set_required_signatures_def payment_data_slices_def
  payment_data_hash_def address_of_hash_def address_word_def payment_attestation_digest_def recovery_id_def
  verify_witness_threshold_def validate_snapshot_def verify_payment_attestation_def effective_rate_def
  validate_referral_fees_def read_u16_def else_false_def ed25519_instruction_matches_def referral_fee_bytes_def
  gating_message_def validate_gating_signature_def readonly_resolver_meta_def resolver_return_is_yes_def
  resolver_says_yes_def whitelist_allows_def risk_window_seeds_def dispute_intent_seeds_def dispute_setting_seeds_def
  validate_dispute_admission_def no_whitelist_evidence_def no_dispute_evidence_def whitelist_enabled_def
  whitelisted_def dispute_enabled_def validate_lifecycle_admission_def intent_seeds_def taker_state_seeds_def
  taker_state_key_def orchestrator_account_def opt_account_def zero_taker_state_def signal_context_def
  signal_admission_def new_intent_def new_intent_lock_def signal_checks_def handle_signal_intent_def
  ending_context_def end_intent_def handle_cancel_intent_def dispute_config_account_def opt_singleton_def
  prune_dispute_def handle_prune_expired_intent_def strip_prefix_def next_instruction_def
  handle_set_risk_window_def handle_set_dispute_admissions_paused_def handle_set_deposit_dispute_protection_def
  require_atomic_signal_follows_def prepare_context_def new_dispute_intent_def handle_prepare_dispute_def
  require_atomic_cancel_follows_def handle_cancel_dispute_def handle_release_matured_dispute_def dispute_data_hash_def
  dispute_attestation_digest_def payment_binding_seeds_def intent_payment_binding_seeds_def
  dispute_nullifier_seeds_def check_dispute_evidence_def submit_context_def prepared_claim_def
  new_dispute_nullifier_def handle_submit_dispute_def transfer_exact_def load_settlement_tokens_def
  check_settlement_tokens_def pay_protocol_def pay_manager_def distribute_funds_def settle_dispute_if_covered_def
  settlement_context_def settle_intent_def handle_fulfill_intent_def handle_manual_release_def u64_try_from_def
  spread_rate_ceil_def
  checked_add_def checked_sub_def checked_mul_def checked_div_def checked_sadd_def checked_ssub_def
  hashv_def Let_def external_key_def demo_key_defs demo_slot limit_defs demo_genesis_fields demo_token_def

subsection \<open>The accounts of the run\<close>

definition demo_orchestrator :: "u64 \<Rightarrow> OrchestratorConfig" where
  "demo_orchestrator next_id = \<lparr>oc_protocol = 272, oc_escrow_config = 277, oc_verifier_config = 279,
     oc_domain_chain_id = 9, oc_protocol_fee = 10000000000000000, oc_protocol_fee_recipient = 5,
     oc_lifecycle_policy = PolicyWhitelistAndDispute, oc_allow_multiple_intents = False, oc_next_intent_id = next_id,
     oc_paused = False, oc_bump = 255\<rparr>"

definition demo_vault :: "u64 \<Rightarrow> u64 \<Rightarrow> StakeVaultConfig" where
  "demo_vault staked claimable = \<lparr>sv_protocol = 272, sv_stake_mint = 2, sv_controller = 278, sv_pending_controller = None,
     sv_pending_controller_valid_at = 0, sv_controller_change_delay = 86400, sv_total_staked = staked,
     sv_total_claimable = claimable, sv_bump = 255, sv_vault_authority_bump = 255\<rparr>"

definition demo_position :: "u64 \<Rightarrow> u64 \<Rightarrow> StakePosition" where
  "demo_position staked lock = \<lparr>sp_vault = 282, sp_owner = 4, sp_balance = staked, sp_locked = lock, sp_bump = 255\<rparr>"

definition demo_lock :: "u64 \<Rightarrow> i64 \<Rightarrow> StakeLock" where
  "demo_lock amount matures =
     \<lparr>sl_vault = 282, sl_id = 9, sl_stake_owner = 4, sl_amount = amount, sl_matures_at = matures, sl_bump = 255\<rparr>"

definition demo_claim :: "u64 \<Rightarrow> ClaimBalance" where
  "demo_claim amount = \<lparr>cb_vault = 282, cb_beneficiary = 3, cb_amount = amount, cb_bump = 255\<rparr>"

definition demo_liquidity :: "u64 \<Rightarrow> u64 \<Rightarrow> u16 \<Rightarrow> Deposit" where
  "demo_liquidity remaining outstanding count =
     \<lparr>d_escrow_config = 277, d_id = 0, d_depositor = 3, d_delegate = None, d_token_mint = 2,
      d_intent_amount_range = \<lparr>ar_min = 10, ar_max = 400\<rparr>, d_accepting_intents = True, d_remaining_deposits = remaining,
      d_outstanding_intent_amount = outstanding, d_active_intents = count, d_intent_guardian = None,
      d_retain_on_empty = False, d_rate_manager = None, d_bump = 255, d_vault_authority_bump = 255\<rparr>"

definition demo_signalled_intent :: Intent where
  "demo_signalled_intent = \<lparr>i_orchestrator = 283, i_intent_hash = 9, i_nonce = 0, i_owner = 4, i_recipient = 4,
     i_deposit = 399, i_amount = 200, i_timestamp = 1000, i_payment_method = 21, i_fiat_currency = 23,
     i_conversion_rate = 1000, i_payee_id = 22, i_manager_fee_recipient = None, i_manager_fee = 0,
     i_lifecycle_policy = PolicyWhitelistAndDispute, i_dispute_covered = True, i_referral_fees = [], i_bump = 255\<rparr>"

definition demo_taker :: "u16 \<Rightarrow> TakerIntentState" where
  "demo_taker count = \<lparr>ts_orchestrator = 283, ts_taker = 4, ts_active_intents = count, ts_bump = 255\<rparr>"

definition demo_collateral :: "DisputeStatus \<Rightarrow> i64 \<Rightarrow> u64 \<Rightarrow> DisputeIntent" where
  "demo_collateral status eligible amount =
     \<lparr>di_dispute_config = 278, di_intent_hash = 9, di_deposit = 399, di_taker = 4, di_stake_owner = 4, di_depositor = 3,
      di_payment_method = 21, di_locked_amount = 200, di_status = status, di_risk_window = 600,
      di_release_eligible_at = eligible, di_release_amount = amount, di_bump = 255\<rparr>"

lemmas demo_records = demo_orchestrator_def demo_vault_def demo_position_def demo_lock_def demo_claim_def
  demo_liquidity_def demo_signalled_intent_def demo_taker_def demo_collateral_def

subsection \<open>Setup\<close>

definition demo_ready :: ledger where
  "demo_ready = demo_genesis\<lparr>
     protocol := Some \<lparr>pc_authority = 1, pc_pending_authority = None, pc_version = 1, pc_domain_seed_slot = 77,
       pc_domain_seed = 9, pc_domain_chain_id = 9, pc_bump = 255\<rparr>,
     escrow_config := Some \<lparr>ec_protocol = 272, ec_token_mint = 2, ec_dust_recipient = 5, ec_dust_threshold = 0,
       ec_max_intents_per_deposit = 5, ec_intent_expiration_period = 3600, ec_next_deposit_id = 1, ec_paused = False,
       ec_bump = 255\<rparr>,
     verifier_config := Some \<lparr>vc_protocol = 272, vc_domain_chain_id = 9, vc_required_signatures = 1,
       vc_witnesses = [9], vc_payment_methods = [21], vc_bump = 255\<rparr>,
     orchestrator_config := Some (demo_orchestrator 0), stake_vault_config := Some (demo_vault 300 0),
     rate_manager_config := Some \<lparr>rmc_protocol = 272, rmc_next_manager_id = 0, rmc_bump = 255\<rparr>,
     whitelist_config := Some \<lparr>wc_protocol = 272, wc_next_group_id = 0, wc_bump = 255\<rparr>,
     dispute_config := Some \<lparr>dg_protocol = 272, dg_domain_chain_id = 9, dg_stake_vault = 282, dg_verifier_config = 279,
       dg_admissions_paused = False, dg_bump = 255\<rparr>,
     stake_positions := [406 \<mapsto> demo_position 300 0], deposits := [399 \<mapsto> demo_liquidity 500 0 0],
     payment_methods := [406 \<mapsto> \<lparr>pm_deposit = 399, pm_payment_method = 21, pm_payee_details = 22,
       pm_gating_service = None, pm_active = True, pm_bump = 255\<rparr>],
     deposit_currencies := [472 \<mapsto> \<lparr>dc_deposit = 399, dc_payment_method = 21, dc_currency = 23,
       dc_fixed_min_rate = 1000, dc_oracle_quote = None, dc_spread_bps = 0, dc_max_staleness = 0, dc_listed = True,
       dc_bump = 255\<rparr>],
     risk_windows := [403 \<mapsto> \<lparr>rw_dispute_config = 278, rw_payment_method = 21, rw_seconds = 600, rw_bump = 255\<rparr>],
     tokens := [15 \<mapsto> demo_token 5 0, 14 \<mapsto> demo_token 4 700, 345 \<mapsto> demo_token 282 300, 13 \<mapsto> demo_token 3 500,
       341 \<mapsto> demo_token 399 500]\<rparr>"

lemma demo_setup: "run (execute demo_runtime) demo_genesis setup_events = demo_ready"
  by (simp add: setup_events_def demo_eval init_args_def deposit_args_def demo_ready_def demo_records)

subsection \<open>The hashes of the demo runtime\<close>

lemma demo_intent_hash: "derive_intent_hash (in_env demo_runtime e) k n = 9"
proof -
  have "be_nat (reduce_circom_field (key_bytes 9)) = 9" by (simp add: reduce_circom_field_mod be_nat_key_bytes modulus_nat_def)
  then show ?thesis by (simp add: derive_intent_hash_def hashv_def of_be_bytes_def)
qed

lemma demo_signer: "recover_signer (in_env demo_runtime e) d demo_signature = Inr 9"
proof -
  have "is_low_s (replicate 64 0)"
    by (simp add: is_low_s_def HALF_ORDER_def numeral_eq_Suc)
  moreover have "address_of_hash 9 = 9"
    by (simp add: address_of_hash_def key_bytes_def to_be_bytes_def be_bytes_def of_be_bytes_def be_nat_def drop_rev
        take_le_bytes le_nat_le_bytes)
  ultimately show ?thesis
    by (simp add: recover_signer_def demo_signature_def slice_get_def recovery_id_def checked_sub_def nth_append)
qed

lemmas demo_trade = demo_eval prepare_args_def before_signal_def signal_instruction_def meta_def demo_intent_hash demo_signer precise_mul_floor_def u64_try_from_def
  payment_binding_seeds_def intent_payment_binding_seeds_def
  nth_append signal_args_def signal_accounts_def token_accounts_def dispute_accounts_def fulfill_args_def dispute_args_def

definition demo_prepared :: ledger where
  "demo_prepared = demo_ready\<lparr>stake_positions := [406 \<mapsto> demo_position 300 200],
     stake_locks := [402 \<mapsto> demo_lock 200 NEVER_MATURES], dispute_intents := [406 \<mapsto> demo_collateral Pending 0 0]\<rparr>"

lemma demo_prepare:
  "execute demo_runtime demo_ready
     (Call before_signal (Disputes (Prepare_dispute 4 demo_deposit None False 4 prepare_args))) = Inr demo_prepared"
  by (simp add: demo_trade demo_records demo_ready_def demo_prepared_def)

definition demo_signalled :: ledger where
  "demo_signalled = demo_prepared\<lparr>deposits := [399 \<mapsto> demo_liquidity 300 200 1],
     intents := [398 \<mapsto> demo_signalled_intent],
     intent_locks := [410 \<mapsto> \<lparr>el_deposit = 399, el_intent_hash = 9, el_orchestrator = 283, el_amount = 200,
       el_timestamp = 1000, el_expiry_time = 4600, el_bump = 255\<rparr>],
     taker_states := [410 \<mapsto> demo_taker 1], orchestrator_config := Some (demo_orchestrator 1)\<rparr>"

lemma demo_signal:
  "execute demo_runtime demo_prepared (Call (at_time 1000) (Intents (Signal_intent 4 signal_accounts signal_args))) =
     Inr demo_signalled"
  by (simp add: demo_trade demo_records demo_ready_def demo_prepared_def demo_signalled_def)

definition demo_fulfilled :: ledger where
  "demo_fulfilled = demo_signalled\<lparr>deposits := [399 \<mapsto> demo_liquidity 350 0 0], intents := Map.empty,
     intent_locks := Map.empty, taker_states := [410 \<mapsto> demo_taker 0],
     stake_positions := [406 \<mapsto> demo_position 300 150], stake_locks := [402 \<mapsto> demo_lock 150 2600],
     dispute_intents := [406 \<mapsto> demo_collateral Settled 2600 150],
     payment_bindings := [407 \<mapsto> \<lparr>pb_verifier = 279, pb_nullifier = 9, pb_intent_hash = 9, pb_bump = 255\<rparr>],
     intent_payment_bindings := [414 \<mapsto> \<lparr>ib_verifier = 279, ib_intent_hash = 9, ib_nullifier = 9, ib_bump = 255\<rparr>],
     tokens := [345 \<mapsto> demo_token 282 300, 13 \<mapsto> demo_token 3 500, 15 \<mapsto> demo_token 5 1, 341 \<mapsto> demo_token 399 350,
       14 \<mapsto> demo_token 4 849]\<rparr>"

lemma demo_fulfill:
  "execute demo_runtime demo_signalled
     (Call (at_time 2000) (Intents (Fulfill_intent demo_intent token_accounts dispute_accounts [] fulfill_args))) =
     Inr demo_fulfilled"
  by (simp add: demo_trade demo_records demo_ready_def demo_prepared_def demo_signalled_def demo_fulfilled_def)

definition demo_disputed :: ledger where
  "demo_disputed = demo_fulfilled\<lparr>dispute_intents := [406 \<mapsto> demo_collateral Disputed 2600 150],
     stake_positions := [406 \<mapsto> demo_position 150 0], stake_locks := Map.empty,
     stake_vault_config := Some (demo_vault 150 150), claim_balances := [405 \<mapsto> demo_claim 150],
     dispute_nullifiers := [409 \<mapsto> \<lparr>dn_dispute_config = 278, dn_nullifier = 9, dn_intent_hash = 9, dn_bump = 255\<rparr>]\<rparr>"

lemma demo_submit:
  "execute demo_runtime demo_fulfilled (Call (at_time 2100) (Disputes (Submit_dispute dispute_args))) = Inr demo_disputed"
  by (simp add: demo_trade demo_records demo_ready_def demo_prepared_def demo_signalled_def demo_fulfilled_def
      demo_disputed_def)

definition demo_claimed :: ledger where
  "demo_claimed = demo_disputed\<lparr>stake_vault_config := Some (demo_vault 150 0), claim_balances := [405 \<mapsto> demo_claim 0],
     tokens := [15 \<mapsto> demo_token 5 1, 341 \<mapsto> demo_token 399 350, 14 \<mapsto> demo_token 4 849, 345 \<mapsto> demo_token 282 150,
       13 \<mapsto> demo_token 3 650]\<rparr>"

lemma demo_claim_paid: "execute demo_runtime demo_disputed (Call (at_time 2200) (Stake (Claim_stake 3 13 100))) = Inr demo_claimed"
  by (simp add: demo_trade demo_records demo_ready_def demo_prepared_def demo_signalled_def demo_fulfilled_def
      demo_disputed_def demo_claimed_def)

subsection \<open>The histories\<close>

lemma demo_histories:
  "demo_reached setup_events = demo_ready" "demo_reached signal_history = demo_signalled"
  "demo_reached settled_history = demo_fulfilled" "demo_reached demo_history = demo_claimed"
  by (simp_all add: reached_def run_append demo_setup demo_prepare demo_signal demo_fulfill demo_submit demo_claim_paid
      trade_events_def dispute_events_def demo_genesis_def [symmetric] del: execute.simps)

end
