(* ===== verification/Contracts.thy ===== *)
theory Contracts
  imports Limits Gating Pools Demo_Run
begin

text \<open>
  The contracts of the single components, each stated over the definitions of its own theory: arithmetic, price floors,
  referral fees, hashes and signatures, wire formats, the two pools of principal and the dispute state machine.
\<close>

section \<open>Arithmetic and prices\<close>

text \<open>
  C26. \<^verbatim>\<open>precise_mul_floor\<close> returns the exact rational product rounded down, for every amount and rate whose
  128-bit product does not overflow, and fails with \<^verbatim>\<open>ArithmeticOverflow\<close> exactly otherwise or when the
  quotient does not fit 64 bits.
\<close>

theorem precise_mul_floor_exact:
  "precise_mul_floor a r =
     (if unat a * unat r < 2 ^ 128 \<and> unat a * unat r div 10 ^ 18 < 2 ^ 64
      then Inr (of_nat (unat a * unat r div 10 ^ 18)) else Inl (Zkp2p ArithmeticOverflow))"
proof (cases "unat a * unat r < 2 ^ 128 \<and> unat a * unat r div 10 ^ 18 < 2 ^ 64")
  case True
  then have "unat (of_nat (unat a * unat r div 10 ^ 18) :: u64) = unat a * unat r div 10 ^ 18"
    by (simp add: unat_of_nat)
  with True show ?thesis by (simp add: precise_mul_floor_Inr)
next
  case False
  have "precise_mul_floor a r \<noteq> Inr f" for f
    using False unat_bound [of f] by (auto simp: precise_mul_floor_Inr)
  then obtain e where "precise_mul_floor a r = Inl e" by (cases "precise_mul_floor a r") auto
  with False precise_mul_floor_error [of a r e] show ?thesis by auto
qed

text \<open>
  C27. \<^verbatim>\<open>spread_rate_ceil\<close> applies a signed spread in basis points to a market rate and rounds up; a spread of minus
  one hundred percent or below is \<^verbatim>\<open>InvalidSpread\<close>, and a product beyond 128 bits is \<^verbatim>\<open>ArithmeticOverflow\<close>.
\<close>

theorem spread_rate_ceil_exact:
  "spread_rate_ceil m s =
     (if sint s \<le> - 10000 then Inl (Zkp2p InvalidSpread)
      else if unat m * nat (10000 + sint s) + 9999 < 2 ^ 128
      then Inr (of_nat ((unat m * nat (10000 + sint s) + 9999) div 10000)) else Inl (Zkp2p ArithmeticOverflow))"
proof (cases "- 10000 < sint s \<and> unat m * nat (10000 + sint s) + 9999 < 2 ^ 128")
  case True
  then have "(unat m * nat (10000 + sint s) + 9999) div 10000 < 2 ^ 128" by (simp add: div_less_iff_less_mult)
  then have "unat (of_nat ((unat m * nat (10000 + sint s) + 9999) div 10000) :: u128) =
      (unat m * nat (10000 + sint s) + 9999) div 10000" by (simp add: unat_of_nat)
  with True have "spread_rate_ceil m s = Inr (of_nat ((unat m * nat (10000 + sint s) + 9999) div 10000))"
    by (subst spread_rate_ceil_Inr) simp
  with True show ?thesis by simp
next
  case False
  then have "spread_rate_ceil m s \<noteq> Inr r" for r by (auto simp: spread_rate_ceil_Inr)
  then obtain e where "spread_rate_ceil m s = Inl e" by (cases "spread_rate_ceil m s") auto
  with False spread_rate_ceil_error [of m s e] show ?thesis by auto
qed

text \<open>
  C28. The escrow floor of a currency, as a decision table: an unlisted currency is halted (floor zero), a currency without
  oracle has its fixed rate, a currency with an oracle needs its quote account, is halted when the quote is not usable
  (invalid, zero, without a time, from the future or stale) and otherwise has the larger of the fixed rate and the spread
  market rate.
\<close>

theorem escrow_floor_decision:
  "DepositCurrency_escrow_floor c quote now =
     (if \<not> dc_listed c then Inr 0
      else if dc_oracle_quote c = None then Inr (dc_fixed_min_rate c)
      else case quote of None \<Rightarrow> Inl (Zkp2p InvalidOracleQuote)
        | Some q \<Rightarrow>
            if quote_usable q (dc_max_staleness c) now
            then and_then (spread_rate_ceil (oq_market_rate q) (dc_spread_bps c)) (\<lambda>r. Inr (max (dc_fixed_min_rate c) r))
            else Inr 0)"
proof (cases "dc_listed c \<and> dc_oracle_quote c \<noteq> None")
  case False
  then show ?thesis using escrow_floor_fixed [of c quote now] by (auto simp: DepositCurrency_escrow_floor_def)
next
  case True
  then obtain k where k: "dc_listed c" "dc_oracle_quote c = Some k" by blast
  show ?thesis
  proof (cases quote)
    case None
    with k show ?thesis by (simp add: DepositCurrency_escrow_floor_def)
  next
    case (Some q)
    with k escrow_floor_oracle [OF k, of q now] escrow_floor_halted [of c k q now] show ?thesis by simp
  qed
qed

text \<open>
  C31. \<^verbatim>\<open>validate_referral_fees\<close> accepts exactly the lists of at most ten fees with distinct, nonzero recipients and
  positive rates whose exact sum is at most one half.
\<close>

theorem referral_fees_accepted_iff:
  "validate_referral_fees fees = Inr () \<longleftrightarrow>
     length fees \<le> 10 \<and> distinct (map rf_recipient fees) \<and> list_all (\<lambda>f. rf_recipient f \<noteq> 0 \<and> 0 < unat (rf_fee f)) fees \<and>
     2 * sum_list (map (\<lambda>f. unat (rf_fee f)) fees) \<le> 10 ^ 18"
  by (simp add: validate_referral_fees_Inr referrals_ok_def list_all_iff)

section \<open>Hashes and signatures\<close>

text \<open>
  C25. The intent hash is the Keccak digest of orchestrator and nonce, read as a big-endian number, modulo the constant that
  the code calls the field modulus; the byte loop of the source computes exactly this remainder.
\<close>

theorem intent_hash_is_residue:
  "unat (derive_intent_hash rt orchestrator nonce) =
     unat (hashv rt [key_bytes orchestrator, to_be_bytes nonce]) mod
       21888242871839275222246405745257275088696311157297823662689037894645226208583"
  by (simp add: derive_intent_hash_def Let_def unat_of_be_bytes length_reduce_circom_field reduce_circom_field_mod
      be_nat_key_bytes modulus_nat_def)

text \<open>
  C22. \<^verbatim>\<open>verify_witness_threshold\<close> accepts a list of signatures exactly when there are at least as many as required and
  at most as many as witnesses, and they recover to pairwise distinct addresses that all are registered witnesses.
\<close>

theorem witness_threshold_iff:
  "verify_witness_threshold rt v digest sigs = Inr () \<longleftrightarrow>
     unat (vc_required_signatures v) \<le> length sigs \<and> length sigs \<le> length (vc_witnesses v) \<and>
     (\<exists>ws. list_all2 (\<lambda>s a. recover_signer rt digest s = Inr a) sigs ws \<and> distinct ws \<and> set ws \<subseteq> set (vc_witnesses v))"
  by (rule verify_witness_threshold_iff)

lemma le_nat_zeros: "le_nat (replicate n 0) = 0"
  by (induction n) simp_all

lemma le_nat_ones: "Suc (le_nat (replicate n 255)) = 256 ^ n"
  by (induction n) simp_all

text \<open>
  The malleability check: the second half of a 64-byte signature, as a big-endian number, is at most half the order of
  the secp256k1 group.
\<close>

theorem low_s_numeric:
  assumes "length signature = 64"
  shows "is_low_s signature \<longleftrightarrow>
    be_nat (drop 32 signature) \<le> 57896044618658097711785492504343953926418782139537452191302581570759080747168"
proof -
  have "be_nat HALF_ORDER = 57896044618658097711785492504343953926418782139537452191302581570759080747168"
    by (simp add: HALF_ORDER_def be_nat_def)
  moreover have "length (drop 32 signature) = length HALF_ORDER" using assms by (simp add: HALF_ORDER_def)
  ultimately show ?thesis using assms bytes_le_be_nat [of "drop 32 signature" HALF_ORDER] by (simp add: is_low_s_def)
qed

theorem low_s_numeric_witness:
  "is_low_s (replicate 64 0) \<and> \<not> is_low_s (replicate 64 255)"
proof -
  have "be_nat (drop 32 (replicate 64 (0 :: u8))) = 0" by (simp add: be_nat_def le_nat_zeros)
  moreover have "be_nat (drop 32 (replicate 64 (255 :: u8))) + 1 = 256 ^ 32" by (simp add: be_nat_def le_nat_ones)
  ultimately show ?thesis using low_s_numeric [of "replicate 64 0"] low_s_numeric [of "replicate 64 255"] by simp
qed

section \<open>Wire formats\<close>

text \<open>
  C35. The gating check reads instruction data of the Ed25519 program exactly: it accepts a byte string for a key and a
  message if and only if the string starts with the header of one signature, whose three instruction indices all say that
  signature, key and message are in this very instruction and whose size is that of the message, and the key and the
  message stand at the offsets that the header names, inside the data. In particular data that counts another number of
  signatures, that refers to another instruction, or that is too short is refused.
\<close>

theorem ed25519_match_exact:
  "ed25519_instruction_matches data key message \<longleftrightarrow>
     (\<exists>padding signature_offset key_offset message_offset rest.
        data = [1, padding] @ signature_offset @ [0xff, 0xff] @ le_bytes 2 key_offset @ [0xff, 0xff] @
          le_bytes 2 message_offset @ le_bytes 2 (length message) @ [0xff, 0xff] @ rest \<and>
        length signature_offset = 2 \<and> key_offset < 65536 \<and> message_offset < 65536 \<and> length message < 65536 \<and>
        key_offset + 32 \<le> length data \<and> take 32 (drop key_offset data) = key_bytes key \<and>
        message_offset + length message \<le> length data \<and> take (length message) (drop message_offset data) = message)"
  unfolding ed25519_instruction_matches_iff by (simp add: local_header_def)

text \<open>
  \<^verbatim>\<open>newest_slot_hash\<close> reads the slot and the hash of the first entry of a well-formed \<^verbatim>\<open>SlotHashes\<close> sysvar.
\<close>

theorem newest_slot_hash_reads_first:
  assumes "0 < unat count" and "unat count \<le> 512" and "hash \<noteq> 0" and "40 * (unat count - 1) \<le> length rest"
  shows "newest_slot_hash (to_le_bytes (count :: u64) @ to_le_bytes (slot :: u64) @ key_bytes hash @ rest) = Inr (slot, hash)"
  using newest_slot_hash_layout [of count hash rest slot] assms by (simp add: MAX_ENTRIES_def)

theorem newest_slot_hash_reads_first_witness:
  "newest_slot_hash (to_le_bytes (2 :: u64) @ to_le_bytes (77 :: u64) @ key_bytes 9 @ replicate 40 0) = Inr (77, 9)"
  by (rule newest_slot_hash_reads_first) simp_all

section \<open>The two pools of principal\<close>

text \<open>
  C18. A deposit refines the abstract pool: on a record whose two subtotals fit 64 bits together, \<^verbatim>\<open>lock\<close>,
  \<^verbatim>\<open>unlock\<close> and \<^verbatim>\<open>settle\<close> succeed exactly when their own guards hold and the abstract operation is defined, and
  then compute its result; in particular no arithmetic check fails otherwise.
\<close>

theorem deposit_refines_pool:
  assumes "deposit_ok d"
  shows "map_option deposit_pool_of (succeeded (Deposit_lock d a m)) =
      (if d_accepting_intents d \<and> ar_min (d_intent_amount_range d) \<le> a \<and> a \<le> ar_max (d_intent_amount_range d) \<and>
          unat (d_active_intents d) < unat m
       then pool_reserve (unat a) (deposit_pool_of d) else None) \<and>
    map_option deposit_pool_of (succeeded (Deposit_unlock d a)) =
      (if 0 < unat (d_active_intents d) then pool_release (unat a) (deposit_pool_of d) else None) \<and>
    map_option deposit_pool_of (succeeded (Deposit_settle d a u)) =
      (if 0 < unat (d_active_intents d) \<and> 0 < u then pool_consume (unat a) (unat u) (deposit_pool_of d) else None)"
  using Deposit_lock_refines [OF assms] Deposit_unlock_refines [OF assms] Deposit_settle_refines [OF assms] by blast

theorem deposit_refines_pool_witness:
  "deposit_ok (demo_liquidity 300 200 1) \<and>
   map_option deposit_pool_of (succeeded (Deposit_settle (demo_liquidity 300 200 1) 200 150)) = Some (350, 0)"
proof -
  have ok: "deposit_ok (demo_liquidity 300 200 1)" by (simp add: deposit_ok_def demo_liquidity_def)
  from ok deposit_refines_pool [OF ok, of 200 5 150] show ?thesis
    by (simp add: demo_liquidity_def pool_consume_def deposit_pool_of_def)
qed

text \<open>
  C19. A stake position refines the same pool: on a record whose lock is covered by its balance, \<^verbatim>\<open>lock\<close> of a positive
  amount reserves free stake, \<^verbatim>\<open>unlock\<close> releases it, and \<^verbatim>\<open>resolve\<close> ends a lock and removes the claims from the
  position, each exactly when the abstract operation is defined.
\<close>

theorem stake_position_refines_pool:
  assumes "position_ok p"
  shows "map_option position_pool_of (succeeded (StakePosition_lock p a)) =
      (if 0 < a then pool_reserve (unat a) (position_pool_of p) else None) \<and>
    map_option position_pool_of (succeeded (StakePosition_unlock p a)) = pool_release (unat a) (position_pool_of p) \<and>
    map_option position_pool_of (succeeded (StakePosition_resolve p a c)) =
      pool_consume (unat a) (unat c) (position_pool_of p)"
  using StakePosition_lock_refines [OF assms] StakePosition_unlock_refines [OF assms] StakePosition_resolve_refines [OF assms]
  by blast

theorem stake_position_refines_pool_witness:
  "position_ok (demo_position 300 150) \<and>
   map_option position_pool_of (succeeded (StakePosition_resolve (demo_position 300 150) 150 150)) = Some (150, 0)"
proof -
  have ok: "position_ok (demo_position 300 150)" by (simp add: position_ok_def demo_position_def)
  from ok stake_position_refines_pool [OF ok, of 150 150] show ?thesis
    by (simp add: demo_position_def pool_consume_def position_pool_of_def)
qed

section \<open>The dispute state machine\<close>

text \<open>
  C30. A dispute ends: from any dispute account, no more than two of the four methods \<^verbatim>\<open>cancel\<close>, \<^verbatim>\<open>settle\<close>,
  \<^verbatim>\<open>release\<close> and \<^verbatim>\<open>dispute\<close> can succeed in sequence, so the step relation has no infinite run.
\<close>

theorem dispute_methods_terminate:
  "((dispute_step ^^ n) d d' \<longrightarrow> n \<le> 2) \<and> wf {(y, x). dispute_step x y}"
proof
  have "dispute_rank (di_status d) + n \<le> dispute_rank (di_status d')" if "(dispute_step ^^ n) d d'"
    using that
  proof (induction n arbitrary: d')
    case 0
    then show ?case by simp
  next
    case (Suc n)
    then obtain x where "(dispute_step ^^ n) d x" "dispute_step x d'" by auto
    with Suc.IH [of x] dispute_step_rank [of x d'] show ?case by simp
  qed
  moreover have "dispute_rank (di_status d') \<le> 2" by (cases "di_status d'") simp_all
  ultimately show "(dispute_step ^^ n) d d' \<longrightarrow> n \<le> 2" by fastforce
  show "wf {(y, x). dispute_step x y}"
    by (rule wf_subset [OF wf_measure [of "\<lambda>d. 2 - dispute_rank (di_status d)"]]) (auto dest: dispute_step_status)
qed

theorem dispute_methods_terminate_witness:
  "(dispute_step ^^ 2) (demo_collateral Pending 0 0) (demo_collateral Disputed 2600 150) \<and> 2 \<le> (2 :: nat)"
proof -
  have "DisputeIntent_settle (demo_collateral Pending 0 0) 150 2000 = Inr (demo_collateral Settled 2600 150, 2600)"
    by (simp add: DisputeIntent_settle_def demo_collateral_def checked_sadd_def require_def)
  moreover have "DisputeIntent_dispute (demo_collateral Settled 2600 150) = Inr (demo_collateral Disputed 2600 150, 150)"
    by (simp add: DisputeIntent_dispute_def demo_collateral_def require_def)
  ultimately have "(dispute_step ^^ 2) (demo_collateral Pending 0 0) (demo_collateral Disputed 2600 150)"
    by (auto simp: numeral_2_eq_2 intro!: relcomppI intro: dispute_step.intros)
  with dispute_methods_terminate [of 2 "demo_collateral Pending 0 0" "demo_collateral Disputed 2600 150"] show ?thesis by blast
qed

end
