(* ===== verification/Placement.thy ===== *)
theory Placement
  imports Limits Program_Invariant
begin

text \<open>
  The accounts behind an open intent lie where the instructions that end it look for them: the intent, its escrow lock
  and the counter of its taker carry the canonical bump of their seeds, and the orchestrator configuration exists. Over a
  history whose signals come from a set of takers with distinct counter addresses, this makes ending an intent without
  dispute coverage always possible: by its owner at any time, and by anyone after expiry.
\<close>

definition taker_placed :: "runtime \<Rightarrow> pubkey set \<Rightarrow> pubkey \<Rightarrow> TakerIntentState \<Rightarrow> bool" where
  "taker_placed rt T k t \<longleftrightarrow> ts_taker t \<noteq> 0 \<and> ts_taker t \<in> T \<and> k = taker_state_key rt (ts_taker t) \<and>
     ts_bump t = pda_bump rt (taker_state_seeds rt (ts_taker t))"

definition intent_placed :: "runtime \<Rightarrow> pubkey set \<Rightarrow> pubkey \<Rightarrow> Intent \<Rightarrow> bool" where
  "intent_placed rt T k i \<longleftrightarrow> k = pda rt (intent_seeds rt (i_nonce i)) \<and> i_bump i = pda_bump rt (intent_seeds rt (i_nonce i)) \<and>
     i_orchestrator i = orchestrator_config_key rt \<and> i_owner i \<in> T"

definition lock_placed :: "runtime \<Rightarrow> EscrowIntentLock \<Rightarrow> bool" where
  "lock_placed rt l \<longleftrightarrow> el_bump l = pda_bump rt (intent_lock_seeds (el_deposit l) (el_intent_hash l)) \<and>
     el_orchestrator l = orchestrator_config_key rt"

definition orchestrator_placed :: "runtime \<Rightarrow> OrchestratorConfig option \<Rightarrow> (pubkey \<rightharpoonup> Intent) \<Rightarrow> bool" where
  "orchestrator_placed rt c ints \<longleftrightarrow> (case c of None \<Rightarrow> ints = Map.empty
     | Some oc \<Rightarrow> oc_bump oc = pda_bump rt [ORCHESTRATOR_CONFIG_SEED])"

definition placed_inv :: "runtime \<Rightarrow> pubkey set \<Rightarrow> ledger \<Rightarrow> bool" where
  "placed_inv rt T ls \<longleftrightarrow> orchestrator_placed rt (orchestrator_config ls) (intents ls) \<and> (\<forall>k i. intents ls k = Some i \<longrightarrow> intent_placed rt T k i) \<and>
     (\<forall>k l. intent_locks ls k = Some l \<longrightarrow> lock_placed rt l) \<and> (\<forall>k t. taker_states ls k = Some t \<longrightarrow> taker_placed rt T k t)"

fun event_signallers :: "event \<Rightarrow> pubkey set" where
  "event_signallers (Call env (Intents (Signal_intent t accs args))) = {t}"
| "event_signallers _ = {}"

definition signallers :: "event list \<Rightarrow> pubkey set" where
  "signallers es = (\<Union>e\<in>set es. event_signallers e)"

subsection \<open>Every event keeps the placement\<close>

lemma intent_seeds_env [simp]: "intent_seeds (in_env rt env) = intent_seeds rt" "taker_state_seeds (in_env rt env) = taker_state_seeds rt"
  by (simp_all add: fun_eq_iff intent_seeds_def taker_state_seeds_def)

lemma placed_env [simp]: "placed_inv (in_env rt env) = placed_inv rt"
  by (simp add: fun_eq_iff placed_inv_def orchestrator_placed_def intent_placed_def lock_placed_def taker_placed_def
      split: option.splits)

lemma placed_shrink:
  assumes inv: "placed_inv rt T ls" and t: "taker_states ls k = Some t"
    and oc: "orchestrator_config ls' = orchestrator_config ls"
    and lks: "intent_locks ls' \<subseteq>\<^sub>m intent_locks ls" and ints: "intents ls' \<subseteq>\<^sub>m intents ls"
    and tss: "taker_states ls' = (taker_states ls)(k \<mapsto> t\<lparr>ts_active_intents := n\<rparr>)"
  shows "placed_inv rt T ls'"
proof -
  have "orchestrator_placed rt (orchestrator_config ls') (intents ls')"
  proof (cases "orchestrator_config ls")
    case None
    with inv have "intents ls = Map.empty" by (simp add: placed_inv_def orchestrator_placed_def)
    then have "intents ls' k = None" for k using map_le_Some [OF ints, of k] by (cases "intents ls' k") auto
    with None oc show ?thesis by (simp add: orchestrator_placed_def fun_eq_iff)
  next
    case (Some c)
    with inv oc show ?thesis by (simp add: placed_inv_def orchestrator_placed_def)
  qed
  moreover have "taker_placed rt T j s" if "taker_states ls' j = Some s" for j s
    using that inv t by (auto simp: tss placed_inv_def taker_placed_def split: if_splits)
  moreover have "\<forall>j i. intents ls' j = Some i \<longrightarrow> intent_placed rt T j i" "\<forall>j l. intent_locks ls' j = Some l \<longrightarrow> lock_placed rt l"
    using inv map_le_Some [OF ints] map_le_Some [OF lks] unfolding placed_inv_def by blast+
  ultimately show ?thesis by (simp add: placed_inv_def)
qed

lemma end_intent_takers:
  "end_intent rt ls ik i d l t = Inr ls' \<Longrightarrow>
     \<exists>n. taker_states ls' = (taker_states ls)(taker_state_key rt (i_owner i) \<mapsto> t\<lparr>ts_active_intents := n\<rparr>)"
  by (auto simp: end_intent_def result_simps)

lemma end_intent_placed:
  assumes "placed_inv rt T ls" and "taker_states ls (taker_state_key rt (i_owner i)) = Some t"
    and run: "end_intent rt ls ik i d l t = Inr ls'"
  shows "placed_inv rt T ls'"
  using placed_shrink [OF assms(1,2)] end_intent_takers [OF run] end_intent_shrinks [OF run] by blast

lemma settle_intent_placed:
  assumes inv: "placed_inv rt T ls" and ctx: "settlement_context rt ls ik = Inr (oc, i, d, l, t)"
    and run: "settle_intent rt ls ik oc i d l t taccs daccs rem a = Inr ls'"
  shows "placed_inv rt T ls'"
proof -
  have "\<exists>n. taker_states ls' = (taker_states ls)(taker_state_key rt (i_owner i) \<mapsto> t\<lparr>ts_active_intents := n\<rparr>)"
    using run
  proof (rule settle_intent_Inr)
    fix ls1 d' ts n
    assume "settle_dispute_if_covered rt ls i daccs a = Inr ls1"
    then have "taker_states ls1 = taker_states ls" by (subst settle_dispute_if_covered_frame) simp_all
    moreover assume "ls' = ls1\<lparr>deposits := (deposits ls1)(i_deposit i \<mapsto> d'),
      taker_states := (taker_states ls1)(taker_state_key rt (i_owner i) \<mapsto> t\<lparr>ts_active_intents := n\<rparr>),
      intents := (intents ls1)(ik := None), intent_locks := (intent_locks ls1)(lock_addr rt i := None), tokens := ts\<rparr>"
    ultimately show ?thesis by auto
  qed
  moreover have "taker_states ls (taker_state_key rt (i_owner i)) = Some t" using settlement_context_Inr [OF ctx] by simp
  ultimately show ?thesis using placed_shrink [OF inv] settle_intent_shrinks [OF run] by blast
qed

lemma signal_intent_taker:
  assumes "handle_signal_intent rt ls taker accs args = Inr ls'"
  shows "\<exists>n. taker_states ls' = (taker_states ls)(taker_state_key rt taker \<mapsto>
    (let t = init_if_needed (taker_states ls (taker_state_key rt taker)) zero_taker_state in
     if ts_taker t = 0
     then t\<lparr>ts_orchestrator := orchestrator_config_key rt, ts_taker := taker, ts_bump := pda_bump rt (taker_state_seeds rt taker)\<rparr>
     else t)\<lparr>ts_active_intents := n\<rparr>)"
  using assms by (auto simp: handle_signal_intent_def Let_def result_simps simp del: if_split_asm intro: exI)

lemma signal_intent_placed:
  assumes inv: "placed_inv rt T ls" and taker: "taker \<noteq> 0" "taker \<in> T"
    and run: "handle_signal_intent rt ls taker accs args = Inr ls'"
  shows "placed_inv rt T ls'"
proof -
  have tss: "taker_placed rt T k t" if "taker_states ls' k = Some t" for k t
  proof (cases "taker_states ls (taker_state_key rt taker)")
    case None
    with that inv taker signal_intent_taker [OF run] show ?thesis
      by (auto simp: placed_inv_def taker_placed_def zero_taker_state_def split: if_splits)
  next
    case (Some s)
    then have "taker_placed rt T (taker_state_key rt taker) s" using inv by (simp add: placed_inv_def)
    with Some that inv signal_intent_taker [OF run] show ?thesis
      by (auto simp: placed_inv_def taker_placed_def split: if_splits)
  qed
  from run show ?thesis
  proof (rule signal_intent_effect)
    fix oc e d m c h rm rw d' x nid
    assume ctx: "signal_context rt ls (ska_deposit accs) args = Inr (oc, e, d, m, c)"
      and ls': "intents ls' = (intents ls)(pda rt (intent_seeds rt (oc_next_intent_id oc)) \<mapsto>
          new_intent rt oc taker (ska_deposit accs) m h (manager_terms rm) (covers rw) args)"
        "intent_locks ls' = (intent_locks ls)(intent_lock_key rt (ska_deposit accs) h \<mapsto>
          new_intent_lock rt (ska_deposit accs) h (sia_amount args) x)"
        "orchestrator_config ls' = Some (oc\<lparr>oc_next_intent_id := nid\<rparr>)"
    have "orchestrator_config ls = Some oc" using signal_context_Inr(1) [OF ctx] .
    then have "oc_bump oc = pda_bump rt [ORCHESTRATOR_CONFIG_SEED]" using inv by (simp add: placed_inv_def orchestrator_placed_def)
    then have "orchestrator_placed rt (orchestrator_config ls') (intents ls')" using ls' by (simp add: orchestrator_placed_def)
    moreover have "intent_placed rt T k i" if "intents ls' k = Some i" for k i
      using that ls'(1) inv taker by (auto simp: placed_inv_def intent_placed_def new_intent_def split: if_splits)
    moreover have "lock_placed rt l" if "intent_locks ls' k = Some l" for k l
      using that ls'(2) inv by (auto simp: placed_inv_def lock_placed_def new_intent_lock_def split: if_splits)
    ultimately show ?thesis using tss by (simp add: placed_inv_def)
  qed
qed

lemma intent_step_placed:
  assumes inv: "placed_inv rt T ls" and run: "intent_step rt ls i = Inr ls'"
    and sig: "\<And>t accs args. i = Signal_intent t accs args \<Longrightarrow> t \<noteq> 0 \<and> t \<in> T"
  shows "placed_inv rt T ls'"
proof (cases i)
  case (Signal_intent t accs args)
  with run sig signal_intent_placed [OF inv, of t accs args ls'] show ?thesis by simp
next
  case (Cancel_intent s k dk)
  with run obtain i d l t where "ending_context rt ls k = Inr (i, d, l, t)" "end_intent rt ls k i d l t = Inr ls'"
    by (auto simp: handle_cancel_intent_def result_simps split: if_splits)
  then show ?thesis using end_intent_placed [OF inv] ending_context_Inr(4) by blast
next
  case (Prune_expired_intent k accs)
  with run have "handle_prune_expired_intent rt ls k accs = Inr ls'" by simp
  then show ?thesis
  proof (rule prune_expired_intent_Inr)
    fix i d l t ls1 config di vault pos lk
    assume ctx: "ending_context rt ls k = Inr (i, d, l, t)"
      and mid: "(if i_dispute_covered i then prune_dispute rt ls (i_intent_hash i) config di vault pos lk
        else require (config = None \<and> di = None \<and> vault = None \<and> pos = None \<and> lk = None) Unauthorized (Inr ls)) = Inr ls1"
      and e: "end_intent rt ls1 k i d l t = Inr ls'"
    from mid have "placed_inv rt T ls1 \<and> taker_states ls1 = taker_states ls"
      using inv by (auto simp: require_Inr placed_inv_def split: if_splits elim!: prune_dispute_Inr)
    then show ?thesis using end_intent_placed [OF _ _ e] ending_context_Inr(4) [OF ctx] by simp
  qed
next
  case (Fulfill_intent k ta da ra args)
  with run have "handle_fulfill_intent rt ls k ta da ra args = Inr ls'" by simp
  then show ?thesis
  proof (rule fulfill_intent_Inr)
    fix oc and i :: Intent and d l t v n ls1
    let ?a = "min (pa_release_amount (fia_attestation args)) (i_amount i)"
    assume "settlement_context rt ls k = Inr (oc, i, d, l, t)" "settle_intent rt ls k oc i d l t ta da ra ?a = Inr ls1"
    from settle_intent_placed [OF inv this] have "placed_inv rt T ls1" .
    moreover assume "ls' = bind_payment rt ls1 i n"
    ultimately show ?thesis by (simp add: placed_inv_def)
  qed
next
  case (Manual_release s k ta da ra)
  with run obtain oc i d l t where "settlement_context rt ls k = Inr (oc, i, d, l, t)"
      and "settle_intent rt ls k oc i d l t ta da ra (i_amount i) = Inr ls'"
    by (auto simp: handle_manual_release_def result_simps)
  then show ?thesis by (rule settle_intent_placed [OF inv])
qed

lemma escrow_step_locks:
  assumes run: "escrow_step rt ls i = Inr ls'"
  shows "\<exists>k l x. intent_locks ls' = intent_locks ls \<or>
    intent_locks ls k = Some l \<and> intent_locks ls' = (intent_locks ls)(k \<mapsto> l\<lparr>el_expiry_time := x\<rparr>)"
proof (cases i)
  case (Withdraw_deposit s k t tp dust)
  with run have "handle_withdraw_deposit rt ls s k t tp dust = Inr ls'" by simp
  then show ?thesis by (rule withdraw_deposit_frame) simp
next
  case (Update_deposit s k args)
  with run update_deposit_Inr [of rt ls s k args ls'] show ?thesis by auto
next
  case (Extend_intent_expiry s k h a)
  with run obtain l x where "intent_locks ls (intent_lock_key rt k h) = Some l"
      "ls' = ls\<lparr>intent_locks := (intent_locks ls)(intent_lock_key rt k h \<mapsto> l\<lparr>el_expiry_time := x\<rparr>)\<rparr>"
    by (auto simp: handle_extend_intent_expiry_def result_simps)
  then show ?thesis by (intro exI disjI2) auto
qed (use run in \<open>auto simp: handle_create_deposit_def create_deposit_at_def handle_update_oracle_quote_def
      handle_add_funds_def handle_remove_funds_def handle_configure_payment_method_def handle_configure_currency_def
      handle_set_deposit_rate_manager_def escrow_account_def result_simps Let_def split: option.splits\<close>)

lemma escrow_step_placed:
  assumes inv: "placed_inv rt T ls" and run: "escrow_step rt ls i = Inr ls'"
  shows "placed_inv rt T ls'"
proof -
  have "orchestrator_config ls' = orchestrator_config ls" "intents ls' = intents ls" "taker_states ls' = taker_states ls"
    by (subst escrow_step_frame [OF run], simp)+
  moreover have "\<forall>k l. intent_locks ls' k = Some l \<longrightarrow> lock_placed rt l"
    using escrow_step_locks [OF run] inv by (auto simp: placed_inv_def lock_placed_def split: if_splits)
  ultimately show ?thesis using inv by (simp add: placed_inv_def)
qed

lemma configure_orchestrator_bump:
  assumes "handle_configure_orchestrator rt ls a args = Inr ls'"
  shows "map_option oc_bump (orchestrator_config ls') = map_option oc_bump (orchestrator_config ls)"
  using assms
  by (simp add: handle_configure_orchestrator_def and_then_Inr require_Inr account_Inr seeds_bump_Inr, elim exE conjE)
    (auto simp: if_some_def require_Inr split: option.splits)

lemma governance_step_placed:
  assumes inv: "placed_inv rt T ls" and run: "governance_step rt ls i = Inr ls'"
  shows "placed_inv rt T ls'"
proof -
  have "intents ls' = intents ls" "intent_locks ls' = intent_locks ls" "taker_states ls' = taker_states ls"
    by (subst governance_step_frame [OF run], simp)+
  moreover have "orchestrator_placed rt (orchestrator_config ls') (intents ls)"
  proof (cases i)
    case (Initialize_protocol a pd d sh m args)
    with run show ?thesis
      by (auto simp: handle_initialize_protocol_def check_initialize_args_def result_simps Let_def orchestrator_placed_def)
  next
    case (Configure_orchestrator a args)
    with run inv configure_orchestrator_bump [of rt ls a args ls'] show ?thesis
      by (auto simp: placed_inv_def orchestrator_placed_def split: option.splits)
  next
    case (Configure_escrow a args)
    with run inv show ?thesis
      by (auto simp: handle_configure_escrow_def placed_inv_def orchestrator_placed_def result_simps split: option.splits)
  qed (use run inv in \<open>auto simp: handle_propose_protocol_authority_def handle_accept_protocol_authority_def
      handle_propose_stake_controller_def handle_accept_stake_controller_def placed_inv_def orchestrator_placed_def
      result_simps Let_def split: option.splits\<close>)
  ultimately show ?thesis using inv by (simp add: placed_inv_def)
qed

lemma dispatch_placed:
  assumes inv: "placed_inv rt T ls" and run: "dispatch rt ls i = Inr ls'"
    and sig: "\<And>t accs args. i = Intents (Signal_intent t accs args) \<Longrightarrow> t \<noteq> 0 \<and> t \<in> T"
  shows "placed_inv rt T ls'"
proof (cases "(\<exists>j. i = Governance j) \<or> (\<exists>j. i = Escrow j) \<or> (\<exists>j. i = Intents j)")
  case True
  with run sig governance_step_placed [OF inv] escrow_step_placed [OF inv] intent_step_placed [OF inv]
  show ?thesis by (elim disjE exE) auto
next
  case False
  have "orchestrator_config ls' = orchestrator_config ls"
    using run False by (cases i) (simp_all, (drule step_frames, drule arg_cong [where f = orchestrator_config], simp)+)
  moreover have "intents ls' = intents ls"
    using run False by (cases i) (simp_all, (drule step_frames, drule arg_cong [where f = intents], simp)+)
  moreover have "taker_states ls' = taker_states ls"
    using run False by (cases i) (simp_all, (drule step_frames, drule arg_cong [where f = taker_states], simp)+)
  moreover note dispatch_stores(7) [OF run]
  ultimately show ?thesis using False inv by (simp add: placed_inv_def)
qed

interpretation placement: monitored_machine "execute rt" "\<lambda>e. event_signallers e \<subseteq> T" "placed_inv rt T" for rt T
proof unfold_locales
  fix ls ls' and e :: event
  assume inv: "placed_inv rt T ls" and sig: "event_signallers e \<subseteq> T" and "execute rt ls e = Inr ls'"
  from this(3) show "placed_inv rt T ls'"
  proof (cases rule: execute_cases)
    case (call env i)
    have "t \<noteq> 0 \<and> t \<in> T" if "i = Intents (Signal_intent t accs args)" for t accs args
      using call sig that by (simp add: external_key_def)
    then show ?thesis using dispatch_placed [of "in_env rt env" T ls i ls'] inv call by simp
  next
    case (tokens ts)
    with inv show ?thesis by (simp add: placed_inv_def)
  qed
qed

lemma reached_placed: "placed_inv rt (signallers es) (reached rt ms ts es)"
  unfolding reached_def
proof (rule placement.run_inv)
  show "placed_inv rt (signallers es) (genesis ms ts)"
    by (simp add: placed_inv_def orchestrator_placed_def genesis_def empty_ledger_def)
  show "list_all (\<lambda>e. event_signallers e \<subseteq> signallers es) es" by (auto simp: list_all_iff signallers_def)
qed

subsection \<open>An intent without coverage can be ended\<close>

lemma lock_counted:
  "lks k = Some l \<Longrightarrow> unat (el_amount l) \<le> held_on lks (el_deposit l) \<and> 1 \<le> held_count lks (el_deposit l)"
  using msum_member_le [of lks k l "\<lambda>x. if el_deposit x = el_deposit l then unat (el_amount x) else 0"]
    msum_member_le [of lks k l "\<lambda>x. if el_deposit x = el_deposit l then 1 else 0"]
  by (simp add: held_on_def held_count_def)

lemma intent_counted:
  assumes "taker_counts rt ints tss" and "ints k = Some i"
  shows "\<exists>t. tss (taker_state_key rt (i_owner i)) = Some t \<and> 1 \<le> unat (ts_active_intents t)"
proof -
  have "1 \<le> at (\<lambda>t. unat (ts_active_intents t)) tss (taker_state_key rt (i_owner i))"
    using assms msum_member_le [of ints k i "\<lambda>j. if taker_state_key rt (i_owner j) = taker_state_key rt (i_owner i) then 1 else 0"]
    by (simp add: taker_counts_def)
  then show ?thesis by (cases "tss (taker_state_key rt (i_owner i))") (simp_all add: at_def)
qed

lemma open_intent_context:
  assumes inv: "escrow_inv rt ls" and placed: "placed_inv rt T ls" and T: "inj_on (taker_state_key rt) T"
    and i: "intents ls k = Some i"
  obtains d l t where "ending_context rt ls k = Inr (i, d, l, t)" "locks_intent i l" "ts_taker t = i_owner i"
proof -
  obtain l where l: "intent_locks ls (lock_addr rt i) = Some l" "locks_intent i l"
    using inv i unfolding escrow_inv_def intents_locked_def by blast
  have "1 \<le> held_count (intent_locks ls) (i_deposit i)"
    using lock_counted [of "intent_locks ls" "lock_addr rt i" l] l by (simp add: locks_intent_def)
  then obtain d where d: "deposits ls (i_deposit i) = Some d"
    using inv by (cases "deposits ls (i_deposit i)") (auto simp: escrow_inv_def escrow_books_def at_def dest: spec [of _ "i_deposit i"])
  obtain t where t: "taker_states ls (taker_state_key rt (i_owner i)) = Some t"
    using intent_counted [of rt "intents ls" "taker_states ls" k i] inv i by (auto simp: escrow_inv_def)
  have "taker_placed rt T (taker_state_key rt (i_owner i)) t" "intent_placed rt T k i" "lock_placed rt l"
    using placed t i l by (auto simp: placed_inv_def)
  moreover from this have own: "ts_taker t = i_owner i"
    using T by (auto simp: taker_placed_def intent_placed_def inj_on_def)
  moreover obtain oc where "orchestrator_config ls = Some oc" "oc_bump oc = pda_bump rt [ORCHESTRATOR_CONFIG_SEED]"
    using placed i by (cases "orchestrator_config ls") (auto simp: placed_inv_def orchestrator_placed_def)
  ultimately have "ending_context rt ls k = Inr (i, d, l, t)"
    using i d l t
    by (simp add: ending_context_def orchestrator_account_def taker_placed_def intent_placed_def lock_placed_def
        locks_intent_def lock_addr_def account_def seeds_bump_def constraint_def require_def)
  with l(2) own that show thesis by blast
qed

lemma end_intent_succeeds:
  assumes inv: "escrow_inv rt ls" and ctx: "ending_context rt ls k = Inr (i, d, l, t)"
  obtains ls' d' where "end_intent rt ls k i d l t = Inr ls'" "intents ls' = (intents ls)(k := None)"
    "deposits ls' (i_deposit i) = Some d'" "deposit_avail d' = deposit_avail d + unat (el_amount l)"
proof -
  note c = ending_context_Inr [OF ctx]
  have books: "at deposit_held (deposits ls) (i_deposit i) = held_on (intent_locks ls) (i_deposit i)"
      "at active (deposits ls) (i_deposit i) = held_count (intent_locks ls) (i_deposit i)"
    using inv by (simp_all add: escrow_inv_def escrow_books_def)
  have el: "el_deposit l = i_deposit i"
    using inv lockedD [of rt "intents ls" "intent_locks ls" k i l] c(1,3) by (simp add: escrow_inv_def locks_intent_def)
  have "unat (el_amount l) \<le> deposit_held d" "0 < unat (d_active_intents d)"
    using books c(2,3) lock_counted [of "intent_locks ls" "lock_addr rt i" l] el by (simp_all add: at_def)
  moreover have "deposit_ok d"
  proof -
    obtain tk :: TokenAccount where "deposit_avail d + deposit_held d \<le> unat (tk_amount tk)"
      using inv c(2) by (auto simp: escrow_inv_def elim: custodyD)
    with unat_bound [of "tk_amount tk"] show ?thesis by (simp add: deposit_ok_def)
  qed
  ultimately obtain d' where u: "Deposit_unlock d (el_amount l) = Inr d'" using Deposit_unlock_succeeds by blast
  have "0 < unat (ts_active_intents t)"
    using intent_counted [of rt "intents ls" "taker_states ls" k i] inv c(1,4) by (auto simp: escrow_inv_def)
  then obtain n where "checked_sub (ts_active_intents t) 1 = Some n" using checked_sub_ex [of 1 "ts_active_intents t"] by auto
  with u have "end_intent rt ls k i d l t = Inr (ls\<lparr>deposits := (deposits ls)(i_deposit i \<mapsto> d'),
      taker_states := (taker_states ls)(taker_state_key rt (i_owner i) \<mapsto> t\<lparr>ts_active_intents := n\<rparr>),
      intents := (intents ls)(k := None), intent_locks := (intent_locks ls)(lock_addr rt i := None)\<rparr>)"
    by (simp add: end_intent_def lock_addr_def)
  then show thesis using that Deposit_unlock_Inr(2) [OF u] by simp
qed

text \<open>Both together, for a reachable ledger in any environment.\<close>

lemma reached_intent_ends:
  assumes rt: "sound_runtime rt H" and es: "list_all (ordinary H) es" and T: "inj_on (taker_state_key rt) (signallers es)"
    and ls: "ls = reached rt ms ts es" and i: "intents ls k = Some i"
  obtains d l t ls' d' where "ending_context (in_env rt env) ls k = Inr (i, d, l, t)" "locks_intent i l" "ts_taker t = i_owner i"
    "i_orchestrator i = orchestrator_config_key rt" "deposits ls (i_deposit i) = Some d"
    "intent_locks ls (lock_addr rt i) = Some l" "end_intent (in_env rt env) ls k i d l t = Inr ls'" "intents ls' k = None"
    "deposits ls' (i_deposit i) = Some d'" "deposit_avail d' = deposit_avail d + unat (i_amount i)"
proof -
  let ?rt = "in_env rt env"
  have "protocol_inv ?rt H ls" using run_protocol_inv [OF rt es] ls by simp
  then have inv: "escrow_inv ?rt ls" unfolding protocol_inv_def by blast
  have placed: "placed_inv ?rt (signallers es) ls" using reached_placed [of rt es ms ts] ls by simp
  from T have "inj_on (taker_state_key ?rt) (signallers es)" by simp
  from open_intent_context [OF inv placed this i] obtain d l t where ctx: "ending_context ?rt ls k = Inr (i, d, l, t)"
      and l: "locks_intent i l" "ts_taker t = i_owner i" by blast
  from end_intent_succeeds [OF inv ctx] obtain ls' d' where e: "end_intent ?rt ls k i d l t = Inr ls'"
      "intents ls' = (intents ls)(k := None)" "deposits ls' (i_deposit i) = Some d'"
      "deposit_avail d' = deposit_avail d + unat (el_amount l)" by blast
  have "i_orchestrator i = orchestrator_config_key rt" using placed i by (simp add: placed_inv_def intent_placed_def)
  with that [OF ctx l] e ending_context_Inr [OF ctx] l(1) show thesis by (simp add: locks_intent_def lock_addr_def)
qed

end
