(* ===== verification/Coverage.thy ===== *)
theory Coverage
  imports Placement
begin

text \<open>
  What stands behind a covered intent. Over ordinary histories the dispute configuration and the stake vault are wired to
  each other, every stake position and every dispute lies where the instructions look for it, the position of a dispute
  belongs to its stake owner, and an open covered intent has the dispute of its own hash, deposit, taker and amount,
  which is pending until the owner cancels it. This is what makes ending a covered intent, and releasing matured
  collateral, always possible.
\<close>

definition wiring_placed :: "runtime \<Rightarrow> ledger \<Rightarrow> bool" where
  "wiring_placed rt ls \<longleftrightarrow> dispute_config ls = None \<and> dispute_intents ls = Map.empty \<or>
     (\<exists>c v. dispute_config ls = Some c \<and> dg_bump c = pda_bump rt [DISPUTE_CONFIG_SEED] \<and>
        dg_stake_vault c = stake_vault_config_key rt \<and> stake_vault_config ls = Some v \<and>
        sv_bump v = pda_bump rt [STAKE_VAULT_CONFIG_SEED])"

definition position_placed :: "runtime \<Rightarrow> StakePosition \<Rightarrow> bool" where
  "position_placed rt p \<longleftrightarrow> sp_owner p \<noteq> 0 \<and> sp_bump p = pda_bump rt (position_seeds rt (sp_owner p))"

definition dispute_placed :: "runtime \<Rightarrow> (pubkey \<rightharpoonup> StakePosition) \<Rightarrow> (pubkey \<rightharpoonup> StakeLock) \<Rightarrow> DisputeIntent \<Rightarrow> bool" where
  "dispute_placed rt ps lks d \<longleftrightarrow> di_dispute_config d = dispute_config_key rt \<and>
     di_bump d = pda_bump rt (dispute_intent_seeds (dispute_config_key rt) (di_intent_hash d)) \<and>
     (\<exists>p. ps (position_key rt (di_stake_owner d)) = Some p \<and> sp_owner p = di_stake_owner d) \<and>
     (\<forall>l. live d \<longrightarrow> lks (stake_lock_key rt (di_intent_hash d)) = Some l \<longrightarrow>
        sl_bump l = pda_bump rt (stake_lock_seeds rt (di_intent_hash d)))"

definition collateral_placed ::
  "runtime \<Rightarrow> (pubkey \<rightharpoonup> StakePosition) \<Rightarrow> (pubkey \<rightharpoonup> DisputeIntent) \<Rightarrow> (pubkey \<rightharpoonup> StakeLock) \<Rightarrow> bool" where
  "collateral_placed rt ps dis lks \<longleftrightarrow> (\<forall>k p. ps k = Some p \<longrightarrow> position_placed rt p) \<and>
     (\<forall>k d. dis k = Some d \<longrightarrow> dispute_placed rt ps lks d)"

definition stands_behind :: "DisputeIntent \<Rightarrow> Intent \<Rightarrow> bool" where
  "stands_behind d i \<longleftrightarrow> di_intent_hash d = i_intent_hash i \<and> di_deposit d = i_deposit i \<and> di_taker d = i_owner i \<and>
     di_locked_amount d = i_amount i \<and> (di_status d = Pending \<or> di_status d = Cancelled)"

definition intents_covered :: "runtime \<Rightarrow> (pubkey \<rightharpoonup> Intent) \<Rightarrow> (pubkey \<rightharpoonup> DisputeIntent) \<Rightarrow> bool" where
  "intents_covered rt ints dis \<longleftrightarrow> (\<forall>k i. ints k = Some i \<longrightarrow> i_dispute_covered i \<longrightarrow>
     (\<exists>d. dis (dispute_addr rt (i_intent_hash i)) = Some d \<and> stands_behind d i))"

definition coverage_inv :: "runtime \<Rightarrow> ledger \<Rightarrow> bool" where
  "coverage_inv rt ls \<longleftrightarrow> wiring_placed rt ls \<and>
     collateral_placed rt (stake_positions ls) (dispute_intents ls) (stake_locks ls) \<and>
     intents_covered rt (intents ls) (dispute_intents ls)"

lemma coverage_env [simp]: "coverage_inv (in_env rt env) = coverage_inv rt"
proof -
  have "position_seeds (in_env rt env) = position_seeds rt" "stake_lock_seeds (in_env rt env) = stake_lock_seeds rt"
    by (simp_all add: fun_eq_iff position_seeds_def stake_lock_seeds_def)
  then show ?thesis
    by (simp add: fun_eq_iff coverage_inv_def wiring_placed_def collateral_placed_def position_placed_def dispute_placed_def
        intents_covered_def)
qed

subsection \<open>Shapes of change\<close>

text \<open>Positions are never closed and keep owner and bump; locks keep their bump.\<close>

definition positions_kept :: "(pubkey \<rightharpoonup> StakePosition) \<Rightarrow> (pubkey \<rightharpoonup> StakePosition) \<Rightarrow> bool" where
  "positions_kept ps ps' \<longleftrightarrow>
     (\<forall>k p. ps k = Some p \<longrightarrow> (\<exists>p'. ps' k = Some p' \<and> sp_owner p' = sp_owner p \<and> sp_bump p' = sp_bump p))"

lemma positions_kept_refl [simp]: "positions_kept ps ps"
  by (simp add: positions_kept_def)

lemma positions_kept_put:
  "ps k = Some p \<Longrightarrow> sp_owner p' = sp_owner p \<Longrightarrow> sp_bump p' = sp_bump p \<Longrightarrow> positions_kept ps (ps(k \<mapsto> p'))"
  by (simp add: positions_kept_def)

lemma StakePosition_identity:
  "StakePosition_lock p a = Inr p' \<Longrightarrow> sp_owner p' = sp_owner p \<and> sp_bump p' = sp_bump p"
  "StakePosition_unlock p a = Inr p' \<Longrightarrow> sp_owner p' = sp_owner p \<and> sp_bump p' = sp_bump p"
  "StakePosition_resolve p a b = Inr p' \<Longrightarrow> sp_owner p' = sp_owner p \<and> sp_bump p' = sp_bump p"
  by (auto simp: StakePosition_lock_def StakePosition_unlock_def StakePosition_resolve_def result_simps)

lemma dispute_placed_mono:
  assumes "dispute_placed rt ps lks d" and "positions_kept ps ps'"
    and "\<And>l'. lks' (stake_lock_key rt (di_intent_hash d)) = Some l' \<Longrightarrow>
      \<exists>l. lks (stake_lock_key rt (di_intent_hash d)) = Some l \<and> sl_bump l' = sl_bump l"
  shows "dispute_placed rt ps' lks' d"
proof -
  from assms(1) obtain p where "ps (position_key rt (di_stake_owner d)) = Some p" "sp_owner p = di_stake_owner d"
    by (auto simp: dispute_placed_def)
  then have "\<exists>p'. ps' (position_key rt (di_stake_owner d)) = Some p' \<and> sp_owner p' = di_stake_owner d"
    using assms(2) unfolding positions_kept_def by metis
  with assms(1,3) show ?thesis unfolding dispute_placed_def by metis
qed

lemma collateral_positions:
  assumes "collateral_placed rt ps dis lks" and "positions_kept ps ps'" and "\<forall>k p. ps' k = Some p \<longrightarrow> position_placed rt p"
  shows "collateral_placed rt ps' dis lks"
  using assms dispute_placed_mono [of rt ps lks _ ps' lks] unfolding collateral_placed_def by blast

text \<open>A dispute advances, its position changes amounts, its lock shrinks or goes.\<close>

definition same_dispute :: "DisputeIntent \<Rightarrow> DisputeIntent \<Rightarrow> bool" where
  "same_dispute d d' \<longleftrightarrow> di_dispute_config d' = di_dispute_config d \<and> di_bump d' = di_bump d \<and>
     di_intent_hash d' = di_intent_hash d \<and> di_stake_owner d' = di_stake_owner d \<and> (live d' \<longrightarrow> live d)"

lemma dispute_methods_same:
  "DisputeIntent_cancel d = Inr d' \<Longrightarrow> same_dispute d d'"
  "DisputeIntent_settle d a now = Inr (d', t) \<Longrightarrow> same_dispute d d'"
  "DisputeIntent_release d now = Inr (d', b) \<Longrightarrow> same_dispute d d'"
  "DisputeIntent_dispute d = Inr (d', b) \<Longrightarrow> same_dispute d d'"
  by (auto simp: dispute_method_defs result_simps same_dispute_def live_def)

lemma collateral_advance:
  assumes c: "collateral_placed rt ps dis lks" and d: "dis k = Some d" "same_dispute d d'"
    and p: "ps j = Some p" "sp_owner p' = sp_owner p \<and> sp_bump p' = sp_bump p"
    and lks: "\<And>n l'. lks' n = Some l' \<Longrightarrow> \<exists>l. lks n = Some l \<and> sl_bump l' = sl_bump l"
  shows "collateral_placed rt (ps(j \<mapsto> p')) (dis(k \<mapsto> d')) lks'"
proof -
  have kept: "positions_kept ps (ps(j \<mapsto> p'))" using p by (intro positions_kept_put) auto
  have "position_placed rt p" using c p(1) by (auto simp: collateral_placed_def)
  then have "position_placed rt p'" using p(2) by (simp add: position_placed_def)
  then have ps: "\<forall>n q. (ps(j \<mapsto> p')) n = Some q \<longrightarrow> position_placed rt q" using c by (auto simp: collateral_placed_def)
  have dis: "dispute_placed rt (ps(j \<mapsto> p')) lks' e" if "dis n = Some e" for n e
    using c that by (intro dispute_placed_mono [OF _ kept, of rt lks e lks'] lks) (auto simp: collateral_placed_def)
  have "dispute_placed rt (ps(j \<mapsto> p')) lks' d'" using dis [OF d(1)] d(2) by (auto simp: dispute_placed_def same_dispute_def)
  with ps dis show ?thesis unfolding collateral_placed_def by (metis fun_upd_apply option.inject)
qed

lemma collateral_open:
  assumes c: "collateral_placed rt ps dis lks" and b: "dispute_backing rt H dis lks"
    and none: "lks j = None" "j = stake_lock_key rt (di_intent_hash d)"
    and p: "ps (position_key rt (di_stake_owner d)) = Some p" "sp_owner p = di_stake_owner d"
      "sp_owner p' = sp_owner p \<and> sp_bump p' = sp_bump p"
    and d: "di_dispute_config d = dispute_config_key rt"
      "di_bump d = pda_bump rt (dispute_intent_seeds (dispute_config_key rt) (di_intent_hash d))"
    and l: "sl_bump l = pda_bump rt (stake_lock_seeds rt (di_intent_hash d))"
  shows "collateral_placed rt (ps(position_key rt (di_stake_owner d) \<mapsto> p')) (dis(k \<mapsto> d)) (lks(j \<mapsto> l))"
proof -
  let ?ps = "ps(position_key rt (di_stake_owner d) \<mapsto> p')" and ?lks = "lks(j \<mapsto> l)"
  have kept: "positions_kept ps ?ps" using p by (intro positions_kept_put) auto
  have "position_placed rt p" using c p(1) by (auto simp: collateral_placed_def)
  then have "position_placed rt p'" using p(3) by (simp add: position_placed_def)
  then have ps: "\<forall>n q. ?ps n = Some q \<longrightarrow> position_placed rt q" using c by (auto simp: collateral_placed_def)
  have new: "dispute_placed rt ?ps ?lks d" using p d l none(2) by (simp add: dispute_placed_def)
  have old: "dispute_placed rt ?ps ?lks e" if e: "dis n = Some e" for n e
  proof (cases "live e")
    case True
    then have "stake_lock_key rt (di_intent_hash e) \<noteq> j" using backing_lock [OF b e] none(1) by auto
    moreover have "dispute_placed rt ps lks e" using c e by (auto simp: collateral_placed_def)
    ultimately show ?thesis using dispute_placed_mono [OF _ kept, of rt lks e ?lks] by simp
  next
    case False
    moreover have "dispute_placed rt ?ps lks e" using dispute_placed_mono [OF _ kept, of rt lks e lks] c e
      by (auto simp: collateral_placed_def)
    ultimately show ?thesis by (simp add: dispute_placed_def)
  qed
  from ps new old show ?thesis unfolding collateral_placed_def by (metis fun_upd_apply option.inject)
qed

text \<open>Cover of the intents: fewer intents, an unrelated dispute, a dispute that is cancelled, and the settlement of the only
  intent that a dispute covers.\<close>

lemma covered_fewer: "intents_covered rt ints dis \<Longrightarrow> ints' \<subseteq>\<^sub>m ints \<Longrightarrow> intents_covered rt ints' dis"
  unfolding intents_covered_def using map_le_Some by fast

lemma coveredD:
  assumes "intents_covered rt ints dis" and "ints k = Some i" and "i_dispute_covered i"
  obtains d where "dis (dispute_addr rt (i_intent_hash i)) = Some d" "stands_behind d i"
  using assms unfolding intents_covered_def by blast

lemma coveredI:
  "(\<And>k i. ints k = Some i \<Longrightarrow> i_dispute_covered i \<Longrightarrow> \<exists>d. dis (dispute_addr rt (i_intent_hash i)) = Some d \<and> stands_behind d i) \<Longrightarrow>
     intents_covered rt ints dis"
  unfolding intents_covered_def by blast

lemma covered_other:
  assumes cov: "intents_covered rt ints dis" and k: "\<And>d. dis k = Some d \<Longrightarrow> di_status d \<noteq> Pending \<and> di_status d \<noteq> Cancelled"
  shows "intents_covered rt ints (dis(k \<mapsto> d'))"
proof (rule coveredI)
  fix n i
  assume "ints n = Some i" "i_dispute_covered i"
  with cov show "\<exists>d. (dis(k \<mapsto> d')) (dispute_addr rt (i_intent_hash i)) = Some d \<and> stands_behind d i"
    by (rule coveredD) (use k in \<open>auto simp: stands_behind_def\<close>)
qed

lemma covered_cancel:
  assumes cov: "intents_covered rt ints dis" and d: "dis k = Some d" "DisputeIntent_cancel d = Inr d'"
  shows "intents_covered rt ints (dis(k \<mapsto> d'))"
proof (rule coveredI)
  fix n i
  assume "ints n = Some i" "i_dispute_covered i"
  with cov show "\<exists>e. (dis(k \<mapsto> d')) (dispute_addr rt (i_intent_hash i)) = Some e \<and> stands_behind e i"
    by (rule coveredD) (use d in \<open>auto simp: stands_behind_def DisputeIntent_cancel_def result_simps\<close>)
qed

lemma covered_unique:
  assumes cov: "intents_covered rt ints dis" and locked: "intents_locked rt ints lks"
    and inj: "inj_on (dispute_addr rt) H" and H: "\<forall>n j. ints n = Some j \<longrightarrow> i_intent_hash j \<in> H"
    and i: "ints k = Some i" "i_dispute_covered i" and j: "ints n = Some j" "i_dispute_covered j"
    and same: "dispute_addr rt (i_intent_hash j) = dispute_addr rt (i_intent_hash i)"
  shows "n = k"
proof -
  have "i_intent_hash j = i_intent_hash i" using inj H i(1) j(1) same by (meson inj_onD)
  moreover have "i_deposit j = i_deposit i"
    using coveredD [OF cov i] coveredD [OF cov j] same by (metis option.inject stands_behind_def)
  ultimately have "lock_addr rt j = lock_addr rt i" by (simp add: lock_addr_def)
  with locked i(1) j(1) show ?thesis unfolding intents_locked_def by blast
qed

lemma covered_settle:
  assumes cov: "intents_covered rt ints dis" and locked: "intents_locked rt ints lks"
    and inj: "inj_on (dispute_addr rt) H" and H: "\<forall>n j. ints n = Some j \<longrightarrow> i_intent_hash j \<in> H"
    and i: "ints k = Some i" "i_dispute_covered i"
  shows "intents_covered rt (ints(k := None)) (dis(dispute_addr rt (i_intent_hash i) \<mapsto> d'))"
proof (rule coveredI)
  fix n j
  assume "(ints(k := None)) n = Some j" and j: "i_dispute_covered j"
  then have n: "ints n = Some j" "n \<noteq> k" by (auto split: if_splits)
  from cov n(1) j show "\<exists>d. (dis(dispute_addr rt (i_intent_hash i) \<mapsto> d')) (dispute_addr rt (i_intent_hash j)) = Some d \<and>
      stands_behind d j"
    by (rule coveredD) (use covered_unique [OF cov locked inj H i n(1) j] n(2) in auto)
qed

subsection \<open>Instructions\<close>

lemma wiring_kept:
  assumes "wiring_placed rt ls" and "dispute_config ls' = dispute_config ls"
    and "map_option sv_bump (stake_vault_config ls') = map_option sv_bump (stake_vault_config ls)"
    and "dispute_config ls = None \<Longrightarrow> dispute_intents ls = Map.empty \<Longrightarrow> dispute_intents ls' = Map.empty"
  shows "wiring_placed rt ls'"
  using assms unfolding wiring_placed_def by (cases "dispute_config ls") auto

lemma governance_step_config:
  assumes "governance_step rt ls i = Inr ls'" and "\<And>a pd d sh m args. i \<noteq> Initialize_protocol a pd d sh m args"
  shows "dispute_config ls' = dispute_config ls \<and>
    map_option sv_bump (stake_vault_config ls') = map_option sv_bump (stake_vault_config ls)"
proof (cases i)
  case (Initialize_protocol a pd d sh m args)
  with assms(2) show ?thesis by blast
qed (use assms(1) in \<open>auto simp: handle_propose_protocol_authority_def handle_accept_protocol_authority_def
      handle_configure_orchestrator_def handle_configure_escrow_def handle_propose_stake_controller_def
      handle_accept_stake_controller_def result_simps split: option.splits\<close>)

lemma governance_step_wiring:
  assumes inv: "wiring_placed rt ls" and run: "governance_step rt ls i = Inr ls'"
  shows "wiring_placed rt ls'"
proof (cases "\<exists>a pd d sh m args. i = Initialize_protocol a pd d sh m args")
  case True
  with run have "\<exists>c v. dispute_config ls' = Some c \<and> dg_bump c = pda_bump rt [DISPUTE_CONFIG_SEED] \<and>
        dg_stake_vault c = stake_vault_config_key rt \<and> stake_vault_config ls' = Some v \<and>
        sv_bump v = pda_bump rt [STAKE_VAULT_CONFIG_SEED]"
    by (auto simp: handle_initialize_protocol_def check_initialize_args_def result_simps Let_def)
  then show ?thesis by (simp add: wiring_placed_def)
next
  case False
  moreover have "dispute_intents ls' = dispute_intents ls" by (subst governance_step_frame [OF run], simp)
  ultimately show ?thesis using wiring_kept [OF inv] governance_step_config [OF run] by auto
qed

lemma stake_step_vault_bump:
  assumes "stake_step rt ls i = Inr ls'"
  shows "map_option sv_bump (stake_vault_config ls') = map_option sv_bump (stake_vault_config ls)"
  using assms
  by (cases i) (auto simp: handle_initialize_stake_token_vault_def handle_deposit_stake_def handle_withdraw_stake_def
      handle_claim_stake_def handle_set_taker_authorization_def handle_select_stake_owner_def handle_clear_stake_owner_def
      handle_controller_lock_stake_def handle_controller_fund_lock_def handle_increase_stake_lock_def
      handle_resize_stake_lock_def handle_controller_unlock_stake_def handle_initialize_claim_balance_def
      handle_resolve_stake_lock_def result_simps Let_def)

text \<open>A stake instruction opens a position only for a nonzero owner, and only deposits and controller funding open one.\<close>

lemma deposit_stake_positions:
  assumes "handle_deposit_stake rt ls owner t tp a = Inr ls'" and "owner \<noteq> 0"
    and ok: "\<forall>k p. stake_positions ls k = Some p \<longrightarrow> position_placed rt p"
  shows "positions_kept (stake_positions ls) (stake_positions ls') \<and> (\<forall>k p. stake_positions ls' k = Some p \<longrightarrow> position_placed rt p)"
proof -
  let ?k = "position_key rt owner"
  let ?p = "init_if_needed (stake_positions ls ?k) zero_position"
  from assms(1) obtain b where ls': "stake_positions ls' = (stake_positions ls)(?k \<mapsto>
      (if sp_owner ?p = 0 then ?p\<lparr>sp_vault := stake_vault_config_key rt, sp_owner := owner,
         sp_bump := pda_bump rt (position_seeds rt owner)\<rparr> else ?p)\<lparr>sp_balance := b\<rparr>)"
    by (auto simp: handle_deposit_stake_def Let_def result_simps simp del: if_split_asm)
  show ?thesis
  proof (cases "stake_positions ls ?k")
    case None
    with ok assms(2) show ?thesis by (simp add: ls' positions_kept_def position_placed_def zero_position_def)
  next
    case (Some p)
    with ok have "position_placed rt p" by blast
    with Some ok show ?thesis by (auto simp: ls' positions_kept_def position_placed_def)
  qed
qed

lemma stake_step_positions:
  assumes run: "stake_step rt ls i = Inr ls'" and signer: "\<And>s. signer (Stake i) = Some s \<Longrightarrow> s \<noteq> 0 \<and> s \<noteq> dispute_config_key rt"
    and ctrl: "\<And>v. stake_vault_config ls = Some v \<Longrightarrow> sv_controller v = dispute_config_key rt"
    and ok: "\<forall>k p. stake_positions ls k = Some p \<longrightarrow> position_placed rt p"
  shows "positions_kept (stake_positions ls) (stake_positions ls') \<and> (\<forall>k p. stake_positions ls' k = Some p \<longrightarrow> position_placed rt p)"
proof (cases i)
  case (Deposit_stake s t tp a)
  with run signer deposit_stake_positions [OF _ _ ok, of s t tp a ls'] show ?thesis by simp
next
  case (Withdraw_stake s t tp a)
  with run obtain p b where p: "stake_positions ls (position_key rt s) = Some p"
      "stake_positions ls' = (stake_positions ls)(position_key rt s \<mapsto> p\<lparr>sp_balance := b\<rparr>)"
    by (auto simp: handle_withdraw_stake_def result_simps)
  from ok p(1) have "position_placed rt p" by blast
  with ok p show ?thesis by (auto simp: positions_kept_def position_placed_def)
qed (use run signer ctrl ok in \<open>auto simp: handle_initialize_stake_token_vault_def
      handle_claim_stake_def handle_set_taker_authorization_def handle_select_stake_owner_def handle_clear_stake_owner_def
      handle_controller_lock_stake_def handle_controller_fund_lock_def handle_increase_stake_lock_def
      handle_resize_stake_lock_def handle_controller_unlock_stake_def handle_initialize_claim_balance_def
      handle_resolve_stake_lock_def manage_stake_lock_def result_simps Let_def\<close>)

lemma stake_step_coverage:
  assumes inv: "coverage_inv rt ls" and d: "dispute_inv rt H ls"
    and signer: "\<And>s. signer (Stake i) = Some s \<Longrightarrow> s \<noteq> 0 \<and> s \<noteq> dispute_config_key rt" and run: "stake_step rt ls i = Inr ls'"
  shows "coverage_inv rt ls'"
proof -
  have ctrl: "\<And>v. stake_vault_config ls = Some v \<Longrightarrow> sv_controller v = dispute_config_key rt" using d by (simp add: dispute_inv_def)
  have "dispute_intents ls' = dispute_intents ls" "intents ls' = intents ls" "dispute_config ls' = dispute_config ls"
    by (subst stake_step_frame [OF run], simp)+
  moreover have "stake_locks ls' = stake_locks ls" using stake_step_locks [OF run _ ctrl] signer by auto
  moreover note stake_step_positions [OF run signer ctrl] stake_step_vault_bump [OF run]
  ultimately show ?thesis
    using inv wiring_kept [of rt ls ls'] collateral_positions [of rt "stake_positions ls" "dispute_intents ls" "stake_locks ls" "stake_positions ls'"]
    by (auto simp: coverage_inv_def collateral_placed_def)
qed

text \<open>The instructions that advance one dispute, with its position and its lock.\<close>

lemma coverage_advance:
  assumes inv: "coverage_inv rt ls" and d: "dispute_intents ls k = Some d" "same_dispute d d'"
    and p: "stake_positions ls j = Some p" "sp_owner p' = sp_owner p \<and> sp_bump p' = sp_bump p"
    and lks: "\<And>n l'. lks n = Some l' \<Longrightarrow> \<exists>l. stake_locks ls n = Some l \<and> sl_bump l' = sl_bump l"
    and cov: "intents_covered rt (intents ls') ((dispute_intents ls)(k \<mapsto> d'))"
    and ls': "dispute_intents ls' = (dispute_intents ls)(k \<mapsto> d')" "stake_positions ls' = (stake_positions ls)(j \<mapsto> p')"
      "stake_locks ls' = lks" "dispute_config ls' = dispute_config ls"
      "map_option sv_bump (stake_vault_config ls') = map_option sv_bump (stake_vault_config ls)"
  shows "coverage_inv rt ls'"
proof -
  have c: "collateral_placed rt (stake_positions ls) (dispute_intents ls) (stake_locks ls)" using inv by (simp add: coverage_inv_def)
  from collateral_advance [OF c d p, of lks] lks
  have "collateral_placed rt (stake_positions ls') (dispute_intents ls') (stake_locks ls')" by (simp add: ls')
  moreover have "wiring_placed rt ls'"
    by (rule wiring_kept [of rt ls]) (use inv d(1) in \<open>auto simp: coverage_inv_def ls'\<close>)
  ultimately show ?thesis using cov by (simp add: coverage_inv_def ls')
qed

lemma prepare_dispute_coverage:
  assumes inv: "coverage_inv rt ls" and b: "dispute_inv rt H ls"
    and run: "handle_prepare_dispute rt ls taker k setting sel so args = Inr ls'"
  shows "coverage_inv rt ls'"
  using run
proof (rule prepare_dispute_Inr)
  fix oc config d ds and risk :: RiskWindow and selected p p' v
  let ?h = "pda_expected_intent_hash args"
  let ?d = "new_dispute_intent rt taker k d so (rw_seconds risk) args" and ?l = "new_stake_lock rt ?h so (pda_amount args) NEVER_MATURES"
  assume ctx: "prepare_context rt ls taker k setting sel so args = Inr (oc, config, d, ds, risk, selected, p)"
    and p: "stake_positions ls (position_key rt so) = Some p" "sp_owner p = so" "StakePosition_lock p (pda_amount args) = Inr p'"
    and none: "stake_locks ls (stake_lock_key rt ?h) = None" "dispute_intents ls (dispute_addr rt ?h) = None"
    and ls': "ls' = ls\<lparr>stake_positions := (stake_positions ls)(position_key rt so \<mapsto> p'),
       stake_locks := (stake_locks ls)(stake_lock_key rt ?h \<mapsto> ?l),
       dispute_intents := (dispute_intents ls)(dispute_addr rt ?h \<mapsto> ?d)\<rparr>"
  have config: "dispute_config ls \<noteq> None" using ctx by (auto simp: prepare_context_def orchestrator_account_def result_simps)
  have "wiring_placed rt ls'"
    by (rule wiring_kept [of rt ls]) (use inv config in \<open>auto simp: coverage_inv_def ls'\<close>)
  moreover have "collateral_placed rt (stake_positions ls') (dispute_intents ls') (stake_locks ls')"
  proof -
    have new: "di_stake_owner ?d = so" "di_intent_hash ?d = ?h" "di_dispute_config ?d = dispute_config_key rt"
        "di_bump ?d = pda_bump rt (dispute_intent_seeds (dispute_config_key rt) ?h)" "sl_bump ?l = pda_bump rt (stake_lock_seeds rt ?h)"
      by (simp_all add: new_dispute_intent_def new_stake_lock_def)
    have "collateral_placed rt ((stake_positions ls)(position_key rt (di_stake_owner ?d) \<mapsto> p'))
        ((dispute_intents ls)(dispute_addr rt ?h \<mapsto> ?d)) ((stake_locks ls)(stake_lock_key rt ?h \<mapsto> ?l))"
      by (rule collateral_open [where H = H and p = p])
        (use inv b p none StakePosition_identity(1) [OF p(3)] in \<open>simp_all only: new coverage_inv_def dispute_inv_def\<close>)
    then show ?thesis by (simp add: ls' new)
  qed
  moreover have "intents_covered rt (intents ls') (dispute_intents ls')"
    using covered_other [of rt "intents ls" "dispute_intents ls" "dispute_addr rt ?h"] inv none by (simp add: coverage_inv_def ls')
  ultimately show ?thesis by (simp add: coverage_inv_def)
qed

lemma cancel_dispute_coverage:
  assumes inv: "coverage_inv rt ls" and run: "handle_cancel_dispute rt ls s ik dk = Inr ls'"
  shows "coverage_inv rt ls'"
  using run
proof (rule cancel_dispute_Inr)
  fix i v dis p l dis' p'
  assume dis: "dispute_intents ls dk = Some dis" "DisputeIntent_cancel dis = Inr dis'"
    and p: "stake_positions ls (position_key rt (di_stake_owner dis)) = Some p" "StakePosition_unlock p (sl_amount l) = Inr p'"
    and ls': "ls' = ls\<lparr>dispute_intents := (dispute_intents ls)(dk \<mapsto> dis'),
       stake_positions := (stake_positions ls)(position_key rt (di_stake_owner dis) \<mapsto> p'),
       stake_locks := (stake_locks ls)(stake_lock_key rt (i_intent_hash i) := None)\<rparr>"
  have "intents_covered rt (intents ls) ((dispute_intents ls)(dk \<mapsto> dis'))"
    using covered_cancel [of rt "intents ls" "dispute_intents ls" dk dis dis'] dis inv by (simp add: coverage_inv_def)
  then show ?thesis
    by (intro coverage_advance [OF inv dis(1) dispute_methods_same(1) [OF dis(2)] p(1) StakePosition_identity(2) [OF p(2)]])
      (auto simp: ls' split: if_splits)
qed

lemma release_matured_dispute_coverage:
  assumes inv: "coverage_inv rt ls" and run: "handle_release_matured_dispute rt ls dk = Inr ls'"
  shows "coverage_inv rt ls'"
  using run
proof (rule release_matured_dispute_Inr)
  fix v dis p l dis' a p'
  assume dis: "dispute_intents ls dk = Some dis" "DisputeIntent_release dis (unix_timestamp rt) = Inr (dis', a)"
    and p: "stake_positions ls (position_key rt (di_stake_owner dis)) = Some p" "StakePosition_unlock p (sl_amount l) = Inr p'"
    and ls': "ls' = ls\<lparr>dispute_intents := (dispute_intents ls)(dk \<mapsto> dis'),
       stake_positions := (stake_positions ls)(position_key rt (di_stake_owner dis) \<mapsto> p'),
       stake_locks := (stake_locks ls)(stake_lock_key rt (di_intent_hash dis) := None)\<rparr>"
  have "di_status dis = Settled" using dis(2) by (auto simp: DisputeIntent_release_def result_simps)
  with covered_other [of rt "intents ls" "dispute_intents ls" dk dis'] dis(1) inv
  have "intents_covered rt (intents ls) ((dispute_intents ls)(dk \<mapsto> dis'))" by (simp add: coverage_inv_def)
  then show ?thesis
    by (intro coverage_advance [OF inv dis(1) dispute_methods_same(3) [OF dis(2)] p(1) StakePosition_identity(2) [OF p(2)]])
      (auto simp: ls' split: if_splits)
qed

lemma submit_dispute_coverage:
  assumes inv: "coverage_inv rt ls" and run: "handle_submit_dispute rt ls args = Inr ls'"
  shows "coverage_inv rt ls'"
  using run
proof (rule submit_dispute_Inr)
  fix config verifier and dis :: DisputeIntent and b r v p l dis' p' s t m
  let ?k = "dispute_addr rt (da_intent_hash (sda_attestation args))"
  assume ctx: "submit_context rt ls args = Inr (config, verifier, dis, b, r, v, p, l)"
    and d: "DisputeIntent_dispute dis = Inr (dis', sl_amount l)" and p': "StakePosition_resolve p (sl_amount l) (sl_amount l) = Inr p'"
    and ls': "ls' = ls\<lparr>dispute_intents := (dispute_intents ls)(?k \<mapsto> dis'),
      stake_positions := (stake_positions ls)(position_key rt (di_stake_owner dis) \<mapsto> p'),
      stake_locks := (stake_locks ls)(stake_lock_key rt (da_intent_hash (sda_attestation args)) := None),
      stake_vault_config := Some (v\<lparr>sv_total_staked := s, sv_total_claimable := t\<rparr>),
      claim_balances := (claim_balances ls)(claim_key rt (di_depositor dis) \<mapsto>
        (prepared_claim rt (di_depositor dis)
          (init_if_needed (claim_balances ls (claim_key rt (di_depositor dis))) zero_claim))\<lparr>cb_amount := m\<rparr>),
      dispute_nullifiers := (dispute_nullifiers ls)
        (pda rt (dispute_nullifier_seeds rt (sda_expected_dispute_nullifier args)) \<mapsto> new_dispute_nullifier rt args)\<rparr>"
  from submit_context_Inr [OF ctx] have dis: "dispute_intents ls ?k = Some dis" and v: "stake_vault_config ls = Some v"
    and p: "stake_positions ls (position_key rt (di_stake_owner dis)) = Some p" by simp_all
  have "di_status dis = Settled" using d by (auto simp: DisputeIntent_dispute_def result_simps)
  with covered_other [of rt "intents ls" "dispute_intents ls" ?k dis'] dis inv
  have "intents_covered rt (intents ls) ((dispute_intents ls)(?k \<mapsto> dis'))" by (simp add: coverage_inv_def)
  then show ?thesis
    by (intro coverage_advance [OF inv dis dispute_methods_same(4) [OF d] p StakePosition_identity(3) [OF p']])
      (auto simp: ls' v split: if_splits)
qed

lemma dispute_instruction_step_coverage:
  assumes inv: "coverage_inv rt ls" and b: "dispute_inv rt H ls" and run: "dispute_instruction_step rt ls i = Inr ls'"
  shows "coverage_inv rt ls'"
proof (cases i)
  case (Prepare_dispute t k ds sel so args)
  with run prepare_dispute_coverage [OF inv b] show ?thesis by simp
next
  case (Cancel_dispute s ik dk)
  with run cancel_dispute_coverage [OF inv] show ?thesis by simp
next
  case (Release_matured_dispute dk)
  with run release_matured_dispute_coverage [OF inv] show ?thesis by simp
next
  case (Submit_dispute args)
  with run submit_dispute_coverage [OF inv] show ?thesis by simp
qed (use run inv in \<open>auto simp: handle_set_risk_window_def handle_set_dispute_admissions_paused_def
    handle_set_deposit_dispute_protection_def coverage_inv_def wiring_placed_def result_simps\<close>)

subsection \<open>Intents\<close>

lemma admitted_risk_window:
  assumes "validate_lifecycle_admission rt a = Inr ()" and "la_risk_window a = Some (key, w)" and "0 < sint (rw_seconds w)"
  shows "\<exists>k d. la_dispute_intent a = Some (k, d) \<and> k = dispute_addr rt (la_intent_hash a) \<and> di_status d = Pending \<and>
    di_intent_hash d = la_intent_hash a \<and> di_taker d = la_taker a \<and> di_locked_amount d = la_amount a \<and>
    di_deposit d = la_deposit a"
  using assms
  by (auto simp: validate_lifecycle_admission_def validate_dispute_admission_def no_dispute_evidence_def result_simps split: if_splits)

text \<open>A signal that is covered has found the pending dispute of its own terms.\<close>

lemma signal_checks_dispute:
  assumes "signal_checks rt ls taker accs args oc e d m c t = Inr (h, rm, rw)" and "covers rw"
  shows "\<exists>dis. dispute_intents ls (dispute_addr rt h) = Some dis \<and> di_status dis = Pending \<and>
    stands_behind dis (new_intent rt oc taker (ska_deposit accs) m h mt cv args)"
  using assms(1)
proof (rule signal_checks_Inr)
  fix quote entry floor adm
  assume adm: "signal_admission ls oc accs taker h args = Inr adm" "validate_lifecycle_admission rt adm = Inr ()"
    and rw: "rw = la_risk_window adm"
  obtain wk w where "la_risk_window adm = Some (wk, w)" "0 < sint (rw_seconds w)" using assms(2) rw by (auto split: option.splits)
  from admitted_risk_window [OF adm(2) this] obtain dk dis where
    "la_dispute_intent adm = Some (dk, dis)" "dk = dispute_addr rt (la_intent_hash adm)" "di_status dis = Pending"
    "di_intent_hash dis = la_intent_hash adm" "di_taker dis = la_taker adm" "di_locked_amount dis = la_amount adm"
    "di_deposit dis = la_deposit adm" by blast
  with adm(1) show ?thesis
    by (intro exI [of _ dis]) (auto simp: signal_admission_def stands_behind_def new_intent_def result_simps)
qed

lemma signal_intent_coverage:
  assumes inv: "coverage_inv rt ls" and run: "handle_signal_intent rt ls taker accs args = Inr ls'"
  shows "coverage_inv rt ls'"
proof -
  have frame: "dispute_config ls' = dispute_config ls" "stake_vault_config ls' = stake_vault_config ls"
      "stake_positions ls' = stake_positions ls"
    by (rule signal_intent_Inr [OF run]; auto)+
  from run show ?thesis
  proof (rule signal_intent_effect)
    fix oc e d m c h rm rw d' x nid
    let ?i = "new_intent rt oc taker (ska_deposit accs) m h (manager_terms rm) (covers rw) args"
    assume chk: "signal_checks rt ls taker accs args oc e d m c
         (init_if_needed (taker_states ls (taker_state_key rt taker)) zero_taker_state) = Inr (h, rm, rw)"
      and int: "intents ls' = (intents ls)(pda rt (intent_seeds rt (oc_next_intent_id oc)) \<mapsto> ?i)"
      and same: "dispute_intents ls' = dispute_intents ls" "stake_locks ls' = stake_locks ls"
    have i: "i_dispute_covered ?i = covers rw" "i_intent_hash ?i = h" by (simp_all add: new_intent_def)
    have "\<exists>dis. dispute_intents ls (dispute_addr rt (i_intent_hash ?i)) = Some dis \<and> stands_behind dis ?i" if "i_dispute_covered ?i"
      using signal_checks_dispute [OF chk, of "manager_terms rm" "covers rw"] that unfolding i by blast
    then have "intents_covered rt (intents ls') (dispute_intents ls)"
      using inv by (auto simp: coverage_inv_def intents_covered_def int)
    with inv frame same show ?thesis by (simp add: coverage_inv_def wiring_placed_def)
  qed
qed

lemma coverage_fewer:
  assumes "coverage_inv rt ls" and "intents ls' \<subseteq>\<^sub>m intents ls"
    and "dispute_config ls' = dispute_config ls" "stake_vault_config ls' = stake_vault_config ls" "dispute_intents ls' = dispute_intents ls"
      "stake_positions ls' = stake_positions ls" "stake_locks ls' = stake_locks ls"
  shows "coverage_inv rt ls'"
  using assms covered_fewer [of rt "intents ls" "dispute_intents ls" "intents ls'"] by (simp add: coverage_inv_def wiring_placed_def)

lemma end_intent_coverage:
  assumes inv: "coverage_inv rt ls" and run: "end_intent rt ls ik i d l t = Inr ls'"
  shows "coverage_inv rt ls'"
  by (rule coverage_fewer [OF inv]) (use end_intent_shrinks [OF run] in \<open>auto intro: end_intent_frame [OF run]\<close>)

lemma prune_dispute_coverage:
  assumes inv: "coverage_inv rt ls" and di: "opt_account (dispute_intents ls) dk = Inr di" "opt_account (stake_positions ls) pk = Inr pos"
    and run: "prune_dispute rt ls h config di vault pos lk = Inr ls'"
  shows "coverage_inv rt ls'"
  using run
proof (rule prune_dispute_full)
  fix dis p l dis' p' pk'
  assume "di = Some (dispute_addr rt h, dis)" "pos = Some (pk', p)" and c: "DisputeIntent_cancel dis = Inr dis'"
    and p': "StakePosition_unlock p (sl_amount l) = Inr p'"
    and ls': "ls' = ls\<lparr>dispute_intents := (dispute_intents ls)(dispute_addr rt h \<mapsto> dis'),
       stake_positions := (stake_positions ls)(pk' \<mapsto> p'), stake_locks := (stake_locks ls)(stake_lock_key rt h := None)\<rparr>"
  with di have d: "dispute_intents ls (dispute_addr rt h) = Some dis" "stake_positions ls pk' = Some p" by (simp_all add: opt_account_Some)
  have "intents_covered rt (intents ls) ((dispute_intents ls)(dispute_addr rt h \<mapsto> dis'))"
    using covered_cancel [of rt "intents ls" "dispute_intents ls" "dispute_addr rt h" dis dis'] d c inv by (simp add: coverage_inv_def)
  then show ?thesis
    by (intro coverage_advance [OF inv d(1) dispute_methods_same(1) [OF c] d(2) StakePosition_identity(2) [OF p']])
      (auto simp: ls' split: if_splits)
qed

lemma settle_intent_coverage:
  assumes inv: "coverage_inv rt ls" and e: "escrow_inv rt ls" and b: "dispute_inv rt H ls" and inj: "inj_on (dispute_addr rt) H"
    and ctx: "settlement_context rt ls ik = Inr (oc, i, d, l, t)"
    and run: "settle_intent rt ls ik oc i d l t taccs daccs rem a = Inr ls'"
  shows "coverage_inv rt ls'"
  using run
proof (rule settle_intent_Inr)
  fix ls1 d' ts n
  assume dis: "settle_dispute_if_covered rt ls i daccs a = Inr ls1"
    and ls': "ls' = ls1\<lparr>deposits := (deposits ls1)(i_deposit i \<mapsto> d'),
      taker_states := (taker_states ls1)(taker_state_key rt (i_owner i) \<mapsto> t\<lparr>ts_active_intents := n\<rparr>),
      intents := (intents ls1)(ik := None), intent_locks := (intent_locks ls1)(lock_addr rt i := None), tokens := ts\<rparr>"
  show ?thesis
  proof (cases "i_dispute_covered i")
    case False
    with settle_dispute_uncovered [OF dis] have "ls1 = ls" by simp
    then show ?thesis by (intro coverage_fewer [OF inv]) (simp_all add: ls' map_le_drop)
  next
    case True
    with dis show ?thesis
    proof (rule settle_dispute_covered)
      fix dis v p l dis' m u p'
      assume d: "dispute_intents ls (dispute_addr rt (i_intent_hash i)) = Some dis"
        and p: "stake_positions ls (position_key rt (di_stake_owner dis)) = Some p"
        and l: "stake_locks ls (stake_lock_key rt (i_intent_hash i)) = Some l"
        and s: "DisputeIntent_settle dis a (unix_timestamp rt) = Inr (dis', m)"
        and p': "(if u > 0 then StakePosition_unlock p u else Inr p) = Inr p'"
        and ls1: "ls1 = ls\<lparr>dispute_intents := (dispute_intents ls)(dispute_addr rt (i_intent_hash i) \<mapsto> dis'),
              stake_positions := (stake_positions ls)(position_key rt (di_stake_owner dis) \<mapsto> p'),
              stake_locks := (stake_locks ls)(stake_lock_key rt (i_intent_hash i) \<mapsto> l\<lparr>sl_amount := a, sl_matures_at := m\<rparr>)\<rparr>"
      have same: "sp_owner p' = sp_owner p \<and> sp_bump p' = sp_bump p"
        using p' StakePosition_identity(2) [of p u p'] by (auto split: if_splits)
      have i: "intents ls ik = Some i" using settlement_context_Inr [OF ctx] by simp
      from covered_settle [of rt "intents ls" "dispute_intents ls" "intent_locks ls" H ik i dis'] i True inj inv e b
      have "intents_covered rt ((intents ls)(ik := None)) ((dispute_intents ls)(dispute_addr rt (i_intent_hash i) \<mapsto> dis'))"
        by (simp add: coverage_inv_def escrow_inv_def dispute_inv_def)
      then show ?thesis
        by (intro coverage_advance [OF inv d dispute_methods_same(2) [OF s] p same]) (use l in \<open>auto simp: ls' ls1 split: if_splits\<close>)
    qed
  qed
qed

lemma intent_step_coverage:
  assumes inv: "coverage_inv rt ls" and e: "escrow_inv rt ls" and b: "dispute_inv rt H ls" and inj: "inj_on (dispute_addr rt) H"
    and run: "intent_step rt ls i = Inr ls'"
  shows "coverage_inv rt ls'"
proof (cases i)
  case (Signal_intent t accs args)
  with run signal_intent_coverage [OF inv] show ?thesis by simp
next
  case (Cancel_intent s k d)
  with run obtain i d l t where "end_intent rt ls k i d l t = Inr ls'"
    by (auto simp: handle_cancel_intent_def result_simps split: if_splits)
  with inv show ?thesis by (rule end_intent_coverage)
next
  case (Prune_expired_intent k accs)
  with run have "handle_prune_expired_intent rt ls k accs = Inr ls'" by simp
  then show ?thesis
  proof (rule prune_expired_intent_Inr)
    fix i d l t ls1 config di vault pos lk
    assume di: "opt_account (dispute_intents ls) (pda_dispute_intent accs) = Inr di"
        "opt_account (stake_positions ls) (pda_stake_position accs) = Inr pos"
      and mid: "(if i_dispute_covered i then prune_dispute rt ls (i_intent_hash i) config di vault pos lk
        else require (config = None \<and> di = None \<and> vault = None \<and> pos = None \<and> lk = None) Unauthorized (Inr ls)) = Inr ls1"
      and e: "end_intent rt ls1 k i d l t = Inr ls'"
    from mid prune_dispute_coverage [OF inv di] inv have "coverage_inv rt ls1" by (auto simp: require_Inr split: if_splits)
    from this e show ?thesis by (rule end_intent_coverage)
  qed
next
  case (Fulfill_intent k ta da ra args)
  with run have "handle_fulfill_intent rt ls k ta da ra args = Inr ls'" by simp
  then show ?thesis
  proof (rule fulfill_intent_Inr)
    fix oc and i :: Intent and d l t v n ls1
    assume "settlement_context rt ls k = Inr (oc, i, d, l, t)"
      "settle_intent rt ls k oc i d l t ta da ra (min (pa_release_amount (fia_attestation args)) (i_amount i)) = Inr ls1"
    from settle_intent_coverage [OF inv e b inj this] have "coverage_inv rt ls1" .
    moreover assume "ls' = bind_payment rt ls1 i n"
    ultimately show ?thesis by (simp add: coverage_inv_def wiring_placed_def)
  qed
next
  case (Manual_release s k ta da ra)
  with run obtain oc i d l t where "settlement_context rt ls k = Inr (oc, i, d, l, t)"
      "settle_intent rt ls k oc i d l t ta da ra (i_amount i) = Inr ls'"
    by (auto simp: handle_manual_release_def result_simps)
  then show ?thesis by (rule settle_intent_coverage [OF inv e b inj])
qed

subsection \<open>Histories\<close>

abbreviation coverage_stores where
  "coverage_stores ls \<equiv> (dispute_config ls, stake_vault_config ls, dispute_intents ls, stake_positions ls, stake_locks ls, intents ls)"

lemma dispatch_coverage:
  assumes inv: "coverage_inv rt ls" and p: "protocol_inv rt H ls" and inj: "inj_on (dispute_addr rt) H"
    and signer: "pred_option (external_key rt ls) (signer i)" and run: "dispatch rt ls i = Inr ls'"
  shows "coverage_inv rt ls'"
proof -
  have e: "escrow_inv rt ls" and b: "dispute_inv rt H ls" using p by (simp_all add: protocol_inv_def)
  consider (g) j where "i = Governance j" | (s) j where "i = Stake j" | (i) j where "i = Intents j" | (d) j where "i = Disputes j"
    | (other) "\<forall>j. i \<noteq> Governance j" "\<forall>j. i \<noteq> Stake j" "\<forall>j. i \<noteq> Intents j" "\<forall>j. i \<noteq> Disputes j" by blast
  then show ?thesis
  proof cases
    case g
    with run have g: "governance_step rt ls j = Inr ls'" by simp
    have "dispute_intents ls' = dispute_intents ls" "stake_positions ls' = stake_positions ls" "stake_locks ls' = stake_locks ls"
        "intents ls' = intents ls"
      by (subst governance_step_frame [OF g], simp)+
    with inv governance_step_wiring [OF _ g] show ?thesis by (simp add: coverage_inv_def)
  next
    case s
    have "k \<noteq> 0 \<and> k \<noteq> dispute_config_key rt" if "signer (Stake j) = Some k" for k
      using signer s that by (simp add: external_key_def)
    with run s stake_step_coverage [OF inv b, of j ls'] show ?thesis by simp
  next
    case i
    with run intent_step_coverage [OF inv e b inj] show ?thesis by simp
  next
    case d
    with run dispute_instruction_step_coverage [OF inv b] show ?thesis by simp
  next
    case other
    then have "coverage_stores ls' = coverage_stores ls"
      using run by (cases i) (simp_all, (drule step_frames, drule arg_cong [where f = "\<lambda>ls. coverage_stores ls"], simp)+)
    with inv show ?thesis by (intro coverage_fewer [OF inv]) simp_all
  qed
qed

text \<open>The machine of ordinary events, with the books of the protocol and the coverage of its intents as invariant.\<close>

interpretation coverage_history: monitored_machine "execute rt" "ordinary H"
  "\<lambda>ls. sound_runtime rt H \<and> protocol_inv rt H ls \<and> coverage_inv rt ls" for rt H
proof unfold_locales
  fix ls ls' and e :: event
  assume inv: "sound_runtime rt H \<and> protocol_inv rt H ls \<and> coverage_inv rt ls" and ok: "ordinary H e" and run: "execute rt ls e = Inr ls'"
  from inv have s: "sound_runtime rt H" "protocol_inv rt H ls" "coverage_inv rt ls" by simp_all
  from run have "coverage_inv rt ls'"
  proof (cases rule: execute_cases)
    case (call env i)
    with dispatch_coverage [of "in_env rt env" ls H i ls'] s show ?thesis by (simp add: sound_runtime_def)
  next
    case (tokens ts)
    with s show ?thesis by (simp add: coverage_inv_def wiring_placed_def)
  qed
  with s execute_protocol_inv [OF s(2) _ _ _ ok run] show "sound_runtime rt H \<and> protocol_inv rt H ls' \<and> coverage_inv rt ls'"
    by (simp add: sound_runtime_def)
qed

lemma reached_coverage:
  assumes "sound_runtime rt H" and "list_all (ordinary H) es"
  shows "coverage_inv rt (reached rt ms ts es)"
proof -
  have "coverage_inv rt (genesis ms ts)"
    by (simp add: coverage_inv_def wiring_placed_def collateral_placed_def intents_covered_def genesis_def empty_ledger_def)
  with coverage_history.run_inv [of rt H "genesis ms ts" es] assms genesis_protocol_inv show ?thesis by (simp add: reached_def)
qed

end
