(* ===== verification/Liveness.thy ===== *)
theory Liveness
  imports Coverage
begin

text \<open>
  Ending intents and releasing collateral always succeeds. With the coverage of a reachable ledger, every account that
  the contexts of pruning, cancelling and releasing demand is there and passes its checks, and the arithmetic on
  position, deposit and counter cannot fail. \<open>prune_accounts\<close> are the accounts anyone supplies to prune an intent,
  \<open>exit_events\<close> the calls with which an owner leaves it: for a covered intent with a pending dispute the transaction of
  the two instructions that the dispute program demands.
\<close>

subsection \<open>The collateral of a live dispute\<close>

lemma lock_below_position:
  assumes "stake_books rt v ps lks cs" and "lks j = Some l" and "ps (position_key rt (sl_stake_owner l)) = Some p"
  shows "unat (sl_amount l) \<le> unat (sp_locked p)"
proof -
  have "unat (sl_amount l) \<le> locks_on rt lks (position_key rt (sl_stake_owner l))"
    using msum_member_le [of lks j l "\<lambda>x. if position_key rt (sl_stake_owner x) = position_key rt (sl_stake_owner l)
      then unat (sl_amount x) else 0"] assms(2) by (simp add: locks_on_def)
  also have "\<dots> = unat (sp_locked p)" using assms(1,3) by (auto simp: stake_books_def at_def dest: spec [of _ "position_key rt (sl_stake_owner l)"])
  finally show ?thesis .
qed

text \<open>Everything the instructions that end a dispute look at.\<close>

definition secured_dispute ::
  "runtime \<Rightarrow> ledger \<Rightarrow> pubkey \<Rightarrow> DisputeIntent \<Rightarrow> StakePosition \<Rightarrow> StakeLock \<Rightarrow> StakePosition \<Rightarrow> bool" where
  "secured_dispute rt ls k d p l p' \<longleftrightarrow> k = dispute_addr rt (di_intent_hash d) \<and> di_dispute_config d = dispute_config_key rt \<and>
     di_bump d = pda_bump rt (dispute_intent_seeds (dispute_config_key rt) (di_intent_hash d)) \<and>
     stake_positions ls (position_key rt (di_stake_owner d)) = Some p \<and> sp_owner p = di_stake_owner d \<and>
     sp_bump p = pda_bump rt (position_seeds rt (di_stake_owner d)) \<and>
     stake_locks ls (stake_lock_key rt (di_intent_hash d)) = Some l \<and> sl_stake_owner l = di_stake_owner d \<and>
     sl_amount l = collateral d \<and> sl_bump l = pda_bump rt (stake_lock_seeds rt (di_intent_hash d)) \<and>
     StakePosition_unlock p (collateral d) = Inr p'"

lemma live_dispute_secured:
  assumes p: "protocol_inv rt H ls" and c: "coverage_inv rt ls" and d: "dispute_intents ls k = Some d" "live d"
  obtains p l p' where "secured_dispute rt ls k d p l p'"
proof -
  have b: "dispute_backing rt H (dispute_intents ls) (stake_locks ls)" using p by (simp add: protocol_inv_def dispute_inv_def)
  obtain l where l: "stake_locks ls (stake_lock_key rt (di_intent_hash d)) = Some l" "secures d l" using backing_lock [OF b d] by blast
  have placed: "dispute_placed rt (stake_positions ls) (stake_locks ls) d" using c d(1) by (auto simp: coverage_inv_def collateral_placed_def)
  then obtain q where q: "stake_positions ls (position_key rt (di_stake_owner d)) = Some q" "sp_owner q = di_stake_owner d"
    by (auto simp: dispute_placed_def)
  have "position_placed rt q" using c q(1) by (auto simp: coverage_inv_def collateral_placed_def)
  moreover obtain v where "stake_vault_config ls = Some v" using c d(1) by (auto simp: coverage_inv_def wiring_placed_def)
  with p have "stake_books rt v (stake_positions ls) (stake_locks ls) (claim_balances ls)"
    by (simp add: protocol_inv_def vault_inv_def stake_inv_Some)
  then have "unat (sl_amount l) \<le> unat (sp_locked q)" using lock_below_position l q(1) by (metis secures_def)
  then obtain n where "checked_sub (sp_locked q) (sl_amount l) = Some n" using checked_sub_ex by blast
  then have "StakePosition_unlock q (sl_amount l) = Inr (q\<lparr>sp_locked := n\<rparr>)" by (simp add: StakePosition_unlock_def)
  ultimately have "secured_dispute rt ls k d q l (q\<lparr>sp_locked := n\<rparr>)"
    using backing_identity [OF b d(1)] placed q l d(2) by (simp add: secured_dispute_def dispute_placed_def position_placed_def secures_def)
  then show thesis by (rule that)
qed

lemma dispute_context:
  assumes "coverage_inv rt ls" and "dispute_intents ls k = Some d"
  obtains c v where "dispute_config_account rt ls = Inr c" "dg_stake_vault c = stake_vault_config_key rt" "vault_account rt ls = Inr v"
proof -
  from assms obtain c v where "dispute_config ls = Some c" "dg_bump c = pda_bump rt [DISPUTE_CONFIG_SEED]"
      "dg_stake_vault c = stake_vault_config_key rt" "stake_vault_config ls = Some v" "sv_bump v = pda_bump rt [STAKE_VAULT_CONFIG_SEED]"
    by (auto simp: coverage_inv_def wiring_placed_def)
  then show thesis by (intro that [of c v]) (simp_all add: dispute_config_account_Inr vault_account_Inr)
qed

lemma release_matured_dispute_succeeds:
  assumes s: "secured_dispute rt ls k d p l p'" and v: "vault_account rt ls = Inr v" and d: "dispute_intents ls k = Some d"
    "di_status d = Settled" "sint (di_release_eligible_at d) \<le> sint (unix_timestamp rt)"
  shows "handle_release_matured_dispute rt ls k = Inr (ls\<lparr>dispute_intents := (dispute_intents ls)(k \<mapsto> d\<lparr>di_status := Released\<rparr>),
    stake_positions := (stake_positions ls)(position_key rt (di_stake_owner d) \<mapsto> p'),
    stake_locks := (stake_locks ls)(stake_lock_key rt (di_intent_hash d) := None)\<rparr>)"
  using s v d
  by (simp add: handle_release_matured_dispute_def secured_dispute_def DisputeIntent_release_def account_def seeds_bump_def
      constraint_def require_def collateral_def)

subsection \<open>Pruning and cancelling a covered intent\<close>

definition prune_accounts :: "runtime \<Rightarrow> ledger \<Rightarrow> Intent \<Rightarrow> PruneDisputeAccounts" where
  "prune_accounts rt ls i =
     (if i_dispute_covered i
      then \<lparr>pda_dispute_config = True, pda_dispute_intent = Some (dispute_addr rt (i_intent_hash i)), pda_stake_vault = True,
            pda_stake_position = map_option (\<lambda>d. position_key rt (di_stake_owner d)) (dispute_intents ls (dispute_addr rt (i_intent_hash i))),
            pda_stake_lock = Some (stake_lock_key rt (i_intent_hash i))\<rparr>
      else \<lparr>pda_dispute_config = False, pda_dispute_intent = None, pda_stake_vault = False, pda_stake_position = None,
            pda_stake_lock = None\<rparr>)"

lemma prune_dispute_succeeds:
  assumes s: "secured_dispute rt ls k d p l p'" and c: "dg_stake_vault c = stake_vault_config_key rt" and d: "di_status d = Pending"
    and h: "di_intent_hash d = h"
  shows "prune_dispute rt ls h (Some c) (Some (k, d)) (Some v) (Some (position_key rt (di_stake_owner d), p)) (Some (stake_lock_key rt h, l)) =
    Inr (ls\<lparr>dispute_intents := (dispute_intents ls)(k \<mapsto> d\<lparr>di_status := Cancelled\<rparr>),
      stake_positions := (stake_positions ls)(position_key rt (di_stake_owner d) \<mapsto> p'),
      stake_locks := (stake_locks ls)(stake_lock_key rt h := None)\<rparr>)"
  using s c d h by (simp add: prune_dispute_def secured_dispute_def DisputeIntent_cancel_def require_def)

text \<open>The last step reads four stores only.\<close>

lemma end_intent_elsewhere:
  assumes "end_intent rt ls k i d l t = Inr ls'" and "deposits ls1 = deposits ls" "intents ls1 = intents ls"
  obtains ls1' where "end_intent rt ls1 k i d l t = Inr ls1'" "deposits ls1' = deposits ls'" "intents ls1' = intents ls'"
    "stake_locks ls1' = stake_locks ls1" "dispute_intents ls1' = dispute_intents ls1"
  using assms by (auto simp: end_intent_def and_then_Inr ok_or_Inr)

lemma ending_context_elsewhere:
  assumes "orchestrator_config ls1 = orchestrator_config ls" "deposits ls1 = deposits ls" "intents ls1 = intents ls"
    "intent_locks ls1 = intent_locks ls" "taker_states ls1 = taker_states ls"
  shows "ending_context rt ls1 k = ending_context rt ls k"
  unfolding ending_context_def orchestrator_account_def assms ..

text \<open>The transaction in which the owner cancels the dispute and, next, the intent.\<close>

definition cancel_instruction :: "runtime \<Rightarrow> pubkey \<Rightarrow> Intent \<Rightarrow> Instruction" where
  "cancel_instruction rt k i =
     \<lparr>ix_program_id = crate_ID,
      ix_accounts = map (\<lambda>(key, signs). \<lparr>am_pubkey = key, am_is_signer = signs, am_is_writable = True\<rparr>)
        [(i_owner i, True), (i_orchestrator i, False), (k, False), (i_deposit i, False),
         (intent_lock_key rt (i_deposit i) (i_intent_hash i), False), (dispute_addr rt (i_intent_hash i), False),
         (pda rt [TAKER_INTENT_STATE_SEED, key_bytes (i_orchestrator i), key_bytes (i_owner i)], False)],
      ix_data = cancel_intent_discriminator rt\<rparr>"

definition cancel_transaction :: "runtime \<Rightarrow> environment \<Rightarrow> pubkey \<Rightarrow> Intent \<Rightarrow> environment" where
  "cancel_transaction rt env k i =
     env\<lparr>env_current_index := Some 0, env_instruction_at := (\<lambda>n. if n = 1 then Some (cancel_instruction rt k i) else None)\<rparr>"

definition exit_events :: "runtime \<Rightarrow> ledger \<Rightarrow> environment \<Rightarrow> pubkey \<Rightarrow> Intent \<Rightarrow> event list" where
  "exit_events rt ls env k i =
     (let dk = dispute_addr rt (i_intent_hash i); tx = cancel_transaction rt env k i in
      (if i_dispute_covered i \<and> map_option di_status (dispute_intents ls dk) = Some Pending
       then [Call tx (Disputes (Cancel_dispute (i_owner i) k dk))] else []) @
      [Call tx (Intents (Cancel_intent (i_owner i) k (if i_dispute_covered i then Some dk else None)))])"

lemma atomic_cancel_follows:
  "require_atomic_cancel_follows (in_env rt (cancel_transaction rt env k i)) i k (i_owner i) (dispute_addr rt (i_intent_hash i)) = Inr ()"
  by (simp add: require_atomic_cancel_follows_def next_instruction_def in_env_def cancel_transaction_def cancel_instruction_def
      intent_lock_key_def pda_def require_def)

lemma cancel_dispute_succeeds:
  assumes s: "secured_dispute rt ls dk d p l p'" and v: "vault_account rt ls = Inr v"
    and i: "intents ls k = Some i" and d: "dispute_intents ls dk = Some d" "di_status d = Pending" "di_intent_hash d = i_intent_hash i"
    and tx: "require_atomic_cancel_follows rt i k (i_owner i) dk = Inr ()"
  shows "handle_cancel_dispute rt ls (i_owner i) k dk = Inr (ls\<lparr>dispute_intents := (dispute_intents ls)(dk \<mapsto> d\<lparr>di_status := Cancelled\<rparr>),
    stake_positions := (stake_positions ls)(position_key rt (di_stake_owner d) \<mapsto> p'),
    stake_locks := (stake_locks ls)(stake_lock_key rt (i_intent_hash i) := None)\<rparr>)"
  using s v i d tx
  by (simp add: handle_cancel_dispute_def secured_dispute_def DisputeIntent_cancel_def account_def seeds_bump_def constraint_def require_def)

subsection \<open>Composition\<close>

lemma prune_covered:
  assumes ctx: "ending_context rt ls k = Inr (i, d, l, t)" and e: "end_intent rt ls k i d l t = Inr ls'"
    and cov: "i_dispute_covered i" and x: "sint (el_expiry_time l) < sint (unix_timestamp rt)"
    and inv: "protocol_inv rt H ls" "coverage_inv rt ls"
    and dis: "dispute_intents ls (dispute_addr rt (i_intent_hash i)) = Some dis" "di_intent_hash dis = i_intent_hash i" "di_status dis = Pending"
  shows "\<exists>ls1. handle_prune_expired_intent rt ls k (prune_accounts rt ls i) = Inr ls1 \<and> intents ls1 = intents ls' \<and>
    deposits ls1 = deposits ls' \<and> stake_locks ls1 = (stake_locks ls)(stake_lock_key rt (i_intent_hash i) := None)"
proof -
  let ?h = "i_intent_hash i" and ?pk = "position_key rt (di_stake_owner dis)"
  have "live dis" using dis(3) by (simp add: live_def)
  from live_dispute_secured [OF inv dis(1) this] obtain p sl p' where s: "secured_dispute rt ls (dispute_addr rt ?h) dis p sl p'" .
  from dispute_context [OF inv(2) dis(1)] obtain c v where c: "dispute_config_account rt ls = Inr c"
      "dg_stake_vault c = stake_vault_config_key rt" "vault_account rt ls = Inr v" .
  let ?ls1 = "ls\<lparr>dispute_intents := (dispute_intents ls)(dispute_addr rt ?h \<mapsto> dis\<lparr>di_status := Cancelled\<rparr>),
      stake_positions := (stake_positions ls)(?pk \<mapsto> p'), stake_locks := (stake_locks ls)(stake_lock_key rt ?h := None)\<rparr>"
  have pr: "prune_dispute rt ls ?h (Some c) (Some (dispute_addr rt ?h, dis)) (Some v) (Some (?pk, p)) (Some (stake_lock_key rt ?h, sl)) = Inr ?ls1"
    by (rule prune_dispute_succeeds [OF s c(2) dis(3,2)])
  from e obtain ls1' where e1: "end_intent rt ?ls1 k i d l t = Inr ls1'" "deposits ls1' = deposits ls'" "intents ls1' = intents ls'"
      "stake_locks ls1' = stake_locks ?ls1"
    by (rule end_intent_elsewhere [where ?ls1.0 = ?ls1]) simp_all
  have "handle_prune_expired_intent rt ls k (prune_accounts rt ls i) = Inr ls1'"
    using s ctx cov x dis c pr e1(1)
    by (simp add: handle_prune_expired_intent_def prune_accounts_def opt_singleton_def opt_account_def account_def require_def
        secured_dispute_def)
  with e1 show ?thesis by auto
qed

lemma cancel_covered:
  assumes ctx: "ending_context rt ls k = Inr (i, d, l, t)" and e: "end_intent rt ls k i d l t = Inr ls'"
    and i: "i_dispute_covered i" "i_orchestrator i = orchestrator_config_key rt" "locks_intent i l" "ts_taker t = i_owner i"
    and dis: "dispute_intents ls dk = Some dis" "di_intent_hash dis = i_intent_hash i" "di_status dis = Cancelled"
  shows "handle_cancel_intent rt ls (i_owner i) k (Some dk) = Inr ls'"
  using assms by (simp add: handle_cancel_intent_def opt_account_def account_def require_def constraint_def locks_intent_def)

text \<open>The owner of a covered intent leaves, whether its dispute is still pending or already cancelled.\<close>

lemma exit_covered:
  fixes rt env k i
  defines "tx \<equiv> in_env rt (cancel_transaction rt env k i)" and "dk \<equiv> dispute_addr rt (i_intent_hash i)"
  assumes inv: "protocol_inv rt H ls" "coverage_inv rt ls"
    and ctx: "ending_context tx ls k = Inr (i, d, l, t)" and e: "end_intent tx ls k i d l t = Inr ls'"
    and cov: "i_dispute_covered i" and l: "locks_intent i l" "ts_taker t = i_owner i" "i_orchestrator i = orchestrator_config_key rt"
    and dis: "dispute_intents ls dk = Some dis" "stands_behind dis i" and i: "intents ls k = Some i" and o: "external_key rt ls (i_owner i)"
  shows "\<exists>ls1. run (execute rt) ls (exit_events rt ls env k i) = ls1 \<and> intents ls1 = intents ls' \<and> deposits ls1 = deposits ls' \<and>
    (di_status dis = Pending \<longrightarrow> stake_locks ls1 (stake_lock_key rt (i_intent_hash i)) = None)"
proof (cases "di_status dis = Pending")
  case True
  have inv': "protocol_inv tx H ls" "coverage_inv tx ls" using inv by (simp_all add: tx_def)
  have "live dis" using True by (simp add: live_def)
  from live_dispute_secured [OF inv' dis(1) this] obtain p sl p' where s: "secured_dispute tx ls dk dis p sl p'" .
  from dispute_context [OF inv'(2) dis(1)] obtain v where v: "vault_account tx ls = Inr v" .
  have h: "di_intent_hash dis = i_intent_hash i" using dis(2) by (simp add: stands_behind_def)
  let ?ls1 = "ls\<lparr>dispute_intents := (dispute_intents ls)(dk \<mapsto> dis\<lparr>di_status := Cancelled\<rparr>),
    stake_positions := (stake_positions ls)(position_key tx (di_stake_owner dis) \<mapsto> p'),
    stake_locks := (stake_locks ls)(stake_lock_key tx (i_intent_hash i) := None)\<rparr>"
  have c1: "handle_cancel_dispute tx ls (i_owner i) k dk = Inr ?ls1"
    using cancel_dispute_succeeds [OF s v i dis(1) True h] atomic_cancel_follows [of rt env k i] by (simp add: tx_def dk_def)
  have ctx1: "ending_context tx ?ls1 k = Inr (i, d, l, t)" by (subst ending_context_elsewhere [where ls = ls]) (simp_all add: ctx)
  from e obtain ls1' where e1: "end_intent tx ?ls1 k i d l t = Inr ls1'" "deposits ls1' = deposits ls'" "intents ls1' = intents ls'"
      "stake_locks ls1' = stake_locks ?ls1"
    by (rule end_intent_elsewhere [where ?ls1.0 = ?ls1]) simp_all
  have c2: "handle_cancel_intent tx ?ls1 (i_owner i) k (Some dk) = Inr ls1'"
    by (rule cancel_covered [OF ctx1 e1(1) cov _ l(1,2), where dis = "dis\<lparr>di_status := Cancelled\<rparr>"]) (simp_all add: h l(3) tx_def)
  have o1: "external_key rt ?ls1 (i_owner i)" using o by (simp add: external_key_def)
  have "run (execute rt) ls (exit_events rt ls env k i) = ls1'"
    using c1 c2 o o1 cov dis(1) True by (simp add: exit_events_def tx_def dk_def Let_def)
  with e1 show ?thesis by (auto simp: tx_def)
next
  case False
  then have c: "di_status dis = Cancelled" "di_intent_hash dis = i_intent_hash i" using dis(2) by (simp_all add: stands_behind_def)
  have "handle_cancel_intent tx ls (i_owner i) k (Some dk) = Inr ls'"
    by (rule cancel_covered [OF ctx e cov _ l(1,2) dis(1) c(2,1)]) (simp add: l(3) tx_def)
  with False o cov dis(1) have "run (execute rt) ls (exit_events rt ls env k i) = ls'"
    by (simp add: exit_events_def tx_def dk_def Let_def)
  with False show ?thesis by simp
qed

end
