(* ===== verification/Demo_Open.thy ===== *)
theory Demo_Open
  imports Demo_Run
begin

text \<open>
  A second history of the demo runtime: governance switches the lifecycle policy to the whitelist, the depositor creates an
  enabled whitelist with no member, and a taker opens an intent without collateral. The histories are evaluated step by
  step, as in \<open>Demo_Run\<close>.
\<close>

definition policy_args :: ConfigureOrchestratorArgs where
  "policy_args = \<lparr>coa_protocol_fee = None, coa_protocol_fee_recipient = None, coa_lifecycle_policy = Some PolicyWhitelist,
     coa_allow_multiple_intents = None, coa_paused = None\<rparr>"

definition plain_accounts :: SignalIntentAccounts where
  "plain_accounts = signal_accounts\<lparr>ska_dispute_intent := None, ska_risk_window := None\<rparr>"

definition honest_accounts :: SignalIntentAccounts where
  "honest_accounts = plain_accounts\<lparr>ska_deposit_whitelist := Some (deposit_whitelist_key demo_runtime demo_deposit)\<rparr>"

definition policy_events :: "event list" where
  "policy_events =
     [Call (at_time 0) (Governance (Configure_orchestrator 1 policy_args)),
      Call (at_time 0) (Whitelists (Initialize_deposit_whitelist 3 demo_deposit True))]"

abbreviation "plain_signal \<equiv> Call (at_time 1000) (Intents (Signal_intent 4 plain_accounts signal_args))"

abbreviation "honest_signal \<equiv> Call (at_time 1000) (Intents (Signal_intent 4 honest_accounts signal_args))"

abbreviation "policy_history \<equiv> setup_events @ policy_events"

abbreviation "open_history \<equiv> setup_events @ policy_events @ [plain_signal]"

definition demo_admitting :: ledger where
  "demo_admitting = demo_ready\<lparr>
     orchestrator_config := Some ((demo_orchestrator 0)\<lparr>oc_lifecycle_policy := PolicyWhitelist\<rparr>),
     deposit_whitelists := [345 \<mapsto> \<lparr>dw_deposit = 399, dw_enabled = True, dw_bootstrapped = True, dw_allowed_groups = [],
       dw_bump = 255\<rparr>]\<rparr>"

definition demo_plain_intent :: Intent where
  "demo_plain_intent = demo_signalled_intent\<lparr>i_lifecycle_policy := PolicyWhitelist, i_dispute_covered := False\<rparr>"

definition demo_open :: ledger where
  "demo_open = demo_admitting\<lparr>deposits := [399 \<mapsto> demo_liquidity 300 200 1], intents := [398 \<mapsto> demo_plain_intent],
     intent_locks := [410 \<mapsto> \<lparr>el_deposit = 399, el_intent_hash = 9, el_orchestrator = 283, el_amount = 200,
       el_timestamp = 1000, el_expiry_time = 4600, el_bump = 255\<rparr>],
     taker_states := [410 \<mapsto> demo_taker 1],
     orchestrator_config := Some ((demo_orchestrator 1)\<lparr>oc_lifecycle_policy := PolicyWhitelist\<rparr>)\<rparr>"

lemmas demo_admission = policy_events_def policy_args_def plain_accounts_def honest_accounts_def demo_admitting_def
  handle_initialize_deposit_whitelist_def whitelisting_deposit_def deposit_whitelist_key_def deposit_whitelist_seeds_def
  if_some_def

lemma demo_policy: "run (execute demo_runtime) demo_ready policy_events = demo_admitting"
  by (simp add: demo_trade demo_admission demo_records demo_ready_def)

lemma demo_plain_signal: "execute demo_runtime demo_admitting plain_signal = Inr demo_open"
  by (simp add: demo_trade demo_admission demo_records demo_ready_def demo_open_def demo_plain_intent_def)

lemma demo_honest_signal: "execute demo_runtime demo_admitting honest_signal = Inl (Zkp2p TakerNotWhitelisted)"
  by (simp add: demo_trade demo_admission demo_records demo_ready_def)

lemma demo_open_histories:
  "demo_reached policy_history = demo_admitting" "demo_reached open_history = demo_open"
  by (simp_all add: reached_def run_append demo_setup demo_policy demo_plain_signal demo_genesis_def [symmetric]
      del: execute.simps)

lemma demo_open_ordinary: "list_all (ordinary {9}) open_history" "list_all (ordinary {9}) policy_history"
  by (simp_all add: setup_events_def policy_events_def signal_args_def)

end
