(* ===== verification/Access.thy ===== *)
theory Access
  imports Liveness Gating Demo_Open
begin

text \<open>
  Who can open an intent: the routes of the lifecycle policies (whitelist, risk window, dispute, opt-out), and the
  signature of the gating service that a payment method may demand.
\<close>

section \<open>Lifecycle policies\<close>












section \<open>Gating services\<close>

text \<open>
  C29. A gated payment method demands a signature: if the Ed25519 program verifies what it is documented to verify, a signal
  over a payment method with a gating service succeeds only before the expiry that the taker names, and only if that
  service has signed the digest of this very signal; and a message with that digest's text fixes the deposit, the taker, the
  deployment domain and every argument of the signal apart from the expected hash, so a signature for one signal is no
  signature for another unless the hash collides.
\<close>

theorem gated_signal_is_signed:
  assumes "ed25519_precompile sig_ok rt" and "handle_signal_intent rt ls taker accs args = Inr ls'"
    and "payment_methods ls (payment_method_key rt (ska_deposit accs) (sia_payment_method args)) = Some m"
    and "pm_gating_service m = Some service"
  shows "\<exists>oc signature. orchestrator_config ls = Some oc \<and>
    sint (unix_timestamp rt) \<le> sint (sia_gating_signature_expiration args) \<and> length signature = 64 \<and>
    sig_ok (key_bytes service) signature (key_bytes (keccak256 rt (gating_message rt oc (ska_deposit accs) taker args))) \<and>
    (\<forall>oc' deposit' taker' args'. length (sia_referral_fees args') < 2 ^ 32 \<and>
       gating_message rt oc (ska_deposit accs) taker args = gating_message rt oc' deposit' taker' args' \<longrightarrow>
       deposit' = ska_deposit accs \<and> taker' = taker \<and> oc_domain_chain_id oc' = oc_domain_chain_id oc \<and>
       args' = args\<lparr>sia_expected_intent_hash := sia_expected_intent_hash args'\<rparr>)"
  using assms(2)
proof (rule signal_intent_effect)
  fix oc e d m' c h rm rw d' x nid
  assume ctx: "signal_context rt ls (ska_deposit accs) args = Inr (oc, e, d, m', c)"
    and chk: "signal_checks rt ls taker accs args oc e d m' c
       (init_if_needed (taker_states ls (taker_state_key rt taker)) zero_taker_state) = Inr (h, rm, rw)"
  note c = signal_context_Inr [OF ctx]
  have "m' = m" using c assms(3) by simp
  with chk assms(4) have gate: "validate_gating_signature rt (Some service) oc (ska_deposit accs) taker args = Inr ()"
      and fees: "validate_referral_fees (sia_referral_fees args) = Inr ()"
    by (auto elim!: signal_checks_Inr)
  have "length (sia_referral_fees args) < 2 ^ 32"
    using fees by (auto simp: validate_referral_fees_def limit_defs result_simps)
  with gating_signature_valid [OF assms(1) gate] gating_message_inject [of rt oc "ska_deposit accs" taker args] c(1)
  show ?thesis by blast
qed

text \<open>A gated deposit: the signature of service 77 over the digest 9, in an instruction before the signal.\<close>

definition gating_instruction :: Instruction where
  "gating_instruction = \<lparr>ix_program_id = 102, ix_accounts = [],
     ix_data = local_header 0 [16, 0] 80 112 32 @ replicate 64 7 @ key_bytes 77 @ key_bytes 9\<rparr>"

definition gated_environment :: environment where
  "gated_environment = (at_time 0)\<lparr>env_current_index := Some 1, env_instruction_at := [0 \<mapsto> gating_instruction]\<rparr>"

definition gated_method :: DepositPaymentMethod where
  "gated_method = \<lparr>pm_deposit = 399, pm_payment_method = 21, pm_payee_details = 22, pm_gating_service = Some 77,
     pm_active = True, pm_bump = 255\<rparr>"

definition gated_ledger :: ledger where
  "gated_ledger = demo_admitting\<lparr>payment_methods := [406 \<mapsto> gated_method]\<rparr>"

definition only_77 :: "u8 list \<Rightarrow> u8 list \<Rightarrow> u8 list \<Rightarrow> bool" where
  "only_77 key signature message \<longleftrightarrow> key = key_bytes 77 \<and> signature = replicate 64 7 \<and> message = key_bytes 9"

lemma gating_data_parts:
  fixes key message :: "u8 list"
  assumes "length key = 32" and "length message = 32"
  shows "take 32 (drop 80 (local_header 0 [16, 0] 80 112 32 @ replicate 64 7 @ key @ message)) = key"
    and "take 32 (drop 112 (local_header 0 [16, 0] 80 112 32 @ replicate 64 7 @ key @ message)) = message"
    and "take 64 (drop 16 (local_header 0 [16, 0] 80 112 32 @ replicate 64 7 @ key @ message)) = replicate 64 7"
    and "length (local_header 0 [16, 0] 80 112 32 @ replicate 64 7 @ key @ message) = 144"
  using assms by (simp_all add: local_header_def)

lemma gating_data:
  shows "ix_data gating_instruction = local_header 0 [16, 0] 80 112 32 @ replicate 64 7 @ key_bytes 77 @ key_bytes 9"
    and "take 32 (drop 80 (ix_data gating_instruction)) = key_bytes 77"
    and "take 32 (drop 112 (ix_data gating_instruction)) = key_bytes 9"
    and "take 64 (drop 16 (ix_data gating_instruction)) = replicate 64 7"
    and "length (ix_data gating_instruction) = 144"
  using gating_data_parts [of "key_bytes 77" "key_bytes 9"] by (simp_all only: gating_instruction_def Instruction.select_convs
      length_key_bytes simp_thms True_implies_equals)

lemma gating_data_matches: "ed25519_instruction_matches (ix_data gating_instruction) 77 (key_bytes 9)"
  unfolding ed25519_instruction_matches_iff
  by (rule exI [of _ 0], rule exI [of _ "[16, 0]"], rule exI [of _ 80], rule exI [of _ 112],
      rule exI [of _ "replicate 64 7 @ key_bytes 77 @ key_bytes 9"])
    (simp add: gating_data(2-5), simp only: gating_data(1))

lemma gating_precompile: "ed25519_precompile only_77 (in_env demo_runtime gated_environment)"
proof -
  let ?d = "ix_data gating_instruction"
  have "hd ?d = 1" "?d \<noteq> []" by (simp_all add: gating_data(1) local_header_def)
  moreover have "read_u16 ?d 2 = Some 16" "read_u16 ?d 4 = Some 0xffff" "read_u16 ?d 6 = Some 80" "read_u16 ?d 8 = Some 0xffff"
      "read_u16 ?d 10 = Some 112" "read_u16 ?d 12 = Some 32" "read_u16 ?d 14 = Some 0xffff"
    by (simp_all add: gating_data(1) local_header_def read_u16_def slice_get_def le_bytes_2)
  moreover have "slice_get ?d 16 80 = Some (replicate 64 7)" "slice_get ?d 80 112 = Some (key_bytes 77)"
      "slice_get ?d 112 144 = Some (key_bytes 9)"
    by (simp_all add: slice_get_def gating_data(2-5))
  ultimately have "ed25519_entry only_77 instrs ?d 2" for instrs
    by (simp add: ed25519_entry_def ed25519_slice_def instruction_data_def else_false_def only_77_def)
  with \<open>hd ?d = 1\<close> \<open>?d \<noteq> []\<close> have "ed25519_verified only_77 instrs ?d" for instrs
    by (simp add: ed25519_verified_def numeral_2_eq_2)
  then show ?thesis by (auto simp: ed25519_precompile_def gated_environment_def split: if_splits)
qed

lemma gated_signature: "validate_gating_signature (in_env demo_runtime gated_environment) (Some 77) oc deposit taker signal_args = Inr ()"
proof -
  have "ix_program_id gating_instruction = 102" by (simp add: gating_instruction_def)
  then show ?thesis
    using gating_data_matches by (simp add: validate_gating_signature_def gated_environment_def signal_args_def)
qed

lemma gated_run: "\<exists>ls'. handle_signal_intent (in_env demo_runtime gated_environment) gated_ledger 4 plain_accounts signal_args = Inr ls'"
  using gated_signature
  by (simp add: demo_trade demo_admission demo_records demo_ready_def gated_ledger_def gated_method_def gated_environment_def
      del: validate_gating_signature_def)

theorem gated_signal_is_signed_witness:
  "\<exists>ls' signature. handle_signal_intent (in_env demo_runtime gated_environment) gated_ledger 4 plain_accounts signal_args = Inr ls' \<and>
     only_77 (key_bytes 77) signature (key_bytes 9)"
proof -
  obtain ls' where run: "handle_signal_intent (in_env demo_runtime gated_environment) gated_ledger 4 plain_accounts signal_args = Inr ls'"
    using gated_run ..
  have m: "payment_methods gated_ledger (payment_method_key (in_env demo_runtime gated_environment) (ska_deposit plain_accounts)
      (sia_payment_method signal_args)) = Some gated_method" "pm_gating_service gated_method = Some 77"
    by (simp_all add: gated_ledger_def gated_method_def plain_accounts_def signal_accounts_def signal_args_def demo_key_defs
        payment_method_key_def payment_method_seeds_def)
  from gated_signal_is_signed [OF gating_precompile run m] run show ?thesis by (auto simp: demo_selectors)
qed

end
