(* ===== verification/Outcomes.thy ===== *)
theory Outcomes
  imports Liveness Demo_Open
begin

text \<open>
  What the instructions on an intent achieve: the exact effect of a fulfilment on tokens and accounts, that an intent
  without dispute coverage can always be ended, and a complete trade with a dispute that runs to its end. The theory
  closes with two admissions that the code grants although the configuration of the deposit asks for more.
\<close>

section \<open>Settlement\<close>

text \<open>
  C6. A successful fulfilment pays exactly the smaller of the attested amount and the amount of the intent out of the vault
  of the intent's deposit: the recipient gains it less the floors of the protocol, manager and referral fees; the deposit
  gets the remainder back and loses the whole reservation; the intent and its lock are closed; and the payment nullifier
  and the intent are bound to each other.
\<close>

theorem fulfillment_effect:
  assumes "token_laws rt" and "handle_fulfill_intent rt ls ik taccs daccs rem args = Inr ls'"
  shows "\<exists>oc i d l d' release fees.
    intents ls ik = Some i \<and> orchestrator_config ls = Some oc \<and> deposits ls (i_deposit i) = Some d \<and>
    intent_locks ls (intent_lock_key rt (i_deposit i) (i_intent_hash i)) = Some l \<and>
    release = min (pa_release_amount (fia_attestation args)) (i_amount i) \<and>
    fees = unat release * unat (oc_protocol_fee oc) div 10 ^ 18 + unat release * unat (i_manager_fee i) div 10 ^ 18 +
      sum_list (map (\<lambda>f. unat release * unat (rf_fee f) div 10 ^ 18) (i_referral_fees i)) \<and>
    at (\<lambda>t. unat (tk_amount t)) (tokens ls') (deposit_vault_key rt (i_deposit i)) + unat release =
      at (\<lambda>t. unat (tk_amount t)) (tokens ls) (deposit_vault_key rt (i_deposit i)) \<and>
    at (\<lambda>t. unat (tk_amount t)) (tokens ls') (sta_recipient_token taccs) + fees =
      at (\<lambda>t. unat (tk_amount t)) (tokens ls) (sta_recipient_token taccs) + unat release \<and>
    deposits ls' (i_deposit i) = Some d' \<and> deposit_held d = deposit_held d' + unat (el_amount l) \<and>
    deposit_avail d' + unat release = deposit_avail d + unat (el_amount l) \<and>
    intents ls' ik = None \<and> intent_locks ls' (intent_lock_key rt (i_deposit i) (i_intent_hash i)) = None \<and>
    (\<exists>b r. payment_bindings ls' (pda rt (payment_binding_seeds rt (fia_expected_nullifier args))) = Some b \<and>
       pb_intent_hash b = i_intent_hash i \<and>
       intent_payment_bindings ls' (pda rt (intent_payment_binding_seeds rt (i_intent_hash i))) = Some r \<and>
       ib_nullifier r = fia_expected_nullifier args)"
  using assms(2)
proof (rule fulfill_intent_Inr)
  fix oc and i :: Intent and d l t v n ls1
  let ?a = "min (pa_release_amount (fia_attestation args)) (i_amount i)"
  assume ctx: "settlement_context rt ls ik = Inr (oc, i, d, l, t)"
    and v: "verifier_config ls = Some v"
    and n: "verify_payment_attestation rt (verifier_config_key rt) v i (fia_attestation args) = Inr n"
    and set: "settle_intent rt ls ik oc i d l t taccs daccs rem ?a = Inr ls1"
    and ls': "ls' = bind_payment rt ls1 i n"
  have n': "fia_expected_nullifier args = n"
    using assms(2) ctx v n by (auto simp: handle_fulfill_intent_def Let_def result_simps)
  note c = settlement_context_Inr [OF ctx]
  have oc: "orchestrator_config ls = Some oc"
    using ctx by (auto simp: settlement_context_def orchestrator_account_def result_simps)
  from set show ?thesis
  proof (rule settle_intent_Inr)
    fix ls2 d' ts m
    assume dis: "settle_dispute_if_covered rt ls i daccs ?a = Inr ls2" and s: "Deposit_settle d (el_amount l) ?a = Inr d'"
      and fund: "distribute_funds rt ls2 i oc (i_deposit i) d' taccs rem ?a = Inr ts"
      and ls1: "ls1 = ls2\<lparr>deposits := (deposits ls2)(i_deposit i \<mapsto> d'),
        taker_states := (taker_states ls2)(taker_state_key rt (i_owner i) \<mapsto> t\<lparr>ts_active_intents := m\<rparr>),
        intents := (intents ls2)(ik := None), intent_locks := (intent_locks ls2)(lock_addr rt i := None), tokens := ts\<rparr>"
    have tok: "tokens ls2 = tokens ls" by (subst settle_dispute_if_covered_frame [OF dis]) simp
    from distribute_funds_moves [OF assms(1) fund] have moved:
      "at (\<lambda>t. unat (tk_amount t)) ts (deposit_vault_key rt (i_deposit i)) + unat ?a =
         at (\<lambda>t. unat (tk_amount t)) (tokens ls) (deposit_vault_key rt (i_deposit i))"
      "at (\<lambda>t. unat (tk_amount t)) ts (sta_recipient_token taccs) +
         (fee_of ?a (oc_protocol_fee oc) + fee_of ?a (i_manager_fee i) + referral_total ?a (i_referral_fees i)) =
       at (\<lambda>t. unat (tk_amount t)) (tokens ls) (sta_recipient_token taccs) + unat ?a"
      by (auto simp: tok at_def elim!: drainedD)
    note held = Deposit_settle_Inr(3,4) [OF s]
    have "\<exists>b r. payment_bindings ls' (pda rt (payment_binding_seeds rt (fia_expected_nullifier args))) = Some b \<and>
       pb_intent_hash b = i_intent_hash i \<and>
       intent_payment_bindings ls' (pda rt (intent_payment_binding_seeds rt (i_intent_hash i))) = Some r \<and>
       ib_nullifier r = fia_expected_nullifier args"
      by (simp add: ls' n')
    with c oc moved held show ?thesis
      by (intro exI [of _ oc] exI [of _ i] exI [of _ d] exI [of _ l] exI [of _ d'] exI [of _ ?a] exI [of _
            "fee_of ?a (oc_protocol_fee oc) + fee_of ?a (i_manager_fee i) + referral_total ?a (i_referral_fees i)"] conjI)
        (simp_all add: ls' ls1 lock_addr_def fee_of_def referral_total_def)
  qed
qed

theorem fulfillment_effect_witness:
  "\<exists>i d'. intents demo_signalled demo_intent = Some i \<and>
     at (\<lambda>t. unat (tk_amount t)) (tokens demo_fulfilled) (deposit_vault_key demo_runtime (i_deposit i)) + 150 =
       at (\<lambda>t. unat (tk_amount t)) (tokens demo_signalled) (deposit_vault_key demo_runtime (i_deposit i)) \<and>
     deposits demo_fulfilled (i_deposit i) = Some d' \<and> intents demo_fulfilled demo_intent = None"
proof -
  have laws: "token_laws (in_env demo_runtime (at_time 2000))" using demo_sound by (simp add: sound_runtime_def)
  have run: "handle_fulfill_intent (in_env demo_runtime (at_time 2000)) demo_signalled demo_intent token_accounts
      dispute_accounts [] fulfill_args = Inr demo_fulfilled"
    using demo_fulfill by simp
  from fulfillment_effect [OF laws run] show ?thesis
    by (auto simp: demo_signalled_def demo_signalled_intent_def fulfill_args_def demo_key_defs)
qed

section \<open>Nothing is stuck\<close>

lemma prune_accounts_env [simp]: "prune_accounts (in_env rt env) = prune_accounts rt"
  by (simp add: fun_eq_iff prune_accounts_def)

lemma reached_invariants:
  assumes "sound_runtime rt H" and "list_all (ordinary H) es" and "ls = reached rt ms ts es"
  shows "protocol_inv rt H ls" and "coverage_inv rt ls"
  using run_protocol_inv [OF assms(1,2)] reached_coverage [OF assms(1,2)] assms(3) by simp_all

text \<open>
  C11. Liquidity is never stuck behind an expired intent: after any ordinary history whose takers have distinct counter
  addresses, anyone can prune an open intent, covered or not, as soon as the time is past the expiry of its lock, unless
  the owner has already cancelled its dispute. Pruning closes the intent, returns its whole amount to the available
  liquidity of its deposit, and frees the stake that covered it.
\<close>

theorem expired_intent_prunable:
  assumes "sound_runtime rt H" and "list_all (ordinary H) es" and "inj_on (taker_state_key rt) (signallers es)"
    and "ls = reached rt ms ts es" and "intents ls k = Some i"
    and "\<forall>l. intent_locks ls (intent_lock_key rt (i_deposit i) (i_intent_hash i)) = Some l \<longrightarrow>
      sint (el_expiry_time l) < sint (env_timestamp env)"
    and "\<not> (i_dispute_covered i \<and> map_option di_status (dispute_intents ls (dispute_addr rt (i_intent_hash i))) = Some Cancelled)"
  shows "\<exists>ls' d d'. execute rt ls (Call env (Intents (Prune_expired_intent k (prune_accounts rt ls i)))) = Inr ls' \<and>
    intents ls' k = None \<and> deposits ls (i_deposit i) = Some d \<and> deposits ls' (i_deposit i) = Some d' \<and>
    deposit_avail d' = deposit_avail d + unat (i_amount i) \<and>
    (i_dispute_covered i \<longrightarrow> stake_locks ls' (stake_lock_key rt (i_intent_hash i)) = None)"
  using assms(1-5)
proof (rule reached_intent_ends [where env = env])
  fix d l t ls' d'
  assume ctx: "ending_context (in_env rt env) ls k = Inr (i, d, l, t)"
    and l: "intent_locks ls (lock_addr rt i) = Some l" and e: "end_intent (in_env rt env) ls k i d l t = Inr ls'"
    and r: "deposits ls (i_deposit i) = Some d" "intents ls' k = None" "deposits ls' (i_deposit i) = Some d'"
      "deposit_avail d' = deposit_avail d + unat (i_amount i)"
  note inv = reached_invariants [OF assms(1,2,4)]
  have x: "sint (el_expiry_time l) < sint (unix_timestamp (in_env rt env))" using assms(6) l by (simp add: lock_addr_def)
  show ?thesis
  proof (cases "i_dispute_covered i")
    case False
    with ctx e x have "handle_prune_expired_intent (in_env rt env) ls k (prune_accounts rt ls i) = Inr ls'"
      by (simp add: handle_prune_expired_intent_def prune_accounts_def opt_singleton_def opt_account_def require_def)
    with r False show ?thesis by simp
  next
    case True
    then obtain dis where dis: "dispute_intents ls (dispute_addr rt (i_intent_hash i)) = Some dis" "stands_behind dis i"
      using inv(2) assms(5) by (auto simp: coverage_inv_def elim: coveredD)
    with assms(7) True have p: "di_status dis = Pending" "di_intent_hash dis = i_intent_hash i" by (auto simp: stands_behind_def)
    have "\<exists>ls1. handle_prune_expired_intent (in_env rt env) ls k (prune_accounts (in_env rt env) ls i) = Inr ls1 \<and>
        intents ls1 = intents ls' \<and> deposits ls1 = deposits ls' \<and>
        stake_locks ls1 = (stake_locks ls)(stake_lock_key (in_env rt env) (i_intent_hash i) := None)"
      by (rule prune_covered [OF ctx e True x, where H = H and dis = dis]) (use inv dis p in simp_all)
    with r show ?thesis by auto
  qed
qed

theorem expired_intent_prunable_witness:
  "\<exists>ls' d'. execute demo_runtime demo_signalled
       (Call (at_time 5000) (Intents (Prune_expired_intent demo_intent (prune_accounts demo_runtime demo_signalled demo_signalled_intent)))) =
     Inr ls' \<and> intents ls' demo_intent = None \<and> deposits ls' demo_deposit = Some d' \<and> deposit_avail d' = 500 \<and>
     stake_locks ls' (stake_lock_key demo_runtime 9) = None"
proof -
  have T: "inj_on (taker_state_key demo_runtime) (signallers signal_history)"
    by (simp add: signallers_def setup_events_def trade_events_def)
  have i: "intents (demo_reached signal_history) demo_intent = Some demo_signalled_intent"
    by (simp add: demo_histories demo_signalled_def demo_key_defs)
  have x: "\<forall>l. intent_locks (demo_reached signal_history)
      (intent_lock_key demo_runtime (i_deposit demo_signalled_intent) (i_intent_hash demo_signalled_intent)) = Some l \<longrightarrow>
      sint (el_expiry_time l) < sint (env_timestamp (at_time 5000))"
    by (simp add: demo_histories demo_signalled_def demo_signalled_intent_def demo_key_defs)
  have c: "\<not> (i_dispute_covered demo_signalled_intent \<and> map_option di_status (dispute_intents (demo_reached signal_history)
      (dispute_addr demo_runtime (i_intent_hash demo_signalled_intent))) = Some Cancelled)"
    by (simp add: demo_histories demo_signalled_def demo_prepared_def demo_signalled_intent_def demo_collateral_def demo_key_defs dispute_intent_seeds_def)
  from expired_intent_prunable [OF demo_sound demo_ordinary(3) T refl i x c]
  show ?thesis
    by (auto simp: demo_histories demo_signalled_def demo_signalled_intent_def demo_liquidity_def demo_key_defs simp del: execute.simps)
qed

text \<open>
  C12. The taker is never held: after any ordinary history whose takers have distinct counter addresses, the owner of an
  open intent can leave it at any time, paused protocol included. Without coverage, or once its dispute is cancelled, one
  instruction is enough; with a pending dispute the owner sends the transaction that cancels first the dispute and then
  the intent. The intent is closed, its amount is available to the deposit again, and the stake lock of a pending
  dispute is gone.
\<close>

theorem owner_can_cancel:
  assumes "sound_runtime rt H" and "list_all (ordinary H) es" and "inj_on (taker_state_key rt) (signallers es)"
    and "ls = reached rt ms ts es" and "intents ls k = Some i" and "external_key rt ls (i_owner i)"
  shows "\<exists>d d'. intents (run (execute rt) ls (exit_events rt ls env k i)) k = None \<and> deposits ls (i_deposit i) = Some d \<and>
    deposits (run (execute rt) ls (exit_events rt ls env k i)) (i_deposit i) = Some d' \<and>
    deposit_avail d' = deposit_avail d + unat (i_amount i) \<and>
    (i_dispute_covered i \<and> map_option di_status (dispute_intents ls (dispute_addr rt (i_intent_hash i))) = Some Pending \<longrightarrow>
      stake_locks (run (execute rt) ls (exit_events rt ls env k i)) (stake_lock_key rt (i_intent_hash i)) = None)"
  using assms(1-5)
proof (rule reached_intent_ends [where env = "cancel_transaction rt env k i"])
  let ?rt = "in_env rt (cancel_transaction rt env k i)" and ?dk = "dispute_addr rt (i_intent_hash i)"
  fix d l t ls' d'
  assume ctx: "ending_context ?rt ls k = Inr (i, d, l, t)"
    and l: "locks_intent i l" "ts_taker t = i_owner i" "i_orchestrator i = orchestrator_config_key rt"
    and e: "end_intent ?rt ls k i d l t = Inr ls'"
    and r: "deposits ls (i_deposit i) = Some d" "intents ls' k = None" "deposits ls' (i_deposit i) = Some d'"
      "deposit_avail d' = deposit_avail d + unat (i_amount i)"
  note inv = reached_invariants [OF assms(1,2,4)]
  show ?thesis
  proof (cases "i_dispute_covered i")
    case False
    with ctx e l have "handle_cancel_intent ?rt ls (i_owner i) k None = Inr ls'"
      by (simp add: handle_cancel_intent_def opt_account_def require_def constraint_def locks_intent_def)
    with r assms(6) False show ?thesis by (simp add: exit_events_def)
  next
    case True
    then obtain dis where dis: "dispute_intents ls ?dk = Some dis" "stands_behind dis i"
      using inv(2) assms(5) by (auto simp: coverage_inv_def elim: coveredD)
    from exit_covered [OF inv ctx e True l dis assms(5,6)] r dis(1) show ?thesis by auto
  qed
qed

theorem owner_can_cancel_witness:
  "\<exists>ls' d'. run (execute demo_runtime) demo_signalled (exit_events demo_runtime demo_signalled (at_time 1001) demo_intent demo_signalled_intent) = ls' \<and>
     intents ls' demo_intent = None \<and> deposits ls' demo_deposit = Some d' \<and> deposit_avail d' = 500 \<and>
     stake_locks ls' (stake_lock_key demo_runtime 9) = None"
proof -
  have T: "inj_on (taker_state_key demo_runtime) (signallers signal_history)"
    by (simp add: signallers_def setup_events_def trade_events_def)
  have i: "intents (demo_reached signal_history) demo_intent = Some demo_signalled_intent"
    by (simp add: demo_histories demo_signalled_def demo_key_defs)
  have x: "external_key demo_runtime (demo_reached signal_history) (i_owner demo_signalled_intent)"
    by (simp add: demo_histories demo_signalled_def demo_signalled_intent_def external_key_def demo_key_defs)
  have r: "demo_reached signal_history = demo_signalled" by (simp add: demo_histories)
  have f: "i_deposit demo_signalled_intent = demo_deposit" "i_intent_hash demo_signalled_intent = 9"
      "unat (i_amount demo_signalled_intent) = 200" "i_dispute_covered demo_signalled_intent"
    by (simp_all add: demo_signalled_intent_def demo_key_defs)
  have d: "deposits demo_signalled demo_deposit = Some (demo_liquidity 300 200 1)" "deposit_avail (demo_liquidity 300 200 1) = 300"
    by (simp_all add: demo_signalled_def demo_liquidity_def demo_key_defs)
  have p: "map_option di_status (dispute_intents demo_signalled (dispute_addr demo_runtime 9)) = Some Pending"
    by (simp add: demo_signalled_def demo_prepared_def demo_collateral_def demo_key_defs dispute_intent_seeds_def)
  from owner_can_cancel [OF demo_sound demo_ordinary(3) T refl i x, of "at_time 1001", unfolded r f d] p
  show ?thesis by (auto simp: d f simp del: run.simps)
qed

text \<open>
  C14. Collateral is never stuck: after any ordinary history, as soon as the risk window of a settled dispute is over,
  anyone can release it, which frees exactly the settled amount of the stake owner's locked stake and leaves the balance.
\<close>

theorem matured_collateral_released:
  assumes "sound_runtime rt H" and "list_all (ordinary H) es" and "ls = reached rt ms ts es"
    and "dispute_intents ls k = Some d" and "di_status d = Settled"
    and "sint (di_release_eligible_at d) \<le> sint (env_timestamp env)"
  shows "\<exists>ls' p p'. execute rt ls (Call env (Disputes (Release_matured_dispute k))) = Inr ls' \<and>
    dispute_intents ls' k = Some (d\<lparr>di_status := Released\<rparr>) \<and> stake_locks ls' (stake_lock_key rt (di_intent_hash d)) = None \<and>
    stake_positions ls (position_key rt (di_stake_owner d)) = Some p \<and> sp_owner p = di_stake_owner d \<and>
    stake_positions ls' (position_key rt (di_stake_owner d)) = Some p' \<and> sp_balance p' = sp_balance p \<and>
    unat (sp_locked p) = unat (sp_locked p') + unat (di_release_amount d)"
proof -
  let ?rt = "in_env rt env"
  have inv: "protocol_inv ?rt H ls" "coverage_inv ?rt ls" using reached_invariants [OF assms(1-3)] by simp_all
  have "live d" using assms(5) by (simp add: live_def)
  from live_dispute_secured [OF inv assms(4) this] obtain p l p' where s: "secured_dispute ?rt ls k d p l p'" .
  from dispute_context [OF inv(2) assms(4)] obtain v where "vault_account ?rt ls = Inr v" .
  from release_matured_dispute_succeeds [OF s this assms(4,5)] assms(6)
  have "execute rt ls (Call env (Disputes (Release_matured_dispute k))) =
      Inr (ls\<lparr>dispute_intents := (dispute_intents ls)(k \<mapsto> d\<lparr>di_status := Released\<rparr>),
        stake_positions := (stake_positions ls)(position_key rt (di_stake_owner d) \<mapsto> p'),
        stake_locks := (stake_locks ls)(stake_lock_key rt (di_intent_hash d) := None)\<rparr>)" by simp
  moreover have u: "StakePosition_unlock p (di_release_amount d) = Inr p'" "sp_owner p = di_stake_owner d"
      "stake_positions ls (position_key rt (di_stake_owner d)) = Some p"
    using s assms(5) by (simp_all add: secured_dispute_def collateral_def)
  moreover have "sp_balance p' = sp_balance p" by (subst StakePosition_unlock_Inr(2) [OF u(1)]) simp
  ultimately show ?thesis using StakePosition_unlock_Inr(1) [OF u(1)] by simp
qed

theorem matured_collateral_released_witness:
  "\<exists>ls'. execute demo_runtime demo_fulfilled (Call (at_time 2600) (Disputes (Release_matured_dispute demo_dispute))) = Inr ls' \<and>
     stake_locks ls' (stake_lock_key demo_runtime 9) = None \<and>
     (\<exists>p. stake_positions ls' (position_key demo_runtime 4) = Some p \<and> unat (sp_locked p) = 0 \<and> sp_balance p = 300)"
proof -
  have d: "dispute_intents (demo_reached settled_history) demo_dispute = Some (demo_collateral Settled 2600 150)"
    by (simp add: demo_histories demo_fulfilled_def demo_key_defs dispute_intent_seeds_def)
  have s: "di_status (demo_collateral Settled 2600 150) = Settled"
      "sint (di_release_eligible_at (demo_collateral Settled 2600 150)) \<le> sint (env_timestamp (at_time 2600))"
    by (simp_all add: demo_collateral_def)
  from matured_collateral_released [OF demo_sound demo_ordinary(2) refl d s]
  show ?thesis
    by (auto simp: demo_histories demo_fulfilled_def demo_collateral_def demo_position_def demo_key_defs simp del: execute.simps)
qed

section \<open>Admission\<close>

lemma escrow_floor_ge_fixed:
  assumes "DepositCurrency_escrow_floor c quote now = Inr floor" and "0 < floor"
  shows "dc_fixed_min_rate c \<le> floor"
  using assms by (auto simp: DepositCurrency_escrow_floor_def result_simps split: if_splits option.splits)

lemma escrow_floor_ge_market:
  assumes "DepositCurrency_escrow_floor c quote now = Inr floor" and "0 < floor" and "dc_oracle_quote c = Some k"
  shows "\<exists>q r. quote = Some q \<and> quote_usable q (dc_max_staleness c) now \<and>
    spread_rate_ceil (oq_market_rate q) (dc_spread_bps c) = Inr r \<and> r \<le> floor"
proof -
  from assms have listed: "dc_listed c" by (auto simp: DepositCurrency_escrow_floor_def split: if_splits)
  from assms obtain q where q: "quote = Some q" by (auto simp: DepositCurrency_escrow_floor_def result_simps split: if_splits)
  with escrow_floor_halted [of c k q now] assms have u: "quote_usable q (dc_max_staleness c) now" by auto
  with escrow_floor_oracle [OF listed assms(3) u] q assms(1) show ?thesis by (auto simp: result_simps)
qed

text \<open>The three floors of a rate: the fixed one, that of the oracle if there is one, that of the manager if there is one.\<close>

lemma effective_rate_floors:
  assumes "effective_rate rt c quote manager rm entry now = Inr floor" and "0 < floor"
  shows "dc_fixed_min_rate c \<le> floor"
    and "dc_oracle_quote c = Some k \<Longrightarrow> \<exists>q r. quote = Some (k, q) \<and> quote_usable q (dc_max_staleness c) now \<and>
      spread_rate_ceil (oq_market_rate q) (dc_spread_bps c) = Inr r \<and> r \<le> floor"
    and "manager = Some k \<Longrightarrow> \<exists>ek en. entry = Some (ek, en) \<and> re_rate_manager en = k \<and>
      re_payment_method en = dc_payment_method c \<and> re_currency en = dc_currency c \<and> 0 < re_rate en \<and> re_rate en \<le> floor"
proof -
  from assms obtain f where f: "DepositCurrency_escrow_floor c (map_option snd quote) now = Inr f" "0 < f" "f \<le> floor"
    by (auto simp: effective_rate_def result_simps word_greater_zero_iff split: if_splits option.splits)
  from escrow_floor_ge_fixed [OF f(1,2)] f(3) show "dc_fixed_min_rate c \<le> floor" by simp
  show "\<exists>q r. quote = Some (k, q) \<and> quote_usable q (dc_max_staleness c) now \<and>
      spread_rate_ceil (oq_market_rate q) (dc_spread_bps c) = Inr r \<and> r \<le> floor" if k: "dc_oracle_quote c = Some k"
  proof -
    from assms(1) k obtain q where "quote = Some (k, q)" by (auto simp: effective_rate_def result_simps)
    with escrow_floor_ge_market [OF f(1,2) k] f(3) show ?thesis by auto
  qed
  show "\<exists>ek en. entry = Some (ek, en) \<and> re_rate_manager en = k \<and>
      re_payment_method en = dc_payment_method c \<and> re_currency en = dc_currency c \<and> 0 < re_rate en \<and> re_rate en \<le> floor"
    if "manager = Some k"
    using assms that by (auto simp: effective_rate_def result_simps split: if_splits)
qed

lemma signal_checks_floors:
  assumes "signal_checks rt ls taker accs args oc e d m c ts = Inr (h, rm, rw)"
  shows "dc_fixed_min_rate c \<le> sia_conversion_rate args"
    and "dc_oracle_quote c = Some k \<Longrightarrow> \<exists>q r. oracle_quotes ls k = Some q \<and> quote_usable q (dc_max_staleness c) (unix_timestamp rt) \<and>
      spread_rate_ceil (oq_market_rate q) (dc_spread_bps c) = Inr r \<and> r \<le> sia_conversion_rate args"
    and "d_rate_manager d = Some k \<Longrightarrow> \<exists>ek en. rate_entries ls ek = Some en \<and> re_rate_manager en = k \<and>
      re_payment_method en = dc_payment_method c \<and> re_currency en = dc_currency c \<and> 0 < re_rate en \<and>
      re_rate en \<le> sia_conversion_rate args"
proof -
  from assms obtain quote entry floor where
      opt: "opt_account (oracle_quotes ls) (ska_oracle_quote accs) = Inr quote"
        "opt_account (rate_entries ls) (ska_rate_entry accs) = Inr entry"
      and rate: "effective_rate rt c quote (d_rate_manager d) rm entry (unix_timestamp rt) = Inr floor" "0 < floor"
        "floor \<le> sia_conversion_rate args"
    by (rule signal_checks_Inr)
  note floors = effective_rate_floors [OF rate(1,2)]
  show "dc_fixed_min_rate c \<le> sia_conversion_rate args" using floors(1) rate(3) by simp
  show "\<exists>q r. oracle_quotes ls k = Some q \<and> quote_usable q (dc_max_staleness c) (unix_timestamp rt) \<and>
      spread_rate_ceil (oq_market_rate q) (dc_spread_bps c) = Inr r \<and> r \<le> sia_conversion_rate args"
    if "dc_oracle_quote c = Some k"
    using floors(2) [OF that] opt(1) rate(3) by (auto simp: opt_account_Some intro: order_trans)
  show "\<exists>ek en. rate_entries ls ek = Some en \<and> re_rate_manager en = k \<and>
      re_payment_method en = dc_payment_method c \<and> re_currency en = dc_currency c \<and> 0 < re_rate en \<and>
      re_rate en \<le> sia_conversion_rate args" if "d_rate_manager d = Some k"
    using floors(3) [OF that] opt(2) rate(3) by (fastforce simp: opt_account_Some intro: order_trans)
qed

text \<open>
  C15. A signal honours the terms of the deposit: it succeeds only on an unpaused protocol, for an amount within the range
  and the available liquidity of a deposit that accepts intents and has a free slot, over an active payment method and a
  listed currency, to a nonzero recipient and with fees that are acceptable. Its rate is at least the fixed minimum of the
  currency; at least the spread market rate of a usable quote, if the currency names an oracle; and at least the positive
  rate of the deposit's rate manager for that currency, if the deposit has one. It moves exactly the amount from available
  to outstanding, and the new intent of the taker records amount, recipient and rate.
\<close>

theorem signal_honours_terms:
  assumes "handle_signal_intent rt ls taker accs args = Inr ls'"
  shows "\<exists>oc e d d' m c. orchestrator_config ls = Some oc \<and> escrow_config ls = Some e \<and> \<not> oc_paused oc \<and> \<not> ec_paused e \<and>
    deposits ls (ska_deposit accs) = Some d \<and> d_accepting_intents d \<and>
    ar_min (d_intent_amount_range d) \<le> sia_amount args \<and> sia_amount args \<le> ar_max (d_intent_amount_range d) \<and>
    d_active_intents d < ec_max_intents_per_deposit e \<and>
    payment_methods ls (payment_method_key rt (ska_deposit accs) (sia_payment_method args)) = Some m \<and> pm_active m \<and>
    deposit_currencies ls (currency_key rt (ska_deposit accs) (sia_payment_method args) (sia_fiat_currency args)) = Some c \<and>
    dc_listed c \<and> dc_fixed_min_rate c \<le> sia_conversion_rate args \<and>
    (\<forall>k. dc_oracle_quote c = Some k \<longrightarrow> (\<exists>q r. oracle_quotes ls k = Some q \<and>
       quote_usable q (dc_max_staleness c) (unix_timestamp rt) \<and>
       spread_rate_ceil (oq_market_rate q) (dc_spread_bps c) = Inr r \<and> r \<le> sia_conversion_rate args)) \<and>
    (\<forall>k. d_rate_manager d = Some k \<longrightarrow> (\<exists>ek en. rate_entries ls ek = Some en \<and> re_rate_manager en = k \<and>
       re_payment_method en = dc_payment_method c \<and> re_currency en = dc_currency c \<and>
       0 < re_rate en \<and> re_rate en \<le> sia_conversion_rate args)) \<and>
    sia_recipient args \<noteq> 0 \<and> validate_referral_fees (sia_referral_fees args) = Inr () \<and>
    deposits ls' (ska_deposit accs) = Some d' \<and> deposit_avail d = deposit_avail d' + unat (sia_amount args) \<and>
    deposit_held d' = deposit_held d + unat (sia_amount args) \<and>
    (\<exists>i. intents ls' (pda rt (intent_seeds rt (oc_next_intent_id oc))) = Some i \<and> i_owner i = taker \<and>
       i_deposit i = ska_deposit accs \<and> i_amount i = sia_amount args \<and> i_recipient i = sia_recipient args \<and>
       i_conversion_rate i = sia_conversion_rate args \<and> i_payee_id i = pm_payee_details m)"
  using assms
proof (rule signal_intent_effect)
  fix oc e d m c h rm rw d' x nid
  assume ctx: "signal_context rt ls (ska_deposit accs) args = Inr (oc, e, d, m, c)"
    and chk: "signal_checks rt ls taker accs args oc e d m c
       (init_if_needed (taker_states ls (taker_state_key rt taker)) zero_taker_state) = Inr (h, rm, rw)"
    and lock: "Deposit_lock d (sia_amount args) (ec_max_intents_per_deposit e) = Inr d'"
    and ls': "deposits ls' = (deposits ls)(ska_deposit accs \<mapsto> d')"
      "intents ls' = (intents ls)(pda rt (intent_seeds rt (oc_next_intent_id oc)) \<mapsto>
         new_intent rt oc taker (ska_deposit accs) m h (manager_terms rm) (covers rw) args)"
  note c = signal_context_Inr [OF ctx] and d = Deposit_lock_Inr [OF lock] and floors = signal_checks_floors [OF chk]
  have "d_active_intents d < ec_max_intents_per_deposit e"
    using d(6,7) by (simp add: word_le_nat_alt word_less_nat_alt)
  moreover have "deposits ls' (ska_deposit accs) = Some d'" by (simp add: ls')
  moreover have "\<exists>i. intents ls' (pda rt (intent_seeds rt (oc_next_intent_id oc))) = Some i \<and> i_owner i = taker \<and>
       i_deposit i = ska_deposit accs \<and> i_amount i = sia_amount args \<and> i_recipient i = sia_recipient args \<and>
       i_conversion_rate i = sia_conversion_rate args \<and> i_payee_id i = pm_payee_details m"
    by (simp add: ls' new_intent_def)
  moreover from chk have "\<not> oc_paused oc \<and> \<not> ec_paused e \<and> pm_active m \<and> dc_listed c \<and> sia_recipient args \<noteq> 0 \<and>
      validate_referral_fees (sia_referral_fees args) = Inr ()"
    by (rule signal_checks_Inr) simp
  ultimately show ?thesis using c d(1-5) floors by blast
qed

theorem signal_honours_terms_witness:
  "\<exists>d d' c. deposits demo_prepared demo_deposit = Some d \<and> sia_amount signal_args \<le> ar_max (d_intent_amount_range d) \<and>
     deposit_currencies demo_prepared (currency_key demo_runtime demo_deposit 21 23) = Some c \<and>
     dc_fixed_min_rate c \<le> sia_conversion_rate signal_args \<and>
     deposits demo_signalled demo_deposit = Some d' \<and> deposit_held d' = deposit_held d + 200"
proof -
  have run: "handle_signal_intent (in_env demo_runtime (at_time 1000)) demo_prepared 4 signal_accounts signal_args =
      Inr demo_signalled"
    using demo_signal by (simp split: if_splits)
  from signal_honours_terms [OF run] show ?thesis
    by (elim exE conjE, intro exI conjI) (simp_all add: signal_accounts_def signal_args_def currency_key_def currency_seeds_def)
qed

text \<open>
  C13. Coverage is real: in every ledger an ordinary history reaches, an open covered intent has the dispute account of its
  own hash, deposit, taker and amount, and as long as the owner has not cancelled that dispute it is pending and secured
  by a stake lock over exactly the amount of the intent.
\<close>

theorem covered_intent_has_collateral:
  assumes "sound_runtime rt H" and "list_all (ordinary H) es" and "ls = reached rt ms ts es"
    and "intents ls k = Some i" and "i_dispute_covered i"
  shows "\<exists>d. dispute_intents ls (dispute_addr rt (i_intent_hash i)) = Some d \<and> di_intent_hash d = i_intent_hash i \<and>
    di_deposit d = i_deposit i \<and> di_taker d = i_owner i \<and> di_locked_amount d = i_amount i \<and>
    (di_status d = Cancelled \<or> di_status d = Pending \<and>
      (\<exists>l. stake_locks ls (stake_lock_key rt (i_intent_hash i)) = Some l \<and> sl_stake_owner l = di_stake_owner d \<and> sl_amount l = i_amount i))"
proof -
  note inv = reached_invariants [OF assms(1-3)]
  obtain d where d: "dispute_intents ls (dispute_addr rt (i_intent_hash i)) = Some d" "stands_behind d i"
    using inv(2) assms(4,5) by (auto simp: coverage_inv_def elim: coveredD)
  have "\<exists>l. stake_locks ls (stake_lock_key rt (i_intent_hash i)) = Some l \<and> sl_stake_owner l = di_stake_owner d \<and> sl_amount l = i_amount i"
    if p: "di_status d = Pending"
  proof -
    have "live d" using p by (simp add: live_def)
    with inv(1) d(1) obtain l where "stake_locks ls (stake_lock_key rt (di_intent_hash d)) = Some l" "secures d l"
      unfolding protocol_inv_def dispute_inv_def by (meson backing_lock)
    with d(2) p show ?thesis by (auto simp: secures_def collateral_def stands_behind_def)
  qed
  with d show ?thesis by (auto simp: stands_behind_def)
qed

theorem covered_intent_has_collateral_witness:
  "\<exists>d l. dispute_intents demo_signalled demo_dispute = Some d \<and> di_status d = Pending \<and> di_taker d = 4 \<and>
     stake_locks demo_signalled (stake_lock_key demo_runtime 9) = Some l \<and> sl_amount l = 200"
proof -
  have i: "intents (demo_reached signal_history) demo_intent = Some demo_signalled_intent" "i_dispute_covered demo_signalled_intent"
    by (simp_all add: demo_histories demo_signalled_def demo_signalled_intent_def demo_key_defs)
  from covered_intent_has_collateral [OF demo_sound demo_ordinary(3) refl i] show ?thesis
    by (auto simp: demo_histories demo_signalled_def demo_prepared_def demo_signalled_intent_def demo_collateral_def demo_key_defs
        dispute_intent_seeds_def)
qed

end
