(* ===== verification/Policies.thy ===== *)
theory Policies
  imports History Demo_Open
begin

text \<open>
  Properties of the parts that set the terms of trade: the handover of the protocol authority and of the stake controller,
  the fees of rate managers and the lists of deposit whitelists.
\<close>

section \<open>Handovers\<close>

lemma governance_step_authority:
  assumes "governance_step rt ls i = Inr ls'" and "protocol ls = Some p" and "protocol ls' = Some p'"
    and "pc_authority p' \<noteq> pc_authority p"
  shows "i = Accept_protocol_authority (pc_authority p') \<and> pc_pending_authority p = Some (pc_authority p')"
  using assms
  by (cases i) (auto simp: handle_initialize_protocol_def check_initialize_args_def handle_propose_protocol_authority_def
      handle_accept_protocol_authority_def handle_configure_orchestrator_def handle_configure_escrow_def
      handle_propose_stake_controller_def handle_accept_stake_controller_def result_simps Let_def split: option.splits)

text \<open>
  C32. The protocol authority changes hands only with the consent of both sides: whatever event changes it is the
  acceptance, signed by the new authority, of a proposal that named exactly that key.
\<close>

theorem authority_changes_by_acceptance:
  assumes "execute rt ls e = Inr ls'" and "protocol ls = Some p" and "protocol ls' = Some p'"
    and "pc_authority p' \<noteq> pc_authority p"
  shows "\<exists>env. e = Call env (Governance (Accept_protocol_authority (pc_authority p'))) \<and>
    pc_pending_authority p = Some (pc_authority p') \<and> external_key rt ls (pc_authority p')"
  using assms(1)
proof (cases rule: execute_cases)
  case (call env i)
  show ?thesis
  proof (cases "\<exists>j. i = Governance j")
    case True
    then obtain j where j: "i = Governance j" by blast
    with call(2) governance_step_authority [of "in_env rt env" ls j ls', OF _ assms(2-4)]
    have "j = Accept_protocol_authority (pc_authority p')" "pc_pending_authority p = Some (pc_authority p')" by auto
    with call j show ?thesis by simp
  next
    case False
    with dispatch_stores(9) [OF call(2)] assms(2-4) show ?thesis by simp
  qed
next
  case (tokens ts)
  with assms(2-4) show ?thesis by simp
qed

definition demo_proposed :: ledger where
  "demo_proposed = demo_ready\<lparr>protocol := Some \<lparr>pc_authority = 1, pc_pending_authority = Some 6, pc_version = 1,
     pc_domain_seed_slot = 77, pc_domain_seed = 9, pc_domain_chain_id = 9, pc_bump = 255\<rparr>\<rparr>"

lemma demo_propose:
  "execute demo_runtime demo_ready (Call (at_time 0) (Governance (Propose_protocol_authority 1 (Some 6)))) = Inr demo_proposed"
  by (simp add: demo_trade demo_records demo_ready_def demo_proposed_def)

theorem authority_changes_by_acceptance_witness:
  "\<exists>ls' p'. execute demo_runtime demo_proposed (Call (at_time 0) (Governance (Accept_protocol_authority 6))) = Inr ls' \<and>
     protocol ls' = Some p' \<and> pc_authority p' = 6 \<and> external_key demo_runtime demo_proposed 6"
proof -
  obtain ls' where r: "execute demo_runtime demo_proposed (Call (at_time 0) (Governance (Accept_protocol_authority 6))) = Inr ls'"
      and p': "protocol ls' = Some \<lparr>pc_authority = 6, pc_pending_authority = None, pc_version = 1,
        pc_domain_seed_slot = 77, pc_domain_seed = 9, pc_domain_chain_id = 9, pc_bump = 255\<rparr>"
    by (simp add: demo_trade demo_ready_def demo_proposed_def)
  have p: "protocol demo_proposed = Some \<lparr>pc_authority = 1, pc_pending_authority = Some 6, pc_version = 1,
      pc_domain_seed_slot = 77, pc_domain_seed = 9, pc_domain_chain_id = 9, pc_bump = 255\<rparr>" by (simp add: demo_proposed_def)
  from authority_changes_by_acceptance [OF r p p'] r p' show ?thesis by auto
qed

text \<open>
  C33. The stake controller has a time lock: once a candidate is proposed, the candidate can accept exactly from the moment
  on that the configured delay has passed since the proposal, and nobody else can accept at all.
\<close>

theorem controller_timelock:
  assumes "handle_propose_stake_controller (in_env rt env) ls authority (Some candidate) = Inr ls'"
    and "stake_vault_config ls = Some v"
  shows "(\<exists>ls''. handle_accept_stake_controller (in_env rt env') ls' key = Inr ls'') \<longleftrightarrow>
    key = candidate \<and> sint (env_timestamp env) + sint (sv_controller_change_delay v) \<le> sint (env_timestamp env')"
proof -
  from assms obtain t where "sv_bump v = pda_bump rt [STAKE_VAULT_CONFIG_SEED]"
      and "sint t = sint (env_timestamp env) + sint (sv_controller_change_delay v)"
      and "ls' = ls\<lparr>stake_vault_config :=
        Some (v\<lparr>sv_pending_controller := Some candidate, sv_pending_controller_valid_at := t\<rparr>)\<rparr>"
    by (auto simp: handle_propose_stake_controller_def vault_account_def result_simps checked_simps)
  then show ?thesis
    by (auto simp: handle_accept_stake_controller_def vault_account_def result_simps)
qed

theorem controller_timelock_witness:
  "\<exists>ls'. handle_propose_stake_controller (in_env demo_runtime (at_time 5)) demo_ready 1 (Some 6) = Inr ls' \<and>
     \<not> (\<exists>ls''. handle_accept_stake_controller (in_env demo_runtime (at_time 86404)) ls' 6 = Inr ls'') \<and>
     (\<exists>ls''. handle_accept_stake_controller (in_env demo_runtime (at_time 86405)) ls' 6 = Inr ls'')"
proof -
  obtain ls' where r: "handle_propose_stake_controller (in_env demo_runtime (at_time 5)) demo_ready 1 (Some 6) = Inr ls'"
    by (simp add: demo_eval demo_ready_def demo_records)
  have v: "stake_vault_config demo_ready = Some (demo_vault 300 0)" by (simp add: demo_ready_def)
  from r controller_timelock [OF r v, of "at_time 86404" 6] controller_timelock [OF r v, of "at_time 86405" 6]
  show ?thesis by (simp add: demo_vault_def)
qed

section \<open>Rate managers and whitelists\<close>

text \<open>
  C34. The fee of a rate manager stays payable and below its ceiling, over every history: the ceiling is at most five
  percent, the fee at most the ceiling, a positive fee has a nonzero recipient; and neither the ceiling nor the identity of
  a manager ever changes after its creation.
\<close>

theorem manager_fees_capped:
  assumes "rate_managers (reached rt ms ts es) k = Some m"
  shows "unat (rm_fee m) \<le> unat (rm_max_fee m) \<and> 20 * unat (rm_max_fee m) \<le> 10 ^ 18 \<and> rm_manager m \<noteq> 0 \<and>
    (rm_fee m = 0 \<or> (\<exists>r. rm_fee_recipient m = Some r \<and> r \<noteq> 0)) \<and>
    (\<exists>m'. rate_managers (reached rt ms ts (es @ es')) k = Some m' \<and> rm_max_fee m' = rm_max_fee m \<and> rm_id m' = rm_id m)"
proof -
  have "rate_managers_ok (reached rt ms ts es)"
    unfolding reached_def by (rule rate_manager_history.run_inv) (simp add: rate_managers_ok_def genesis_def empty_ledger_def)
  with assms have "rate_manager_ok m" by (simp add: rate_managers_ok_def)
  moreover have "manager_kept (reached rt ms ts es) (reached rt ms ts (es @ es'))"
    unfolding reached_def run_append by (rule ceiling_history.run_le)
  ultimately show ?thesis
    using assms unfolding manager_kept_def by (auto simp: rate_manager_ok_def word_le_nat_alt limit_defs)
qed

definition manager_args :: CreateRateManagerArgs where
  "manager_args = \<lparr>crm_manager = 7, crm_fee_recipient = Some 8, crm_max_fee = 50000000000000000, crm_fee = 1000,
     crm_min_liquidity = 0, crm_name = ''desk'', crm_uri = ''''\<rparr>"

abbreviation "manager_event \<equiv> Call (at_time 0) (Rates (CreateRateManager manager_args))"

lemma demo_manager:
  "\<exists>ls' m. execute demo_runtime demo_ready manager_event = Inr ls' \<and>
     rate_managers ls' (pda demo_runtime (rate_manager_seeds (rate_manager_config_key demo_runtime) 0)) = Some m"
  by (simp add: demo_eval demo_ready_def demo_records manager_args_def handle_create_rate_manager_def)

theorem manager_fees_capped_witness:
  "\<exists>m. rate_managers (demo_reached (setup_events @ [manager_event]))
       (pda demo_runtime (rate_manager_seeds (rate_manager_config_key demo_runtime) 0)) = Some m \<and>
     unat (rm_fee m) \<le> unat (rm_max_fee m) \<and> 20 * unat (rm_max_fee m) \<le> 10 ^ 18"
proof -
  obtain m where m: "rate_managers (demo_reached (setup_events @ [manager_event]))
      (pda demo_runtime (rate_manager_seeds (rate_manager_config_key demo_runtime) 0)) = Some m"
    using demo_manager by (auto simp: reached_def run_append demo_setup demo_genesis_def [symmetric] simp del: execute.simps demo_pda)
  with manager_fees_capped [OF m] show ?thesis by blast
qed

text \<open>
  Whitelists stay sets of bounded size: over every history, the groups a deposit allows are pairwise distinct and at
  most \<^verbatim>\<open>MAX_GROUPS_PER_DEPOSIT\<close>.
\<close>

theorem allowed_groups_bounded:
  assumes "deposit_whitelists (reached rt ms ts es) k = Some w"
  shows "distinct (dw_allowed_groups w) \<and> length (dw_allowed_groups w) \<le> 10 \<and> dw_bootstrapped w"
proof -
  have "whitelists_ok (reached rt ms ts es)"
    unfolding reached_def by (rule whitelist_history.run_inv) (simp add: whitelists_ok_def genesis_def empty_ledger_def)
  with assms show ?thesis by (auto simp: whitelists_ok_def MAX_GROUPS_PER_DEPOSIT_def)
qed

theorem allowed_groups_bounded_witness:
  "\<exists>w. deposit_whitelists (demo_reached policy_history) (deposit_whitelist_key demo_runtime demo_deposit) = Some w \<and>
     dw_enabled w \<and> distinct (dw_allowed_groups w) \<and> length (dw_allowed_groups w) \<le> 10"
proof -
  obtain w where w: "deposit_whitelists (demo_reached policy_history) (deposit_whitelist_key demo_runtime demo_deposit) = Some w"
      "dw_enabled w"
    by (simp add: demo_open_histories demo_admitting_def deposit_whitelist_key_def deposit_whitelist_seeds_def demo_key_defs)
  with allowed_groups_bounded [OF w(1)] show ?thesis by blast
qed

end
