(* ===== verification/Deployment.thy ===== *)
theory Deployment
  imports Governance
begin

text \<open>
  The deployment library \<^verbatim>\<open>src/deployment/src/lib.rs\<close>: the configuration of a deployment with its validation, the
  canonical topology, the one initialisation instruction and the parser of witness addresses. Results are
  \<^verbatim>\<open>Result<_, String>\<close>, rendered as a sum with the message on the left; a \<^verbatim>\<open>&str\<close> is the list of its UTF-8 bytes.
  Printing of keys, the loader and system addresses and the code that Anchor generates for the instruction are the
  parameters gathered in \<open>toolchain\<close>.
\<close>

type_synonym 'a checked = "string + 'a"

fun try_ok :: "'a checked \<Rightarrow> ('a \<Rightarrow> 'b checked) \<Rightarrow> 'b checked" where
  "try_ok (Inl e) f = Inl e"
| "try_ok (Inr x) f = f x"

definition ensure :: "bool \<Rightarrow> string \<Rightarrow> 'a checked \<Rightarrow> 'a checked" where
  "ensure c msg k = (if c then k else Inl msg)"

definition or_fail :: "'a option \<Rightarrow> string \<Rightarrow> 'a checked" where
  "or_fail x msg = (case x of None \<Rightarrow> Inl msg | Some y \<Rightarrow> Inr y)"

lemma try_ok_Inr [result_simps]: "try_ok r f = Inr y \<longleftrightarrow> (\<exists>x. r = Inr x \<and> f x = Inr y)"
  by (cases r) auto

lemma ensure_Inr [result_simps]: "ensure c msg k = Inr y \<longleftrightarrow> c \<and> k = Inr y"
  by (simp add: ensure_def)

lemma or_fail_Inr [result_simps]: "or_fail x msg = Inr y \<longleftrightarrow> x = Some y"
  by (cases x) (simp_all add: or_fail_def)

subsection \<open>Configuration\<close>

record DeploymentConfig =
  dcf_authority :: pubkey
  dcf_stake_mint :: pubkey
  dcf_protocol_fee :: u128
  dcf_protocol_fee_recipient :: pubkey
  dcf_intent_expiration_period :: i64
  dcf_max_intents_per_deposit :: u16
  dcf_controller_change_delay :: i64
  dcf_initial_witnesses :: "eth_address list"
  dcf_required_signatures :: u8

text \<open>The loop over the witnesses: \<open>earlier\<close> is the slice before the index.\<close>

fun validate_witnesses :: "eth_address list \<Rightarrow> eth_address list \<Rightarrow> unit checked" where
  "validate_witnesses earlier [] = Inr ()"
| "validate_witnesses earlier (w # ws) =
     (if w = 0 then Inl ''witnesses must be nonzero''
      else if w \<in> set earlier then Inl ''witnesses must be unique''
      else validate_witnesses (earlier @ [w]) ws)"

definition DeploymentConfig_validate :: "DeploymentConfig \<Rightarrow> unit checked" where
  "DeploymentConfig_validate c =
     (if dcf_authority c = 0 \<or> dcf_stake_mint c = 0 \<or> dcf_protocol_fee_recipient c = 0
      then Inl ''authority, stake mint, and fee recipient must be nonzero''
      else if dcf_protocol_fee c > MAX_FEE then Inl ''protocol fee exceeds the immutable 5% ceiling''
      else if sint (dcf_intent_expiration_period c) \<le> 0 \<or>
              sint (dcf_intent_expiration_period c) > sint MAX_INTENT_LIFETIME_SECONDS
      then Inl ''intent expiration must be in 1..=5 days''
      else if dcf_max_intents_per_deposit c = 0 then Inl ''maximum intents per deposit must be nonzero''
      else if sint (dcf_controller_change_delay c) < sint MIN_CONTROLLER_CHANGE_DELAY_SECONDS
      then Inl ''controller change delay must be at least one day''
      else if dcf_initial_witnesses c = [] \<or> length (dcf_initial_witnesses c) > MAX_WITNESSES
      then Inl ''initial witness count must be in 1..=2''
      else if dcf_required_signatures c = 0 \<or> unat (dcf_required_signatures c) > length (dcf_initial_witnesses c)
      then Inl ''signature threshold must be in 1..=witness count''
      else validate_witnesses [] (dcf_initial_witnesses c))"

subsection \<open>Topology\<close>

record InitializeProtocolAccounts =
  ia_authority :: pubkey
  ia_program :: pubkey
  ia_program_data :: pubkey
  ia_slot_hashes :: pubkey
  ia_protocol :: pubkey
  ia_stake_mint :: pubkey
  ia_escrow_config :: pubkey
  ia_verifier_config :: pubkey
  ia_orchestrator_config :: pubkey
  ia_stake_vault_config :: pubkey
  ia_rate_manager_config :: pubkey
  ia_whitelist_config :: pubkey
  ia_dispute_config :: pubkey
  ia_system_program :: pubkey

record toolchain =
  base58 :: "256 word \<Rightarrow> string"
  loader_address :: "u8 list list \<Rightarrow> pubkey"
  slot_hashes_ID :: pubkey
  system_program_ID :: pubkey
  initialize_account_metas :: "InitializeProtocolAccounts \<Rightarrow> AccountMeta list"
  initialize_data :: "InitializeProtocolArgs \<Rightarrow> u8 list"

record Topology =
  tp_program :: string
  tp_protocol :: pubkey
  tp_escrow_config :: pubkey
  tp_verifier_config :: pubkey
  tp_orchestrator_config :: pubkey
  tp_stake_vault_config :: pubkey
  tp_rate_manager_config :: pubkey
  tp_whitelist_config :: pubkey
  tp_dispute_config :: pubkey
  tp_protocol_address :: string
  tp_escrow_config_address :: string
  tp_verifier_config_address :: string
  tp_orchestrator_config_address :: string
  tp_stake_vault_config_address :: string
  tp_rate_manager_config_address :: string
  tp_whitelist_config_address :: string
  tp_dispute_config_address :: string

definition seed_pda :: "runtime \<Rightarrow> u8 list \<Rightarrow> pubkey" where
  "seed_pda rt seed = pda rt [seed]"

definition program_data_address :: "toolchain \<Rightarrow> pubkey" where
  "program_data_address tc = loader_address tc [key_bytes crate_ID]"

definition Topology_derive :: "runtime \<Rightarrow> toolchain \<Rightarrow> Topology" where
  "Topology_derive rt tc =
     (let protocol = seed_pda rt PROTOCOL_SEED;
          escrow_config = seed_pda rt ESCROW_CONFIG_SEED;
          verifier_config = seed_pda rt VERIFIER_CONFIG_SEED;
          orchestrator_config = seed_pda rt ORCHESTRATOR_CONFIG_SEED;
          stake_vault_config = seed_pda rt STAKE_VAULT_CONFIG_SEED;
          rate_manager_config = seed_pda rt RATE_MANAGER_CONFIG_SEED;
          whitelist_config = seed_pda rt WHITELIST_CONFIG_SEED;
          dispute_config = seed_pda rt DISPUTE_CONFIG_SEED in
      \<lparr>tp_program = base58 tc crate_ID, tp_protocol = protocol, tp_escrow_config = escrow_config,
       tp_verifier_config = verifier_config, tp_orchestrator_config = orchestrator_config,
       tp_stake_vault_config = stake_vault_config, tp_rate_manager_config = rate_manager_config,
       tp_whitelist_config = whitelist_config, tp_dispute_config = dispute_config,
       tp_protocol_address = base58 tc protocol, tp_escrow_config_address = base58 tc escrow_config,
       tp_verifier_config_address = base58 tc verifier_config,
       tp_orchestrator_config_address = base58 tc orchestrator_config,
       tp_stake_vault_config_address = base58 tc stake_vault_config,
       tp_rate_manager_config_address = base58 tc rate_manager_config,
       tp_whitelist_config_address = base58 tc whitelist_config,
       tp_dispute_config_address = base58 tc dispute_config\<rparr>)"

definition initialize_args :: "DeploymentConfig \<Rightarrow> InitializeProtocolArgs" where
  "initialize_args c =
     \<lparr>ipa_protocol_fee = dcf_protocol_fee c, ipa_protocol_fee_recipient = dcf_protocol_fee_recipient c,
      ipa_intent_expiration_period = dcf_intent_expiration_period c,
      ipa_max_intents_per_deposit = dcf_max_intents_per_deposit c,
      ipa_controller_change_delay = dcf_controller_change_delay c,
      ipa_initial_witnesses = dcf_initial_witnesses c, ipa_required_signatures = dcf_required_signatures c\<rparr>"

definition initialize_instruction :: "runtime \<Rightarrow> toolchain \<Rightarrow> DeploymentConfig \<Rightarrow> Instruction checked" where
  "initialize_instruction rt tc c =
     try_ok (DeploymentConfig_validate c) (\<lambda>_.
     let topology = Topology_derive rt tc in
     Inr \<lparr>ix_program_id = crate_ID,
          ix_accounts = initialize_account_metas tc
            \<lparr>ia_authority = dcf_authority c, ia_program = crate_ID, ia_program_data = program_data_address tc,
             ia_slot_hashes = slot_hashes_ID tc, ia_protocol = tp_protocol topology, ia_stake_mint = dcf_stake_mint c,
             ia_escrow_config = tp_escrow_config topology, ia_verifier_config = tp_verifier_config topology,
             ia_orchestrator_config = tp_orchestrator_config topology,
             ia_stake_vault_config = tp_stake_vault_config topology,
             ia_rate_manager_config = tp_rate_manager_config topology,
             ia_whitelist_config = tp_whitelist_config topology, ia_dispute_config = tp_dispute_config topology,
             ia_system_program = system_program_ID tc\<rparr>,
          ix_data = initialize_data tc (initialize_args c)\<rparr>)"

subsection \<open>Witness addresses\<close>

text \<open>\<^verbatim>\<open>char::to_digit(16)\<close>\<close>

definition hex_digit :: "char \<Rightarrow> nat option" where
  "hex_digit c =
     (let n = of_char c :: nat in
      if 48 \<le> n \<and> n \<le> 57 then Some (n - 48)
      else if 97 \<le> n \<and> n \<le> 102 then Some (n - 87)
      else if 65 \<le> n \<and> n \<le> 70 then Some (n - 55)
      else None)"

text \<open>
  \<^verbatim>\<open>u8::from_str_radix(_, 16)\<close> of the standard library: one leading plus sign is allowed, an empty string and a sign
  alone are errors, and every step is checked against overflow.
\<close>

fun hex_value :: "nat \<Rightarrow> string \<Rightarrow> nat option" where
  "hex_value acc [] = Some acc"
| "hex_value acc (c # cs) =
     (case hex_digit c of
        None \<Rightarrow> None
      | Some x \<Rightarrow> if 16 * acc + x < 256 then hex_value (16 * acc + x) cs else None)"

definition from_str_radix_16 :: "string \<Rightarrow> u8 option" where
  "from_str_radix_16 s =
     (case s of
        [] \<Rightarrow> None
      | [c] \<Rightarrow> if c = CHR ''+'' \<or> c = CHR ''-'' then None else map_option of_nat (hex_value 0 [c])
      | c # cs \<Rightarrow> map_option of_nat (hex_value 0 (if c = CHR ''+'' then cs else s)))"

text \<open>\<^verbatim>\<open>str::get(start..end)\<close>: in range and both ends on a character boundary, that is, not at a continuation byte.\<close>

definition char_boundary :: "string \<Rightarrow> nat \<Rightarrow> bool" where
  "char_boundary s i \<longleftrightarrow> i = 0 \<or> i = length s \<or> i < length s \<and> \<not> (of_char (s ! i) div 64 = (2 :: nat))"

definition str_get :: "string \<Rightarrow> nat \<Rightarrow> nat \<Rightarrow> string option" where
  "str_get s start stop =
     (if start \<le> stop \<and> stop \<le> length s \<and> char_boundary s start \<and> char_boundary s stop
      then Some (take (stop - start) (drop start s)) else None)"

definition strip_str_prefix :: "string \<Rightarrow> string \<Rightarrow> string option" where
  "strip_str_prefix prefix s =
     (if take (length prefix) s = prefix then Some (drop (length prefix) s) else None)"

text \<open>The loop of \<^verbatim>\<open>parse_witness\<close> over the twenty bytes; the indices stay far below the word size.\<close>

fun parse_bytes :: "string \<Rightarrow> nat list \<Rightarrow> u8 list checked" where
  "parse_bytes raw [] = Inr []"
| "parse_bytes raw (index # rest) =
     try_ok (or_fail (str_get raw (index * 2) (index * 2 + 2)) ''witness must be valid UTF-8 hex'') (\<lambda>pair.
     try_ok (or_fail (from_str_radix_16 pair) ''witness must be hexadecimal'') (\<lambda>b.
     try_ok (parse_bytes raw rest) (\<lambda>bs. Inr (b # bs))))"

definition parse_witness :: "string \<Rightarrow> eth_address checked" where
  "parse_witness s =
     (let raw = (case strip_str_prefix ''0x'' s of None \<Rightarrow> s | Some r \<Rightarrow> r) in
      if length raw \<noteq> 40 then Inl ''witness must contain exactly 20 bytes''
      else try_ok (parse_bytes raw [0..<20]) (\<lambda>bs. Inr (of_be_bytes bs)))"

subsection \<open>The off-chain and the on-chain validation\<close>

lemma validate_witnesses_Inr:
  "validate_witnesses earlier ws = Inr () \<longleftrightarrow> check_witnesses earlier ws (Inr ()) = Inr ()"
  by (induction earlier ws rule: validate_witnesses.induct) (auto simp: result_simps)

lemma DeploymentConfig_validate_Inr:
  "DeploymentConfig_validate c = Inr () \<longleftrightarrow>
     dcf_authority c \<noteq> 0 \<and> dcf_stake_mint c \<noteq> 0 \<and> check_initialize_args (initialize_args c) (Inr ()) = Inr ()"
  by (auto simp: DeploymentConfig_validate_def check_initialize_args_def initialize_args_def validate_witnesses_Inr
      result_simps not_le not_less word_neq_0_conv)

subsection \<open>Hexadecimal text\<close>

text \<open>\<^verbatim>\<open>format!("{byte:02x}")\<close> for each byte.\<close>

definition nibble :: "nat \<Rightarrow> char" where
  "nibble n = char_of (if n < 10 then 48 + n else 87 + n)"

definition hex_byte :: "u8 \<Rightarrow> string" where
  "hex_byte b = [nibble (unat b div 16), nibble (unat b mod 16)]"

definition hex_bytes :: "u8 list \<Rightarrow> string" where
  "hex_bytes bs = concat (map hex_byte bs)"

lemma nibble_code: "n < 16 \<Longrightarrow> of_char (nibble n) = (if n < 10 then 48 + n else 87 + n :: nat)"
  by (simp add: nibble_def of_char_of)

lemma hex_digit_nibble: "n < 16 \<Longrightarrow> hex_digit (nibble n) = Some n"
  by (simp add: hex_digit_def nibble_code)

lemma nibble_not: "n < 16 \<Longrightarrow> nibble n \<noteq> CHR ''+'' \<and> nibble n \<noteq> CHR ''x''"
  using nibble_code [of n] by (auto split: if_splits)

lemma nibbles: "unat (b :: u8) div 16 < 16" "unat (b :: u8) mod 16 < 16"
  using unat_bound [of b] by simp_all

lemma from_str_radix_hex_byte: "from_str_radix_16 (hex_byte b) = Some b"
proof -
  have "16 * (unat b div 16) + unat b mod 16 = unat b" by simp
  moreover have "unat b < 256" using unat_bound [of b] by simp
  ultimately show ?thesis
    using nibbles [of b] by (simp add: from_str_radix_16_def hex_byte_def hex_digit_nibble nibble_not)
qed

lemma length_hex_byte [simp]: "length (hex_byte b) = 2"
  by (simp add: hex_byte_def)

lemma length_hex_bytes [simp]: "length (hex_bytes bs) = 2 * length bs"
  by (induction bs) (simp_all add: hex_bytes_def)

lemma hex_bytes_append: "hex_bytes (xs @ ys) = hex_bytes xs @ hex_bytes ys"
  by (simp add: hex_bytes_def)

lemma nibble_ascii: "n < 16 \<Longrightarrow> of_char (nibble n) < (128 :: nat)"
  by (simp add: nibble_code)

lemma hex_bytes_ascii: "c \<in> set (hex_bytes bs) \<Longrightarrow> of_char c < (128 :: nat)"
  by (auto simp: hex_bytes_def hex_byte_def intro!: nibble_ascii nibbles)

lemma hex_boundary: "i \<le> 2 * length bs \<Longrightarrow> char_boundary (hex_bytes bs) i"
proof -
  assume "i \<le> 2 * length bs"
  moreover have "of_char (hex_bytes bs ! i) div 64 \<noteq> (2 :: nat)" if "i < 2 * length bs"
    using hex_bytes_ascii [of "hex_bytes bs ! i" bs] that by (simp add: div_eq_dividend_iff)
  ultimately show ?thesis by (auto simp: char_boundary_def)
qed

lemma str_get_hex:
  assumes "i < length bs"
  shows "str_get (hex_bytes bs) (i * 2) (i * 2 + 2) = Some (hex_byte (bs ! i))"
proof -
  have "bs = take i bs @ bs ! i # drop (Suc i) bs" using assms by (rule id_take_nth_drop)
  then have "hex_bytes bs = hex_bytes (take i bs) @ hex_byte (bs ! i) @ hex_bytes (drop (Suc i) bs)"
    by (metis hex_bytes_append append_Cons append_Nil concat.simps hex_bytes_def list.simps(9) map_append)
  moreover have "length (hex_bytes (take i bs)) = i * 2" using assms by simp
  ultimately have "take 2 (drop (i * 2) (hex_bytes bs)) = hex_byte (bs ! i)" by simp
  with assms hex_boundary [of "i * 2" bs] hex_boundary [of "i * 2 + 2" bs] show ?thesis by (simp add: str_get_def)
qed

lemma parse_bytes_hex:
  "(\<And>i. i \<in> set is \<Longrightarrow> i < length bs) \<Longrightarrow> parse_bytes (hex_bytes bs) is = Inr (map (\<lambda>i. bs ! i) is)"
proof (induction "is")
  case Nil
  then show ?case by simp
next
  case (Cons i rest)
  then have "str_get (hex_bytes bs) (i * 2) (i * 2 + 2) = Some (hex_byte (bs ! i))" by (intro str_get_hex) simp
  with Cons show ?case by (simp add: from_str_radix_hex_byte or_fail_def)
qed

lemma strip_prefix_hex: "strip_str_prefix ''0x'' (hex_bytes bs) = None"
proof (cases bs)
  case Nil
  then show ?thesis by (simp add: strip_str_prefix_def hex_bytes_def)
next
  case (Cons b rest)
  then show ?thesis
    using nibble_not [OF nibbles(2) [of b]] by (simp add: strip_str_prefix_def hex_bytes_def hex_byte_def)
qed

lemma of_be_bytes_to_be_bytes: "of_be_bytes (to_be_bytes (w :: eth_address)) = w"
proof -
  have "be_nat (to_be_bytes w) = unat w"
    using unat_bound [of w] by (simp add: to_be_bytes_def be_nat_be_bytes)
  then show ?thesis by (simp add: of_be_bytes_def)
qed

lemma parse_witness_hex:
  "parse_witness (hex_bytes (to_be_bytes w)) = Inr w" "parse_witness (''0x'' @ hex_bytes (to_be_bytes w)) = Inr w"
proof -
  let ?bs = "to_be_bytes w"
  have "length ?bs = 20" by simp
  then have "parse_bytes (hex_bytes ?bs) [0..<20] = Inr ?bs"
    using parse_bytes_hex [of "[0..<20]" ?bs] map_nth [of ?bs] by simp
  moreover have "strip_str_prefix ''0x'' (''0x'' @ hex_bytes ?bs) = Some (hex_bytes ?bs)"
    by (simp add: strip_str_prefix_def)
  ultimately show "parse_witness (hex_bytes ?bs) = Inr w" "parse_witness (''0x'' @ hex_bytes ?bs) = Inr w"
    using strip_prefix_hex [of ?bs] by (simp_all add: parse_witness_def of_be_bytes_to_be_bytes del: append.simps)
qed

end
