(* ===== verification/Deployer.thy ===== *)
theory Deployer
  imports Deployment
begin

text \<open>
  The deployment tool \<^verbatim>\<open>src/deployment/src/main.rs\<close>: \<^verbatim>\<open>preflight\<close>, \<^verbatim>\<open>apply\<close> and \<^verbatim>\<open>verify\<close> with
  every check of the accounts they read, the fingerprint of the configuration and the receipts. The cluster is a parameter:
  the answers of the RPC calls, the decoders of third-party account formats, and the effect of sending the initialisation,
  which may have landed even when the call reports an error. The typed accounts of the program are those of the ledger;
  \<open>cl_account_value\<close> answers for every other account, at the addresses of the program too, and \<open>cl_read_account\<close> is the
  failure of a read other than that of an absent account. Keys and receipt files are in the theory \<open>Console\<close>.
\<close>

subsection \<open>Parameters\<close>

datatype loader_state = LoaderProgram pubkey | LoaderProgramData u64 "pubkey option" | LoaderOther

record chain_account =
  ca_owner :: pubkey
  ca_executable :: bool
  ca_data :: "u8 list"

record cluster =
  cl_genesis_hash :: "string checked"
  cl_get_account :: "pubkey \<Rightarrow> chain_account checked"
  cl_account_value :: "pubkey \<Rightarrow> chain_account option checked"
  cl_read_account :: "pubkey \<Rightarrow> unit checked"
  cl_send :: "Instruction \<Rightarrow> ledger \<Rightarrow> ledger \<times> string checked"
  cl_decode_loader :: "u8 list \<Rightarrow> loader_state checked"
  cl_unpack_mint :: "u8 list \<Rightarrow> (bool \<times> u8) option"
  cl_loader_ID :: pubkey

subsection \<open>Arguments\<close>

record ProtocolArgs =
  pg_stake_mint :: pubkey
  pg_protocol_fee_recipient :: pubkey
  pg_protocol_fee :: u128
  pg_intent_expiration_period :: i64
  pg_max_intents_per_deposit :: u16
  pg_controller_change_delay :: i64
  pg_witnesses :: "string list"
  pg_required_signatures :: u8

record RpcArgs =
  ra_rpc_url :: string
  ra_cluster_name :: string
  ra_expected_genesis_hash :: string
  ra_keypair :: "string option"
  ra_receipt :: "string option"
  ra_protocol :: ProtocolArgs

fun parse_witnesses :: "string list \<Rightarrow> eth_address list checked" where
  "parse_witnesses [] = Inr []"
| "parse_witnesses (s # ss) =
     try_ok (parse_witness s) (\<lambda>w. try_ok (parse_witnesses ss) (\<lambda>ws. Inr (w # ws)))"

definition ProtocolArgs_config :: "ProtocolArgs \<Rightarrow> pubkey \<Rightarrow> DeploymentConfig checked" where
  "ProtocolArgs_config args authority =
     try_ok (parse_witnesses (pg_witnesses args)) (\<lambda>initial_witnesses.
     Inr \<lparr>dcf_authority = authority, dcf_stake_mint = pg_stake_mint args, dcf_protocol_fee = pg_protocol_fee args,
          dcf_protocol_fee_recipient = pg_protocol_fee_recipient args,
          dcf_intent_expiration_period = pg_intent_expiration_period args,
          dcf_max_intents_per_deposit = pg_max_intents_per_deposit args,
          dcf_controller_change_delay = pg_controller_change_delay args,
          dcf_initial_witnesses = initial_witnesses, dcf_required_signatures = pg_required_signatures args\<rparr>)"

subsection \<open>Checks\<close>

definition require_state :: "bool \<Rightarrow> string \<Rightarrow> unit checked" where
  "require_state c label = (if c then Inr () else Inl (''topology verification failed: '' @ label))"

definition verify_genesis_hash :: "string \<Rightarrow> string \<Rightarrow> unit checked" where
  "verify_genesis_hash actual expected =
     (if expected = [] then Inl ''expected genesis hash must be nonempty''
      else if actual = expected then Inr ()
      else Inl (''cluster genesis hash mismatch: expected '' @ expected @ '', got '' @ actual))"

definition validate_deployment_domain :: "runtime \<Rightarrow> ProtocolConfig \<Rightarrow> unit checked" where
  "validate_deployment_domain rt p =
     try_ok (require_state (pc_domain_seed p \<noteq> 0) ''nonzero deployment-domain seed'') (\<lambda>_.
     let expected = hashv rt [DEPLOYMENT_DOMAIN_PREFIX, key_bytes crate_ID, key_bytes (pc_domain_seed p)] in
     try_ok (require_state (expected \<noteq> 0) ''nonzero deployment domain'') (\<lambda>_.
     require_state (pc_domain_chain_id p = expected) ''runtime-derived deployment domain''))"

definition hex32 :: "bytes32 \<Rightarrow> string" where
  "hex32 v = hex_bytes (key_bytes v)"

definition validate_legacy_mint :: "runtime \<Rightarrow> cluster \<Rightarrow> pubkey \<Rightarrow> u8 list \<Rightarrow> unit checked" where
  "validate_legacy_mint rt cl owner data =
     try_ok (require_state (owner = spl_token_ID rt) ''legacy SPL stake mint owner'') (\<lambda>_.
     try_ok (or_fail (cl_unpack_mint cl data) ''stake mint account is malformed'') (\<lambda>(is_initialized, decimals).
     try_ok (require_state is_initialized ''initialized stake mint'') (\<lambda>_.
     require_state (decimals = 6) ''six-decimal stake mint'')))"

definition require_upgradeable_loader :: "cluster \<Rightarrow> pubkey \<Rightarrow> string \<Rightarrow> unit checked" where
  "require_upgradeable_loader cl owner label =
     (if owner = cl_loader_ID cl then Inr () else Inl (label @ '' is not owned by the upgradeable BPF loader''))"

definition decode_loader_state :: "cluster \<Rightarrow> u8 list \<Rightarrow> loader_state checked" where
  "decode_loader_state cl data =
     (case cl_decode_loader cl data of
        Inl e \<Rightarrow> Inl (''invalid upgradeable-loader state: '' @ e) | Inr s \<Rightarrow> Inr s)"

definition programdata_address :: "cluster \<Rightarrow> pubkey \<Rightarrow> u8 list \<Rightarrow> pubkey checked" where
  "programdata_address cl owner data =
     try_ok (require_upgradeable_loader cl owner ''program account'') (\<lambda>_.
     try_ok (decode_loader_state cl data) (\<lambda>state.
     case state of
       LoaderProgram address \<Rightarrow> Inr address
     | _ \<Rightarrow> Inl ''executable account is not an upgradeable-loader Program account''))"

definition verify_programdata_control :: "cluster \<Rightarrow> pubkey \<Rightarrow> u8 list \<Rightarrow> pubkey \<Rightarrow> (pubkey \<times> u64) checked" where
  "verify_programdata_control cl owner data expected_authority =
     try_ok (require_upgradeable_loader cl owner ''ProgramData account'') (\<lambda>_.
     try_ok (decode_loader_state cl data) (\<lambda>state.
     case state of
       LoaderProgramData slot (Some authority) \<Rightarrow>
         (if authority = expected_authority then Inr (authority, slot)
          else Inl ''ProgramData upgrade authority does not match deployment authority'')
     | LoaderProgramData slot None \<Rightarrow> Inl ''ProgramData is immutable; expected the configured upgrade authority''
     | _ \<Rightarrow> Inl ''derived account is not an upgradeable-loader ProgramData account''))"

definition websocket_url :: "string \<Rightarrow> string checked" where
  "websocket_url rpc_url =
     (case strip_str_prefix ''https://'' rpc_url of
        Some rest \<Rightarrow> Inr (''wss://'' @ rest)
      | None \<Rightarrow>
          (case strip_str_prefix ''http://'' rpc_url of
             Some rest \<Rightarrow> Inr (''ws://'' @ rest)
           | None \<Rightarrow> Inl ''RPC URL must start with http:// or https://''))"

subsection \<open>Verification of the configuration accounts\<close>

record stack =
  st_protocol :: ProtocolConfig
  st_escrow :: EscrowConfig
  st_verifier :: VerifierConfig
  st_orchestrator :: OrchestratorConfig
  st_stake_vault :: StakeVaultConfig
  st_rate_manager :: RateManagerConfig
  st_whitelist :: WhitelistConfig
  st_dispute :: DisputeConfig

definition fetch :: "'a option \<Rightarrow> 'a checked" where
  "fetch x = or_fail x ''Account not found''"

definition load_stack :: "ledger \<Rightarrow> stack checked" where
  "load_stack ls =
     try_ok (fetch (protocol ls)) (\<lambda>p.
     try_ok (fetch (escrow_config ls)) (\<lambda>e.
     try_ok (fetch (verifier_config ls)) (\<lambda>v.
     try_ok (fetch (orchestrator_config ls)) (\<lambda>oc.
     try_ok (fetch (stake_vault_config ls)) (\<lambda>sv.
     try_ok (fetch (rate_manager_config ls)) (\<lambda>rm.
     try_ok (fetch (whitelist_config ls)) (\<lambda>wl.
     try_ok (fetch (dispute_config ls)) (\<lambda>dg.
     Inr \<lparr>st_protocol = p, st_escrow = e, st_verifier = v, st_orchestrator = oc, st_stake_vault = sv,
          st_rate_manager = rm, st_whitelist = wl, st_dispute = dg\<rparr>))))))))"

text \<open>The same accounts as the tool reads them, one after the other.\<close>

definition read_account :: "cluster \<Rightarrow> pubkey \<Rightarrow> 'a option \<Rightarrow> 'a checked" where
  "read_account cl key x = try_ok (cl_read_account cl key) (\<lambda>_. fetch x)"

definition read_stack :: "cluster \<Rightarrow> Topology \<Rightarrow> ledger \<Rightarrow> stack checked" where
  "read_stack cl topology ls =
     try_ok (read_account cl (tp_protocol topology) (protocol ls)) (\<lambda>p.
     try_ok (read_account cl (tp_escrow_config topology) (escrow_config ls)) (\<lambda>e.
     try_ok (read_account cl (tp_verifier_config topology) (verifier_config ls)) (\<lambda>v.
     try_ok (read_account cl (tp_orchestrator_config topology) (orchestrator_config ls)) (\<lambda>oc.
     try_ok (read_account cl (tp_stake_vault_config topology) (stake_vault_config ls)) (\<lambda>sv.
     try_ok (read_account cl (tp_rate_manager_config topology) (rate_manager_config ls)) (\<lambda>rm.
     try_ok (read_account cl (tp_whitelist_config topology) (whitelist_config ls)) (\<lambda>wl.
     try_ok (read_account cl (tp_dispute_config topology) (dispute_config ls)) (\<lambda>dg.
     Inr \<lparr>st_protocol = p, st_escrow = e, st_verifier = v, st_orchestrator = oc, st_stake_vault = sv,
          st_rate_manager = rm, st_whitelist = wl, st_dispute = dg\<rparr>))))))))"

lemma read_stack_loads: "read_stack cl topology ls = Inr s \<Longrightarrow> load_stack ls = Inr s"
  by (auto simp: read_stack_def read_account_def load_stack_def result_simps)

lemma load_stack_reads:
  "(\<And>key. cl_read_account cl key = Inr ()) \<Longrightarrow> read_stack cl topology ls = load_stack ls"
  by (simp add: read_stack_def read_account_def load_stack_def)

definition verify_wiring :: "runtime \<Rightarrow> Topology \<Rightarrow> DeploymentConfig \<Rightarrow> stack \<Rightarrow> unit checked" where
  "verify_wiring rt topology config s =
     try_ok (require_state (pc_authority (st_protocol s) \<noteq> 0) ''protocol authority'') (\<lambda>_.
     try_ok (require_state (pc_version (st_protocol s) = 1) ''latest schema version'') (\<lambda>_.
     try_ok (validate_deployment_domain rt (st_protocol s)) (\<lambda>_.
     try_ok (require_state (ec_protocol (st_escrow s) = tp_protocol topology) ''escrow protocol root'') (\<lambda>_.
     try_ok (require_state (ec_token_mint (st_escrow s) = dcf_stake_mint config) ''escrow token mint'') (\<lambda>_.
     try_ok (require_state (ec_dust_recipient (st_escrow s) \<noteq> 0) ''dust recipient'') (\<lambda>_.
     try_ok (require_state (sint (ec_intent_expiration_period (st_escrow s)) > 0 \<and>
         sint (ec_intent_expiration_period (st_escrow s)) \<le> sint MAX_INTENT_LIFETIME_SECONDS)
       ''intent expiration bounds'') (\<lambda>_.
     try_ok (require_state (ec_max_intents_per_deposit (st_escrow s) > 0) ''maximum intents'') (\<lambda>_.
     try_ok (require_state (vc_protocol (st_verifier s) = tp_protocol topology) ''verifier protocol root'') (\<lambda>_.
     try_ok (require_state (vc_domain_chain_id (st_verifier s) = pc_domain_chain_id (st_protocol s))
       ''verifier deployment domain'') (\<lambda>_.
     try_ok (require_state (vc_witnesses (st_verifier s) \<noteq> [] \<and> length (vc_witnesses (st_verifier s)) \<le> MAX_WITNESSES \<and>
         vc_required_signatures (st_verifier s) > 0 \<and>
         unat (vc_required_signatures (st_verifier s)) \<le> length (vc_witnesses (st_verifier s))) ''witness bounds'') (\<lambda>_.
     try_ok (require_state (oc_protocol (st_orchestrator s) = tp_protocol topology \<and>
         oc_escrow_config (st_orchestrator s) = tp_escrow_config topology \<and>
         oc_verifier_config (st_orchestrator s) = tp_verifier_config topology \<and>
         oc_domain_chain_id (st_orchestrator s) = pc_domain_chain_id (st_protocol s)) ''orchestrator wiring'') (\<lambda>_.
     try_ok (require_state (oc_protocol_fee (st_orchestrator s) \<le> MAX_FEE \<and>
         oc_protocol_fee_recipient (st_orchestrator s) \<noteq> 0) ''orchestrator fee bounds'') (\<lambda>_.
     try_ok (require_state (sv_protocol (st_stake_vault s) = tp_protocol topology \<and>
         sv_stake_mint (st_stake_vault s) = dcf_stake_mint config \<and> sv_controller (st_stake_vault s) \<noteq> 0)
       ''StakeVault wiring'') (\<lambda>_.
     try_ok (require_state (sv_controller_change_delay (st_stake_vault s) = dcf_controller_change_delay config)
       ''controller delay'') (\<lambda>_.
     try_ok (require_state (rmc_protocol (st_rate_manager s) = tp_protocol topology) ''RateManager protocol root'') (\<lambda>_.
     try_ok (require_state (wc_protocol (st_whitelist s) = tp_protocol topology) ''whitelist protocol root'') (\<lambda>_.
     require_state (dg_protocol (st_dispute s) = tp_protocol topology \<and>
       dg_stake_vault (st_dispute s) = tp_stake_vault_config topology \<and>
       dg_verifier_config (st_dispute s) = tp_verifier_config topology \<and>
       dg_domain_chain_id (st_dispute s) = pc_domain_chain_id (st_protocol s)) ''dispute wiring'')))))))))))))))))"

definition verify_expected :: "DeploymentConfig \<Rightarrow> stack \<Rightarrow> unit checked" where
  "verify_expected config s =
     try_ok (require_state (ec_intent_expiration_period (st_escrow s) = dcf_intent_expiration_period config \<and>
         ec_max_intents_per_deposit (st_escrow s) = dcf_max_intents_per_deposit config)
       ''expected escrow configuration'') (\<lambda>_.
     try_ok (require_state (vc_required_signatures (st_verifier s) = dcf_required_signatures config \<and>
         vc_witnesses (st_verifier s) = dcf_initial_witnesses config) ''expected verifier configuration'') (\<lambda>_.
     try_ok (require_state (oc_protocol_fee (st_orchestrator s) = dcf_protocol_fee config \<and>
         oc_protocol_fee_recipient (st_orchestrator s) = dcf_protocol_fee_recipient config)
       ''expected orchestrator configuration'') (\<lambda>_.
     require_state (sv_controller_change_delay (st_stake_vault s) = dcf_controller_change_delay config)
       ''expected controller delay'')))"

definition verify_initial :: "Topology \<Rightarrow> DeploymentConfig \<Rightarrow> stack \<Rightarrow> unit checked" where
  "verify_initial topology config s =
     try_ok (require_state (pc_authority (st_protocol s) = dcf_authority config) ''initial protocol authority'') (\<lambda>_.
     try_ok (require_state (pc_pending_authority (st_protocol s) = None) ''initial pending authority'') (\<lambda>_.
     try_ok (require_state (ec_dust_recipient (st_escrow s) = dcf_protocol_fee_recipient config \<and>
         ec_dust_threshold (st_escrow s) = 0 \<and> \<not> ec_paused (st_escrow s)) ''initial escrow defaults'') (\<lambda>_.
     try_ok (require_state (vc_payment_methods (st_verifier s) = []) ''initial verifier defaults'') (\<lambda>_.
     try_ok (require_state (oc_lifecycle_policy (st_orchestrator s) = PolicyWhitelistAndDispute \<and>
         \<not> oc_paused (st_orchestrator s)) ''initial orchestrator defaults'') (\<lambda>_.
     try_ok (require_state (sv_controller (st_stake_vault s) = tp_dispute_config topology \<and>
         sv_pending_controller (st_stake_vault s) = None) ''initial StakeVault defaults'') (\<lambda>_.
     require_state (\<not> dg_admissions_paused (st_dispute s)) ''initial dispute admission state''))))))"

definition verify_stack :: "runtime \<Rightarrow> Topology \<Rightarrow> DeploymentConfig \<Rightarrow> bool \<Rightarrow> stack \<Rightarrow> unit checked" where
  "verify_stack rt topology config just_initialized s =
     try_ok (verify_wiring rt topology config s) (\<lambda>_.
     try_ok (verify_expected config s) (\<lambda>_.
     if just_initialized then verify_initial topology config s else Inr ()))"

subsection \<open>Fingerprint\<close>

text \<open>The Borsh encodings of the types that are fingerprinted; no account is large enough for a list of \<open>2 ^ 32\<close> entries.\<close>

definition borsh_bool :: "bool \<Rightarrow> u8 list" where
  "borsh_bool b = [if b then 1 else 0]"

definition borsh_option :: "('a \<Rightarrow> u8 list) \<Rightarrow> 'a option \<Rightarrow> u8 list" where
  "borsh_option enc x = (case x of None \<Rightarrow> [0] | Some y \<Rightarrow> 1 # enc y)"

definition borsh_vec :: "('a \<Rightarrow> u8 list) \<Rightarrow> 'a list \<Rightarrow> u8 list" where
  "borsh_vec enc xs = to_le_bytes (of_nat (length xs) :: u32) @ concat (map enc xs)"

fun borsh_policy :: "LifecyclePolicy \<Rightarrow> u8 list" where
  "borsh_policy PolicyNone = [0]"
| "borsh_policy PolicyWhitelist = [1]"
| "borsh_policy PolicyWhitelistAndDispute = [2]"

definition configuration_bytes :: "stack \<Rightarrow> u8 list" where
  "configuration_bytes s =
     key_bytes (pc_authority (st_protocol s)) @
     borsh_option key_bytes (pc_pending_authority (st_protocol s)) @
     to_le_bytes (pc_version (st_protocol s)) @
     to_le_bytes (pc_domain_seed_slot (st_protocol s)) @
     key_bytes (pc_domain_seed (st_protocol s)) @
     key_bytes (pc_domain_chain_id (st_protocol s)) @
     key_bytes (ec_dust_recipient (st_escrow s)) @
     to_le_bytes (ec_dust_threshold (st_escrow s)) @
     to_le_bytes (ec_max_intents_per_deposit (st_escrow s)) @
     to_le_bytes (ec_intent_expiration_period (st_escrow s)) @
     borsh_bool (ec_paused (st_escrow s)) @
     to_le_bytes (vc_required_signatures (st_verifier s)) @
     borsh_vec to_be_bytes (vc_witnesses (st_verifier s)) @
     borsh_vec key_bytes (vc_payment_methods (st_verifier s)) @
     to_le_bytes (oc_protocol_fee (st_orchestrator s)) @
     key_bytes (oc_protocol_fee_recipient (st_orchestrator s)) @
     borsh_policy (oc_lifecycle_policy (st_orchestrator s)) @
     borsh_bool (oc_allow_multiple_intents (st_orchestrator s)) @
     borsh_bool (oc_paused (st_orchestrator s)) @
     key_bytes (sv_controller (st_stake_vault s)) @
     borsh_option key_bytes (sv_pending_controller (st_stake_vault s)) @
     to_le_bytes (sv_pending_controller_valid_at (st_stake_vault s)) @
     to_le_bytes (sv_controller_change_delay (st_stake_vault s)) @
     borsh_bool (dg_admissions_paused (st_dispute s))"

subsection \<open>Commands\<close>

text \<open>\<^verbatim>\<open>u128::to_string\<close>\<close>

fun decimal :: "nat \<Rightarrow> string" where
  "decimal n = (if n < 10 then [char_of (48 + n)] else decimal (n div 10) @ [char_of (48 + n mod 10)])"

declare decimal.simps [simp del]

record VerificationReceipt =
  vr_program :: string
  vr_cluster :: string
  vr_genesis_hash :: string
  vr_programdata :: string
  vr_programdata_slot :: u64
  vr_upgrade_authority :: string
  vr_authority :: string
  vr_protocol_authority :: string
  vr_domain_chain_id :: string
  vr_domain_seed_slot :: u64
  vr_domain_seed :: string
  vr_stake_mint :: string
  vr_protocol_fee_recipient :: string
  vr_protocol_fee :: string
  vr_required_signatures :: u8
  vr_witness_count :: nat
  vr_configuration_fingerprint :: string
  vr_initialization_signature :: "string option"
  vr_topology :: Topology
  vr_status :: string

text \<open>The configuration and the connection that both commands start with.\<close>

definition connect :: "cluster \<Rightarrow> pubkey \<Rightarrow> RpcArgs \<Rightarrow> (DeploymentConfig \<times> string) checked" where
  "connect cl authority args =
     try_ok (ProtocolArgs_config (ra_protocol args) authority) (\<lambda>config.
     try_ok (DeploymentConfig_validate config) (\<lambda>_.
     try_ok (websocket_url (ra_rpc_url args)) (\<lambda>_.
     try_ok (cl_genesis_hash cl) (\<lambda>genesis_hash.
     try_ok (verify_genesis_hash genesis_hash (ra_expected_genesis_hash args)) (\<lambda>_.
     Inr (config, genesis_hash))))))"

definition program_control :: "cluster \<Rightarrow> DeploymentConfig \<Rightarrow> chain_account \<Rightarrow> (pubkey \<times> pubkey \<times> u64) checked" where
  "program_control cl config program_account =
     ensure (ca_executable program_account) ''program account exists but is not executable'' (
     try_ok (programdata_address cl (ca_owner program_account) (ca_data program_account)) (\<lambda>address.
     try_ok (cl_get_account cl address) (\<lambda>programdata.
     try_ok (verify_programdata_control cl (ca_owner programdata) (ca_data programdata) (dcf_authority config))
       (\<lambda>(upgrade_authority, slot). Inr (address, upgrade_authority, slot)))))"

text \<open>\<^verbatim>\<open>run_rpc\<close> in three parts: the target of the command and who controls it, the initialisation, and the receipt.\<close>

definition rpc_target ::
  "runtime \<Rightarrow> cluster \<Rightarrow> pubkey \<Rightarrow> RpcArgs \<Rightarrow> (DeploymentConfig \<times> string \<times> pubkey \<times> pubkey \<times> u64) checked" where
  "rpc_target rt cl authority args =
     try_ok (connect cl authority args) (\<lambda>(config, genesis_hash).
     try_ok (cl_get_account cl crate_ID) (\<lambda>program_account.
     try_ok (program_control cl config program_account) (\<lambda>(address, upgrade_authority, slot).
     try_ok (cl_get_account cl (dcf_stake_mint config)) (\<lambda>mint_account.
     try_ok (validate_legacy_mint rt cl (ca_owner mint_account) (ca_data mint_account)) (\<lambda>_.
     Inr (config, genesis_hash, address, upgrade_authority, slot))))))"

text \<open>Whether any account exists at the address of the protocol configuration.\<close>

definition protocol_exists :: "cluster \<Rightarrow> Topology \<Rightarrow> ledger \<Rightarrow> bool checked" where
  "protocol_exists cl topology ls =
     try_ok (cl_account_value cl (tp_protocol topology)) (\<lambda>other. Inr (protocol ls \<noteq> None \<or> other \<noteq> None))"

definition initialize_if_absent ::
  "runtime \<Rightarrow> toolchain \<Rightarrow> cluster \<Rightarrow> ledger \<Rightarrow> DeploymentConfig \<Rightarrow> bool \<Rightarrow> ledger \<times> string option checked" where
  "initialize_if_absent rt tc cl ls config applying =
     (case protocol_exists cl (Topology_derive rt tc) ls of
        Inl e \<Rightarrow> (ls, Inl e)
      | Inr initialized \<Rightarrow>
          if applying \<and> \<not> initialized then
            (case initialize_instruction rt tc config of
               Inl e \<Rightarrow> (ls, Inl e)
             | Inr instruction \<Rightarrow>
                 (case cl_send cl instruction ls of
                    (ls', Inl e) \<Rightarrow> (ls', Inl e)
                  | (ls', Inr signature) \<Rightarrow> (ls', Inr (Some signature))))
          else (ls, ensure (applying \<or> initialized) ''protocol is not initialized'' (Inr None)))"

definition verification_receipt ::
  "runtime \<Rightarrow> toolchain \<Rightarrow> cluster \<Rightarrow> RpcArgs \<Rightarrow> DeploymentConfig \<Rightarrow> string \<Rightarrow> pubkey \<Rightarrow> pubkey \<Rightarrow> u64 \<Rightarrow> ledger \<Rightarrow> string option \<Rightarrow>
   VerificationReceipt checked" where
  "verification_receipt rt tc cl args config genesis_hash address upgrade_authority slot ls initialization_signature =
     (let topology = Topology_derive rt tc in
     try_ok (read_stack cl topology ls) (\<lambda>s.
     try_ok (verify_stack rt topology config (initialization_signature \<noteq> None) s) (\<lambda>_.
     Inr \<lparr>vr_program = base58 tc crate_ID, vr_cluster = ra_cluster_name args, vr_genesis_hash = genesis_hash,
        vr_programdata = base58 tc address, vr_programdata_slot = slot,
        vr_upgrade_authority = base58 tc upgrade_authority, vr_authority = base58 tc (dcf_authority config),
        vr_protocol_authority = base58 tc (pc_authority (st_protocol s)),
        vr_domain_chain_id = hex32 (pc_domain_chain_id (st_protocol s)),
        vr_domain_seed_slot = pc_domain_seed_slot (st_protocol s),
        vr_domain_seed = hex32 (pc_domain_seed (st_protocol s)), vr_stake_mint = base58 tc (dcf_stake_mint config),
        vr_protocol_fee_recipient = base58 tc (oc_protocol_fee_recipient (st_orchestrator s)),
        vr_protocol_fee = decimal (unat (oc_protocol_fee (st_orchestrator s))),
        vr_required_signatures = vc_required_signatures (st_verifier s),
        vr_witness_count = length (vc_witnesses (st_verifier s)),
        vr_configuration_fingerprint = base58 tc (hashv rt [configuration_bytes s]),
        vr_initialization_signature = initialization_signature, vr_topology = topology,
        vr_status = ''verified''\<rparr>)))"

definition run_rpc ::
  "runtime \<Rightarrow> toolchain \<Rightarrow> cluster \<Rightarrow> ledger \<Rightarrow> pubkey \<Rightarrow> RpcArgs \<Rightarrow> bool \<Rightarrow> ledger \<times> VerificationReceipt checked" where
  "run_rpc rt tc cl ls authority args applying =
     (case rpc_target rt cl authority args of
        Inl e \<Rightarrow> (ls, Inl e)
      | Inr (config, genesis_hash, address, upgrade_authority, slot) \<Rightarrow>
          (case initialize_if_absent rt tc cl ls config applying of
             (ls', Inl e) \<Rightarrow> (ls', Inl e)
           | (ls', Inr initialization_signature) \<Rightarrow>
               (ls', verification_receipt rt tc cl args config genesis_hash address upgrade_authority slot ls'
                  initialization_signature)))"

record PreflightReceipt =
  pr_program :: string
  pr_cluster :: string
  pr_genesis_hash :: string
  pr_program_state :: string
  pr_programdata :: "string option"
  pr_programdata_slot :: "u64 option"
  pr_upgrade_authority :: "string option"
  pr_stake_mint :: string
  pr_domain_chain_id :: "string option"
  pr_domain_seed_slot :: "u64 option"
  pr_domain_seed :: "string option"
  pr_status :: string

definition preflight_domain ::
  "runtime \<Rightarrow> cluster \<Rightarrow> Topology \<Rightarrow> ledger \<Rightarrow> (string \<times> (string \<times> u64 \<times> string) option) checked" where
  "preflight_domain rt cl topology ls =
     try_ok (protocol_exists cl topology ls) (\<lambda>initialized.
     if initialized
     then try_ok (read_account cl (tp_protocol topology) (protocol ls)) (\<lambda>p.
          try_ok (validate_deployment_domain rt p) (\<lambda>_.
          Inr (''initialized'', Some (hex32 (pc_domain_chain_id p), pc_domain_seed_slot p, hex32 (pc_domain_seed p)))))
     else Inr (''executable-uninitialized'', None))"

definition run_preflight ::
  "runtime \<Rightarrow> toolchain \<Rightarrow> cluster \<Rightarrow> ledger \<Rightarrow> pubkey \<Rightarrow> RpcArgs \<Rightarrow> PreflightReceipt checked" where
  "run_preflight rt tc cl ls authority args =
     try_ok (connect cl authority args) (\<lambda>(config, genesis_hash).
     try_ok (cl_get_account cl (dcf_stake_mint config)) (\<lambda>mint_account.
     try_ok (validate_legacy_mint rt cl (ca_owner mint_account) (ca_data mint_account)) (\<lambda>_.
     try_ok (cl_account_value cl crate_ID) (\<lambda>existing_program.
     try_ok (case existing_program of
         Some program_account \<Rightarrow>
           try_ok (program_control cl config program_account) (\<lambda>(address, upgrade_authority, slot).
           try_ok (preflight_domain rt cl (Topology_derive rt tc) ls) (\<lambda>(program_state, domain).
           Inr (program_state, Some (base58 tc address), Some slot, Some (base58 tc upgrade_authority), domain)))
       | None \<Rightarrow> Inr (''absent'', None, None, None, None))
       (\<lambda>(program_state, programdata, programdata_slot, upgrade_authority, domain).
     Inr \<lparr>pr_program = base58 tc crate_ID, pr_cluster = ra_cluster_name args, pr_genesis_hash = genesis_hash,
          pr_program_state = program_state, pr_programdata = programdata, pr_programdata_slot = programdata_slot,
          pr_upgrade_authority = upgrade_authority, pr_stake_mint = base58 tc (dcf_stake_mint config),
          pr_domain_chain_id = map_option fst domain, pr_domain_seed_slot = map_option (fst \<circ> snd) domain,
          pr_domain_seed = map_option (snd \<circ> snd) domain, pr_status = ''verified''\<rparr>)))))"

subsection \<open>A fresh deployment verifies\<close>

lemma require_state_Inr [result_simps]: "require_state c label = Inr u \<longleftrightarrow> c"
  by (simp add: require_state_def)

lemma Topology_derive_keys:
  "tp_protocol (Topology_derive rt tc) = protocol_key rt"
  "tp_escrow_config (Topology_derive rt tc) = escrow_config_key rt"
  "tp_verifier_config (Topology_derive rt tc) = verifier_config_key rt"
  "tp_orchestrator_config (Topology_derive rt tc) = orchestrator_config_key rt"
  "tp_stake_vault_config (Topology_derive rt tc) = stake_vault_config_key rt"
  "tp_rate_manager_config (Topology_derive rt tc) = rate_manager_config_key rt"
  "tp_whitelist_config (Topology_derive rt tc) = whitelist_config_key rt"
  "tp_dispute_config (Topology_derive rt tc) = dispute_config_key rt"
  by (simp_all add: Topology_derive_def Let_def seed_pda_def protocol_key_def escrow_config_key_def verifier_config_key_def
      orchestrator_config_key_def stake_vault_config_key_def rate_manager_config_key_def whitelist_config_key_def
      dispute_config_key_def)

lemma newest_slot_hash_nonzero: "newest_slot_hash data = Inr (slot, h) \<Longrightarrow> h \<noteq> 0"
  by (auto simp: newest_slot_hash_def Let_def result_simps split: if_splits option.splits)

definition initial_stack :: "runtime \<Rightarrow> pubkey \<Rightarrow> u64 \<Rightarrow> bytes32 \<Rightarrow> pubkey \<Rightarrow> InitializeProtocolArgs \<Rightarrow> stack" where
  "initial_stack rt authority slot seed mint args = \<lparr>
       st_protocol = \<lparr>pc_authority = authority, pc_pending_authority = None, pc_version = 1, pc_domain_seed_slot = slot,
         pc_domain_seed = seed, pc_domain_chain_id = derive_deployment_domain rt crate_ID seed,
         pc_bump = pda_bump rt [PROTOCOL_SEED]\<rparr>,
       st_escrow = \<lparr>ec_protocol = protocol_key rt, ec_token_mint = mint, ec_dust_recipient = ipa_protocol_fee_recipient args,
         ec_dust_threshold = 0, ec_max_intents_per_deposit = ipa_max_intents_per_deposit args,
         ec_intent_expiration_period = ipa_intent_expiration_period args, ec_next_deposit_id = 0, ec_paused = False,
         ec_bump = pda_bump rt [ESCROW_CONFIG_SEED]\<rparr>,
       st_verifier = \<lparr>vc_protocol = protocol_key rt, vc_domain_chain_id = derive_deployment_domain rt crate_ID seed,
         vc_required_signatures = ipa_required_signatures args, vc_witnesses = ipa_initial_witnesses args,
         vc_payment_methods = [], vc_bump = pda_bump rt [VERIFIER_CONFIG_SEED]\<rparr>,
       st_orchestrator = \<lparr>oc_protocol = protocol_key rt, oc_escrow_config = escrow_config_key rt,
         oc_verifier_config = verifier_config_key rt, oc_domain_chain_id = derive_deployment_domain rt crate_ID seed,
         oc_protocol_fee = ipa_protocol_fee args, oc_protocol_fee_recipient = ipa_protocol_fee_recipient args,
         oc_lifecycle_policy = PolicyWhitelistAndDispute, oc_allow_multiple_intents = False,
         oc_next_intent_id = 0, oc_paused = False, oc_bump = pda_bump rt [ORCHESTRATOR_CONFIG_SEED]\<rparr>,
       st_stake_vault = \<lparr>sv_protocol = protocol_key rt, sv_stake_mint = mint, sv_controller = dispute_config_key rt,
         sv_pending_controller = None, sv_pending_controller_valid_at = 0,
         sv_controller_change_delay = ipa_controller_change_delay args, sv_total_staked = 0,
         sv_total_claimable = 0, sv_bump = pda_bump rt [STAKE_VAULT_CONFIG_SEED],
         sv_vault_authority_bump = pda_bump rt [STAKE_VAULT_CONFIG_SEED]\<rparr>,
       st_rate_manager = \<lparr>rmc_protocol = protocol_key rt, rmc_next_manager_id = 0,
         rmc_bump = pda_bump rt [RATE_MANAGER_CONFIG_SEED]\<rparr>,
       st_whitelist = \<lparr>wc_protocol = protocol_key rt, wc_next_group_id = 0, wc_bump = pda_bump rt [WHITELIST_CONFIG_SEED]\<rparr>,
       st_dispute = \<lparr>dg_protocol = protocol_key rt, dg_domain_chain_id = derive_deployment_domain rt crate_ID seed,
         dg_stake_vault = stake_vault_config_key rt, dg_verifier_config = verifier_config_key rt,
         dg_admissions_paused = False, dg_bump = pda_bump rt [DISPUTE_CONFIG_SEED]\<rparr>\<rparr>"

lemma check_initialize_args_then:
  fixes k :: "'a result"
  assumes "check_initialize_args args k = Inr y"
  shows "check_initialize_args args (Inr ()) = Inr ()" "k = Inr y"
proof -
  have "check_witnesses prior ws k = Inr y \<Longrightarrow> check_witnesses prior ws (Inr ()) = Inr () \<and> k = Inr y" for prior ws
    by (induction prior ws k rule: check_witnesses.induct) (auto simp: require_Inr)
  with assms show "check_initialize_args args (Inr ()) = Inr ()" "k = Inr y"
    by (auto simp: check_initialize_args_def require_Inr)
qed

lemma initialize_protocol_stack:
  assumes "handle_initialize_protocol rt ls authority pd d sh mint args = Inr ls'"
  obtains slot seed where "newest_slot_hash sh = Inr (slot, seed)" "derive_deployment_domain rt crate_ID seed \<noteq> 0"
    "check_initialize_args args (Inr ()) = Inr ()" "load_stack ls' = Inr (initial_stack rt authority slot seed mint args)"
proof -
  from assms obtain slot seed where seed: "newest_slot_hash sh = Inr (slot, seed)"
    by (auto simp: handle_initialize_protocol_def result_simps)
  from assms have d: "derive_deployment_domain rt crate_ID seed \<noteq> 0"
    by (auto simp: handle_initialize_protocol_def Let_def result_simps seed)
  have "\<exists>x. check_initialize_args args (Inr x) = Inr ls' \<and>
      load_stack x = Inr (initial_stack rt authority slot seed mint args)"
    by (insert assms, simp add: handle_initialize_protocol_def Let_def result_simps seed, elim exE conjE, rule exI, rule conjI)
      (assumption, simp add: load_stack_def fetch_def or_fail_def initial_stack_def)
  then obtain x where x: "check_initialize_args args (Inr x) = Inr ls'"
      "load_stack x = Inr (initial_stack rt authority slot seed mint args)" by (elim exE conjE)
  note c = check_initialize_args_then [OF x(1)]
  from c(2) x(2) show thesis by (intro that [OF seed d c(1)]) simp
qed

lemma fresh_stack_verifies:
  assumes valid: "DeploymentConfig_validate c = Inr ()" and nz: "dispute_config_key rt \<noteq> 0"
    and run: "handle_initialize_protocol rt ls (dcf_authority c) pd d sh (dcf_stake_mint c) (initialize_args c) = Inr ls'"
  shows "\<exists>s. load_stack ls' = Inr s \<and> verify_stack rt (Topology_derive rt tc) c True s = Inr ()"
  using run
proof (rule initialize_protocol_stack)
  fix slot seed
  assume seed: "newest_slot_hash sh = Inr (slot, seed)" "derive_deployment_domain rt crate_ID seed \<noteq> 0"
    and args: "check_initialize_args (initialize_args c) (Inr ()) = Inr ()"
    and s: "load_stack ls' = Inr (initial_stack rt (dcf_authority c) slot seed (dcf_stake_mint c) (initialize_args c))"
  have "dcf_authority c \<noteq> 0" using valid by (simp add: DeploymentConfig_validate_Inr)
  with seed newest_slot_hash_nonzero [OF seed(1)] nz args
  have "verify_stack rt (Topology_derive rt tc) c True
      (initial_stack rt (dcf_authority c) slot seed (dcf_stake_mint c) (initialize_args c)) = Inr ()"
    by (simp add: initial_stack_def verify_stack_def verify_wiring_def verify_expected_def verify_initial_def Topology_derive_keys
        validate_deployment_domain_def derive_deployment_domain_def check_initialize_args_def initialize_args_def
        require_state_def require_Inr Let_def)
  with s show ?thesis by blast
qed

end
