(* ===== verification/Wiring.thy ===== *)
theory Wiring
  imports Deployer Limits Program_Invariant
begin

text \<open>
  The wiring that the deployment tool verifies is permanent. The checks of \<^verbatim>\<open>verify_wiring\<close> are a predicate on each of
  the eight configuration accounts, given the domain of the deployment; every instruction keeps each predicate, because
  no instruction writes the links between the accounts, governance moves the parameters only within their bounds, and
  authorities change only to keys that sign.
\<close>

definition present :: "('a \<Rightarrow> bool) \<Rightarrow> 'a option \<Rightarrow> bool" where
  "present P x \<longleftrightarrow> (case x of None \<Rightarrow> False | Some y \<Rightarrow> P y)"

lemma present_Some [simp]: "present P (Some y) = P y" "\<not> present P None"
  by (simp_all add: present_def)

lemma presentE: "present P x \<Longrightarrow> (\<And>y. x = Some y \<Longrightarrow> P y \<Longrightarrow> thesis) \<Longrightarrow> thesis"
  by (cases x) simp_all

definition root_wired :: "runtime \<Rightarrow> bytes32 \<Rightarrow> ProtocolConfig \<Rightarrow> bool" where
  "root_wired rt domain p \<longleftrightarrow> pc_authority p \<noteq> 0 \<and> pc_version p = 1 \<and> validate_deployment_domain rt p = Inr () \<and>
     pc_domain_chain_id p = domain"

definition escrow_wired :: "runtime \<Rightarrow> DeploymentConfig \<Rightarrow> EscrowConfig \<Rightarrow> bool" where
  "escrow_wired rt c e \<longleftrightarrow> ec_protocol e = protocol_key rt \<and> ec_token_mint e = dcf_stake_mint c \<and> ec_dust_recipient e \<noteq> 0 \<and>
     0 < sint (ec_intent_expiration_period e) \<and> sint (ec_intent_expiration_period e) \<le> sint MAX_INTENT_LIFETIME_SECONDS \<and>
     0 < ec_max_intents_per_deposit e"

definition verifier_wired :: "runtime \<Rightarrow> bytes32 \<Rightarrow> VerifierConfig \<Rightarrow> bool" where
  "verifier_wired rt domain v \<longleftrightarrow> vc_protocol v = protocol_key rt \<and> vc_domain_chain_id v = domain \<and> vc_witnesses v \<noteq> [] \<and>
     length (vc_witnesses v) \<le> MAX_WITNESSES \<and> 0 < vc_required_signatures v \<and>
     unat (vc_required_signatures v) \<le> length (vc_witnesses v)"

definition orchestrator_wired :: "runtime \<Rightarrow> bytes32 \<Rightarrow> OrchestratorConfig \<Rightarrow> bool" where
  "orchestrator_wired rt domain oc \<longleftrightarrow> oc_protocol oc = protocol_key rt \<and> oc_escrow_config oc = escrow_config_key rt \<and>
     oc_verifier_config oc = verifier_config_key rt \<and> oc_domain_chain_id oc = domain \<and> oc_protocol_fee oc \<le> MAX_FEE \<and>
     oc_protocol_fee_recipient oc \<noteq> 0"

definition vault_wired :: "runtime \<Rightarrow> DeploymentConfig \<Rightarrow> StakeVaultConfig \<Rightarrow> bool" where
  "vault_wired rt c v \<longleftrightarrow> sv_protocol v = protocol_key rt \<and> sv_stake_mint v = dcf_stake_mint c \<and> sv_controller v \<noteq> 0 \<and>
     sv_controller_change_delay v = dcf_controller_change_delay c"

definition dispute_wired :: "runtime \<Rightarrow> bytes32 \<Rightarrow> DisputeConfig \<Rightarrow> bool" where
  "dispute_wired rt domain d \<longleftrightarrow> dg_protocol d = protocol_key rt \<and> dg_stake_vault d = stake_vault_config_key rt \<and>
     dg_verifier_config d = verifier_config_key rt \<and> dg_domain_chain_id d = domain"

definition wired :: "runtime \<Rightarrow> DeploymentConfig \<Rightarrow> bytes32 \<Rightarrow> ledger \<Rightarrow> bool" where
  "wired rt c domain ls \<longleftrightarrow> present (root_wired rt domain) (protocol ls) \<and> present (escrow_wired rt c) (escrow_config ls) \<and>
     present (verifier_wired rt domain) (verifier_config ls) \<and> present (orchestrator_wired rt domain) (orchestrator_config ls) \<and>
     present (vault_wired rt c) (stake_vault_config ls) \<and>
     present (\<lambda>m. rmc_protocol m = protocol_key rt) (rate_manager_config ls) \<and>
     present (\<lambda>w. wc_protocol w = protocol_key rt) (whitelist_config ls) \<and> present (dispute_wired rt domain) (dispute_config ls)"

lemmas wired_defs = root_wired_def escrow_wired_def verifier_wired_def orchestrator_wired_def vault_wired_def dispute_wired_def

text \<open>This is what the tool checks.\<close>

lemma verify_wiring_wired:
  assumes "load_stack ls = Inr s"
  shows "verify_wiring rt (Topology_derive rt tc) c s = Inr () \<longleftrightarrow> wired rt c (pc_domain_chain_id (st_protocol s)) ls"
proof -
  from assms have "protocol ls = Some (st_protocol s)" "escrow_config ls = Some (st_escrow s)" "verifier_config ls = Some (st_verifier s)"
      "orchestrator_config ls = Some (st_orchestrator s)" "stake_vault_config ls = Some (st_stake_vault s)"
      "rate_manager_config ls = Some (st_rate_manager s)" "whitelist_config ls = Some (st_whitelist s)"
      "dispute_config ls = Some (st_dispute s)"
    by (auto simp: load_stack_def fetch_def result_simps)
  then show ?thesis
    by (simp add: wired_def wired_defs verify_wiring_def Topology_derive_keys try_ok_Inr require_state_Inr)
qed

lemma wired_loads:
  assumes "wired rt c domain ls"
  shows "\<exists>s. load_stack ls = Inr s \<and> pc_domain_chain_id (st_protocol s) = domain"
  using assms by (auto simp: wired_def load_stack_def fetch_def or_fail_def root_wired_def elim!: presentE)

lemma wired_env [simp]: "wired (in_env rt env) = wired rt"
proof -
  have "hashv (in_env rt env) xs = hashv rt xs" for xs by (simp add: in_env_def hashv_def)
  then have "root_wired (in_env rt env) = root_wired rt" "escrow_wired (in_env rt env) = escrow_wired rt"
      "verifier_wired (in_env rt env) = verifier_wired rt" "orchestrator_wired (in_env rt env) = orchestrator_wired rt"
      "vault_wired (in_env rt env) = vault_wired rt" "dispute_wired (in_env rt env) = dispute_wired rt"
    by (simp_all add: fun_eq_iff wired_defs validate_deployment_domain_def protocol_key_def)
  moreover have "protocol_key (in_env rt env) = protocol_key rt" by (simp add: protocol_key_def)
  ultimately show ?thesis by (intro ext) (simp only: wired_def)
qed

subsection \<open>Every instruction keeps the wiring\<close>

lemma governance_step_wired:
  assumes inv: "wired rt c domain ls" and run: "governance_step rt ls i = Inr ls'"
    and signer: "\<And>k. signer (Governance i) = Some k \<Longrightarrow> k \<noteq> 0"
  shows "wired rt c domain ls'"
proof (cases i)
  case (Initialize_protocol a pd d sh m args)
  with run inv show ?thesis by (auto simp: handle_initialize_protocol_def wired_def result_simps elim!: presentE)
next
  case (Configure_orchestrator a args)
  with run have "handle_configure_orchestrator rt ls a args = Inr ls'" by simp
  then have "\<exists>oc. ls' = ls\<lparr>orchestrator_config := Some oc\<rparr> \<and> orchestrator_wired rt domain oc"
    by (rule configure_orchestrator_keeps) (use inv in \<open>auto simp: wired_def orchestrator_wired_def\<close>)
  with inv show ?thesis by (auto simp: wired_def)
next
  case (Configure_escrow a args)
  with run have "handle_configure_escrow rt ls a args = Inr ls'" by simp
  then have "\<exists>e. ls' = ls\<lparr>escrow_config := Some e\<rparr> \<and> escrow_wired rt c e"
    by (rule configure_escrow_keeps) (use inv in \<open>auto simp: wired_def escrow_wired_def\<close>)
  with inv show ?thesis by (auto simp: wired_def)
next
  case (Propose_stake_controller a p)
  with run inv show ?thesis
    by (cases p) (auto simp: handle_propose_stake_controller_def wired_def vault_wired_def result_simps)
qed (use run inv signer in \<open>auto simp: handle_propose_protocol_authority_def handle_accept_protocol_authority_def
      handle_accept_stake_controller_def wired_def root_wired_def vault_wired_def validate_deployment_domain_def result_simps\<close>)

lemma stake_step_vault_links:
  assumes "stake_step rt ls i = Inr ls'"
  shows "map_option (\<lambda>v. (sv_protocol v, sv_stake_mint v, sv_controller v, sv_controller_change_delay v)) (stake_vault_config ls') =
    map_option (\<lambda>v. (sv_protocol v, sv_stake_mint v, sv_controller v, sv_controller_change_delay v)) (stake_vault_config ls)"
  using assms
  by (cases i) (auto simp: handle_initialize_stake_token_vault_def handle_deposit_stake_def handle_withdraw_stake_def
      handle_claim_stake_def handle_set_taker_authorization_def handle_select_stake_owner_def handle_clear_stake_owner_def
      handle_controller_lock_stake_def handle_controller_fund_lock_def handle_increase_stake_lock_def
      handle_resize_stake_lock_def handle_controller_unlock_stake_def handle_initialize_claim_balance_def
      handle_resolve_stake_lock_def result_simps Let_def)

lemma vault_links_wired:
  assumes "present (vault_wired rt c) x"
    and "map_option (\<lambda>v. (sv_protocol v, sv_stake_mint v, sv_controller v, sv_controller_change_delay v)) y =
      map_option (\<lambda>v. (sv_protocol v, sv_stake_mint v, sv_controller v, sv_controller_change_delay v)) x"
  shows "present (vault_wired rt c) y"
  using assms by (cases x; cases y) (auto simp: vault_wired_def)

lemma stake_step_wired:
  assumes inv: "wired rt c domain ls" and run: "stake_step rt ls i = Inr ls'"
  shows "wired rt c domain ls'"
proof -
  have "present (vault_wired rt c) (stake_vault_config ls')"
    using vault_links_wired [OF _ stake_step_vault_links [OF run]] inv by (simp add: wired_def)
  then show ?thesis using inv by (subst stake_step_frame [OF run]) (simp add: wired_def)
qed

lemma dispute_instruction_step_wired:
  assumes inv: "wired rt c domain ls" and run: "dispute_instruction_step rt ls i = Inr ls'"
  shows "wired rt c domain ls'"
proof -
  have "present (vault_wired rt c) (stake_vault_config ls')"
  proof (cases "\<exists>args. i = Submit_dispute args")
    case True
    then obtain args where "handle_submit_dispute rt ls args = Inr ls'" using run by auto
    then show ?thesis
      by (rule submit_dispute_Inr) (use inv in \<open>auto simp: wired_def vault_wired_def dest!: submit_context_Inr\<close>)
  next
    case False
    with dispute_instruction_step_claims [OF run] inv show ?thesis by (auto simp: wired_def)
  qed
  moreover have "present (dispute_wired rt domain) (dispute_config ls')"
  proof (cases i)
    case (Set_dispute_admissions_paused s b)
    with run inv show ?thesis
      by (auto simp: handle_set_dispute_admissions_paused_def wired_def dispute_wired_def result_simps)
  next
    case (Prepare_dispute t k ds sel so args)
    with run have "handle_prepare_dispute rt ls t k ds sel so args = Inr ls'" by simp
    then show ?thesis by (rule prepare_dispute_Inr) (use inv in \<open>simp add: wired_def\<close>)
  next
    case (Cancel_dispute s ik k)
    with run have "handle_cancel_dispute rt ls s ik k = Inr ls'" by simp
    then show ?thesis by (rule cancel_dispute_Inr) (use inv in \<open>simp add: wired_def\<close>)
  next
    case (Release_matured_dispute k)
    with run have "handle_release_matured_dispute rt ls k = Inr ls'" by simp
    then show ?thesis by (rule release_matured_dispute_Inr) (use inv in \<open>simp add: wired_def\<close>)
  next
    case (Submit_dispute args)
    with run have "handle_submit_dispute rt ls args = Inr ls'" by simp
    then show ?thesis by (rule submit_dispute_Inr) (use inv in \<open>simp add: wired_def\<close>)
  qed (use run inv in \<open>auto simp: handle_set_risk_window_def handle_set_deposit_dispute_protection_def wired_def result_simps\<close>)
  ultimately show ?thesis using inv by (subst dispute_instruction_step_frame [OF run]) (simp add: wired_def)
qed

lemma verifier_step_wired:
  assumes inv: "wired rt c domain ls" and run: "verifier_step rt ls i = Inr ls'"
  shows "wired rt c domain ls'"
proof -
  have "present (verifier_wired rt domain) (verifier_config ls')"
  proof (cases i)
    case (Set_verifier_payment_method s m b)
    with run inv show ?thesis
      by (auto simp: handle_set_verifier_payment_method_def configure_verifier_def set_payment_method_def wired_def verifier_wired_def
          result_simps split: option.splits bool.splits)
  next
    case (Set_verifier_witness s w b)
    with run obtain v v' where v: "verifier_config ls = Some v" "set_witness v w b = Inr v'" "verifier_config ls' = Some v'"
      by (auto simp: handle_set_verifier_witness_def configure_verifier_def result_simps)
    have same: "v' = v\<lparr>vc_witnesses := vc_witnesses v'\<rparr>"
      using v(2) by (auto simp: set_witness_def result_simps split: option.splits bool.splits)
    have "verifier_wired rt domain v" using inv v(1) by (simp add: wired_def)
    moreover have "length (vc_witnesses v') \<le> MAX_WITNESSES \<and> unat (vc_required_signatures v) \<le> length (vc_witnesses v')"
      using v(2) calculation witness_registry.enable [of v w v'] witness_registry.disable [of v w v']
      by (cases b) (auto simp: verifier_wired_def set_witness_def length_remove1 result_simps split: option.splits)
    moreover from this calculation have "vc_witnesses v' \<noteq> []" by (auto simp: verifier_wired_def word_less_nat_alt)
    ultimately have "verifier_wired rt domain v'" by (subst same) (simp add: verifier_wired_def)
    with v(3) show ?thesis by simp
  next
    case (Set_required_signatures s n)
    with run inv show ?thesis
      by (auto simp: handle_set_required_signatures_def configure_verifier_def wired_def verifier_wired_def result_simps)
  qed
  then show ?thesis using inv by (subst verifier_step_frame [OF run]) (simp add: wired_def)
qed

text \<open>The remaining modules write a configuration account only to advance its counter.\<close>

lemma counter_steps:
  "rate_manager_step rt ls r = Inr ls' \<Longrightarrow> map_option rmc_protocol (rate_manager_config ls') = map_option rmc_protocol (rate_manager_config ls)"
  "whitelist_step rt ls w = Inr ls' \<Longrightarrow> map_option wc_protocol (whitelist_config ls') = map_option wc_protocol (whitelist_config ls)"
  by (cases r; auto simp: rate_manager_handler_defs result_simps Let_def)
    (cases w; auto simp: handle_create_address_group_def handle_configure_address_group_def handle_accept_group_curator_def
      handle_set_group_member_def handle_set_self_group_member_def handle_initialize_deposit_whitelist_def
      handle_set_whitelist_enabled_def handle_set_deposit_allowed_group_def handle_set_deposit_whitelist_member_def
      result_simps Let_def)

lemma escrow_step_counter:
  assumes "escrow_step rt ls i = Inr ls'"
  shows "escrow_config ls' = escrow_config ls \<or>
    (\<exists>e n. escrow_config ls = Some e \<and> escrow_config ls' = Some (e\<lparr>ec_next_deposit_id := n\<rparr>))"
proof (cases i)
  case (Withdraw_deposit s k t tp dust)
  with assms have "handle_withdraw_deposit rt ls s k t tp dust = Inr ls'" by simp
  then show ?thesis by (rule withdraw_deposit_frame) simp
next
  case (Update_deposit s k args)
  with assms update_deposit_Inr [of rt ls s k args ls'] show ?thesis by auto
next
  case (Set_deposit_rate_manager s k r m)
  with assms show ?thesis by (auto simp: handle_set_deposit_rate_manager_def result_simps split: option.splits)
qed (use assms in \<open>auto simp: handle_create_deposit_def create_deposit_at_def handle_update_oracle_quote_def handle_add_funds_def
      handle_remove_funds_def handle_configure_payment_method_def handle_configure_currency_def
      handle_extend_intent_expiry_def result_simps Let_def\<close>)

lemma intent_step_counter:
  assumes "intent_step rt ls i = Inr ls'"
  shows "orchestrator_config ls' = orchestrator_config ls \<or>
    (\<exists>oc n. orchestrator_config ls = Some oc \<and> orchestrator_config ls' = Some (oc\<lparr>oc_next_intent_id := n\<rparr>))"
proof (cases i)
  case (Signal_intent t accs args)
  with assms have "handle_signal_intent rt ls t accs args = Inr ls'" by simp
  then show ?thesis by (rule signal_intent_effect) (auto dest: signal_context_Inr(1))
next
  case (Cancel_intent s k d)
  with assms obtain i d l t where "end_intent rt ls k i d l t = Inr ls'"
    by (auto simp: handle_cancel_intent_def result_simps split: if_splits)
  then show ?thesis using end_intent_shrinks by blast
next
  case (Prune_expired_intent k accs)
  with assms have "handle_prune_expired_intent rt ls k accs = Inr ls'" by simp
  then show ?thesis
    by (rule prune_expired_intent_Inr) (auto simp: require_Inr split: if_splits dest!: end_intent_shrinks elim!: prune_dispute_Inr)
next
  case (Fulfill_intent k ta da ra args)
  with assms have "handle_fulfill_intent rt ls k ta da ra args = Inr ls'" by simp
  then show ?thesis by (rule fulfill_intent_Inr) (auto dest!: settle_intent_shrinks)
next
  case (Manual_release s k ta da ra)
  with assms show ?thesis by (auto simp: handle_manual_release_def result_simps dest!: settle_intent_shrinks)
qed

lemma dispatch_wired:
  assumes inv: "wired rt c domain ls" and run: "dispatch rt ls i = Inr ls'" and signer: "\<And>k. signer i = Some k \<Longrightarrow> k \<noteq> 0"
  shows "wired rt c domain ls'"
proof (cases i)
  case (Governance j)
  with run signer governance_step_wired [OF inv] show ?thesis by simp
next
  case (Stake j)
  with run stake_step_wired [OF inv] show ?thesis by simp
next
  case (Rates j)
  with run have r: "rate_manager_step rt ls j = Inr ls'" by simp
  from counter_steps(1) [OF r] inv have "present (\<lambda>m. rmc_protocol m = protocol_key rt) (rate_manager_config ls')"
    by (auto simp: wired_def elim!: presentE)
  then show ?thesis using inv by (subst rate_manager_step_frame [OF r]) (simp add: wired_def)
next
  case (Escrow j)
  with run have r: "escrow_step rt ls j = Inr ls'" by simp
  from escrow_step_counter [OF r] inv have "present (escrow_wired rt c) (escrow_config ls')"
    by (auto simp: wired_def escrow_wired_def)
  then show ?thesis using inv by (subst escrow_step_frame [OF r]) (simp add: wired_def)
next
  case (Intents j)
  with run have r: "intent_step rt ls j = Inr ls'" by simp
  from intent_step_counter [OF r] inv have "present (orchestrator_wired rt domain) (orchestrator_config ls')"
    by (auto simp: wired_def orchestrator_wired_def)
  then show ?thesis using inv by (subst intent_step_frame [OF r]) (simp add: wired_def)
next
  case (Whitelists j)
  with run have r: "whitelist_step rt ls j = Inr ls'" by simp
  from counter_steps(2) [OF r] inv have "present (\<lambda>w. wc_protocol w = protocol_key rt) (whitelist_config ls')"
    by (auto simp: wired_def elim!: presentE)
  then show ?thesis using inv by (subst whitelist_step_frame [OF r]) (simp add: wired_def)
next
  case (Disputes j)
  with run dispute_instruction_step_wired [OF inv] show ?thesis by simp
next
  case (Verification j)
  with run verifier_step_wired [OF inv] show ?thesis by simp
qed

interpretation wiring_history: guarded_machine "execute rt" "wired rt c domain" for rt c domain
proof unfold_locales
  fix ls ls' and e :: event
  assume inv: "wired rt c domain ls" and "execute rt ls e = Inr ls'"
  from this(2) show "wired rt c domain ls'"
  proof (cases rule: execute_cases)
    case (call env i)
    then have "signer i = Some k \<Longrightarrow> k \<noteq> 0" for k by (auto simp: external_key_def)
    with dispatch_wired [of "in_env rt env" c domain ls i ls'] inv call(2) show ?thesis by simp
  qed (use inv in \<open>simp add: wired_def\<close>)
qed

text \<open>Once the tool has accepted the wiring of a deployment, it accepts it after every later history.\<close>

lemma wiring_stays_verified:
  assumes "load_stack ls = Inr s" and "verify_wiring rt (Topology_derive rt tc) c s = Inr ()"
  shows "\<exists>s'. load_stack (run (execute rt) ls es) = Inr s' \<and> verify_wiring rt (Topology_derive rt tc) c s' = Inr ()"
proof -
  have "wired rt c (pc_domain_chain_id (st_protocol s)) ls" using verify_wiring_wired [OF assms(1)] assms(2) by simp
  then have w: "wired rt c (pc_domain_chain_id (st_protocol s)) (run (execute rt) ls es)" by (rule wiring_history.run_inv)
  from wired_loads [OF this] obtain s' where s': "load_stack (run (execute rt) ls es) = Inr s'"
      "pc_domain_chain_id (st_protocol s') = pc_domain_chain_id (st_protocol s)" by blast
  with verify_wiring_wired [OF s'(1)] w show ?thesis by auto
qed

end
