(* ===== verification/Console.thy ===== *)
theory Console
  imports Deployer
begin

text \<open>
  The shell of the deployment tool in \<^verbatim>\<open>src/deployment/src/main.rs\<close>: its commands, the payer's key, the exclusive
  creation of key and receipt files, and what is printed. The machine it runs on is the record \<open>host\<close>; a step returns the
  changed host together with its result, so what was done before an error stays done. Parameters are gathered in
  \<open>platform\<close>: the third-party key functions, the JSON printer, and the failures of the operating system other than that of
  an existing file. Paths are resolved names of files, and writing to standard output does not fail.
\<close>

unbundle bit_operations_syntax

subsection \<open>Host and platform\<close>

record host_file =
  fl_mode :: u32
  fl_contents :: string

record host =
  ho_private_key :: "string option"
  ho_files :: "string \<rightharpoonup> host_file"
  ho_stdout :: "string list"
  ho_ledger :: ledger

record 'k platform =
  pf_read_keypair_file :: "host_file option \<Rightarrow> 'k checked"
  pf_from_base58 :: "string \<Rightarrow> 'k option"
  pf_pubkey :: "'k \<Rightarrow> pubkey"
  pf_keypair_text :: "'k \<Rightarrow> string"
  pf_umask :: u32
  pf_open_error :: "string \<Rightarrow> string option"
  pf_write_error :: "string \<Rightarrow> (nat \<times> string) option"
  pf_sync :: "string \<Rightarrow> unit checked"
  pf_topology_json :: "Topology \<Rightarrow> string checked"
  pf_verification_json :: "VerificationReceipt \<Rightarrow> string checked"
  pf_preflight_json :: "PreflightReceipt \<Rightarrow> string checked"

type_synonym 'a io = "host \<Rightarrow> host \<times> 'a checked"

definition io_lift :: "'a checked \<Rightarrow> 'a io" where
  "io_lift r h = (h, r)"

definition io_bind :: "'a io \<Rightarrow> ('a \<Rightarrow> 'b io) \<Rightarrow> 'b io" where
  "io_bind m f h = (case m h of (h', Inl e) \<Rightarrow> (h', Inl e) | (h', Inr x) \<Rightarrow> f x h')"

subsection \<open>The command line\<close>

record PlanArgs =
  pa_authority :: pubkey
  pa_protocol :: ProtocolArgs

record MaterializeArgs =
  ma_output :: string

datatype Command =
    Plan PlanArgs
  | Apply RpcArgs
  | Verify RpcArgs
  | Preflight RpcArgs
  | MaterializeKeypair MaterializeArgs

subsection \<open>Files and output\<close>

text \<open>\<^verbatim>\<open>OpenOptions::new().write(true).create_new(true).mode(mode).open(path)\<close>\<close>

definition create_new :: "'k platform \<Rightarrow> string \<Rightarrow> u32 \<Rightarrow> unit io" where
  "create_new pf path mode h =
     (if ho_files h path \<noteq> None then (h, Inl ''File exists (os error 17)'')
      else case pf_open_error pf path of
        Some e \<Rightarrow> (h, Inl e)
      | None \<Rightarrow> (h\<lparr>ho_files := (ho_files h)(path \<mapsto>
            \<lparr>fl_mode = mode AND NOT (pf_umask pf), fl_contents = []\<rparr>)\<rparr>, Inr ()))"

text \<open>Writing to the end of an open file; a write that fails may have stored a part.\<close>

definition write_all :: "'k platform \<Rightarrow> string \<Rightarrow> string \<Rightarrow> unit io" where
  "write_all pf path body h =
     (let store = (\<lambda>part. h\<lparr>ho_files := (ho_files h)(path :=
          map_option (\<lambda>f. f\<lparr>fl_contents := fl_contents f @ part\<rparr>) (ho_files h path))\<rparr>) in
      case pf_write_error pf path of
        Some (n, e) \<Rightarrow> (store (take n body), Inl e)
      | None \<Rightarrow> (store body, Inr ()))"

definition println :: "string \<Rightarrow> unit io" where
  "println body h = (h\<lparr>ho_stdout := ho_stdout h @ [body]\<rparr>, Inr ())"

definition load_keypair :: "'k platform \<Rightarrow> string option \<Rightarrow> 'k io" where
  "load_keypair pf path h =
     (h, case path of
        Some path \<Rightarrow> pf_read_keypair_file pf (ho_files h path)
      | None \<Rightarrow>
          try_ok (or_fail (ho_private_key h) ''SOLANA_PRIVATE_KEY is required when --keypair is omitted'') (\<lambda>encoded.
          or_fail (pf_from_base58 pf encoded) ''SOLANA_PRIVATE_KEY is invalid''))"

text \<open>The modes \<^verbatim>\<open>0o600\<close> and \<^verbatim>\<open>0o644\<close> are \<open>0x180\<close> and \<open>0x1A4\<close>.\<close>

definition write_keypair_exclusive :: "'k platform \<Rightarrow> 'k \<Rightarrow> string \<Rightarrow> unit io" where
  "write_keypair_exclusive pf keypair path =
     io_bind (create_new pf path 0x180) (\<lambda>_.
     write_all pf path (pf_keypair_text pf keypair))"

definition write_receipt_exclusive :: "'k platform \<Rightarrow> string \<Rightarrow> string \<Rightarrow> unit io" where
  "write_receipt_exclusive pf path contents =
     io_bind (create_new pf path 0x1A4) (\<lambda>_.
     io_bind (write_all pf path contents) (\<lambda>_.
     io_lift (pf_sync pf path)))"

definition materialize_keypair :: "toolchain \<Rightarrow> 'k platform \<Rightarrow> string \<Rightarrow> unit io" where
  "materialize_keypair tc pf path =
     io_bind (load_keypair pf None) (\<lambda>keypair.
     io_bind (write_keypair_exclusive pf keypair path) (\<lambda>_.
     println (''keypair_path='' @ path @ '' payer='' @ base58 tc (pf_pubkey pf keypair))))"

subsection \<open>The commands as effects\<close>

text \<open>The common end of \<^verbatim>\<open>run_rpc\<close> and \<^verbatim>\<open>run_preflight\<close>: the rendered receipt is stored, if asked for, and printed.\<close>

definition publish :: "'k platform \<Rightarrow> string option \<Rightarrow> string checked \<Rightarrow> unit io" where
  "publish pf receipt rendered =
     io_bind (io_lift rendered) (\<lambda>output.
     io_bind (case receipt of Some path \<Rightarrow> write_receipt_exclusive pf path output | None \<Rightarrow> io_lift (Inr ())) (\<lambda>_.
     println output))"

text \<open>A part of a command that works on the ledger; what it changed before an error stays changed.\<close>

definition on_ledger :: "(ledger \<Rightarrow> ledger \<times> 'a checked) \<Rightarrow> 'a io" where
  "on_ledger f h = (h\<lparr>ho_ledger := fst (f (ho_ledger h))\<rparr>, snd (f (ho_ledger h)))"

definition rpc_command :: "runtime \<Rightarrow> toolchain \<Rightarrow> cluster \<Rightarrow> 'k platform \<Rightarrow> RpcArgs \<Rightarrow> bool \<Rightarrow> unit io" where
  "rpc_command rt tc cl pf args applying =
     io_bind (load_keypair pf (ra_keypair args)) (\<lambda>payer.
     io_bind (on_ledger (\<lambda>ls. run_rpc rt tc cl ls (pf_pubkey pf payer) args applying)) (\<lambda>receipt.
     publish pf (ra_receipt args) (pf_verification_json pf receipt)))"

definition preflight_command :: "runtime \<Rightarrow> toolchain \<Rightarrow> cluster \<Rightarrow> 'k platform \<Rightarrow> RpcArgs \<Rightarrow> unit io" where
  "preflight_command rt tc cl pf args =
     io_bind (load_keypair pf (ra_keypair args)) (\<lambda>payer.
     io_bind (\<lambda>h. (h, run_preflight rt tc cl (ho_ledger h) (pf_pubkey pf payer) args)) (\<lambda>receipt.
     publish pf (ra_receipt args) (pf_preflight_json pf receipt)))"

definition plan_command :: "runtime \<Rightarrow> toolchain \<Rightarrow> 'k platform \<Rightarrow> PlanArgs \<Rightarrow> unit io" where
  "plan_command rt tc pf args =
     io_bind (io_lift (ProtocolArgs_config (pa_protocol args) (pa_authority args))) (\<lambda>config.
     io_bind (io_lift (DeploymentConfig_validate config)) (\<lambda>_.
     io_bind (io_lift (pf_topology_json pf (Topology_derive rt tc))) println))"

fun main :: "runtime \<Rightarrow> toolchain \<Rightarrow> cluster \<Rightarrow> 'k platform \<Rightarrow> Command \<Rightarrow> unit io" where
  "main rt tc cl pf (Plan args) = plan_command rt tc pf args"
| "main rt tc cl pf (Apply args) = rpc_command rt tc cl pf args True"
| "main rt tc cl pf (Verify args) = rpc_command rt tc cl pf args False"
| "main rt tc cl pf (Preflight args) = preflight_command rt tc cl pf args"
| "main rt tc cl pf (MaterializeKeypair args) = materialize_keypair tc pf (ma_output args)"

subsection \<open>Effects that compose\<close>

definition keeps :: "(host \<Rightarrow> host \<Rightarrow> bool) \<Rightarrow> 'a io \<Rightarrow> bool" where
  "keeps R m \<longleftrightarrow> (\<forall>h. R h (fst (m h)))"

lemma io_bind_Inr: "io_bind m f h = (h', Inr y) \<longleftrightarrow> (\<exists>h'' x. m h = (h'', Inr x) \<and> f x h'' = (h', Inr y))"
  by (auto simp: io_bind_def split: prod.split sum.split)

text \<open>A preorder on hosts that every step respects is respected by the whole command.\<close>

locale host_preorder =
  fixes R :: "host \<Rightarrow> host \<Rightarrow> bool"
  assumes reflexive: "R h h"
    and transitive: "R h h' \<Longrightarrow> R h' h'' \<Longrightarrow> R h h''"
begin

lemma keeps_query: "keeps R (\<lambda>h. (h, f h))"
  by (simp add: keeps_def reflexive)

lemma keeps_lift: "keeps R (io_lift r)"
  by (simp add: keeps_def io_lift_def reflexive)

lemma keeps_load: "keeps R (load_keypair pf path)"
  by (simp add: keeps_def load_keypair_def reflexive)

lemma keeps_bind:
  assumes "keeps R m" and "\<And>x. keeps R (f x)"
  shows "keeps R (io_bind m f)"
  unfolding keeps_def
proof
  fix h
  obtain h' r where "m h = (h', r)" by fastforce
  moreover from this have "R h h'" using assms(1) by (metis fst_conv keeps_def)
  ultimately show "R h (fst (io_bind m f h))"
    using assms(2) by (cases r) (auto simp: io_bind_def keeps_def intro: transitive)
qed

lemmas keeps_intros = keeps_query keeps_lift keeps_load keeps_bind

end

definition same_ledger :: "host \<Rightarrow> host \<Rightarrow> bool" where
  "same_ledger h h' \<longleftrightarrow> ho_ledger h' = ho_ledger h"

definition same_output :: "host \<Rightarrow> host \<Rightarrow> bool" where
  "same_output h h' \<longleftrightarrow> ho_stdout h' = ho_stdout h"

text \<open>Existing files stay as they are, and only the given path may appear, with no more than the given permissions.\<close>

definition adds_file :: "string option \<Rightarrow> u32 \<Rightarrow> host \<Rightarrow> host \<Rightarrow> bool" where
  "adds_file new mode h h' \<longleftrightarrow>
     (\<forall>path. ho_files h' path = ho_files h path \<or>
        new = Some path \<and> ho_files h path = None \<and>
        (\<exists>f. ho_files h' path = Some f \<and> fl_mode f AND NOT mode = 0))"

lemma adds_fileD:
  assumes "adds_file new mode h h'"
  shows "\<forall>path f. ho_files h path = Some f \<longrightarrow> ho_files h' path = Some f"
    and "\<forall>path f. ho_files h path = None \<and> ho_files h' path = Some f \<longrightarrow> new = Some path \<and> fl_mode f AND NOT mode = 0"
  using assms unfolding adds_file_def by (metis option.distinct(1), metis option.distinct(1) option.inject)

interpretation ledger_kept: host_preorder same_ledger
  by unfold_locales (simp_all add: same_ledger_def)

interpretation output_kept: host_preorder same_output
  by unfold_locales (simp_all add: same_output_def)

interpretation file_added: host_preorder "adds_file new mode"
proof unfold_locales
  fix h h' h''
  assume a: "adds_file new mode h h'" "adds_file new mode h' h''"
  show "adds_file new mode h h''"
    unfolding adds_file_def
  proof
    fix path
    from a have "ho_files h' path = ho_files h path \<or> new = Some path \<and> ho_files h path = None \<and>
          (\<exists>f. ho_files h' path = Some f \<and> fl_mode f AND NOT mode = 0)"
        "ho_files h'' path = ho_files h' path \<or> new = Some path \<and> ho_files h' path = None \<and>
          (\<exists>f. ho_files h'' path = Some f \<and> fl_mode f AND NOT mode = 0)"
      by (auto simp: adds_file_def)
    then show "ho_files h'' path = ho_files h path \<or> new = Some path \<and> ho_files h path = None \<and>
        (\<exists>f. ho_files h'' path = Some f \<and> fl_mode f AND NOT mode = 0)"
      by auto
  qed
qed (simp add: adds_file_def)

subsection \<open>Exclusive creation\<close>

lemma masked_mode: "((mode :: u32) AND NOT umask) AND NOT mode = 0"
  by (rule bit_word_eqI) (auto simp: bit_and_iff bit_not_iff)

lemma create_new_cases:
  obtains e where "create_new pf path mode h = (h, Inl e)"
  | "ho_files h path = None" "create_new pf path mode h =
      (h\<lparr>ho_files := (ho_files h)(path \<mapsto> \<lparr>fl_mode = mode AND NOT (pf_umask pf), fl_contents = []\<rparr>)\<rparr>, Inr ())"
  by (cases "ho_files h path"; cases "pf_open_error pf path") (auto simp: create_new_def)

text \<open>Creating a file and writing a text to it: nothing happens, or a new file holds the text or a part of it.\<close>

abbreviation create_write :: "'k platform \<Rightarrow> string \<Rightarrow> u32 \<Rightarrow> string \<Rightarrow> unit io" where
  "create_write pf path mode body \<equiv> io_bind (create_new pf path mode) (\<lambda>_. write_all pf path body)"

lemma create_write_cases:
  obtains e where "create_write pf path mode body h = (h, Inl e)"
  | f r where "ho_files h path = None" "fl_mode f = mode AND NOT (pf_umask pf)"
      "create_write pf path mode body h = (h\<lparr>ho_files := (ho_files h)(path \<mapsto> f)\<rparr>, r)"
      "r = Inr () \<Longrightarrow> fl_contents f = body"
proof (cases rule: create_new_cases [of pf path mode h])
  case (1 e)
  then show thesis by (intro that(1) [of e]) (simp add: io_bind_def)
next
  case 2
  show thesis
  proof (cases "pf_write_error pf path")
    case None
    with 2 show thesis
      by (intro that(2) [of "\<lparr>fl_mode = mode AND NOT (pf_umask pf), fl_contents = body\<rparr>" "Inr ()"])
        (simp_all add: io_bind_def write_all_def)
  next
    case (Some ne)
    with 2 show thesis
      by (intro that(2) [of "\<lparr>fl_mode = mode AND NOT (pf_umask pf), fl_contents = take (fst ne) body\<rparr>" "Inl (snd ne)"])
        (simp_all add: io_bind_def write_all_def split: prod.split)
  qed
qed

lemma create_write_keeps:
  "keeps same_ledger (create_write pf path mode body)"
  "keeps same_output (create_write pf path mode body)"
  "keeps (adds_file (Some path) mode) (create_write pf path mode body)"
proof -
  have "same_ledger h h' \<and> same_output h h' \<and> adds_file (Some path) mode h h'"
    if "h' = fst (create_write pf path mode body h)" for h h'
    using that
    by (cases rule: create_write_cases [of pf path mode body h])
      (auto simp: same_ledger_def same_output_def adds_file_def masked_mode)
  then show "keeps same_ledger (create_write pf path mode body)"
      "keeps same_output (create_write pf path mode body)"
      "keeps (adds_file (Some path) mode) (create_write pf path mode body)"
    by (simp_all add: keeps_def)
qed

lemma io_bind_assoc: "io_bind (io_bind m f) g = io_bind m (\<lambda>x. io_bind (f x) g)"
  by (rule ext) (simp add: io_bind_def split: prod.split sum.split)

lemma write_keypair_exclusive_keeps:
  "keeps same_ledger (write_keypair_exclusive pf k path)" "keeps same_output (write_keypair_exclusive pf k path)"
  "keeps (adds_file (Some path) 0x180) (write_keypair_exclusive pf k path)"
  by (simp_all add: write_keypair_exclusive_def create_write_keeps)

lemma write_receipt_exclusive_keeps:
  "keeps same_ledger (write_receipt_exclusive pf path c)" "keeps same_output (write_receipt_exclusive pf path c)"
  "keeps (adds_file (Some path) 0x1A4) (write_receipt_exclusive pf path c)"
  unfolding write_receipt_exclusive_def io_bind_assoc [symmetric]
  by (intro ledger_kept.keeps_intros output_kept.keeps_intros file_added.keeps_intros create_write_keeps)+

lemma write_receipt_exclusive_stores:
  assumes "write_receipt_exclusive pf path contents h = (h', Inr ())"
  shows "\<exists>f. ho_files h' path = Some f \<and> fl_contents f = contents"
  using assms unfolding write_receipt_exclusive_def io_bind_assoc [symmetric]
  by (cases rule: create_write_cases [of pf path "0x1A4" contents h])
    (auto simp: io_bind_Inr io_lift_def)

lemma println_keeps: "keeps same_ledger (println body)" "keeps (adds_file new mode) (println body)"
  by (simp_all add: keeps_def println_def same_ledger_def adds_file_def)

subsection \<open>What a command reports\<close>

text \<open>A failure prints nothing; a success prints one line, which is also the contents of the receipt file.\<close>

fun reported :: "string option \<Rightarrow> host \<Rightarrow> host \<times> 'a checked \<Rightarrow> bool" where
  "reported receipt h (h', Inl e) = same_output h h'"
| "reported receipt h (h', Inr x) = (\<exists>line. ho_stdout h' = ho_stdout h @ [line] \<and>
     (\<forall>path. receipt = Some path \<longrightarrow> (\<exists>f. ho_files h' path = Some f \<and> fl_contents f = line)))"

definition reports :: "string option \<Rightarrow> 'a io \<Rightarrow> bool" where
  "reports receipt m \<longleftrightarrow> (\<forall>h. reported receipt h (m h))"

lemma reported_later: "same_output h h' \<Longrightarrow> reported receipt h' y \<Longrightarrow> reported receipt h y"
  by (cases "(receipt, h, y)" rule: reported.cases) (auto simp: same_output_def)

lemma reports_bind:
  assumes "keeps same_output m" and "\<And>x. reports receipt (f x)"
  shows "reports receipt (io_bind m f)"
  unfolding reports_def
proof
  fix h
  obtain h' r where m: "m h = (h', r)" by fastforce
  then have "same_output h h'" using assms(1) by (metis fst_conv keeps_def)
  then show "reported receipt h (io_bind m f h)"
    using m assms(2) by (cases r) (auto simp: io_bind_def reports_def intro: reported_later)
qed

lemma reports_println: "reports None (println line)"
  by (simp add: reports_def println_def)

lemma reports_publish: "reports receipt (publish pf receipt rendered)"
proof (cases receipt)
  case None
  then show ?thesis
    by (auto simp: publish_def intro!: reports_bind reports_println output_kept.keeps_lift)
next
  case (Some path)
  have "reports (Some path) (io_bind (write_receipt_exclusive pf path line) (\<lambda>_. println line))" for line
    unfolding reports_def
  proof
    fix h
    obtain h' r where w: "write_receipt_exclusive pf path line h = (h', r)" by fastforce
    moreover from this have "ho_stdout h' = ho_stdout h"
      using write_receipt_exclusive_keeps(2) by (metis fst_conv keeps_def same_output_def)
    ultimately show "reported (Some path) h (io_bind (write_receipt_exclusive pf path line) (\<lambda>_. println line) h)"
      using write_receipt_exclusive_stores [of pf path line h h']
      by (cases r) (simp_all add: io_bind_def println_def same_output_def)
  qed
  then show ?thesis unfolding publish_def Some option.case by (rule reports_bind [OF output_kept.keeps_lift])
qed

subsection \<open>The commands\<close>

fun receipt_path :: "Command \<Rightarrow> string option" where
  "receipt_path (Plan _) = None"
| "receipt_path (Apply args) = ra_receipt args"
| "receipt_path (Verify args) = ra_receipt args"
| "receipt_path (Preflight args) = ra_receipt args"
| "receipt_path (MaterializeKeypair _) = None"

fun created_file :: "Command \<Rightarrow> string option \<times> u32" where
  "created_file (MaterializeKeypair args) = (Some (ma_output args), 0x180)"
| "created_file cmd = (receipt_path cmd, 0x1A4)"

lemma publish_keeps:
  "keeps same_ledger (publish pf receipt rendered)" "keeps (adds_file receipt 0x1A4) (publish pf receipt rendered)"
  unfolding publish_def
  by (intro ledger_kept.keeps_bind file_added.keeps_bind ledger_kept.keeps_lift file_added.keeps_lift println_keeps;
      cases receipt; simp add: ledger_kept.keeps_lift file_added.keeps_lift write_receipt_exclusive_keeps)+

lemma on_ledger_keeps: "keeps same_output (on_ledger f)" "keeps (adds_file new mode) (on_ledger f)"
  by (simp_all add: keeps_def on_ledger_def same_output_def adds_file_def)

lemma main_adds_file: "keeps (adds_file (fst (created_file cmd)) (snd (created_file cmd))) (main rt tc cl pf cmd)"
  by (cases cmd)
    (auto simp: plan_command_def rpc_command_def preflight_command_def materialize_keypair_def split: prod.split
      intro!: file_added.keeps_intros println_keeps publish_keeps on_ledger_keeps write_keypair_exclusive_keeps)

lemma main_reports: "reports (receipt_path cmd) (main rt tc cl pf cmd)"
  by (cases cmd)
    (auto simp: plan_command_def rpc_command_def preflight_command_def materialize_keypair_def split: prod.split
      intro!: reports_bind reports_println reports_publish output_kept.keeps_intros on_ledger_keeps
        write_keypair_exclusive_keeps)

subsection \<open>The ledger\<close>

text \<open>
  The only change of the ledger: the initialisation of a protocol address without any account was sent, on the expected
  cluster, and had whatever effect sending it has.
\<close>

definition initializes :: "runtime \<Rightarrow> toolchain \<Rightarrow> cluster \<Rightarrow> RpcArgs \<Rightarrow> host \<Rightarrow> host \<Rightarrow> bool" where
  "initializes rt tc cl args h h' \<longleftrightarrow>
     ho_ledger h' = ho_ledger h \<or>
     protocol (ho_ledger h) = None \<and> cl_account_value cl (protocol_key rt) = Inr None \<and>
     (\<exists>authority config instruction. connect cl authority args = Inr (config, ra_expected_genesis_hash args) \<and>
        initialize_instruction rt tc config = Inr instruction \<and>
        ho_ledger h' = fst (cl_send cl instruction (ho_ledger h)))"

lemma connect_genesis: "connect cl authority args = Inr (config, g) \<Longrightarrow> g = ra_expected_genesis_hash args"
  by (auto simp: connect_def verify_genesis_hash_def result_simps split: if_splits)

lemma initialize_if_absent_ledger:
  assumes "fst (initialize_if_absent rt tc cl ls config applying) \<noteq> ls"
  shows "applying \<and> protocol ls = None \<and> cl_account_value cl (protocol_key rt) = Inr None \<and>
    (\<exists>i. initialize_instruction rt tc config = Inr i \<and>
       fst (initialize_if_absent rt tc cl ls config applying) = fst (cl_send cl i ls))"
  using assms
  by (auto simp: initialize_if_absent_def protocol_exists_def Topology_derive_keys result_simps
      split: sum.splits if_splits prod.splits)

lemma run_rpc_ledger:
  assumes "fst (run_rpc rt tc cl ls authority args applying) \<noteq> ls"
  shows "applying \<and> protocol ls = None \<and> cl_account_value cl (protocol_key rt) = Inr None \<and>
    (\<exists>config i. connect cl authority args = Inr (config, ra_expected_genesis_hash args) \<and>
       initialize_instruction rt tc config = Inr i \<and>
       fst (run_rpc rt tc cl ls authority args applying) = fst (cl_send cl i ls))"
proof (cases "rpc_target rt cl authority args")
  case (Inr target)
  obtain config g a u slot where t: "target = (config, g, a, u, slot)" by (cases target) auto
  have same: "fst (run_rpc rt tc cl ls authority args applying) = fst (initialize_if_absent rt tc cl ls config applying)"
    by (simp add: run_rpc_def Inr t split: prod.split sum.split)
  obtain g where "connect cl authority args = Inr (config, g)" using Inr t by (auto simp: rpc_target_def result_simps)
  moreover from this have "g = ra_expected_genesis_hash args" by (rule connect_genesis)
  ultimately show ?thesis using initialize_if_absent_ledger [of rt tc cl ls config applying] assms same by auto
qed (use assms in \<open>simp add: run_rpc_def\<close>)

lemma on_ledger_initializes:
  "initializes rt tc cl args h (fst (on_ledger (\<lambda>ls. run_rpc rt tc cl ls authority args applying) h))"
  using run_rpc_ledger [of rt tc cl "ho_ledger h" authority args applying] by (auto simp: on_ledger_def initializes_def)

lemma on_ledger_verify: "keeps same_ledger (on_ledger (\<lambda>ls. run_rpc rt tc cl ls authority args False))"
  using run_rpc_ledger [of rt tc cl _ authority args False] by (auto simp: keeps_def on_ledger_def same_ledger_def)

lemma initializes_then:
  assumes "initializes rt tc cl args h (fst (m h))" and "\<And>x. keeps same_ledger (f x)"
  shows "initializes rt tc cl args h (fst (io_bind m f h))"
proof -
  obtain h' r where m: "m h = (h', r)" by fastforce
  have "ho_ledger (fst (f x h')) = ho_ledger h'" for x using assms(2) by (simp add: keeps_def same_ledger_def)
  with m assms(1) show ?thesis by (cases r) (auto simp: io_bind_def initializes_def)
qed

lemma rpc_command_initializes: "initializes rt tc cl args h (fst (rpc_command rt tc cl pf args applying h))"
proof -
  obtain r where l: "load_keypair pf (ra_keypair args) h = (h, r)" by (simp add: load_keypair_def)
  show ?thesis
  proof (cases r)
    case (Inr payer)
    have "initializes rt tc cl args h (fst (io_bind (on_ledger (\<lambda>ls. run_rpc rt tc cl ls (pf_pubkey pf payer) args applying))
        (\<lambda>receipt. publish pf (ra_receipt args) (pf_verification_json pf receipt)) h))"
      by (intro initializes_then on_ledger_initializes publish_keeps)
    then show ?thesis using l Inr by (simp add: rpc_command_def io_bind_def [of "load_keypair pf (ra_keypair args)"])
  qed (use l in \<open>simp add: rpc_command_def io_bind_def initializes_def\<close>)
qed

lemma main_same_ledger: "(\<And>args. cmd \<noteq> Apply args) \<Longrightarrow> keeps same_ledger (main rt tc cl pf cmd)"
  by (cases cmd)
    (auto simp: plan_command_def rpc_command_def preflight_command_def materialize_keypair_def split: prod.split
      intro!: ledger_kept.keeps_intros println_keeps publish_keeps on_ledger_verify write_keypair_exclusive_keeps)

lemma main_initializes:
  assumes "main rt tc cl pf cmd h = (h', r)" and "ho_ledger h' \<noteq> ho_ledger h"
  shows "\<exists>args. cmd = Apply args \<and> initializes rt tc cl args h h'"
proof (cases "\<exists>args. cmd = Apply args")
  case True
  then obtain args where "cmd = Apply args" ..
  with rpc_command_initializes [of rt tc cl args h pf True] assms(1) show ?thesis by simp
next
  case False
  then show ?thesis
    using main_same_ledger [of cmd rt tc cl pf] assms by (metis fst_conv keeps_def same_ledger_def)
qed

subsection \<open>Success\<close>

lemma publish_Inr:
  assumes "publish pf receipt rendered h = (h', Inr ())"
  shows "\<exists>line. rendered = Inr line \<and> ho_ledger h' = ho_ledger h \<and> ho_stdout h' = ho_stdout h @ [line]"
proof -
  have l: "ho_ledger h' = ho_ledger h"
    using publish_keeps(1) [of pf receipt rendered] assms by (metis fst_conv keeps_def same_ledger_def)
  from assms obtain line h'' where r: "rendered = Inr line" "println line h'' = (h', Inr ())"
      and w: "(case receipt of Some path \<Rightarrow> write_receipt_exclusive pf path line | None \<Rightarrow> io_lift (Inr ())) h = (h'', Inr ())"
    by (auto simp: publish_def io_bind_Inr io_lift_def)
  have "ho_stdout h'' = ho_stdout h"
    using w write_receipt_exclusive_keeps(2) [of pf _ line]
    by (cases receipt) (auto simp: io_lift_def keeps_def same_output_def, metis fst_conv)
  with r l show ?thesis by (auto simp: println_def)
qed

text \<open>A command that succeeds prints the receipt of \<^verbatim>\<open>run_rpc\<close> for the key it loaded.\<close>

lemma rpc_command_Inr:
  assumes "rpc_command rt tc cl pf args applying h = (h', Inr ())"
  shows "\<exists>payer receipt line. load_keypair pf (ra_keypair args) h = (h, Inr payer) \<and>
    run_rpc rt tc cl (ho_ledger h) (pf_pubkey pf payer) args applying = (ho_ledger h', Inr receipt) \<and>
    pf_verification_json pf receipt = Inr line \<and> ho_stdout h' = ho_stdout h @ [line]"
proof -
  from assms obtain payer h1 receipt where
    load: "load_keypair pf (ra_keypair args) h = (h, Inr payer)"
    and run: "on_ledger (\<lambda>ls. run_rpc rt tc cl ls (pf_pubkey pf payer) args applying) h = (h1, Inr receipt)"
    and pub: "publish pf (ra_receipt args) (pf_verification_json pf receipt) h1 = (h', Inr ())"
    by (auto simp: rpc_command_def io_bind_Inr load_keypair_def)
  from run have "run_rpc rt tc cl (ho_ledger h) (pf_pubkey pf payer) args applying = (ho_ledger h1, Inr receipt)"
      "ho_stdout h1 = ho_stdout h"
    by (auto simp: on_ledger_def prod_eq_iff)
  with publish_Inr [OF pub] load show ?thesis by auto
qed

lemma main_rpc_Inr:
  assumes "main rt tc cl pf cmd h = (h', Inr ())" and "cmd = Apply args \<or> cmd = Verify args"
    and "ho_stdout h' = ho_stdout h @ [line]"
  shows "\<exists>payer receipt. load_keypair pf (ra_keypair args) h = (h, Inr payer) \<and> pf_verification_json pf receipt = Inr line \<and>
    run_rpc rt tc cl (ho_ledger h) (pf_pubkey pf payer) args (cmd = Apply args) = (ho_ledger h', Inr receipt)"
proof -
  have "rpc_command rt tc cl pf args (cmd = Apply args) h = (h', Inr ())" using assms(1,2) by auto
  from rpc_command_Inr [OF this] assms(3) show ?thesis by auto
qed

text \<open>
  A materialised key can be used: the file holds the key of the environment, and loading it gives that key, provided that
  reading a file that its owner may read inverts writing, as the key functions document.
\<close>

lemma materialized_keypair_loads:
  assumes "materialize_keypair tc pf path h = (h', Inr ())"
    and "\<And>k mode. mode AND 0x100 \<noteq> 0 \<Longrightarrow>
      pf_read_keypair_file pf (Some \<lparr>fl_mode = mode, fl_contents = pf_keypair_text pf k\<rparr>) = Inr k"
    and "pf_umask pf AND 0x100 = 0"
  shows "load_keypair pf (Some path) h' = (h', snd (load_keypair pf None h))"
proof -
  from assms(1) obtain k h1 where k: "load_keypair pf None h = (h, Inr k)"
      and w: "create_write pf path 0x180 (pf_keypair_text pf k) h = (h1, Inr ())" and f: "ho_files h' = ho_files h1"
    by (auto simp: materialize_keypair_def write_keypair_exclusive_def io_bind_Inr load_keypair_def println_def)
  have "ho_files h' path = Some \<lparr>fl_mode = 0x180 AND NOT (pf_umask pf), fl_contents = pf_keypair_text pf k\<rparr>"
    using w f by (cases rule: create_write_cases [of pf path "0x180" "pf_keypair_text pf k" h]) auto
  moreover have "(0x180 AND NOT (pf_umask pf)) AND 0x100 \<noteq> 0"
  proof -
    have "(a AND NOT u) AND b = (a AND b) AND NOT (u AND b)" for a b u :: u32
      by (rule bit_word_eqI) (auto simp: bit_and_iff bit_or_iff bit_not_iff)
    from this [of "0x180" "pf_umask pf" "0x100"] show ?thesis unfolding assms(3) by simp
  qed
  ultimately show ?thesis using k assms(2) by (simp add: load_keypair_def)
qed

end
