(* ===== verification/Rollout.thy ===== *)
theory Rollout
  imports Wiring Console Demo_Run
begin

text \<open>
  Properties of the deployment tool: its off-chain validation agrees with the program, an initialised protocol passes its
  verification, \<^verbatim>\<open>verify\<close> is read-only, no command overwrites a file or reports more than it did, witness addresses
  survive printing and parsing, and the fingerprint of the configuration determines it up to collisions of the hash.
\<close>

section \<open>Validation\<close>

text \<open>
  C37. The tool and the program agree: the tool accepts a configuration exactly when authority and mint are nonzero and
  the program's own checks of the initialisation arguments accept them.
\<close>

theorem validation_agrees_with_program:
  "DeploymentConfig_validate c = Inr () \<longleftrightarrow>
     dcf_authority c \<noteq> 0 \<and> dcf_stake_mint c \<noteq> 0 \<and> check_initialize_args (initialize_args c) (Inr ()) = Inr ()"
  by (rule DeploymentConfig_validate_Inr)

text \<open>
  C36. A fresh deployment verifies: after the program has executed the initialisation of a validated configuration, all
  eight configuration accounts exist and every check of the tool on them passes, those on initial defaults included; and
  after every later history, whatever governance, users and others do, the accounts still exist and the tool still accepts
  their wiring for the same configuration.
\<close>

theorem fresh_deployment_verifies:
  assumes "DeploymentConfig_validate c = Inr ()" and "dispute_config_key rt \<noteq> 0"
    and "handle_initialize_protocol rt ls (dcf_authority c) pd d sh (dcf_stake_mint c) (initialize_args c) = Inr ls'"
  shows "\<exists>s. load_stack ls' = Inr s \<and> verify_stack rt (Topology_derive rt tc) c True s = Inr () \<and>
    (\<forall>es. \<exists>s'. load_stack (run (execute rt) ls' es) = Inr s' \<and> verify_wiring rt (Topology_derive rt tc) c s' = Inr ())"
proof -
  from fresh_stack_verifies [OF assms] obtain s where s: "load_stack ls' = Inr s"
      "verify_stack rt (Topology_derive rt tc) c True s = Inr ()" by blast
  then have "verify_wiring rt (Topology_derive rt tc) c s = Inr ()" by (simp add: verify_stack_def result_simps)
  with s wiring_stays_verified [OF s(1)] show ?thesis by blast
qed

definition demo_config :: DeploymentConfig where
  "demo_config = \<lparr>dcf_authority = 1, dcf_stake_mint = 2, dcf_protocol_fee = 10000000000000000,
     dcf_protocol_fee_recipient = 5, dcf_intent_expiration_period = 3600, dcf_max_intents_per_deposit = 5,
     dcf_controller_change_delay = 86400, dcf_initial_witnesses = [9], dcf_required_signatures = 1\<rparr>"

theorem fresh_deployment_verifies_witness:
  "\<exists>ls' s. handle_initialize_protocol demo_runtime demo_genesis 1 (Some 50) (50, Some 1) slot_hashes 2
       (initialize_args demo_config) = Inr ls' \<and> load_stack ls' = Inr s \<and>
     (\<forall>tc. verify_stack demo_runtime (Topology_derive demo_runtime tc) demo_config True s = Inr ()) \<and>
     (\<forall>tc es. \<exists>s'. load_stack (run (execute demo_runtime) ls' es) = Inr s' \<and>
        verify_wiring demo_runtime (Topology_derive demo_runtime tc) demo_config s' = Inr ())"
proof -
  have v: "DeploymentConfig_validate demo_config = Inr ()"
    by (simp add: DeploymentConfig_validate_def demo_config_def limit_defs)
  have k: "dispute_config_key demo_runtime \<noteq> 0" by (simp add: demo_key_defs)
  obtain ls' where r: "handle_initialize_protocol demo_runtime demo_genesis (dcf_authority demo_config) (Some 50) (50, Some 1)
      slot_hashes (dcf_stake_mint demo_config) (initialize_args demo_config) = Inr ls'"
    by (simp add: demo_eval demo_config_def initialize_args_def)
  note ok = fresh_deployment_verifies [OF v k r]
  from ok obtain s where s: "load_stack ls' = Inr s" by blast
  have "verify_stack demo_runtime (Topology_derive demo_runtime tc) demo_config True s = Inr ()" for tc
    using ok [of tc] unfolding s by (elim exE conjE) simp
  moreover have "\<exists>s'. load_stack (run (execute demo_runtime) ls' es) = Inr s' \<and>
      verify_wiring demo_runtime (Topology_derive demo_runtime tc) demo_config s' = Inr ()" for tc es
    using ok [of tc] by blast
  moreover have "dcf_authority demo_config = 1" "dcf_stake_mint demo_config = 2" by (simp_all add: demo_config_def)
  ultimately show ?thesis using s r by (intro exI [of _ ls'] exI [of _ s]) simp
qed

lemma verify_programdata_control_authority:
  assumes "verify_programdata_control cl owner data expected = Inr (authority, slot)"
  shows "authority = expected"
proof -
  from assms obtain st where st: "decode_loader_state cl data = Inr st"
    by (auto simp: verify_programdata_control_def result_simps)
  show ?thesis
  proof (cases st)
    case (LoaderProgramData x a)
    with assms st show ?thesis
      by (cases a) (auto simp: verify_programdata_control_def result_simps split: if_splits)
  qed (use assms st in \<open>auto simp: verify_programdata_control_def result_simps\<close>)
qed

text \<open>
  C38. \<^verbatim>\<open>verify\<close> only reads, and accepts only the deployment it was asked about: without \<^verbatim>\<open>apply\<close> the ledger is
  unchanged and was initialised; and in both modes a receipt is issued only for a nonempty expected genesis hash that is
  the one of the cluster, with the deployment authority as upgrade authority of the program, and with accounts that are
  wired together and hold the configuration that the arguments of the command describe.
\<close>

theorem receipt_is_earned:
  assumes "run_rpc rt tc cl ls authority args applying = (ls', Inr r)"
  shows "(\<not> applying \<longrightarrow> ls' = ls \<and> protocol ls \<noteq> None) \<and> (protocol ls \<noteq> None \<longrightarrow> ls' = ls) \<and>
    vr_genesis_hash r = ra_expected_genesis_hash args \<and> ra_expected_genesis_hash args \<noteq> [] \<and>
    cl_genesis_hash cl = Inr (vr_genesis_hash r) \<and> vr_upgrade_authority r = base58 tc authority \<and>
    (\<exists>s config. load_stack ls' = Inr s \<and> ProtocolArgs_config (ra_protocol args) authority = Inr config \<and>
       DeploymentConfig_validate config = Inr () \<and> dcf_authority config = authority \<and>
       verify_wiring rt (Topology_derive rt tc) config s = Inr () \<and> verify_expected config s = Inr ())"
proof -
  from assms obtain config g addr up slot sig where
      target: "rpc_target rt cl authority args = Inr (config, g, addr, up, slot)"
      and receipt: "verification_receipt rt tc cl args config g addr up slot ls' sig = Inr r"
    by (auto simp: run_rpc_def split: sum.splits prod.splits)
  from target obtain pa where con: "connect cl authority args = Inr (config, g)"
      and ctl: "program_control cl config pa = Inr (addr, up, slot)"
    by (auto simp: rpc_target_def try_ok_Inr split_paired_Ex)
  from receipt obtain s where read: "read_stack cl (Topology_derive rt tc) ls' = Inr s"
      and ver: "verify_stack rt (Topology_derive rt tc) config (sig \<noteq> None) s = Inr ()"
      and r: "vr_genesis_hash r = g" "vr_upgrade_authority r = base58 tc up"
    by (auto simp: verification_receipt_def Let_def try_ok_Inr)
  note s = read_stack_loads [OF read]
  have p: "protocol ls' \<noteq> None" using s by (auto simp: load_stack_def fetch_def result_simps)
  have same: "ls' = ls" if "\<not> applying \<or> protocol ls \<noteq> None"
  proof (rule ccontr)
    assume "ls' \<noteq> ls"
    with run_rpc_ledger [of rt tc cl ls authority args applying] assms that show False by auto
  qed
  from con have c: "cl_genesis_hash cl = Inr g" "verify_genesis_hash g (ra_expected_genesis_hash args) = Inr ()"
      "DeploymentConfig_validate config = Inr ()" "dcf_authority config = authority"
      "ProtocolArgs_config (ra_protocol args) authority = Inr config"
    by (auto simp: connect_def ProtocolArgs_config_def result_simps)
  have "up = authority"
    using ctl c(4) by (auto simp: program_control_def try_ok_Inr ensure_Inr dest: verify_programdata_control_authority)
  moreover have "verify_wiring rt (Topology_derive rt tc) config s = Inr ()" "verify_expected config s = Inr ()"
    using ver by (auto simp: verify_stack_def result_simps)
  ultimately show ?thesis using c s r p same by (auto simp: verify_genesis_hash_def split: if_splits)
qed

text \<open>
  The test for an existing account is not a test for an initialised protocol: any account at the address of the protocol
  configuration, for instance one that only holds lamports, keeps \<^verbatim>\<open>apply\<close> from sending the initialisation and then
  makes it fail.
\<close>

lemma occupied_address_blocks:
  assumes "cl_account_value cl (protocol_key rt) = Inr (Some a)" and "protocol ls = None"
  shows "\<exists>e. run_rpc rt tc cl ls authority args applying = (ls, Inl e)"
proof -
  have "initialize_if_absent rt tc cl ls config applying = (ls, Inr None)" for config
    using assms by (simp add: initialize_if_absent_def protocol_exists_def Topology_derive_keys ensure_def)
  moreover have "\<exists>e. verification_receipt rt tc cl args config g ad u slot ls None = Inl e" for config g ad u slot
    using assms(2) by (cases "cl_read_account cl (tp_protocol (Topology_derive rt tc))")
      (simp_all add: verification_receipt_def read_stack_def read_account_def fetch_def or_fail_def)
  ultimately show ?thesis by (cases "rpc_target rt cl authority args") (auto simp: run_rpc_def)
qed

definition demo_tools :: toolchain where
  "demo_tools = \<lparr>base58 = (\<lambda>k. if k = 1 then ''1'' else ''other''), loader_address = (\<lambda>_. 50), slot_hashes_ID = 41, system_program_ID = 42,
     initialize_account_metas = (\<lambda>_. []), initialize_data = (\<lambda>_. [])\<rparr>"

definition demo_account :: "pubkey \<Rightarrow> chain_account checked" where
  "demo_account k =
     (if k = crate_ID then Inr \<lparr>ca_owner = 40, ca_executable = True, ca_data = [1]\<rparr>
      else if k = 50 then Inr \<lparr>ca_owner = 40, ca_executable = False, ca_data = [2]\<rparr>
      else if k = 2 then Inr \<lparr>ca_owner = 100, ca_executable = False, ca_data = [3]\<rparr>
      else Inl ''missing'')"

definition demo_cluster :: cluster where
  "demo_cluster = \<lparr>cl_genesis_hash = Inr ''main'', cl_get_account = demo_account, cl_account_value = (\<lambda>_. Inr None),
     cl_read_account = (\<lambda>_. Inr ()),
     cl_send = (\<lambda>_ ls. case handle_initialize_protocol demo_runtime ls 1 (Some 50) (50, Some 1) slot_hashes 2
       (initialize_args demo_config) of Inl _ \<Rightarrow> (ls, Inl ''failed'') | Inr ls' \<Rightarrow> (ls', Inr ''sig'')),
     cl_decode_loader = (\<lambda>bs. if bs = [1] then Inr (LoaderProgram 50) else Inr (LoaderProgramData 7 (Some 1))),
     cl_unpack_mint = (\<lambda>_. Some (True, 6)), cl_loader_ID = 40\<rparr>"

definition demo_rpc_args :: RpcArgs where
  "demo_rpc_args = \<lparr>ra_rpc_url = ''http://127.0.0.1'', ra_cluster_name = ''local'', ra_expected_genesis_hash = ''main'',
     ra_keypair = None, ra_receipt = Some ''receipt'', ra_protocol = \<lparr>pg_stake_mint = 2, pg_protocol_fee_recipient = 5, pg_protocol_fee = 10000000000000000,
       pg_intent_expiration_period = 3600, pg_max_intents_per_deposit = 5, pg_controller_change_delay = 86400,
       pg_witnesses = [hex_bytes (to_be_bytes (9 :: eth_address))], pg_required_signatures = 1\<rparr>\<rparr>"

lemma demo_connect: "connect demo_cluster 1 demo_rpc_args = Inr (demo_config, ''main'')"
proof -
  have "ProtocolArgs_config (ra_protocol demo_rpc_args) 1 = Inr demo_config"
    by (simp add: ProtocolArgs_config_def demo_rpc_args_def demo_config_def parse_witness_hex(1))
  moreover have "DeploymentConfig_validate demo_config = Inr ()"
    by (simp add: DeploymentConfig_validate_def demo_config_def limit_defs)
  ultimately show ?thesis
    by (simp add: connect_def) (simp add: demo_rpc_args_def demo_cluster_def websocket_url_def strip_str_prefix_def
        verify_genesis_hash_def)
qed

lemma demo_control:
  "cl_get_account demo_cluster crate_ID = Inr \<lparr>ca_owner = 40, ca_executable = True, ca_data = [1]\<rparr>"
  "program_control demo_cluster demo_config \<lparr>ca_owner = 40, ca_executable = True, ca_data = [1]\<rparr> = Inr (50, 1, 7)"
  "cl_get_account demo_cluster 2 = Inr \<lparr>ca_owner = 100, ca_executable = False, ca_data = [3]\<rparr>"
  "validate_legacy_mint demo_runtime demo_cluster 100 [3] = Inr ()"
  by (simp_all add: program_control_def programdata_address_def verify_programdata_control_def demo_cluster_def
      demo_account_def crate_ID_def demo_config_def require_upgradeable_loader_def decode_loader_state_def
      ensure_def validate_legacy_mint_def require_state_def or_fail_def)

lemma demo_target: "rpc_target demo_runtime demo_cluster 1 demo_rpc_args = Inr (demo_config, ''main'', 50, 1, 7)"
proof -
  have "dcf_stake_mint demo_config = 2" by (simp add: demo_config_def)
  then show ?thesis by (simp add: rpc_target_def demo_connect demo_control)
qed

lemma demo_deploys:
  obtains ls' s r where
    "initialize_if_absent demo_runtime demo_tools demo_cluster demo_genesis demo_config True = (ls', Inr (Some ''sig''))"
    "load_stack ls' = Inr s"
    "verification_receipt demo_runtime demo_tools demo_cluster demo_rpc_args demo_config ''main'' 50 1 7 ls' (Some ''sig'') = Inr r"
proof -
  have v: "DeploymentConfig_validate demo_config = Inr ()"
    by (simp add: DeploymentConfig_validate_def demo_config_def limit_defs)
  have k: "dispute_config_key demo_runtime \<noteq> 0" by (simp add: demo_key_defs)
  have m: "dcf_stake_mint demo_config = 2" "dcf_authority demo_config = 1" by (simp_all add: demo_config_def)
  obtain ls' where i: "handle_initialize_protocol demo_runtime demo_genesis 1 (Some 50) (50, Some 1)
      slot_hashes 2 (initialize_args demo_config) = Inr ls'"
    by (simp add: demo_eval demo_config_def initialize_args_def)
  obtain s where s: "load_stack ls' = Inr s"
      "verify_stack demo_runtime (Topology_derive demo_runtime demo_tools) demo_config True s = Inr ()"
    using fresh_stack_verifies [OF v k, of demo_genesis "Some 50" "(50, Some 1)" slot_hashes ls' demo_tools] i m by auto
  have "cl_send demo_cluster ins demo_genesis = (ls', Inr ''sig'')" for ins
    using i by (simp add: demo_cluster_def)
  moreover have "protocol_exists demo_cluster topology demo_genesis = Inr False" for topology
    by (simp add: protocol_exists_def demo_cluster_def demo_genesis_fields)
  moreover obtain ins where "initialize_instruction demo_runtime demo_tools demo_config = Inr ins"
    using v by (simp add: initialize_instruction_def Let_def)
  ultimately have "initialize_if_absent demo_runtime demo_tools demo_cluster demo_genesis demo_config True = (ls', Inr (Some ''sig''))"
    by (simp add: initialize_if_absent_def ensure_def)
  moreover obtain r where
      "verification_receipt demo_runtime demo_tools demo_cluster demo_rpc_args demo_config ''main'' 50 1 7 ls' (Some ''sig'') = Inr r"
    using s by (simp add: verification_receipt_def load_stack_reads demo_cluster_def)
  ultimately show thesis using s(1) by (intro that)
qed

theorem receipt_is_earned_witness:
  "\<exists>ls' r. run_rpc demo_runtime demo_tools demo_cluster demo_genesis 1 demo_rpc_args True = (ls', Inr r) \<and>
     vr_genesis_hash r = ''main'' \<and> vr_upgrade_authority r = ''1'' \<and> (\<exists>s. load_stack ls' = Inr s)"
proof -
  obtain ls' r where r: "run_rpc demo_runtime demo_tools demo_cluster demo_genesis 1 demo_rpc_args True = (ls', Inr r)"
    by (rule demo_deploys) (simp add: run_rpc_def demo_target)
  have a: "base58 demo_tools 1 = ''1''" "ra_expected_genesis_hash demo_rpc_args = ''main''"
    by (simp_all add: demo_tools_def demo_rpc_args_def)
  from receipt_is_earned [OF r] a r show ?thesis by metis
qed

section \<open>The shell\<close>

text \<open>
  C40. The tool is careful with the machine and the cluster, also when it fails half-way: no existing file changes; only the
  output file of the command can appear, a key with no permission beyond \<^verbatim>\<open>0o600\<close>, a receipt with none beyond
  \<^verbatim>\<open>0o644\<close>; the ledger changes only by \<^verbatim>\<open>apply\<close>, only if the protocol was not initialised, and only by
  sending the initialisation for the expected cluster; a failure prints nothing; a success prints exactly one line, which
  is also what the receipt file holds, and for \<^verbatim>\<open>apply\<close> and \<^verbatim>\<open>verify\<close> is the receipt that \<open>run_rpc\<close> issued for
  the public key of the loaded keypair.
\<close>

theorem tool_is_careful:
  assumes "main rt tc cl pf cmd h = (h', r)"
  shows "(\<forall>path f. ho_files h path = Some f \<longrightarrow> ho_files h' path = Some f) \<and>
    (\<forall>path f. ho_files h path = None \<and> ho_files h' path = Some f \<longrightarrow>
       fst (created_file cmd) = Some path \<and> fl_mode f AND NOT (snd (created_file cmd)) = 0) \<and>
    (ho_ledger h' \<noteq> ho_ledger h \<longrightarrow> (\<exists>args. cmd = Apply args \<and> initializes rt tc cl args h h')) \<and>
    (r \<noteq> Inr () \<longrightarrow> ho_stdout h' = ho_stdout h) \<and>
    (r = Inr () \<longrightarrow> (\<exists>line. ho_stdout h' = ho_stdout h @ [line] \<and>
       (\<forall>path. receipt_path cmd = Some path \<longrightarrow> map_option fl_contents (ho_files h' path) = Some line) \<and>
       (\<forall>args. cmd = Apply args \<or> cmd = Verify args \<longrightarrow> (\<exists>payer receipt.
          load_keypair pf (ra_keypair args) h = (h, Inr payer) \<and> pf_verification_json pf receipt = Inr line \<and>
          run_rpc rt tc cl (ho_ledger h) (pf_pubkey pf payer) args (cmd = Apply args) = (ho_ledger h', Inr receipt)))))"
proof -
  have files: "adds_file (fst (created_file cmd)) (snd (created_file cmd)) h h'"
    using main_adds_file [of cmd rt tc cl pf] assms by (metis fst_conv keeps_def)
  have report: "reported (receipt_path cmd) h (h', r)"
    using main_reports [of cmd rt tc cl pf] assms by (metis reports_def)
  have fails: "ho_stdout h' = ho_stdout h" if "r \<noteq> Inr ()" using report that by (cases r) (simp_all add: same_output_def)
  have "\<exists>line. ho_stdout h' = ho_stdout h @ [line] \<and>
       (\<forall>path. receipt_path cmd = Some path \<longrightarrow> map_option fl_contents (ho_files h' path) = Some line) \<and>
       (\<forall>args. cmd = Apply args \<or> cmd = Verify args \<longrightarrow> (\<exists>payer receipt.
          load_keypair pf (ra_keypair args) h = (h, Inr payer) \<and> pf_verification_json pf receipt = Inr line \<and>
          run_rpc rt tc cl (ho_ledger h) (pf_pubkey pf payer) args (cmd = Apply args) = (ho_ledger h', Inr receipt)))"
    if "r = Inr ()"
  proof -
    from report that obtain line where line: "ho_stdout h' = ho_stdout h @ [line]"
        "\<And>path. receipt_path cmd = Some path \<Longrightarrow> \<exists>f. ho_files h' path = Some f \<and> fl_contents f = line" by auto
    then have "map_option fl_contents (ho_files h' path) = Some line" if "receipt_path cmd = Some path" for path
      using that by fastforce
    with line(1) main_rpc_Inr [OF assms [unfolded that] _ line(1)] show ?thesis by blast
  qed
  with adds_fileD [OF files] main_initializes [OF assms] fails show ?thesis by blast
qed

definition demo_platform :: "pubkey platform" where
  "demo_platform = \<lparr>pf_read_keypair_file = (\<lambda>_. Inl ''unreadable''), pf_from_base58 = (\<lambda>_. Some 1), pf_pubkey = (\<lambda>k. k),
     pf_keypair_text = (\<lambda>_. ''[1]''), pf_umask = 0x12, pf_open_error = (\<lambda>_. None), pf_write_error = (\<lambda>_. None),
     pf_sync = (\<lambda>_. Inr ()), pf_topology_json = (\<lambda>_. Inr ''topology''), pf_verification_json = (\<lambda>_. Inr ''verified''),
     pf_preflight_json = (\<lambda>_. Inr ''preflight'')\<rparr>"

definition demo_host :: host where
  "demo_host = \<lparr>ho_private_key = Some ''secret'', ho_files = [''old'' \<mapsto> \<lparr>fl_mode = 0x1A4, fl_contents = ''old''\<rparr>],
     ho_stdout = [], ho_ledger = demo_genesis\<rparr>"

theorem tool_is_careful_witness:
  "\<exists>h'. main demo_runtime demo_tools demo_cluster demo_platform (Apply demo_rpc_args) demo_host = (h', Inr ()) \<and>
     ho_files h' ''old'' = Some \<lparr>fl_mode = 0x1A4, fl_contents = ''old''\<rparr> \<and>
     map_option fl_contents (ho_files h' ''receipt'') = Some ''verified'' \<and> ho_stdout h' = [''verified''] \<and>
     protocol (ho_ledger demo_host) = None \<and> (\<exists>s. load_stack (ho_ledger h') = Inr s)"
proof -
  obtain ls' s r where d: "load_stack ls' = Inr s"
    "initialize_if_absent demo_runtime demo_tools demo_cluster demo_genesis demo_config True = (ls', Inr (Some ''sig''))"
    "verification_receipt demo_runtime demo_tools demo_cluster demo_rpc_args demo_config ''main'' 50 1 7 ls' (Some ''sig'') = Inr r"
    by (rule demo_deploys)
  have args: "ra_keypair demo_rpc_args = None" "receipt_path (Apply demo_rpc_args) = Some ''receipt''"
      "ra_receipt demo_rpc_args = Some ''receipt''" by (simp_all add: demo_rpc_args_def)
  obtain h' where h': "main demo_runtime demo_tools demo_cluster demo_platform (Apply demo_rpc_args) demo_host = (h', Inr ())"
      "ho_ledger h' = ls'" "ho_stdout h' = [''verified'']"
    by (simp add: rpc_command_def io_bind_def io_lift_def load_keypair_def or_fail_def demo_host_def demo_platform_def args
        demo_target d on_ledger_def run_rpc_def publish_def write_receipt_exclusive_def create_new_def write_all_def println_def)
  moreover have "ho_files demo_host ''old'' = Some \<lparr>fl_mode = 0x1A4, fl_contents = ''old''\<rparr>" "ho_stdout demo_host = []"
      "protocol (ho_ledger demo_host) = None"
    by (simp_all add: demo_host_def demo_genesis_fields)
  ultimately show ?thesis using tool_is_careful [OF h'(1)] args(2) d(1) by auto
qed

section \<open>Witness addresses\<close>

text \<open>
  Every witness address survives printing and parsing: the parser reads the twenty bytes of an address, printed as
  lower-case hexadecimal digits with or without the prefix \<^verbatim>\<open>0x\<close>, back to that address.
\<close>

theorem witness_round_trip:
  "parse_witness (hex_bytes (to_be_bytes w)) = Inr w \<and> parse_witness (''0x'' @ hex_bytes (to_be_bytes w)) = Inr w"
  using parse_witness_hex by blast

lemma repeated_pair:
  assumes "i < n" and "of_char a < (128 :: nat)" and "of_char b < (128 :: nat)"
  shows "str_get (concat (replicate n [a, b])) (i * 2) (i * 2 + 2) = Some [a, b]"
proof -
  let ?s = "concat (replicate n [a, b])"
  have len: "length (concat (replicate m [a, b])) = 2 * m" for m by (induction m) simp_all
  have "replicate n [a, b] = replicate i [a, b] @ [a, b] # replicate (n - Suc i) [a, b]"
    using assms(1) by (simp add: replicate_add [symmetric] replicate_Suc [symmetric] del: replicate_Suc)
  then have "?s = concat (replicate i [a, b]) @ [a, b] @ concat (replicate (n - Suc i) [a, b])" by simp
  moreover have "length (concat (replicate i [a, b])) = i * 2" by (simp add: len)
  ultimately have "take 2 (drop (i * 2) ?s) = [a, b]" by simp
  moreover have "char_boundary ?s j" if "j \<le> 2 * n" for j
  proof -
    have "?s ! j \<in> {a, b}" if "j < 2 * n" using nth_mem [of j ?s] that len [of n] by (auto split: if_splits)
    then have "of_char (?s ! j) div 64 \<noteq> (2 :: nat)" if "j < 2 * n" using that assms(2,3) by auto
    then show ?thesis using \<open>j \<le> 2 * n\<close> len [of n] by (auto simp: char_boundary_def)
  qed
  ultimately show ?thesis using assms(1) len [of n] by (simp add: str_get_def)
qed

lemma parse_repeated:
  assumes "of_char a < (128 :: nat)" and "of_char b < (128 :: nat)" and "from_str_radix_16 [a, b] = Some v"
  shows "parse_witness (''0x'' @ concat (replicate 20 [a, b])) = Inr (of_be_bytes (replicate 20 v))"
proof -
  let ?s = "concat (replicate 20 [a, b])"
  have bytes: "parse_bytes ?s is = Inr (replicate (length is) v)" if "\<And>i. i \<in> set is \<Longrightarrow> i < 20" for "is"
    using that
  proof (induction "is")
    case (Cons i rest)
    then have "str_get ?s (i * 2) (i * 2 + 2) = Some [a, b]" by (intro repeated_pair assms) simp
    with Cons assms(3) show ?case by (simp add: or_fail_def)
  qed simp
  have "parse_bytes ?s [0..<20] = Inr (replicate (length [0..<20]) v)" by (rule bytes) (simp only: set_upt atLeastLessThan_iff)
  then have "parse_bytes ?s [0..<20] = Inr (replicate 20 v)" by (simp only: length_upt diff_zero)
  moreover have "length ?s = 40" by (simp add: length_concat sum_list_replicate)
  ultimately show ?thesis by (simp add: parse_witness_def strip_str_prefix_def)
qed

text \<open>
  The parser also accepts text that is not hexadecimal: a plus sign may replace the leading zero of any byte, because
  \<^verbatim>\<open>u8::from_str_radix\<close> allows it; so the same address has texts that the documentation of the parser excludes.
\<close>

theorem witness_parser_accepts_signs:
  "parse_witness (''0x'' @ concat (replicate 20 ''+7'')) = parse_witness (''0x'' @ concat (replicate 20 ''07'')) \<and>
   (\<exists>w. parse_witness (''0x'' @ concat (replicate 20 ''+7'')) = Inr w)"
proof -
  have "from_str_radix_16 ''+7'' = Some 7" "from_str_radix_16 ''07'' = Some 7"
    by (simp_all add: from_str_radix_16_def hex_digit_def)
  then show ?thesis
    using parse_repeated [of "CHR ''+''" "CHR ''7''" 7] parse_repeated [of "CHR ''0''" "CHR ''7''" 7] by simp
qed

section \<open>Fingerprint\<close>

lemma key_bytes_iff: "key_bytes x = key_bytes y \<longleftrightarrow> x = y"
  by (simp add: key_bytes_def to_be_bytes_inject)

lemma key_append_iff: "key_bytes x @ r = key_bytes y @ t \<longleftrightarrow> x = y \<and> r = t"
  by (simp add: key_bytes_def to_be_bytes_inject)

lemma bool_append_iff: "borsh_bool x @ r = borsh_bool y @ t \<longleftrightarrow> x = y \<and> r = t"
  by (simp add: borsh_bool_def)

lemma policy_append_iff: "borsh_policy x @ r = borsh_policy y @ t \<longleftrightarrow> x = y \<and> r = t"
  by (cases x; cases y) simp_all

lemma option_append_iff: "borsh_option key_bytes x @ r = borsh_option key_bytes y @ t \<longleftrightarrow> x = y \<and> r = t"
  by (cases x; cases y) (simp_all add: borsh_option_def key_append_iff)

lemma concat_append_iff:
  assumes read: "\<And>x y r t. enc x @ r = enc y @ t \<longleftrightarrow> x = y \<and> r = t" and "length xs = length ys"
  shows "concat (map enc xs) @ r = concat (map enc ys) @ t \<longleftrightarrow> xs = ys \<and> r = t"
  using assms(2) by (induction xs ys rule: list_induct2) (simp_all add: read)

lemma vec_append_iff:
  assumes read: "\<And>x y r t. enc x @ r = enc y @ t \<longleftrightarrow> x = y \<and> r = t"
    and len: "length xs < 2 ^ 32" "length ys < 2 ^ 32"
  shows "borsh_vec enc xs @ r = borsh_vec enc ys @ t \<longleftrightarrow> xs = ys \<and> r = t"
proof -
  have "(of_nat (length xs) :: u32) = of_nat (length ys) \<longleftrightarrow> length xs = length ys"
    using len by (simp add: word_unat_eq_iff unat_of_nat)
  then show ?thesis
    using concat_append_iff [of enc xs ys, OF read] by (auto simp: borsh_vec_def to_le_bytes_inject)
qed

text \<open>
  C39. The fingerprint is taken of the whole configuration: two stacks of verified accounts with the same serialised
  configuration agree in every fingerprinted field, so equal fingerprints mean equal configurations unless the hash
  collides.
\<close>

theorem fingerprint_determines_configuration:
  assumes "configuration_bytes s = configuration_bytes t"
    and "length (vc_witnesses (st_verifier s)) < 2 ^ 32" and "length (vc_witnesses (st_verifier t)) < 2 ^ 32"
    and "length (vc_payment_methods (st_verifier s)) < 2 ^ 32" and "length (vc_payment_methods (st_verifier t)) < 2 ^ 32"
  shows "pc_authority (st_protocol s) = pc_authority (st_protocol t) \<and>
    pc_pending_authority (st_protocol s) = pc_pending_authority (st_protocol t) \<and>
    pc_version (st_protocol s) = pc_version (st_protocol t) \<and>
    pc_domain_seed_slot (st_protocol s) = pc_domain_seed_slot (st_protocol t) \<and>
    pc_domain_seed (st_protocol s) = pc_domain_seed (st_protocol t) \<and>
    pc_domain_chain_id (st_protocol s) = pc_domain_chain_id (st_protocol t) \<and>
    ec_dust_recipient (st_escrow s) = ec_dust_recipient (st_escrow t) \<and>
    ec_dust_threshold (st_escrow s) = ec_dust_threshold (st_escrow t) \<and>
    ec_max_intents_per_deposit (st_escrow s) = ec_max_intents_per_deposit (st_escrow t) \<and>
    ec_intent_expiration_period (st_escrow s) = ec_intent_expiration_period (st_escrow t) \<and>
    ec_paused (st_escrow s) = ec_paused (st_escrow t) \<and>
    vc_required_signatures (st_verifier s) = vc_required_signatures (st_verifier t) \<and>
    vc_witnesses (st_verifier s) = vc_witnesses (st_verifier t) \<and>
    vc_payment_methods (st_verifier s) = vc_payment_methods (st_verifier t) \<and>
    oc_protocol_fee (st_orchestrator s) = oc_protocol_fee (st_orchestrator t) \<and>
    oc_protocol_fee_recipient (st_orchestrator s) = oc_protocol_fee_recipient (st_orchestrator t) \<and>
    oc_lifecycle_policy (st_orchestrator s) = oc_lifecycle_policy (st_orchestrator t) \<and>
    oc_allow_multiple_intents (st_orchestrator s) = oc_allow_multiple_intents (st_orchestrator t) \<and>
    oc_paused (st_orchestrator s) = oc_paused (st_orchestrator t) \<and>
    sv_controller (st_stake_vault s) = sv_controller (st_stake_vault t) \<and>
    sv_pending_controller (st_stake_vault s) = sv_pending_controller (st_stake_vault t) \<and>
    sv_pending_controller_valid_at (st_stake_vault s) = sv_pending_controller_valid_at (st_stake_vault t) \<and>
    sv_controller_change_delay (st_stake_vault s) = sv_controller_change_delay (st_stake_vault t) \<and>
    dg_admissions_paused (st_dispute s) = dg_admissions_paused (st_dispute t)"
proof -
  have w: "borsh_vec to_be_bytes (vc_witnesses (st_verifier s)) @ r = borsh_vec to_be_bytes (vc_witnesses (st_verifier t)) @ r' \<longleftrightarrow>
      vc_witnesses (st_verifier s) = vc_witnesses (st_verifier t) \<and> r = r'" for r r'
    by (rule vec_append_iff [OF _ assms(2,3)]) (simp add: to_be_bytes_inject)
  have m: "borsh_vec key_bytes (vc_payment_methods (st_verifier s)) @ r =
      borsh_vec key_bytes (vc_payment_methods (st_verifier t)) @ r' \<longleftrightarrow>
      vc_payment_methods (st_verifier s) = vc_payment_methods (st_verifier t) \<and> r = r'" for r r'
    by (rule vec_append_iff [OF _ assms(4,5)]) (rule key_append_iff)
  have b: "borsh_bool x = borsh_bool y \<longleftrightarrow> x = y" for x y by (simp add: borsh_bool_def)
  from assms(1) show ?thesis
    unfolding configuration_bytes_def
    by (simp add: to_le_bytes_inject key_bytes_iff option_append_iff bool_append_iff policy_append_iff w m b)
qed

abbreviation "demo_stack groups \<equiv> (initial_stack demo_runtime 1 77 9 2 (initialize_args demo_config))
  \<lparr>st_whitelist := \<lparr>wc_protocol = 272, wc_next_group_id = groups, wc_bump = 255\<rparr>\<rparr>"

theorem fingerprint_determines_configuration_witness:
  "configuration_bytes (demo_stack 0) = configuration_bytes (demo_stack 3) \<and>
   vc_witnesses (st_verifier (demo_stack 0)) = vc_witnesses (st_verifier (demo_stack 3))"
proof -
  have e: "configuration_bytes (demo_stack 0) = configuration_bytes (demo_stack 3)" by (simp add: configuration_bytes_def)
  have w: "vc_witnesses (st_verifier (demo_stack g)) = [9]" "vc_payment_methods (st_verifier (demo_stack g)) = []" for g
    by (simp_all add: initial_stack_def initialize_args_def demo_config_def)
  have l: "length (vc_witnesses (st_verifier (demo_stack g))) < 2 ^ 32"
      "length (vc_payment_methods (st_verifier (demo_stack g))) < 2 ^ 32" for g
    unfolding w by simp_all
  from fingerprint_determines_configuration [OF e l(1) l(1) l(2) l(2)] e show ?thesis by blast
qed

end
