(* ===== verification/Spec2Isabelle.thy ===== *)
theory Spec2Isabelle
  imports Authority Dispute_Life Contracts Access Outcomes Policies Rollout
begin

text \<open>
  This library models the Solana program \<^verbatim>\<open>zkp2p_solana\<close> (\<^verbatim>\<open>src/programs/zkp2p_solana/src\<close>) and its deployment
  tool (\<^verbatim>\<open>src/deployment/src\<close>) and proves that the program keeps its books, its custody and its promises.

  \<^bold>\<open>The program.\<close> A depositor (maker) locks tokens in an \<^emph>\<open>escrow\<close> deposit with payment methods, currencies and minimum
  rates. A taker signals an \<^emph>\<open>intent\<close> through the \<^emph>\<open>orchestrator\<close>, which reserves part of the deposit under an
  escrow lock until it is cancelled, pruned after expiry, released by hand, or fulfilled with an attestation of an
  off-chain payment that the \<^emph>\<open>verifier\<close>'s witnesses signed (\<^emph>\<open>settlement\<close>). Depending on the lifecycle policy a
  deposit's \<^emph>\<open>whitelist\<close> decides who may signal, and a \<^emph>\<open>dispute\<close> account covers the intent with stake from the
  \<^emph>\<open>stake vault\<close>, which a later dispute can award to the depositor. \<^emph>\<open>Rate managers\<close> set rates for deposits that
  chose them, and \<^emph>\<open>governance\<close> initialises and configures the protocol.

  \<^bold>\<open>Correspondence.\<close> Every account type of \<^verbatim>\<open>state.rs\<close> is a record of \<open>State\<close> with the source's fields; the
  record \<open>ledger\<close> maps addresses to accounts, one store per account type, with the token accounts and mints. An
  instruction is a definition \<open>handle_...\<close> from the runtime, the ledger and the keys and arguments a transaction supplies
  to a ledger or an error: first the constraints of its Anchor context (accounts whose address the context derives from
  seeds are looked up at that address, \<open>seeds_bump\<close> is the check of a stored bump), then the body of the handler. Methods
  with \<^verbatim>\<open>&mut self\<close> return the updated record. Integers keep their width (\<open>u64 = 64 word\<close>), checked arithmetic is
  \<open>checked_add\<close> and its like, \<^verbatim>\<open>require!\<close> is \<open>require\<close>, \<^verbatim>\<open>?\<close> is \<open>and_then\<close>.

  \<^item> \<open>Errors\<close>, \<open>Prelude\<close>, \<open>Constants\<close>, \<open>State\<close>, \<open>Interfaces\<close>: error codes (\<^verbatim>\<open>error.rs\<close>),
    results, checked arithmetic, byte encodings, sums over stores, constants (\<^verbatim>\<open>constants.rs\<close>), accounts (\<^verbatim>\<open>state.rs\<close>),
    and the locales: machines with an invariant or a preorder, pools of principal, bounded registries, handovers.
  \<^item> \<open>Fixed_Point\<close> (\<^verbatim>\<open>math.rs\<close>), \<open>Accounting\<close> and \<open>Pools\<close> (the methods of \<^verbatim>\<open>state.rs\<close> and the
    abstract pool they refine), \<open>Token\<close> (what the program uses of the token program).
  \<^item> \<open>Stake\<close>, \<open>Escrow\<close>, \<open>Rate_Manager\<close>, \<open>Whitelist\<close>, \<open>Governance\<close>, \<open>Verifier\<close>, \<open>Dispute\<close>,
    \<open>Settlement\<close>: the files of the same name under \<^verbatim>\<open>instructions/\<close> (with \<^verbatim>\<open>instructions.rs\<close> in
    \<open>Governance\<close>); \<open>Circom\<close>, \<open>Admission\<close> and \<open>Orchestrator\<close>: \<^verbatim>\<open>instructions/orchestrator.rs\<close>, with
    the reduction of the intent hash and the admission checks in theories of their own.
  \<^item> \<open>Program\<close>: the dispatch of \<^verbatim>\<open>lib.rs\<close>, and histories. An event is a call of the program in an environment
    (clock, instructions of the transaction, resolver) or a token operation by others; \<open>reached rt ms ts es\<close> is the ledger
    after the history \<open>es\<close> from a ledger without program accounts; a failed event changes nothing.
  \<^item> \<open>Deployment\<close>, \<open>Deployer\<close> and \<open>Console\<close>: \<^verbatim>\<open>lib.rs\<close> and \<^verbatim>\<open>main.rs\<close> of the deployment tool. \<open>Deployer\<close> has
    the checks and receipts of the commands, \<open>Console\<close> the commands themselves on a machine with files, standard output and
    the ledger, where what happened before an error stays.

  \<^bold>\<open>What the lemmas show.\<close> \<open>Stake_Books\<close>, \<open>Escrow_Books\<close> and \<open>Dispute_Backing\<close> state the books of the three
  components; \<open>Stake_Invariant\<close>, \<open>Escrow_Invariant\<close>, \<open>Intent_Invariant\<close>, \<open>Dispute_Invariant\<close>,
  \<open>Distribution\<close> and \<open>Custody\<close> show that each instruction keeps them; \<open>Frames\<close> says which stores an
  instruction leaves alone; \<open>Program_Invariant\<close> puts them together for every history. \<open>History\<close> and \<open>Limits\<close> hold the
  invariants that need no assumption on the runtime, \<open>Placement\<close> that every account lies where the instructions look for
  it, \<open>Authority\<close> who can move tokens and stake, \<open>Dispute_Life\<close> the state machine of a dispute account with the
  instruction of each transition, \<open>Gating\<close> which instruction data counts as a gating signature and what it signs.
  \<open>Coverage\<close> shows that the accounts that
  an intent and its dispute name belong together in every reachable ledger, and \<open>Liveness\<close> concludes from it that the
  instructions that end them succeed: pruning, leaving by the owner, releasing matured collateral. \<open>Wiring\<close> shows that no
  instruction breaks the wiring that the deployment tool has verified. The properties stand in this theory
  (books and custody over histories), \<open>Contracts\<close> (single components), \<open>Access\<close> (who may signal), \<open>Outcomes\<close>
  (intents), \<open>Policies\<close> (governance, managers, whitelists) and \<open>Rollout\<close> (deployment). \<open>Scenario\<close>, \<open>Demo_Run\<close> and \<open>Demo_Open\<close>
  evaluate complete histories of a concrete runtime, at which the properties are instantiated.

  \<^bold>\<open>Assumptions.\<close> Code outside the repository is the parameter \<open>runtime\<close>: Keccak, secp256k1 recovery, address derivation,
  the token program, the resolver call, Anchor's discriminators and its decoder of signal arguments. \<open>sound_runtime rt H\<close> is what the properties over
  histories assume of it: \<open>token_laws\<close> (a transfer moves exactly the amount between the two accounts and touches no
  other, initialising creates an empty account at a free address, closing removes an empty one), \<open>vault_apart\<close> (the
  address of a deposit is never that of the stake vault), and distinct dispute addresses for the intent hashes \<open>H\<close> of
  the history. \<open>ordinary H\<close> histories use only those hashes and contain no accepted change of the stake controller; after
  such a change the dispute contexts no longer protect the new controller's locks. What is said of
  gating signatures assumes \<open>ed25519_precompile\<close>: a transaction runs only if every signature that its calls of the Ed25519
  program name is valid. Signers are keys of the call;
  \<open>external_key\<close> says that derived addresses cannot sign. Which of several violated Anchor constraints is reported first, and
  Anchor's refusal of the same account in two mutable positions, are not modelled.

  \<^bold>\<open>Termination.\<close> All definitions are total: the loops of the source run over lists or a fixed number of digits and are
  structural recursions, and the loop of \<^verbatim>\<open>reduce_circom_field\<close> is a recursion whose termination \<open>Circom\<close> proves
  by the value of the number it reduces. No fuel is used and no bound is chosen.

  \<^bold>\<open>Not modelled.\<close> Logging, rent and lamports, compute limits and account sizes; the unit and integration tests, which
  are no part of the program; command-line parsing, which the library \<^verbatim>\<open>clap\<close> generates. RPC answers, key functions,
  JSON printing and failures of the operating system are parameters of the deployment tool (\<open>cluster\<close>, \<open>platform\<close>).
\<close>

section \<open>The books of the protocol over every history\<close>

text \<open>
  C1. Solvency of the stake vault: in every ledger an ordinary history reaches, the recorded total stake is the sum of
  all stake positions, the recorded claims are the sum of all claim balances, and the vault's token account holds at
  least both together.
\<close>

theorem stake_vault_solvent:
  assumes "sound_runtime rt H" and "list_all (ordinary H) es"
    and "ls = reached rt ms ts es" and "stake_vault_config ls = Some v"
  shows "unat (sv_total_staked v) = msum (\<lambda>p. unat (sp_balance p)) (stake_positions ls) \<and>
    unat (sv_total_claimable v) = msum (\<lambda>c. unat (cb_amount c)) (claim_balances ls) \<and>
    unat (sv_total_staked v) + unat (sv_total_claimable v) \<le>
      at (\<lambda>t. unat (tk_amount t)) (tokens ls) (stake_token_vault_key rt)"
  using run_protocol_inv [OF assms(1,2), of ms ts] assms(3,4)
  by (auto simp: protocol_inv_def vault_inv_def stake_inv_def stake_books_def vault_covered_def)

theorem stake_vault_solvent_witness:
  "stake_vault_config (demo_reached demo_history) = Some (demo_vault 150 0) \<and>
   unat (sv_total_staked (demo_vault 150 0)) =
     msum (\<lambda>p. unat (sp_balance p)) (stake_positions (demo_reached demo_history)) \<and>
   unat (sv_total_staked (demo_vault 150 0)) + unat (sv_total_claimable (demo_vault 150 0)) \<le>
     at (\<lambda>t. unat (tk_amount t)) (tokens (demo_reached demo_history)) (stake_token_vault_key demo_runtime)"
proof -
  have v: "stake_vault_config (demo_reached demo_history) = Some (demo_vault 150 0)"
    by (simp add: demo_histories demo_claimed_def)
  show ?thesis using v stake_vault_solvent [OF demo_sound demo_ordinary(1) refl v] by blast
qed

text \<open>
  C7. No over-commitment of stake: every stake position lies at the address of its owner, its locked part is exactly the
  sum of the locks on it, and never exceeds its balance.
\<close>

theorem stake_locks_covered:
  assumes "sound_runtime rt H" and "list_all (ordinary H) es"
    and "ls = reached rt ms ts es" and "stake_positions ls k = Some p"
  shows "k = position_key rt (sp_owner p) \<and> unat (sp_locked p) \<le> unat (sp_balance p) \<and>
    unat (sp_locked p) =
      msum (\<lambda>l. if position_key rt (sl_stake_owner l) = k then unat (sl_amount l) else 0) (stake_locks ls)"
proof -
  have "stake_inv rt ls"
    using run_protocol_inv [OF assms(1,2), of ms ts] assms(3) by (simp add: protocol_inv_def vault_inv_def)
  with assms(4) obtain v where b: "stake_books rt v (stake_positions ls) (stake_locks ls) (claim_balances ls)"
    by (cases "stake_vault_config ls") (auto simp: stake_inv_def)
  then have "at locked (stake_positions ls) k = locks_on rt (stake_locks ls) k" by (simp add: stake_books_def)
  then have "locked p = locks_on rt (stake_locks ls) k" using assms(4) by (simp add: at_def)
  moreover have "position_ok p" "position_key rt (sp_owner p) = k" using b assms(4) unfolding stake_books_def by blast+
  ultimately show ?thesis by (simp add: position_ok_def locks_on_def)
qed

theorem stake_locks_covered_witness:
  "stake_positions (demo_reached signal_history) (position_key demo_runtime 4) = Some (demo_position 300 200) \<and>
   unat (sp_locked (demo_position 300 200)) = msum (\<lambda>l. if position_key demo_runtime (sl_stake_owner l) =
     position_key demo_runtime 4 then unat (sl_amount l) else 0) (stake_locks (demo_reached signal_history))"
proof -
  have p: "stake_positions (demo_reached signal_history) (position_key demo_runtime 4) = Some (demo_position 300 200)"
    by (simp add: demo_histories demo_signalled_def demo_prepared_def demo_key_defs)
  show ?thesis using p stake_locks_covered [OF demo_sound demo_ordinary(3) refl p] by blast
qed

text \<open>
  C2. Custody of deposits: every deposit of a reachable ledger has its own token vault, owned by the deposit's address and
  of the deposit's mint, and the vault holds at least the liquidity that is available plus what open intents reserve.
\<close>

theorem deposits_fully_backed:
  assumes "sound_runtime rt H" and "list_all (ordinary H) es"
    and "ls = reached rt ms ts es" and "deposits ls k = Some d"
  shows "\<exists>t. tokens ls (deposit_vault_key rt k) = Some t \<and> tk_owner t = k \<and> tk_mint t = d_token_mint d \<and>
    unat (d_remaining_deposits d) + unat (d_outstanding_intent_amount d) \<le> unat (tk_amount t)"
proof -
  have "escrow_custody rt (deposits ls) (tokens ls)"
    using run_protocol_inv [OF assms(1,2), of ms ts] assms(3) by (simp add: protocol_inv_def escrow_inv_def)
  from custodyD [OF this assms(4)] show ?thesis by blast
qed

theorem deposits_fully_backed_witness:
  "deposits (demo_reached signal_history) demo_deposit = Some (demo_liquidity 300 200 1) \<and>
   (\<exists>t. tokens (demo_reached signal_history) (deposit_vault_key demo_runtime demo_deposit) = Some t \<and>
      tk_owner t = demo_deposit \<and> 500 \<le> unat (tk_amount t))"
proof -
  have d: "deposits (demo_reached signal_history) demo_deposit = Some (demo_liquidity 300 200 1)"
    by (simp add: demo_histories demo_signalled_def demo_key_defs)
  from deposits_fully_backed [OF demo_sound demo_ordinary(3) refl d] d show ?thesis
    by (auto simp: demo_liquidity_def)
qed

text \<open>
  C8. The outstanding amount of a deposit is exactly the sum of the intent locks on it, and its counter of active intents
  exactly their number.
\<close>

theorem outstanding_is_locked:
  assumes "sound_runtime rt H" and "list_all (ordinary H) es"
    and "ls = reached rt ms ts es" and "deposits ls k = Some d"
  shows "unat (d_outstanding_intent_amount d) = msum (\<lambda>l. if el_deposit l = k then unat (el_amount l) else 0) (intent_locks ls) \<and>
    unat (d_active_intents d) = msum (\<lambda>l. if el_deposit l = k then 1 else 0) (intent_locks ls)"
proof -
  have "escrow_books (deposits ls) (intent_locks ls)"
    using run_protocol_inv [OF assms(1,2), of ms ts] assms(3) by (simp add: protocol_inv_def escrow_inv_def)
  then have "at deposit_held (deposits ls) k = held_on (intent_locks ls) k"
      "at active (deposits ls) k = held_count (intent_locks ls) k"
    by (auto simp: escrow_books_def)
  with assms(4) show ?thesis by (simp add: at_Some held_on_def held_count_def)
qed

theorem outstanding_is_locked_witness:
  "deposits (demo_reached signal_history) demo_deposit = Some (demo_liquidity 300 200 1) \<and>
   msum (\<lambda>l. if el_deposit l = demo_deposit then unat (el_amount l) else 0)
     (intent_locks (demo_reached signal_history)) = 200"
proof -
  have d: "deposits (demo_reached signal_history) demo_deposit = Some (demo_liquidity 300 200 1)"
    by (simp add: demo_histories demo_signalled_def demo_key_defs)
  from outstanding_is_locked [OF demo_sound demo_ordinary(3) refl d] d show ?thesis
    by (auto simp: demo_liquidity_def)
qed

text \<open>
  C9. Intents and escrow locks correspond one to one: every intent has the lock at its derived address, with the same
  deposit, hash, amount and time; two intents never share a lock; every lock belongs to an intent; and a taker's counter
  is the number of the taker's open intents.
\<close>

theorem intents_match_locks:
  assumes "sound_runtime rt H" and "list_all (ordinary H) es" and "ls = reached rt ms ts es"
  shows "(\<forall>k i. intents ls k = Some i \<longrightarrow>
      (\<exists>l. intent_locks ls (intent_lock_key rt (i_deposit i) (i_intent_hash i)) = Some l \<and> el_deposit l = i_deposit i \<and>
         el_intent_hash l = i_intent_hash i \<and> el_amount l = i_amount i \<and> el_timestamp l = i_timestamp i)) \<and>
    (\<forall>k k' i i'. intents ls k = Some i \<longrightarrow> intents ls k' = Some i' \<longrightarrow>
      intent_lock_key rt (i_deposit i) (i_intent_hash i) = intent_lock_key rt (i_deposit i') (i_intent_hash i') \<longrightarrow> k = k') \<and>
    (\<forall>j l. intent_locks ls j = Some l \<longrightarrow>
      (\<exists>k i. intents ls k = Some i \<and> intent_lock_key rt (i_deposit i) (i_intent_hash i) = j)) \<and>
    (\<forall>k. at (\<lambda>t. unat (ts_active_intents t)) (taker_states ls) k =
      msum (\<lambda>i. if taker_state_key rt (i_owner i) = k then 1 else 0) (intents ls))"
proof -
  have "intents_locked rt (intents ls) (intent_locks ls)" "taker_counts rt (intents ls) (taker_states ls)"
    using run_protocol_inv [OF assms(1,2), of ms ts] assms(3) by (simp_all add: protocol_inv_def escrow_inv_def)
  then show ?thesis unfolding intents_locked_def lock_addr_def locks_intent_def taker_counts_def by blast
qed

theorem intents_match_locks_witness:
  "intents (demo_reached signal_history) demo_intent = Some demo_signalled_intent \<and>
   (\<exists>l. intent_locks (demo_reached signal_history) (intent_lock_key demo_runtime demo_deposit 9) = Some l \<and>
      el_amount l = 200 \<and> el_timestamp l = 1000)"
proof -
  have i: "intents (demo_reached signal_history) demo_intent = Some demo_signalled_intent"
    by (simp add: demo_histories demo_signalled_def demo_key_defs)
  from intents_match_locks [OF demo_sound demo_ordinary(3) refl] i
  obtain l where "intent_locks (demo_reached signal_history)
      (intent_lock_key demo_runtime (i_deposit demo_signalled_intent) (i_intent_hash demo_signalled_intent)) = Some l"
      "el_amount l = i_amount demo_signalled_intent" "el_timestamp l = i_timestamp demo_signalled_intent" by blast
  with i show ?thesis by (auto simp: demo_signalled_intent_def demo_key_defs)
qed

text \<open>
  C3. Collateral of disputes: as long as the dispute module controls the vault, every pending or settled dispute is
  secured by its own stake lock, on the stake of its stake owner and over exactly the amount at risk; two live disputes
  never share a lock; and every stake lock secures a live dispute.
\<close>

theorem disputes_fully_secured:
  assumes "sound_runtime rt H" and "list_all (ordinary H) es" and "ls = reached rt ms ts es"
  shows "(\<forall>k d. dispute_intents ls k = Some d \<longrightarrow> di_status d = Pending \<or> di_status d = Settled \<longrightarrow>
      (\<exists>l. stake_locks ls (stake_lock_key rt (di_intent_hash d)) = Some l \<and> sl_stake_owner l = di_stake_owner d \<and>
        sl_amount l = (if di_status d = Pending then di_locked_amount d else di_release_amount d))) \<and>
    (\<forall>k k' d d'. dispute_intents ls k = Some d \<longrightarrow> dispute_intents ls k' = Some d' \<longrightarrow> live d \<longrightarrow> live d' \<longrightarrow>
      stake_lock_key rt (di_intent_hash d) = stake_lock_key rt (di_intent_hash d') \<longrightarrow> k = k') \<and>
    (\<forall>j l. stake_locks ls j = Some l \<longrightarrow>
      (\<exists>k d. dispute_intents ls k = Some d \<and> live d \<and> stake_lock_key rt (di_intent_hash d) = j))"
proof -
  have "dispute_backing rt H (dispute_intents ls) (stake_locks ls)"
    using run_protocol_inv [OF assms(1,2), of ms ts] assms(3) by (simp add: protocol_inv_def dispute_inv_def)
  then show ?thesis unfolding dispute_backing_def secures_def collateral_def live_def by blast
qed

theorem disputes_fully_secured_witness:
  "dispute_intents (demo_reached settled_history) demo_dispute = Some (demo_collateral Settled 2600 150) \<and>
   (\<exists>l. stake_locks (demo_reached settled_history) (stake_lock_key demo_runtime 9) = Some l \<and>
      sl_stake_owner l = 4 \<and> sl_amount l = 150)"
proof -
  have d: "dispute_intents (demo_reached settled_history) demo_dispute = Some (demo_collateral Settled 2600 150)"
    by (simp add: demo_histories demo_fulfilled_def demo_key_defs dispute_intent_seeds_def)
  have st: "di_status (demo_collateral Settled 2600 150) = Settled" by (simp add: demo_collateral_def)
  from disputes_fully_secured [OF demo_sound demo_ordinary(2) refl, THEN conjunct1, rule_format, OF d disjI2 [OF st]] d
  show ?thesis by (auto simp: demo_collateral_def)
qed

section \<open>Who can take tokens\<close>

text \<open>
  C4. Escrowed tokens leave only with authority: if an event after an ordinary history lowers the balance of a deposit's
  vault (or closes it), the event is a call of this program that the depositor signed (removing funds, withdrawing the
  deposit, releasing an intent on it by hand), or a fulfilment for an intent on that deposit whose payment attestation
  the verifier accepts.
\<close>

theorem escrow_outflow_authorised:
  assumes "sound_runtime rt H" and "list_all (ordinary H) es" and "ls = reached rt ms ts es"
    and "deposits ls k = Some d" and "tokens ls (deposit_vault_key rt k) = Some t"
    and "execute rt ls e = Inr ls'" and "at (\<lambda>t. unat (tk_amount t)) (tokens ls') (deposit_vault_key rt k) < unat (tk_amount t)"
  shows "\<exists>env i. e = Call env i \<and> releases (in_env rt env) ls k d i"
proof -
  have inv: "protocol_inv rt H ls" using run_protocol_inv [OF assms(1,2)] assms(3) by simp
  then have "tk_owner t = k"
    using deposit_vault_owner [of rt ls, OF _ assms(4)] assms(5) by (auto simp: protocol_inv_def)
  moreover have "\<not> token_grows (tokens ls) (tokens ls') (deposit_vault_key rt k)"
    using assms(5,7) by (auto simp: token_grows_def at_def)
  ultimately show ?thesis
    using execute_releases [OF inv _ _ assms(6,4,5)] assms(1) by (auto simp: sound_runtime_def)
qed

theorem escrow_outflow_authorised_witness:
  "\<exists>env i. Call (at_time 2000) (Intents (Fulfill_intent demo_intent token_accounts dispute_accounts [] fulfill_args)) = Call env i \<and>
     releases (in_env demo_runtime env) (demo_reached signal_history) demo_deposit (demo_liquidity 300 200 1) i"
proof -
  have d: "deposits (demo_reached signal_history) demo_deposit = Some (demo_liquidity 300 200 1)"
    by (simp add: demo_histories demo_signalled_def demo_key_defs)
  have t: "tokens (demo_reached signal_history) (deposit_vault_key demo_runtime demo_deposit) = Some (demo_token 399 500)"
    by (simp add: demo_histories demo_signalled_def demo_prepared_def demo_ready_def demo_key_defs)
  have r: "execute demo_runtime (demo_reached signal_history)
      (Call (at_time 2000) (Intents (Fulfill_intent demo_intent token_accounts dispute_accounts [] fulfill_args))) =
      Inr demo_fulfilled"
    by (simp only: demo_histories demo_fulfill)
  have l: "at (\<lambda>t. unat (tk_amount t)) (tokens demo_fulfilled) (deposit_vault_key demo_runtime demo_deposit) <
      unat (tk_amount (demo_token 399 500))"
    by (simp add: demo_fulfilled_def demo_key_defs demo_token_def at_def)
  show ?thesis by (rule escrow_outflow_authorised [OF demo_sound demo_ordinary(3) refl d t r l])
qed

text \<open>
  C5. Stake is taken only from its owner's own withdrawal or by a proven dispute: if an event after an ordinary history
  lowers the balance of a stake position, it is a withdrawal signed by the owner of the position, or the submission of a
  dispute against that stake owner, on a settled intent, with the evidence that \<^verbatim>\<open>check_dispute_evidence\<close> accepts.
\<close>

theorem stake_taken_only_with_cause:
  assumes "sound_runtime rt H" and "list_all (ordinary H) es" and "ls = reached rt ms ts es"
    and "stake_positions ls k = Some p" and "execute rt ls e = Inr ls'"
    and "at (\<lambda>p. unat (sp_balance p)) (stake_positions ls') k < unat (sp_balance p)"
  shows "(\<exists>env t tp a. e = Call env (Stake (Withdraw_stake (sp_owner p) t tp a))) \<or>
    (\<exists>env args config verifier dis b r v l. e = Call env (Disputes (Submit_dispute args)) \<and>
       submit_context (in_env rt env) ls args = Inr (config, verifier, dis, b, r, v, p, l) \<and>
       check_dispute_evidence (in_env rt env) config verifier dis b r args = Inr () \<and> di_status dis = Settled \<and>
       position_key rt (di_stake_owner dis) = k)"
proof -
  have inv: "protocol_inv rt H ls" using run_protocol_inv [OF assms(1,2)] assms(3) by simp
  have "\<not> stake_kept (stake_positions ls) (stake_positions ls') k"
    using assms(4,6) by (auto simp: stake_kept_def at_def)
  with execute_takes_stake [OF inv assms(5,4)] obtain env i where i: "e = Call env i" "takes_stake (in_env rt env) ls k p i"
      "\<forall>c accs j cl. i \<noteq> Stake (Resolve_stake_lock c accs j cl)" by blast
  from i(2,3) have "(\<exists>t tp a. i = Stake (Withdraw_stake (sp_owner p) t tp a)) \<or>
    (\<exists>args config verifier dis b r v l. i = Disputes (Submit_dispute args) \<and>
       submit_context (in_env rt env) ls args = Inr (config, verifier, dis, b, r, v, p, l) \<and>
       check_dispute_evidence (in_env rt env) config verifier dis b r args = Inr () \<and> di_status dis = Settled \<and>
       position_key rt (di_stake_owner dis) = k)"
    by (cases "(in_env rt env, ls, k, p, i)" rule: takes_stake.cases) auto
  with i(1) show ?thesis by blast
qed

theorem stake_taken_only_with_cause_witness:
  "\<exists>config verifier dis b r v l.
     submit_context (in_env demo_runtime (at_time 2100)) (demo_reached settled_history) dispute_args =
       Inr (config, verifier, dis, b, r, v, demo_position 300 150, l) \<and> di_status dis = Settled"
proof -
  have p: "stake_positions (demo_reached settled_history) (position_key demo_runtime 4) = Some (demo_position 300 150)"
    by (simp add: demo_histories demo_fulfilled_def demo_key_defs)
  have r: "execute demo_runtime (demo_reached settled_history) (Call (at_time 2100) (Disputes (Submit_dispute dispute_args))) =
      Inr demo_disputed"
    by (simp only: demo_histories demo_submit)
  have l: "at (\<lambda>p. unat (sp_balance p)) (stake_positions demo_disputed) (position_key demo_runtime 4) <
      unat (sp_balance (demo_position 300 150))"
    by (simp add: demo_disputed_def demo_key_defs demo_position_def at_def)
  from stake_taken_only_with_cause [OF demo_sound demo_ordinary(2) refl p r l] show ?thesis by auto
qed

section \<open>What every history keeps, without assumptions on the runtime\<close>

text \<open>
  C10. One payment settles one intent: of two payment bindings in a reachable ledger with the same payment nullifier or the
  same intent hash, both are the same account; and the binding of the intent names the same nullifier.
\<close>

theorem one_payment_one_intent:
  assumes "ls = reached rt ms ts es" and "payment_bindings ls k = Some b" and "payment_bindings ls k' = Some b'"
    and "pb_nullifier b = pb_nullifier b' \<or> pb_intent_hash b = pb_intent_hash b'"
  shows "k = k' \<and> b = b' \<and>
    (\<exists>r. intent_payment_bindings ls (pda rt (intent_payment_binding_seeds rt (pb_intent_hash b))) = Some r \<and>
       ib_intent_hash r = pb_intent_hash b \<and> ib_nullifier r = pb_nullifier b)"
proof -
  have inv: "bindings_paired rt ls"
    unfolding assms(1) reached_def
    by (rule pairing_history.run_inv) (simp add: bindings_paired_def genesis_def empty_ledger_def)
  then have paired: "payment_bindings ls j = Some c \<Longrightarrow> j = pda rt (payment_binding_seeds rt (pb_nullifier c)) \<and>
      (\<exists>r. intent_payment_bindings ls (pda rt (intent_payment_binding_seeds rt (pb_intent_hash c))) = Some r \<and>
         ib_intent_hash r = pb_intent_hash c \<and> ib_nullifier r = pb_nullifier c)" for j c
    by (simp add: bindings_paired_def)
  from paired [OF assms(2)] paired [OF assms(3)] assms(4) have n: "pb_nullifier b = pb_nullifier b'" by auto
  with paired [OF assms(2)] paired [OF assms(3)] have "k = k'" by simp
  with assms(2,3) paired [OF assms(2)] show ?thesis by auto
qed

theorem one_payment_one_intent_witness:
  "payment_bindings (demo_reached settled_history) (pda demo_runtime (payment_binding_seeds demo_runtime 9)) \<noteq> None \<and>
   (\<exists>r. intent_payment_bindings (demo_reached settled_history) (pda demo_runtime (intent_payment_binding_seeds demo_runtime 9)) =
      Some r \<and> ib_nullifier r = 9)"
proof -
  have b: "payment_bindings (demo_reached settled_history) (pda demo_runtime (payment_binding_seeds demo_runtime 9)) =
      Some \<lparr>pb_verifier = 279, pb_nullifier = 9, pb_intent_hash = 9, pb_bump = 255\<rparr>"
    by (simp add: demo_histories demo_fulfilled_def payment_binding_seeds_def)
  from one_payment_one_intent [OF refl b b] b show ?thesis by auto
qed

text \<open>
  C16. Evidence is permanent: whatever happens after a ledger, its payment bindings, intent bindings and dispute nullifiers
  stay as they are, so that no payment, no intent and no dispute can be used a second time.
\<close>

theorem evidence_is_permanent:
  "payment_bindings ls \<subseteq>\<^sub>m payment_bindings (run (execute rt) ls es) \<and>
   intent_payment_bindings ls \<subseteq>\<^sub>m intent_payment_bindings (run (execute rt) ls es) \<and>
   dispute_nullifiers ls \<subseteq>\<^sub>m dispute_nullifiers (run (execute rt) ls es)"
  using binding_history.run_le [of ls rt es] by (simp add: bindings_kept_def)

text \<open>
  C17. The life of a dispute account: an event of a history either leaves it alone or takes exactly one edge of the state
  machine \<open>dispute_edge\<close>, by the instruction and under the conditions that the edge names: opened as pending; pending to
  cancelled by the taker of its intent or by pruning an expired one; pending to settled, with the paid amount and one
  risk window; settled to released, not before that window is over; settled to disputed. So an ended dispute is never
  touched again. An account that is open is never closed, and its terms never change.
\<close>

theorem dispute_life_cycle:
  assumes "ls = run (execute rt) ls0 es" and "ls' = run (execute rt) ls0 (es @ [e])"
  shows "(dispute_intents ls' k = dispute_intents ls k \<or>
      (\<exists>env i d. e = Call env i \<and> dispute_intents ls' k = Some d \<and>
         dispute_edge (in_env rt env) ls i k (dispute_intents ls k) d)) \<and>
    (\<forall>d0. dispute_intents ls0 k = Some d0 \<longrightarrow>
      (\<exists>d. dispute_intents ls k = Some d \<and> dispute_terms d = dispute_terms d0))"
proof
  show "dispute_intents ls' k = dispute_intents ls k \<or>
      (\<exists>env i d. e = Call env i \<and> dispute_intents ls' k = Some d \<and>
         dispute_edge (in_env rt env) ls i k (dispute_intents ls k) d)"
    unfolding assms run_append by (rule event_edges)
  show "\<forall>d0. dispute_intents ls0 k = Some d0 \<longrightarrow>
      (\<exists>d. dispute_intents ls k = Some d \<and> dispute_terms d = dispute_terms d0)"
    using dispute_history.run_le [of ls0 rt es] by (simp add: assms(1) disputes_kept_def)
qed

theorem dispute_life_cycle_witness:
  "dispute_intents demo_fulfilled demo_dispute = Some (demo_collateral Settled 2600 150) \<and>
   dispute_intents demo_disputed demo_dispute = Some (demo_collateral Disputed 2600 150) \<and>
   dispute_edge (in_env demo_runtime (at_time 2100)) demo_fulfilled (Disputes (Submit_dispute dispute_args)) demo_dispute
     (Some (demo_collateral Settled 2600 150)) (demo_collateral Disputed 2600 150) \<and>
   (\<exists>d. dispute_intents demo_fulfilled demo_dispute = Some d \<and> dispute_terms d = dispute_terms (demo_collateral Settled 2600 150))"
proof -
  have d: "dispute_intents demo_fulfilled demo_dispute = Some (demo_collateral Settled 2600 150)"
      "dispute_intents demo_disputed demo_dispute = Some (demo_collateral Disputed 2600 150)"
    by (simp_all add: demo_fulfilled_def demo_disputed_def demo_key_defs dispute_intent_seeds_def)
  moreover have "demo_collateral Disputed 2600 150 \<noteq> demo_collateral Settled 2600 150" by (simp add: demo_collateral_def)
  moreover have "demo_fulfilled = run (execute demo_runtime) demo_fulfilled []" by simp
  moreover have "demo_disputed = run (execute demo_runtime) demo_fulfilled
      ([] @ [Call (at_time 2100) (Disputes (Submit_dispute dispute_args))])"
    using demo_submit by simp
  ultimately show ?thesis
    using dispute_life_cycle [of demo_fulfilled demo_runtime demo_fulfilled "[]" demo_disputed
        "Call (at_time 2100) (Disputes (Submit_dispute dispute_args))" demo_dispute] by simp
qed

text \<open>
  C21. The lifetime of an intent: every escrow lock of a reachable ledger expires after the time of its signal and at most
  five days later, whatever extensions a guardian made.
\<close>

theorem lock_lifetime_bounded:
  assumes "intent_locks (reached rt ms ts es) k = Some l"
  shows "sint (el_timestamp l) < sint (el_expiry_time l) \<and> sint (el_expiry_time l) \<le> sint (el_timestamp l) + 5 * 24 * 60 * 60"
proof -
  have "limits_inv (reached rt ms ts es)"
    unfolding reached_def by (rule limits_history.run_inv) (simp add: limits_inv_def genesis_def empty_ledger_def)
  with assms show ?thesis by (auto simp: limits_inv_def lock_ok_def)
qed

theorem lock_lifetime_bounded_witness:
  "\<exists>l. intent_locks (demo_reached signal_history) (intent_lock_key demo_runtime demo_deposit 9) = Some l \<and>
     sint (el_timestamp l) < sint (el_expiry_time l) \<and> sint (el_expiry_time l) \<le> sint (el_timestamp l) + 5 * 24 * 60 * 60"
proof -
  obtain l where l: "intent_locks (demo_reached signal_history) (intent_lock_key demo_runtime demo_deposit 9) = Some l"
    by (simp add: demo_histories demo_signalled_def demo_key_defs)
  with lock_lifetime_bounded [OF l] show ?thesis by blast
qed

text \<open>
  C20. Fees never eat a settlement: for every open intent of a reachable ledger and the protocol fee configured there, the
  protocol, manager and referral fees of any release amount are together at most sixty percent of it.
\<close>

theorem settlement_fees_bounded:
  assumes "ls = reached rt ms ts es" and "intents ls k = Some i" and "orchestrator_config ls = Some oc"
  shows "10 * (unat release * unat (oc_protocol_fee oc) div 10 ^ 18 + unat release * unat (i_manager_fee i) div 10 ^ 18 +
      sum_list (map (\<lambda>f. unat release * unat (rf_fee f) div 10 ^ 18) (i_referral_fees i))) \<le> 6 * unat (release :: u64)"
proof -
  have "limits_inv ls"
    unfolding assms(1) reached_def by (rule limits_history.run_inv) (simp add: limits_inv_def genesis_def empty_ledger_def)
  with assms(2,3) have "orchestrator_ok oc" "intent_fees_ok i" by (auto simp: limits_inv_def)
  from fees_below_release [OF this, of release] show ?thesis by (simp add: fee_of_def referral_total_def)
qed

theorem settlement_fees_bounded_witness:
  "intents (demo_reached signal_history) demo_intent = Some demo_signalled_intent \<and>
   10 * (unat (150 :: u64) * unat (oc_protocol_fee (demo_orchestrator 1)) div 10 ^ 18 +
      unat (150 :: u64) * unat (i_manager_fee demo_signalled_intent) div 10 ^ 18 +
      sum_list (map (\<lambda>f. unat (150 :: u64) * unat (rf_fee f) div 10 ^ 18) (i_referral_fees demo_signalled_intent))) \<le> 900"
proof -
  have i: "intents (demo_reached signal_history) demo_intent = Some demo_signalled_intent"
    by (simp add: demo_histories demo_signalled_def demo_key_defs)
  have oc: "orchestrator_config (demo_reached signal_history) = Some (demo_orchestrator 1)"
    by (simp add: demo_histories demo_signalled_def)
  from settlement_fees_bounded [OF refl i oc, of 150] i show ?thesis by simp
qed

text \<open>
  C23. The verifier always has a quorum: after initialisation the required number of signatures is positive and at most
  the number of witnesses, the witnesses are distinct, nonzero and at most \<^verbatim>\<open>MAX_WITNESSES\<close>, and the payment methods
  are distinct, nonzero and at most 64.
\<close>

theorem verifier_always_has_quorum:
  assumes "verifier_config (reached rt ms ts es) = Some v"
  shows "0 < vc_required_signatures v \<and> unat (vc_required_signatures v) \<le> length (vc_witnesses v) \<and>
    distinct (vc_witnesses v) \<and> 0 \<notin> set (vc_witnesses v) \<and> length (vc_witnesses v) \<le> MAX_WITNESSES \<and>
    distinct (vc_payment_methods v) \<and> 0 \<notin> set (vc_payment_methods v) \<and> length (vc_payment_methods v) \<le> 64"
proof -
  have "verifier_inv (reached rt ms ts es)"
    unfolding reached_def by (rule verifier_history.run_inv) (simp add: verifier_inv_def genesis_def empty_ledger_def)
  with assms show ?thesis by (simp add: verifier_inv_def verifier_ok_def)
qed

theorem verifier_always_has_quorum_witness:
  "\<exists>v. verifier_config (demo_reached setup_events) = Some v \<and> vc_payment_methods v = [21] \<and>
     0 < vc_required_signatures v \<and> unat (vc_required_signatures v) \<le> length (vc_witnesses v)"
proof -
  obtain v where v: "verifier_config (demo_reached setup_events) = Some v" "vc_payment_methods v = [21]"
    by (simp add: demo_histories demo_ready_def)
  with verifier_always_has_quorum [OF v(1)] show ?thesis by blast
qed

end
